(* ===== verification/Go_Prelude.thy ===== *)
theory Go_Prelude
  imports
    Main
    "HOL-Library.AList"
    "HOL-Library.Char_ord"
    "HOL-Library.List_Lexorder"
    "HOL-Library.Product_Lexorder"
    "HOL-Library.Sublist"
begin

text \<open>
  The part of Go that the modelled packages use, and the lemmas every component
  shares.

  \<^item> A Go \<^verbatim>\<open>string\<close> is a byte list (\<^typ>\<open>string\<close>); \<^verbatim>\<open><\<close> on Go strings is the
    bytewise lexicographic order, which is the order of
    \<open>List_Lexorder\<close> over \<open>Char_ord\<close>.
  \<^item> A Go \<^verbatim>\<open>map[K]V\<close> is an association list with distinct keys. The position of
    an entry stands for the iteration order a \<^verbatim>\<open>range\<close> loop happens to take, which
    Go leaves unspecified: two lists with the same lookup function are the same Go
    map, and a function of the program is deterministic when it does not distinguish
    them.
  \<^item> A pair \<^verbatim>\<open>(value, error)\<close> is a sum, \<open>Inl\<close> the error.
  \<^item> \<^verbatim>\<open>sort.Strings\<close> is \<^const>\<open>sort\<close>; \<^verbatim>\<open>strings.TrimSpace\<close> is written
    out on UTF-8 bytes.
\<close>

named_theorems go_simps "rewriting rules for the modelled Go primitives"
named_theorems port_simps "unfolding rules for the host-port wrappers of the Engine"
named_theorems err_simps "unfolding rules for the Engine's error constructors"

subsection \<open>Maps\<close>

type_synonym ('k, 'v) gomap = "('k \<times> 'v) list"

definition keys :: "('k, 'v) gomap \<Rightarrow> 'k list" where
  "keys m = map fst m"

definition map_ok :: "('k, 'v) gomap \<Rightarrow> bool" where
  "map_ok m \<longleftrightarrow> distinct (keys m)"

definition same_map :: "('k, 'v) gomap \<Rightarrow> ('k, 'v) gomap \<Rightarrow> bool" where
  "same_map m m' \<longleftrightarrow> map_ok m \<and> map_ok m' \<and> map_of m = map_of m'"

text \<open>The same keys, with related values.\<close>

definition map_rel :: "('a \<Rightarrow> 'b \<Rightarrow> bool) \<Rightarrow> ('k, 'a) gomap \<Rightarrow> ('k, 'b) gomap \<Rightarrow> bool" where
  "map_rel R m m' \<longleftrightarrow> map_ok m \<and> map_ok m' \<and> (\<forall>k. rel_option R (map_of m k) (map_of m' k))"

definition map_len :: "('k, 'v) gomap \<Rightarrow> int" where
  "map_len m = int (length m)"

text \<open>\<^verbatim>\<open>m[k]\<close> on a map with slice values yields the nil slice for a missing key.\<close>

definition slice_at :: "('k, 'a list) gomap \<Rightarrow> 'k \<Rightarrow> 'a list" where
  "slice_at m k = (case map_of m k of None \<Rightarrow> [] | Some xs \<Rightarrow> xs)"

lemma keys_simps [simp]:
  "keys [] = []"
  "keys ((k, v) # m) = k # keys m"
  "length (keys m) = length m"
  "keys (m @ m') = keys m @ keys m'"
  by (simp_all add: keys_def)

lemma set_keys [simp]: "set (keys m) = dom (map_of m)"
  by (simp add: keys_def dom_map_of_conv_image_fst)

lemma map_ok_Nil [simp]: "map_ok []"
  by (simp add: map_ok_def)

lemma map_ok_Cons [simp]:
  "map_ok ((k, v) # m) \<longleftrightarrow> map_of m k = None \<and> map_ok m"
  by (auto simp: map_ok_def domIff)

lemma map_ok_update [simp]: "map_ok m \<Longrightarrow> map_ok (AList.update k v m)"
  using distinct_update[of m k v] by (simp add: map_ok_def keys_def)

lemma map_ok_delete [simp]: "map_ok m \<Longrightarrow> map_ok (AList.delete k m)"
  using distinct_delete[of m k] by (simp add: map_ok_def keys_def)

lemma map_of_update [simp]: "map_of (AList.update k v m) = (map_of m)(k \<mapsto> v)"
  by (rule update_conv')

lemma map_of_delete [simp]: "map_of (AList.delete k m) = (map_of m)(k := None)"
  by (rule delete_conv')

lemma map_ok_in_iff: "map_ok m \<Longrightarrow> map_of m k = Some v \<longleftrightarrow> (k, v) \<in> set m"
  by (simp add: map_ok_def keys_def)

lemma map_ok_map_entries [simp]: "map_ok (map (\<lambda>(k, v). (k, f k v)) m) = map_ok m"
  by (simp add: map_ok_def keys_def comp_def case_prod_beta)

lemma map_of_map_entries:
  "map_of (map (\<lambda>(k, v). (k, f k v)) m) = (\<lambda>k. map_option (f k) (map_of m k))"
  by (induction m) auto

lemma same_map_refl [simp]: "same_map m m = map_ok m"
  by (simp add: same_map_def)

lemma same_map_sym: "same_map m m' \<Longrightarrow> same_map m' m"
  by (simp add: same_map_def)

lemma same_map_set: "same_map m m' \<Longrightarrow> set m = set m'"
  unfolding same_map_def
  by (metis map_ok_in_iff prod.collapse set_eqI)

lemma same_map_length: "same_map m m' \<Longrightarrow> length m = length m'"
  unfolding same_map_def map_ok_def
  by (metis distinct_card keys_simps(3) set_keys)

subsection \<open>Sorting\<close>

definition sortedKeys :: "(string, 'v) gomap \<Rightarrow> string list" where
  "sortedKeys m = sort (keys m)"

definition sortedCopy :: "string list \<Rightarrow> string list" where
  "sortedCopy values = (if values = [] then [] else sort values)"

lemma sortedCopy_sort [simp]: "sortedCopy xs = sort xs"
  by (simp add: sortedCopy_def)

lemma sorted_sortedKeys [simp]: "sorted (sortedKeys m)"
  by (simp add: sortedKeys_def)

lemma set_sortedKeys [simp]: "set (sortedKeys m) = dom (map_of m)"
  by (simp add: sortedKeys_def)

lemma length_sortedKeys [simp]: "length (sortedKeys m) = length m"
  by (simp add: sortedKeys_def)

lemma distinct_sortedKeys [simp]: "distinct (sortedKeys m) = map_ok m"
  by (simp add: sortedKeys_def map_ok_def)

lemma sortedKeys_same_map: "same_map m m' \<Longrightarrow> sortedKeys m = sortedKeys m'"
  by (rule sorted_distinct_set_unique) (auto simp: same_map_def)

lemma sortedKeys_Nil_iff [simp]: "sortedKeys m = [] \<longleftrightarrow> m = []"
  by (metis length_0_conv length_sortedKeys)

subsection \<open>Strings\<close>

text \<open>
  The UTF-8 encodings of the code points \<^verbatim>\<open>unicode.IsSpace\<close> accepts: tab, newline,
  vertical tab, form feed, carriage return, space, U+0085, U+00A0, U+1680,
  U+2000 to U+200A, U+2028, U+2029, U+202F, U+205F, U+3000.
\<close>

definition space_encodings :: "string list" where
  "space_encodings =
     map (\<lambda>n. [char_of (n::nat)]) [9, 10, 11, 12, 13, 32] @
     [[char_of (0xC2::nat), char_of (0x85::nat)], [char_of (0xC2::nat), char_of (0xA0::nat)],
      [char_of (0xE1::nat), char_of (0x9A::nat), char_of (0x80::nat)]] @
     map (\<lambda>n. [char_of (0xE2::nat), char_of (0x80::nat), char_of (n::nat)])
       [0x80, 0x81, 0x82, 0x83, 0x84, 0x85, 0x86, 0x87, 0x88, 0x89, 0x8A, 0xA8, 0xA9, 0xAF] @
     [[char_of (0xE2::nat), char_of (0x81::nat), char_of (0x9F::nat)],
      [char_of (0xE3::nat), char_of (0x80::nat), char_of (0x80::nat)]]"

definition space_len :: "(string \<Rightarrow> string) \<Rightarrow> string \<Rightarrow> nat" where
  "space_len f s =
     (case filter (\<lambda>e. prefix (f e) s) space_encodings of [] \<Rightarrow> 0 | e # _ \<Rightarrow> length e)"

function trim_front :: "(string \<Rightarrow> string) \<Rightarrow> string \<Rightarrow> string" where
  "trim_front f s =
     (if s = [] \<or> space_len f s = 0 then s else trim_front f (drop (space_len f s) s))"
  by pat_completeness auto
termination
  by (relation "measure (\<lambda>(f, s). length s)") auto

declare trim_front.simps [simp del]

definition TrimSpace :: "string \<Rightarrow> string" where
  "TrimSpace s = rev (trim_front rev (rev (trim_front id s)))"

definition isBlank :: "string \<Rightarrow> bool" where
  "isBlank name \<longleftrightarrow> TrimSpace name = []"

lemma trim_front_Nil [simp]: "trim_front f [] = []"
  by (simp add: trim_front.simps)

lemma trim_front_suffix: "suffix (trim_front f s) s"
proof (induction f s rule: trim_front.induct)
  case (1 f s)
  show ?case
  proof (cases "s = [] \<or> space_len f s = 0")
    case True
    then show ?thesis by (simp add: trim_front.simps[of f s])
  next
    case False
    with "1.IH" have "suffix (trim_front f (drop (space_len f s) s)) (drop (space_len f s) s)"
      by simp
    then have "suffix (trim_front f (drop (space_len f s) s)) s"
      using suffix_drop suffix_order.trans by blast
    with False show ?thesis by (simp add: trim_front.simps[of f s])
  qed
qed

lemma trim_front_idem: "trim_front f (trim_front f s) = trim_front f s"
proof (induction f s rule: trim_front.induct)
  case (1 f s)
  then show ?case
    by (cases "s = [] \<or> space_len f s = 0") (simp_all add: trim_front.simps[of f s])
qed

lemma isBlank_Nil [simp]: "isBlank []"
  by (simp add: isBlank_def TrimSpace_def)

text \<open>A byte that occurs in no white space survives trimming.\<close>

lemma trim_front_keeps:
  assumes f: "\<And>e. set (f e) = set e \<and> length (f e) = length e"
    and c: "c \<notin> set (concat space_encodings)"
  shows "c \<in> set s \<Longrightarrow> c \<in> set (trim_front f s)"
proof (induction "length s" arbitrary: s rule: less_induct)
  case less
  show ?case
  proof (cases "filter (\<lambda>e. prefix (f e) s) space_encodings")
    case Nil
    with less.prems show ?thesis by (simp add: trim_front.simps[of f s] space_len_def)
  next
    case (Cons e es)
    then have "e \<in> set (filter (\<lambda>e. prefix (f e) s) space_encodings)" by simp
    then have "e \<in> set space_encodings" "prefix (f e) s" by simp_all
    then obtain rest where rest: "s = f e @ rest" and ce: "c \<notin> set e"
      using c by (auto simp: prefix_def)
    with less.prems f have kept: "c \<in> set rest" by auto
    have len: "space_len f s = length e" using Cons by (simp add: space_len_def)
    have dropped: "drop (length e) s = rest" using rest f[of e] by simp
    show ?thesis
    proof (cases "s = [] \<or> length e = 0")
      case True
      then have "trim_front f s = s" by (subst trim_front.simps) (auto simp: len)
      with less.prems show ?thesis by simp
    next
      case False
      then have "trim_front f s = trim_front f rest"
        by (subst trim_front.simps) (simp add: len dropped)
      moreover have "length rest < length s" using False rest f[of e] by (cases "f e") auto
      ultimately show ?thesis using less.hyps[OF _ kept] by simp
    qed
  qed
qed

lemma not_blank:
  assumes "c \<in> set s" and "c \<notin> set (concat space_encodings)"
  shows "\<not> isBlank s"
proof -
  have "c \<in> set (rev (trim_front id s))"
    using trim_front_keeps[OF _ assms(2,1), of id] by simp
  then have "c \<in> set (trim_front rev (rev (trim_front id s)))"
    using trim_front_keeps[OF _ assms(2), of rev] by simp
  then show ?thesis by (auto simp: isBlank_def TrimSpace_def)
qed

text \<open>A name that starts and ends with a printable ASCII byte other than the space is not trimmed.\<close>

definition visible :: "char \<Rightarrow> bool" where
  "visible c \<longleftrightarrow> 33 \<le> (of_char c :: nat) \<and> (of_char c :: nat) \<le> 126"

lemma space_not_visible: "filter visible (concat space_encodings) = []"
  by code_simp

lemma space_len_visible:
  assumes "visible (hd s)" and "\<And>e. set (f e) = set e \<and> length (f e) = length e"
  shows "s = [] \<or> space_len f s = 0"
proof -
  have "\<not> prefix (f e) s" if "e \<in> set space_encodings" "s \<noteq> []" for e
  proof
    assume p: "prefix (f e) s"
    have "f e \<noteq> []" using that assms(2)[of e] by (auto simp: space_encodings_def)
    then have "hd s \<in> set e" using p that(2) assms(2)[of e] by (cases "f e"; cases s) auto
    with that(1) assms(1) space_not_visible show False by (auto simp: filter_empty_conv)
  qed
  then have "s \<noteq> [] \<Longrightarrow> filter (\<lambda>e. prefix (f e) s) space_encodings = []" by (simp add: filter_empty_conv)
  then show ?thesis by (cases "s = []") (simp_all add: space_len_def)
qed

lemma TrimSpace_visible: "visible (hd s) \<Longrightarrow> visible (last s) \<Longrightarrow> TrimSpace s = s"
  using space_len_visible[of s id] space_len_visible[of "rev s" rev]
  by (auto simp: TrimSpace_def trim_front.simps hd_rev)

lemma TrimSpace_code [code]:
  "TrimSpace s = (if s = [] \<or> visible (hd s) \<and> visible (last s) then s else rev (trim_front rev (rev (trim_front id s))))"
  using TrimSpace_visible[of s] by (auto simp: TrimSpace_def)

lemma space_len_plain:
  assumes "set s \<inter> set (concat space_encodings) = {}" and "\<And>e. set (f e) = set e \<and> length (f e) = length e"
  shows "space_len f s = 0"
proof -
  have "\<not> prefix (f e) s" if "e \<in> set space_encodings" for e
  proof -
    have "f e \<noteq> []" using that assms(2)[of e] by (auto simp: space_encodings_def)
    then obtain c where c: "c \<in> set (f e)" by (cases "f e") auto
    with assms(2)[of e] that have "c \<in> set (concat space_encodings)" by auto
    with c assms(1) show ?thesis by (auto dest: set_mono_prefix)
  qed
  then show ?thesis by (simp add: space_len_def filter_empty_conv)
qed

lemma TrimSpace_plain: "set s \<inter> set (concat space_encodings) = {} \<Longrightarrow> TrimSpace s = s"
  by (simp add: TrimSpace_def trim_front.simps space_len_plain)

subsection \<open>Fallible results\<close>

type_synonym ('e, 'a) result = "'e + 'a"

definition rbind :: "('e, 'a) result \<Rightarrow> ('a \<Rightarrow> ('e, 'b) result) \<Rightarrow> ('e, 'b) result" where
  "rbind r f = (case r of Inl e \<Rightarrow> Inl e | Inr a \<Rightarrow> f a)"

lemma rbind_simps [simp]:
  "rbind (Inl e) f = Inl e"
  "rbind (Inr a) f = f a"
  by (simp_all add: rbind_def)

lemma rbind_Inr_iff: "rbind r f = Inr b \<longleftrightarrow> (\<exists>a. r = Inr a \<and> f a = Inr b)"
  by (cases r) auto

lemma rbind_Inl_iff: "rbind r f = Inl e \<longleftrightarrow> r = Inl e \<or> (\<exists>a. r = Inr a \<and> f a = Inl e)"
  by (cases r) auto

fun first_error :: "('a \<Rightarrow> 'e option) \<Rightarrow> 'a list \<Rightarrow> 'e option" where
  "first_error f [] = None"
| "first_error f (x # xs) = (case f x of Some e \<Rightarrow> Some e | None \<Rightarrow> first_error f xs)"

lemma first_error_None_iff: "first_error f xs = None \<longleftrightarrow> (\<forall>x \<in> set xs. f x = None)"
  by (induction xs) (auto split: option.splits)

lemma first_error_SomeD:
  "first_error f xs = Some e \<Longrightarrow> \<exists>x \<in> set xs. f x = Some e"
  by (induction xs) (auto split: option.splits)

lemma first_error_append:
  "first_error f (xs @ ys) =
     (case first_error f xs of Some e \<Rightarrow> Some e | None \<Rightarrow> first_error f ys)"
  by (induction xs) (auto split: option.splits)

lemma update_fresh: "map_of m k = None \<Longrightarrow> AList.update k v m = m @ [(k, v)]"
  by (induction m) (auto split: if_splits)

subsection \<open>Replacing one element of a list\<close>

lemma sum_list_map_update:
  fixes f :: "'a \<Rightarrow> nat"
  assumes "i < length xs"
  shows "sum_list (map f (xs[i := y])) + f (xs ! i) = sum_list (map f xs) + f y"
proof -
  have "sum_list (map f xs) = sum_list (map f (take i xs @ xs ! i # drop (Suc i) xs))"
    using assms by (simp add: id_take_nth_drop[symmetric])
  then show ?thesis using assms by (simp add: upd_conv_take_nth_drop)
qed

lemma filter_length_update:
  assumes "i < length xs"
  shows "length (filter P (xs[i := y])) + (if P (xs ! i) then 1 else 0) =
    length (filter P xs) + (if P y then 1 else 0)"
proof -
  have "filter P xs = filter P (take i xs @ xs ! i # drop (Suc i) xs)"
    using assms by (simp add: id_take_nth_drop[symmetric])
  then show ?thesis using assms by (simp add: upd_conv_take_nth_drop)
qed

lemma filter_length_same:
  "i < length xs \<Longrightarrow> P y = P (xs ! i) \<Longrightarrow> length (filter P (xs[i := y])) = length (filter P xs)"
  using filter_length_update[of i xs P y] by (simp split: if_splits)

end
