(* ===== verification/Engine_Errors.thy ===== *)
theory Engine_Errors
  imports Go_Prelude
begin

text \<open>
  \<^verbatim>\<open>pkg/engine/errors.go\<close>: the safe error contract of the Engine. A Go
  \<^verbatim>\<open>error\<close> is a \<open>goerror\<close>: an Engine error with its optional unexported cause, one
  of the two context sentinels, an opaque host error, or a host error that wraps
  another one. \<^verbatim>\<open>errors.Is\<close> and \<^verbatim>\<open>errors.As\<close> walk the \<^verbatim>\<open>Unwrap\<close>
  chain.
\<close>

type_synonym ErrorCategory = string

abbreviation CategoryValidation :: ErrorCategory where
  "CategoryValidation \<equiv> ''validation''"
abbreviation CategoryNotFound :: ErrorCategory where
  "CategoryNotFound \<equiv> ''not_found''"
abbreviation CategoryUnauthorized :: ErrorCategory where
  "CategoryUnauthorized \<equiv> ''unauthorized''"
abbreviation CategoryForbidden :: ErrorCategory where
  "CategoryForbidden \<equiv> ''forbidden''"
abbreviation CategoryLimitExceeded :: ErrorCategory where
  "CategoryLimitExceeded \<equiv> ''limit_exceeded''"
abbreviation CategoryConflict :: ErrorCategory where
  "CategoryConflict \<equiv> ''conflict''"
abbreviation CategoryUnavailable :: ErrorCategory where
  "CategoryUnavailable \<equiv> ''unavailable''"
abbreviation CategoryConnect :: ErrorCategory where
  "CategoryConnect \<equiv> ''connect''"
abbreviation CategoryTimeout :: ErrorCategory where
  "CategoryTimeout \<equiv> ''timeout''"
abbreviation CategoryCanceled :: ErrorCategory where
  "CategoryCanceled \<equiv> ''canceled''"
abbreviation CategoryInternal :: ErrorCategory where
  "CategoryInternal \<equiv> ''internal''"

definition validErrorCategories :: "ErrorCategory list" where
  "validErrorCategories =
     [CategoryValidation, CategoryNotFound, CategoryUnauthorized, CategoryForbidden,
      CategoryLimitExceeded, CategoryConflict, CategoryUnavailable, CategoryConnect,
      CategoryTimeout, CategoryCanceled, CategoryInternal]"

definition category_IsValid :: "ErrorCategory \<Rightarrow> bool" where
  "category_IsValid c \<longleftrightarrow> c \<in> set validErrorCategories"

datatype goerror =
    EngineError (Category: ErrorCategory) (Message: string) (cause: "goerror option")
  | DeadlineExceeded
  | Canceled
  | HostError string
  | WrappedError string goerror

type_synonym 'a res = "(goerror, 'a) result"

definition NewEngineError :: "ErrorCategory \<Rightarrow> string \<Rightarrow> goerror" where
  "NewEngineError category message = EngineError category message None"

definition NewWrappedEngineError :: "ErrorCategory \<Rightarrow> string \<Rightarrow> goerror \<Rightarrow> goerror" where
  "NewWrappedEngineError category message c = EngineError category message (Some c)"

fun Unwrap :: "goerror \<Rightarrow> goerror option" where
  "Unwrap (EngineError _ _ c) = c"
| "Unwrap (WrappedError _ e) = Some e"
| "Unwrap _ = None"

text \<open>The chain \<^verbatim>\<open>errors.Is\<close> and \<^verbatim>\<open>errors.As\<close> visit.\<close>

fun chain :: "goerror \<Rightarrow> goerror list" where
  "chain (EngineError c m (Some e)) = EngineError c m (Some e) # chain e"
| "chain (WrappedError m e) = WrappedError m e # chain e"
| "chain e = [e]"

definition errors_Is :: "goerror \<Rightarrow> goerror \<Rightarrow> bool" where
  "errors_Is err target \<longleftrightarrow> target \<in> set (chain err)"

definition is_engine :: "goerror \<Rightarrow> bool" where
  "is_engine e = (case e of EngineError _ _ _ \<Rightarrow> True | _ \<Rightarrow> False)"

definition asEngineError :: "goerror \<Rightarrow> goerror option" where
  "asEngineError err = find is_engine (chain err)"

definition contextError :: "goerror option \<Rightarrow> goerror option" where
  "contextError err =
     (case err of
        None \<Rightarrow> None
      | Some e \<Rightarrow>
          if errors_Is e DeadlineExceeded
          then Some (NewEngineError CategoryTimeout ''execution exceeded its deadline'')
          else if errors_Is e Canceled
          then Some (NewEngineError CategoryCanceled ''execution canceled'')
          else None)"

text \<open>\<^verbatim>\<open>Error()\<close> renders the category and the safe message, never the cause.\<close>

definition engine_Error :: "goerror \<Rightarrow> string" where
  "engine_Error e =
     ''engine: ['' @ (if Category e = [] then CategoryInternal else Category e) @ ''] '' @ Message e"

subsection \<open>Lemmas\<close>

lemma NewEngineError_simps [simp]:
  "Category (NewEngineError c m) = c"
  "Message (NewEngineError c m) = m"
  "is_engine (NewEngineError c m)"
  "asEngineError (NewEngineError c m) = Some (NewEngineError c m)"
  "NewEngineError c m = NewEngineError c' m' \<longleftrightarrow> c = c' \<and> m = m'"
  by (simp_all add: NewEngineError_def is_engine_def asEngineError_def)

lemma errors_Is_simps [simp]:
  "errors_Is DeadlineExceeded DeadlineExceeded"
  "errors_Is Canceled Canceled"
  "\<not> errors_Is Canceled DeadlineExceeded"
  by (simp_all add: errors_Is_def)

lemma contextError_simps [simp]:
  "contextError None = None"
  "contextError (Some DeadlineExceeded) =
     Some (NewEngineError CategoryTimeout ''execution exceeded its deadline'')"
  "contextError (Some Canceled) = Some (NewEngineError CategoryCanceled ''execution canceled'')"
  by (simp_all add: contextError_def)

lemma chain_self [simp]: "e \<in> set (chain e)"
  by (cases e rule: chain.cases) auto

lemma contextError_category:
  "contextError err = Some e \<Longrightarrow> Category e \<in> {CategoryTimeout, CategoryCanceled} \<and> cause e = None"
  by (auto simp: contextError_def NewEngineError_def split: option.splits if_splits)

lemma asEngineError_is_engine: "asEngineError err = Some e \<Longrightarrow> is_engine e"
  by (auto simp: asEngineError_def find_Some_iff)

text \<open>The rendered text depends on the category and message alone: no cause leaks.\<close>

lemma engine_Error_redacts_cause:
  "engine_Error (NewWrappedEngineError c m e) = engine_Error (NewEngineError c m)"
  by (simp add: engine_Error_def NewWrappedEngineError_def NewEngineError_def)

end
