(* ===== verification/Engine_Limits.thy ===== *)
theory Engine_Limits
  imports Engine_Errors
begin

text \<open>
  \<^verbatim>\<open>pkg/engine/limits.go\<close>: resource bounds and the per-request override merge. Go's
  \<^verbatim>\<open>int\<close>, \<^verbatim>\<open>int64\<close> and \<^verbatim>\<open>time.Duration\<close> (nanoseconds) are only
  compared and copied here, never computed with, so they are \<^typ>\<open>int\<close>.
\<close>

record Limits =
  MaxDatasources :: int
  MaxTablesPerDatasource :: int
  MaxFieldsPerTable :: int
  MaxConcurrency :: int
  Timeout :: int
  MaxResultBytes :: int
  ConnectorHardLimits :: "(string, int) gomap"

type_synonym limitField = string

abbreviation limitFieldMaxDatasources :: limitField where
  "limitFieldMaxDatasources \<equiv> ''limits.maxDatasources''"
abbreviation limitFieldMaxTables :: limitField where
  "limitFieldMaxTables \<equiv> ''limits.maxTablesPerDatasource''"
abbreviation limitFieldMaxFields :: limitField where
  "limitFieldMaxFields \<equiv> ''limits.maxFieldsPerTable''"
abbreviation limitFieldMaxConcurrency :: limitField where
  "limitFieldMaxConcurrency \<equiv> ''limits.maxConcurrency''"
abbreviation limitFieldTimeout :: limitField where
  "limitFieldTimeout \<equiv> ''limits.timeout''"
abbreviation limitFieldMaxResultBytes :: limitField where
  "limitFieldMaxResultBytes \<equiv> ''limits.maxResultBytes''"

definition overrideExceededError :: "limitField \<Rightarrow> goerror" where
  "overrideExceededError field =
     NewEngineError CategoryValidation (''limit override exceeds the configured maximum: '' @ field)"

text \<open>
  The three \<^verbatim>\<open>apply...Override\<close> helpers write through a pointer; here each takes the
  target's current value and returns its new value, or the rejection.
\<close>

definition applyIntOverride :: "int \<Rightarrow> int \<Rightarrow> int \<Rightarrow> limitField \<Rightarrow> int res" where
  "applyIntOverride target requested maximum field =
     (if requested \<le> 0 then Inr target
      else if maximum > 0 \<and> requested > maximum then Inl (overrideExceededError field)
      else Inr requested)"

definition applyDurationOverride :: "int \<Rightarrow> int \<Rightarrow> int \<Rightarrow> int res" where
  "applyDurationOverride target requested maximum =
     (if requested \<le> 0 then Inr target
      else if maximum > 0 \<and> requested > maximum then Inl (overrideExceededError limitFieldTimeout)
      else Inr requested)"

definition applyResultBytesOverride :: "int \<Rightarrow> int \<Rightarrow> int \<Rightarrow> int res" where
  "applyResultBytesOverride target requested maximum =
     (if requested \<le> 0 then Inr target
      else if maximum > 0 \<and> requested > maximum
      then Inl (overrideExceededError limitFieldMaxResultBytes)
      else Inr requested)"

definition copyConnectorHardLimits :: "(string, int) gomap \<Rightarrow> (string, int) gomap" where
  "copyConnectorHardLimits src = foldl (\<lambda>out (k, v). AList.update k v out) [] src"

definition Effective :: "Limits \<Rightarrow> Limits option \<Rightarrow> Limits res" where
  "Effective l overrides =
    (let effective = l\<lparr>ConnectorHardLimits := copyConnectorHardLimits (ConnectorHardLimits l)\<rparr> in
     case overrides of
       None \<Rightarrow> Inr effective
     | Some ov \<Rightarrow>
        rbind (applyIntOverride (MaxDatasources effective) (MaxDatasources ov) (MaxDatasources l)
                 limitFieldMaxDatasources) (\<lambda>md.
        rbind (applyIntOverride (MaxTablesPerDatasource effective) (MaxTablesPerDatasource ov)
                 (MaxTablesPerDatasource l) limitFieldMaxTables) (\<lambda>mt.
        rbind (applyIntOverride (MaxFieldsPerTable effective) (MaxFieldsPerTable ov)
                 (MaxFieldsPerTable l) limitFieldMaxFields) (\<lambda>mf.
        rbind (applyIntOverride (MaxConcurrency effective) (MaxConcurrency ov) (MaxConcurrency l)
                 limitFieldMaxConcurrency) (\<lambda>mc.
        rbind (applyDurationOverride (Timeout effective) (Timeout ov) (Timeout l)) (\<lambda>tmo.
        rbind (applyResultBytesOverride (MaxResultBytes effective) (MaxResultBytes ov)
                 (MaxResultBytes l)) (\<lambda>mb.
        Inr (effective\<lparr>MaxDatasources := md, MaxTablesPerDatasource := mt, MaxFieldsPerTable := mf,
               MaxConcurrency := mc, Timeout := tmo, MaxResultBytes := mb\<rparr>))))))))"

definition DefaultLimits :: Limits where
  "DefaultLimits =
     \<lparr>MaxDatasources = 10, MaxTablesPerDatasource = 20, MaxFieldsPerTable = 50,
      MaxConcurrency = 4, Timeout = 5 * 60 * 1000000000,
      MaxResultBytes = 256 * 1024 * 1024, ConnectorHardLimits = []\<rparr>"

definition limits_IsZero :: "Limits \<Rightarrow> bool" where
  "limits_IsZero l \<longleftrightarrow>
     MaxDatasources l = 0 \<and> MaxTablesPerDatasource l = 0 \<and> MaxFieldsPerTable l = 0 \<and>
     MaxConcurrency l = 0 \<and> Timeout l = 0 \<and> MaxResultBytes l = 0 \<and>
     map_len (ConnectorHardLimits l) = 0"

subsection \<open>Lemmas\<close>

text \<open>
  What one dimension of the merge promises: the default is inherited unless the
  request is positive, and a positive default is a ceiling.
\<close>

definition merged_dim :: "int \<Rightarrow> int \<Rightarrow> int \<Rightarrow> bool" where
  "merged_dim dflt req eff \<longleftrightarrow>
     eff = (if req \<le> 0 then dflt else req) \<and> (0 < dflt \<longrightarrow> eff \<le> dflt)"

definition dim_exceeded :: "int \<Rightarrow> int \<Rightarrow> bool" where
  "dim_exceeded dflt req \<longleftrightarrow> 0 < dflt \<and> dflt < req"

lemma override_Inr_iff:
  "applyIntOverride l r l f = Inr v \<longleftrightarrow> merged_dim l r v"
  "applyDurationOverride l r l = Inr v \<longleftrightarrow> merged_dim l r v"
  "applyResultBytesOverride l r l = Inr v \<longleftrightarrow> merged_dim l r v"
  by (auto simp: applyIntOverride_def applyDurationOverride_def applyResultBytesOverride_def
      merged_dim_def split: if_splits)

lemma override_Inl_iff:
  "applyIntOverride l r l f = Inl e \<longleftrightarrow> dim_exceeded l r \<and> e = overrideExceededError f"
  "applyDurationOverride l r l = Inl e \<longleftrightarrow> dim_exceeded l r \<and> e = overrideExceededError limitFieldTimeout"
  "applyResultBytesOverride l r l = Inl e \<longleftrightarrow>
     dim_exceeded l r \<and> e = overrideExceededError limitFieldMaxResultBytes"
  by (auto simp: applyIntOverride_def applyDurationOverride_def applyResultBytesOverride_def
      dim_exceeded_def split: if_splits)

lemma merged_dim_not_exceeded: "merged_dim l r v \<Longrightarrow> \<not> dim_exceeded l r"
  by (auto simp: merged_dim_def dim_exceeded_def split: if_splits)

lemma copy_fold_map_of:
  "map_of (foldl (\<lambda>out (k, v). AList.update k v out) acc src) = map_of acc ++ map_of (rev src)"
proof (induction src arbitrary: acc)
  case (Cons kv src)
  then show ?case by (cases kv) (simp add: map_add_def fun_eq_iff split: option.splits)
qed simp

lemma copy_fold_ok:
  "map_ok acc \<Longrightarrow> map_ok (foldl (\<lambda>out (k, v). AList.update k v out) acc src)"
  by (induction src arbitrary: acc) (auto split: prod.splits)

lemma map_of_rev_ok: "map_ok m \<Longrightarrow> map_of (rev m) = map_of m"
  unfolding map_ok_def keys_def
  by (rule ext, rule map_of_eqI[THEN fun_cong]) (auto simp: map_of_eq_Some_iff rev_map[symmetric])

lemma copyConnectorHardLimits_same: "map_ok m \<Longrightarrow> same_map (copyConnectorHardLimits m) m"
  by (simp add: same_map_def copyConnectorHardLimits_def copy_fold_map_of copy_fold_ok map_of_rev_ok)

lemma Effective_Inr_dims:
  assumes "Effective l (Some ov) = Inr eff"
  shows "merged_dim (MaxDatasources l) (MaxDatasources ov) (MaxDatasources eff)"
    and "merged_dim (MaxTablesPerDatasource l) (MaxTablesPerDatasource ov) (MaxTablesPerDatasource eff)"
    and "merged_dim (MaxFieldsPerTable l) (MaxFieldsPerTable ov) (MaxFieldsPerTable eff)"
    and "merged_dim (MaxConcurrency l) (MaxConcurrency ov) (MaxConcurrency eff)"
    and "merged_dim (Timeout l) (Timeout ov) (Timeout eff)"
    and "merged_dim (MaxResultBytes l) (MaxResultBytes ov) (MaxResultBytes eff)"
    and "ConnectorHardLimits eff = copyConnectorHardLimits (ConnectorHardLimits l)"
  using assms
  by (auto simp: Effective_def Let_def rbind_Inr_iff override_Inr_iff)

end
