(* ===== verification/Go_Json.thy ===== *)
theory Go_Json
  imports Go_Prelude
begin

text \<open>
  Dynamic values (\<^verbatim>\<open>any\<close>) and the parts of \<^verbatim>\<open>encoding/json\<close> the Engine uses:
  \<^verbatim>\<open>Marshal\<close> (compact, map keys sorted) and \<^verbatim>\<open>MarshalIndent\<close> with an empty
  prefix and a two-space indent. A value first becomes an ordered tree (\<open>encode\<close>),
  which fails on a value \<^verbatim>\<open>json.Marshal\<close> rejects; the two printers then render the
  same tree. A floating-point number is carried as the text \<^verbatim>\<open>strconv\<close> formats it to.
\<close>

datatype any =
    ANil
  | ABool bool
  | AInt int
  | AFloat string
  | AString string
  | ASlice "any list"
  | AMap "(string \<times> any) list"
  | ATyped string any
  | AUnsupported

text \<open>\<open>ATyped\<close> is a value of a named type that is none of the types \<^verbatim>\<open>json.Unmarshal\<close> produces, with its content: a
  type assertion tells it from the plain value.\<close>

type_synonym row = "(string, any) gomap"

subsection \<open>Numbers and strings\<close>

fun nat_digits :: "nat \<Rightarrow> string" where
  "nat_digits n =
     (if n < 10 then [char_of (48 + n)] else nat_digits (n div 10) @ [char_of (48 + n mod 10)])"

declare nat_digits.simps [simp del]

definition itoa :: "int \<Rightarrow> string" where
  "itoa i = (if i < 0 then CHR ''-'' # nat_digits (nat (- i)) else nat_digits (nat i))"

text \<open>Only decimal digits.\<close>

lemma nat_digits_chars: "c \<in> set (nat_digits n) \<Longrightarrow> 48 \<le> (of_char c :: nat) \<and> (of_char c :: nat) \<le> 57"
proof (induction n rule: nat_digits.induct)
  case (1 n)
  then show ?case by (cases "n < 10") (auto simp: nat_digits.simps[of n])
qed

definition hex_digit :: "nat \<Rightarrow> char" where
  "hex_digit n = (if n < 10 then char_of (48 + n) else char_of (87 + n))"

definition byte_in :: "nat \<Rightarrow> nat \<Rightarrow> char \<Rightarrow> bool" where
  "byte_in lo hi c \<longleftrightarrow> lo \<le> of_char c \<and> of_char c \<le> hi"

text \<open>The size of the UTF-8 encoding at the front of a byte string, 0 when it is invalid.\<close>

fun rune_size :: "string \<Rightarrow> nat" where
  "rune_size (a # b # c # d # _) =
     (if byte_in 0 0x7F a then 1
      else if byte_in 0xC2 0xDF a \<and> byte_in 0x80 0xBF b then 2
      else if (byte_in 0xE0 0xE0 a \<and> byte_in 0xA0 0xBF b \<or>
               (byte_in 0xE1 0xEC a \<or> byte_in 0xEE 0xEF a) \<and> byte_in 0x80 0xBF b \<or>
               byte_in 0xED 0xED a \<and> byte_in 0x80 0x9F b) \<and> byte_in 0x80 0xBF c then 3
      else if (byte_in 0xF0 0xF0 a \<and> byte_in 0x90 0xBF b \<or>
               byte_in 0xF1 0xF3 a \<and> byte_in 0x80 0xBF b \<or>
               byte_in 0xF4 0xF4 a \<and> byte_in 0x80 0x8F b) \<and>
              byte_in 0x80 0xBF c \<and> byte_in 0x80 0xBF d then 4
      else 0)"
| "rune_size [a, b, c] =
     (if byte_in 0 0x7F a then 1
      else if byte_in 0xC2 0xDF a \<and> byte_in 0x80 0xBF b then 2
      else if (byte_in 0xE0 0xE0 a \<and> byte_in 0xA0 0xBF b \<or>
               (byte_in 0xE1 0xEC a \<or> byte_in 0xEE 0xEF a) \<and> byte_in 0x80 0xBF b \<or>
               byte_in 0xED 0xED a \<and> byte_in 0x80 0x9F b) \<and> byte_in 0x80 0xBF c then 3
      else 0)"
| "rune_size [a, b] =
     (if byte_in 0 0x7F a then 1
      else if byte_in 0xC2 0xDF a \<and> byte_in 0x80 0xBF b then 2
      else 0)"
| "rune_size [a] = (if byte_in 0 0x7F a then 1 else 0)"
| "rune_size [] = 0"

definition escape_ascii :: "char \<Rightarrow> string" where
  "escape_ascii c =
     (let n = of_char c :: nat; bs = char_of (92::nat) in
      if c = CHR 0x22 \<or> n = 92 then [bs, c]
      else if n = 8 then [bs, CHR ''b'']
      else if n = 12 then [bs, CHR ''f'']
      else if n = 10 then [bs, CHR ''n'']
      else if n = 13 then [bs, CHR ''r'']
      else if n = 9 then [bs, CHR ''t'']
      else if n < 32 \<or> c = CHR ''<'' \<or> c = CHR ''>'' \<or> c = CHR ''&''
      then [bs, CHR ''u'', CHR ''0'', CHR ''0'', hex_digit (n div 16), hex_digit (n mod 16)]
      else [c])"

definition escape_rune :: "string \<Rightarrow> string" where
  "escape_rune r =
     (if r = [char_of (0xE2::nat), char_of (0x80::nat), char_of (0xA8::nat)]
      then char_of (92::nat) # ''u2028''
      else if r = [char_of (0xE2::nat), char_of (0x80::nat), char_of (0xA9::nat)]
      then char_of (92::nat) # ''u2029''
      else r)"

function escape :: "string \<Rightarrow> string" where
  "escape s =
     (if s = [] then []
      else if rune_size s = 0 then (char_of (92::nat) # ''ufffd'') @ escape (drop 1 s)
      else if rune_size s = 1 then escape_ascii (hd s) @ escape (drop 1 s)
      else escape_rune (take (rune_size s) s) @ escape (drop (rune_size s) s))"
  by pat_completeness auto
termination
  by (relation "measure length") auto

declare escape.simps [simp del]

definition json_quote :: "string \<Rightarrow> string" where
  "json_quote s = CHR 0x22 # escape s @ [CHR 0x22]"

subsection \<open>Ordered trees and the two printers\<close>

datatype json = JAtom string | JArr "json list" | JObj "(string \<times> json) list"

definition in_key_order :: "(string \<times> 'a) list \<Rightarrow> (string \<times> 'a) list" where
  "in_key_order m = sort_key fst m"

primrec encode :: "any \<Rightarrow> json option" where
  "encode ANil = Some (JAtom ''null'')"
| "encode (ABool b) = Some (JAtom (if b then ''true'' else ''false''))"
| "encode (AInt i) = Some (JAtom (itoa i))"
| "encode (AFloat txt) = Some (JAtom txt)"
| "encode (AString s) = Some (JAtom (json_quote s))"
| "encode (ASlice xs) = map_option JArr (those (map encode xs))"
| "encode (AMap m) =
     map_option JObj
       (those (map (\<lambda>(k, r). map_option (Pair (json_quote k)) r)
                 (in_key_order (map (map_prod id encode) m))))"
| "encode (ATyped _ v) = encode v"
| "encode AUnsupported = None"

fun join :: "string \<Rightarrow> string list \<Rightarrow> string" where
  "join sep [] = []"
| "join sep [x] = x"
| "join sep (x # y # ys) = x @ sep @ join sep (y # ys)"

primrec compact :: "json \<Rightarrow> string" where
  "compact (JAtom s) = s"
| "compact (JArr xs) = ''['' @ join '','' (map compact xs) @ '']''"
| "compact (JObj m) =
     ''{'' @ join '','' (map (\<lambda>(k, s). k @ '':'' @ s) (map (map_prod id compact) m)) @ ''}''"

definition newline :: "nat \<Rightarrow> string" where
  "newline d = char_of (10::nat) # concat (replicate d ''  '')"

primrec indented :: "json \<Rightarrow> nat \<Rightarrow> string" where
  "indented (JAtom s) d = s"
| "indented (JArr xs) d =
     (if xs = [] then ''[]''
      else ''['' @ newline (Suc d)
             @ join ('','' @ newline (Suc d)) (map (\<lambda>f. f (Suc d)) (map indented xs))
             @ newline d @ '']'')"
| "indented (JObj m) d =
     (if m = [] then ''{}''
      else ''{'' @ newline (Suc d)
             @ join ('','' @ newline (Suc d))
                 (map (\<lambda>(k, f). k @ '': '' @ f (Suc d)) (map (map_prod id indented) m))
             @ newline d @ ''}'')"

definition Marshal :: "any \<Rightarrow> string option" where
  "Marshal v = map_option compact (encode v)"

definition MarshalIndent :: "any \<Rightarrow> string option" where
  "MarshalIndent v = map_option (\<lambda>j. indented j 0) (encode v)"

subsection \<open>Compact output is never longer than indented output\<close>

lemma join_length_mono:
  assumes "list_all2 (\<lambda>x y. length x \<le> length y) xs ys" and "length s \<le> length t"
  shows "length (join s xs) \<le> length (join t ys)"
  using assms(1)
proof (induction rule: list_all2_induct)
  case Nil
  then show ?case by simp
next
  case (Cons x xs y ys)
  then show ?case
    using assms(2) by (cases xs; cases ys) auto
qed

lemma compact_le_indented: "length (compact j) \<le> length (indented j d)"
proof (induction j arbitrary: d)
  case (JAtom s)
  then show ?case by simp
next
  case (JArr xs)
  have "length (join '','' (map compact xs))
      \<le> length (join ('','' @ newline (Suc d)) (map (\<lambda>x. indented x (Suc d)) xs))"
    by (rule join_length_mono) (auto simp: list_all2_conv_all_nth JArr)
  then show ?case by (simp add: comp_def)
next
  case (JObj m)
  have pair: "length (compact (snd kj)) \<le> length (indented (snd kj) (Suc d))" if "kj \<in> set m" for kj
    using that by (intro JObj[of kj "snd kj"]) (simp_all add: prod_set_defs)
  have "length (join '','' (map (\<lambda>kj. fst kj @ '':'' @ compact (snd kj)) m))
      \<le> length (join ('','' @ newline (Suc d)) (map (\<lambda>kj. fst kj @ '': '' @ indented (snd kj) (Suc d)) m))"
    by (rule join_length_mono) (auto simp: list_all2_conv_all_nth intro!: le_SucI pair)
  then show ?case by (simp add: comp_def case_prod_beta map_prod_def)
qed

subsection \<open>Output does not depend on the iteration order of a map\<close>

lemma in_key_order_same_map:
  assumes "same_map m m'"
  shows "in_key_order m = in_key_order m'"
proof -
  from assms have s: "set m = set m'" by (rule same_map_set)
  from assms have d: "distinct (map fst m)" "distinct (map fst m')"
    by (simp_all add: same_map_def map_ok_def keys_def)
  have "inj_on fst (set m)" using d(1) by (simp add: distinct_map)
  then show ?thesis
    unfolding in_key_order_def
    using s d by (intro map_sorted_distinct_set_unique[where f = fst])
      (simp_all add: distinct_map)
qed

lemma same_map_map_prod:
  assumes "same_map m m'"
  shows "same_map (map (map_prod id f) m) (map (map_prod id f) m')"
proof -
  have eq: "map (map_prod id f) = map (\<lambda>(k, v). (k, f v))" by (auto simp: map_prod_def)
  show ?thesis using assms
    by (simp add: eq same_map_def map_of_map_entries[where f = "\<lambda>_. f"])
qed

lemma encode_same_map: "same_map m m' \<Longrightarrow> encode (AMap m) = encode (AMap m')"
  using in_key_order_same_map[OF same_map_map_prod, of m m' encode] by simp

lemma Marshal_same_map: "same_map m m' \<Longrightarrow> Marshal (AMap m) = Marshal (AMap m')"
  using encode_same_map[of m m'] by (simp add: Marshal_def del: encode.simps)

lemma Marshal_le_MarshalIndent:
  "Marshal v = Some c \<Longrightarrow> MarshalIndent v = Some p \<Longrightarrow> length c \<le> length p"
  using compact_le_indented by (auto simp: Marshal_def MarshalIndent_def)

subsection \<open>An object is at least as long as its members together\<close>

lemma join_length_ge: "sum_list (map length xs) \<le> length (join s xs)"
  by (induction s xs rule: join.induct) auto

lemma indented_members:
  "sum_list (map (\<lambda>kj. length (compact (snd kj))) m) \<le> length (indented (JObj m) d)"
proof -
  let ?parts = "map (\<lambda>kj. fst kj @ '': '' @ indented (snd kj) (Suc d)) m"
  have "sum_list (map (\<lambda>kj. length (compact (snd kj))) m) \<le> sum_list (map length ?parts)"
    unfolding map_map
  proof (rule sum_list_mono)
    fix kj
    show "length (compact (snd kj)) \<le> (length \<circ> (\<lambda>kj. fst kj @ '': '' @ indented (snd kj) (Suc d))) kj"
      using compact_le_indented[of "snd kj" "Suc d"] by simp
  qed
  also have "\<dots> \<le> length (join ('','' @ newline (Suc d)) ?parts)"
    by (rule join_length_ge)
  also have "\<dots> \<le> length (indented (JObj m) d)"
    by (auto simp: comp_def case_prod_beta map_prod_def)
  finally show ?thesis .
qed

definition marshal_size :: "any \<Rightarrow> nat" where
  "marshal_size v = (case Marshal v of None \<Rightarrow> 0 | Some c \<Rightarrow> length c)"

lemma sum_list_insort_key: "sum_list (map f (insort_key k x xs)) = f x + sum_list (map f xs)"
  for f :: "'a \<Rightarrow> nat"
  by (induction xs) auto

lemma sum_list_sort_key: "sum_list (map f (sort_key k xs)) = sum_list (map f xs)"
  for f :: "'a \<Rightarrow> nat"
  by (induction xs) (simp_all add: sum_list_insort_key)

lemma those_members:
  "those (map (\<lambda>(k, r). map_option (Pair (g k)) r) xs) = Some js \<Longrightarrow>
   map snd xs = map (Some \<circ> snd) js"
  by (induction xs arbitrary: js) (auto split: option.splits)

lemma object_size:
  assumes "MarshalIndent (AMap m) = Some p"
  shows "sum_list (map (marshal_size \<circ> snd) m) \<le> length p"
proof -
  let ?size = "\<lambda>r. case r of None \<Rightarrow> 0 | Some j \<Rightarrow> length (compact j)"
  have ms: "marshal_size v = ?size (encode v)" for v
    by (simp add: marshal_size_def Marshal_def split: option.split)
  from assms obtain js where p: "p = indented (JObj js) 0" and
    js: "those (map (\<lambda>(k, r). map_option (Pair (json_quote k)) r)
           (in_key_order (map (map_prod id encode) m))) = Some js"
    by (auto simp: MarshalIndent_def)
  have "sum_list (map (marshal_size \<circ> snd) m) = sum_list (map (?size \<circ> snd) (map (map_prod id encode) m))"
    by (simp add: comp_def ms)
  also have "\<dots> = sum_list (map ?size (map snd (in_key_order (map (map_prod id encode) m))))"
    by (simp only: in_key_order_def map_map sum_list_sort_key)
  also have "\<dots> = sum_list (map (\<lambda>kj. length (compact (snd kj))) js)"
    by (simp add: those_members[OF js] comp_def)
  also have "\<dots> \<le> length p" unfolding p by (rule indented_members)
  finally show ?thesis .
qed

end
