(* ===== verification/Engine_Types.thy ===== *)
theory Engine_Types
  imports Engine_Limits Go_Json
begin

text \<open>
  The data contracts of the Engine: tenant scope (\<^verbatim>\<open>context.go\<close>), connection
  input and descriptor (\<^verbatim>\<open>connection.go\<close>), schema snapshot (\<^verbatim>\<open>schema.go\<close>),
  and the extraction request, plan, state and result (\<^verbatim>\<open>extraction.go\<close>). Fields
  shared by several structs carry a prefix for the struct: \<open>in_\<close> for
  \<^verbatim>\<open>ConnectionInput\<close>, \<open>d_\<close> for \<^verbatim>\<open>ConnectionDescriptor\<close>, \<open>st_\<close> for
  \<^verbatim>\<open>PlanStep\<close>, \<open>pl_\<close> for \<^verbatim>\<open>ExtractionPlan\<close>, and so on. A pointer or a
  map that may be nil is an option; \<^verbatim>\<open>time.Time\<close> is an \<^typ>\<open>int\<close>.
\<close>

subsection \<open>Tenant scope\<close>

record TenantContext =
  TenantID :: string
  RequestID :: string

abbreviation maxTenantIDLength :: nat where
  "maxTenantIDLength \<equiv> 256"

definition isTenantIDAlnum :: "char \<Rightarrow> bool" where
  "isTenantIDAlnum c \<longleftrightarrow>
     (CHR ''0'' \<le> c \<and> c \<le> CHR ''9'') \<or> (CHR ''a'' \<le> c \<and> c \<le> CHR ''z'') \<or>
     (CHR ''A'' \<le> c \<and> c \<le> CHR ''Z'')"

fun isValidTenantID :: "string \<Rightarrow> bool" where
  "isValidTenantID [] = False"
| "isValidTenantID (c # cs) \<longleftrightarrow>
     length (c # cs) \<le> maxTenantIDLength \<and> isTenantIDAlnum c \<and>
     (\<forall>x \<in> set cs. isTenantIDAlnum x \<or> x = CHR ''-'' \<or> x = CHR ''_'')"

definition NewTenantContext :: "string \<Rightarrow> TenantContext res" where
  "NewTenantContext tenantID =
     (let trimmed = TrimSpace tenantID in
      if \<not> isValidTenantID trimmed then Inl (NewEngineError CategoryValidation ''tenant id is invalid'')
      else Inr \<lparr>TenantID = trimmed, RequestID = []\<rparr>)"

definition WithRequestID :: "TenantContext \<Rightarrow> string \<Rightarrow> TenantContext" where
  "WithRequestID tc requestID = tc\<lparr>RequestID := TrimSpace requestID\<rparr>"

definition tenant_IsZero :: "TenantContext \<Rightarrow> bool" where
  "tenant_IsZero tc \<longleftrightarrow> TenantID tc = [] \<and> RequestID tc = []"

definition IsMultiTenant :: "TenantContext \<Rightarrow> bool" where
  "IsMultiTenant tc \<longleftrightarrow> TenantID tc \<noteq> []"

definition validateTenantScope :: "TenantContext \<Rightarrow> goerror option" where
  "validateTenantScope tenant =
     (if \<not> isValidTenantID (TenantID tenant)
      then Some (NewEngineError CategoryValidation ''tenant scope is required'') else None)"

subsection \<open>Connections\<close>

abbreviation redactedMarker :: string where
  "redactedMarker \<equiv> ''[REDACTED]''"

record ConnectionInputParams =
  p_ConfigName :: string
  p_Type :: string
  p_Host :: string
  p_Port :: int
  p_DatabaseName :: string
  p_Schema :: string
  p_Username :: string
  p_Password :: string
  p_SSLMode :: string
  p_HostAttributes :: "row option"

record ConnectionInput =
  in_ConfigName :: string
  in_Type :: string
  in_Host :: string
  in_Port :: int
  in_DatabaseName :: string
  in_Schema :: string
  in_Username :: string
  in_SSLMode :: string
  in_hostAttributes :: "row option"
  in_password :: string

record ConnectionDescriptor =
  d_ID :: string
  d_ConfigName :: string
  d_Type :: string
  d_Host :: string
  d_Port :: int
  d_DatabaseName :: string
  d_Schema :: string
  d_Username :: string
  d_SSLMode :: string
  d_KeyVersion :: int
  d_HostAttributes :: "row option"

record ConnectionPage =
  pg_Items :: "ConnectionDescriptor list"
  pg_Total :: int

definition NewConnectionInput :: "ConnectionInputParams \<Rightarrow> ConnectionInput" where
  "NewConnectionInput params =
     \<lparr>in_ConfigName = p_ConfigName params, in_Type = p_Type params, in_Host = p_Host params,
      in_Port = p_Port params, in_DatabaseName = p_DatabaseName params,
      in_Schema = p_Schema params, in_Username = p_Username params,
      in_SSLMode = p_SSLMode params, in_hostAttributes = p_HostAttributes params,
      in_password = p_Password params\<rparr>"

definition Password :: "ConnectionInput \<Rightarrow> string" where
  "Password c = in_password c"

definition HasPassword :: "ConnectionInput \<Rightarrow> bool" where
  "HasPassword c \<longleftrightarrow> in_password c \<noteq> []"

text \<open>\<open>quote\<close> is the \<^verbatim>\<open>%q\<close> verb of \<^verbatim>\<open>fmt\<close>.\<close>

definition input_String :: "(string \<Rightarrow> string) \<Rightarrow> ConnectionInput \<Rightarrow> string" where
  "input_String quote c =
     (let password = (if in_password c \<noteq> [] then redactedMarker else []) in
      ''ConnectionInput{configName:'' @ quote (in_ConfigName c) @ '' type:'' @ quote (in_Type c)
      @ '' host:'' @ quote (in_Host c) @ '' port:'' @ itoa (in_Port c)
      @ '' database:'' @ quote (in_DatabaseName c) @ '' schema:'' @ quote (in_Schema c)
      @ '' username:'' @ quote (in_Username c) @ '' sslMode:'' @ quote (in_SSLMode c)
      @ '' password:'' @ password @ ''}'')"

definition input_GoString :: "(string \<Rightarrow> string) \<Rightarrow> ConnectionInput \<Rightarrow> string" where
  "input_GoString quote c = input_String quote c"

text \<open>A struct field is emitted in declaration order; \<^verbatim>\<open>omitempty\<close> drops an empty one.\<close>

definition json_field :: "string \<Rightarrow> string \<Rightarrow> (string \<times> json) list" where
  "json_field name v = [(json_quote name, JAtom (json_quote v))]"

definition json_omitempty :: "string \<Rightarrow> string \<Rightarrow> (string \<times> json) list" where
  "json_omitempty name v = (if v = [] then [] else json_field name v)"

definition input_MarshalJSON :: "ConnectionInput \<Rightarrow> string" where
  "input_MarshalJSON c =
     (let password = (if in_password c \<noteq> [] then redactedMarker else []) in
      compact (JObj
        (json_field ''configName'' (in_ConfigName c) @ json_field ''type'' (in_Type c)
         @ json_field ''host'' (in_Host c) @ [(json_quote ''port'', JAtom (itoa (in_Port c)))]
         @ json_field ''databaseName'' (in_DatabaseName c) @ json_omitempty ''schema'' (in_Schema c)
         @ json_field ''userName'' (in_Username c) @ json_omitempty ''sslMode'' (in_SSLMode c)
         @ json_field ''password'' password)))"

definition DescriptorFromInput :: "ConnectionInput \<Rightarrow> ConnectionDescriptor" where
  "DescriptorFromInput input =
     \<lparr>d_ID = [], d_ConfigName = in_ConfigName input, d_Type = in_Type input,
      d_Host = in_Host input, d_Port = in_Port input, d_DatabaseName = in_DatabaseName input,
      d_Schema = in_Schema input, d_Username = in_Username input, d_SSLMode = in_SSLMode input,
      d_KeyVersion = 0, d_HostAttributes = in_hostAttributes input\<rparr>"

subsection \<open>Schema snapshots\<close>

record TableSnapshot =
  tb_Name :: string
  tb_Fields :: "string list"

record SchemaSnapshot =
  sn_ConfigName :: string
  sn_Tables :: "TableSnapshot list"
  sn_CapturedAt :: int

definition HasTable :: "SchemaSnapshot \<Rightarrow> string \<Rightarrow> bool" where
  "HasTable s name \<longleftrightarrow> (\<exists>table \<in> set (sn_Tables s). tb_Name table = name)"

definition TableNames :: "SchemaSnapshot \<Rightarrow> string list" where
  "TableNames s = (if sn_Tables s = [] then [] else sort (map tb_Name (sn_Tables s)))"

subsection \<open>Extraction\<close>

type_synonym ExecutionStatus = string

abbreviation StatusPending :: ExecutionStatus where "StatusPending \<equiv> ''pending''"
abbreviation StatusRunning :: ExecutionStatus where "StatusRunning \<equiv> ''running''"
abbreviation StatusCompleted :: ExecutionStatus where "StatusCompleted \<equiv> ''completed''"
abbreviation StatusFailed :: ExecutionStatus where "StatusFailed \<equiv> ''failed''"
abbreviation StatusCanceled :: ExecutionStatus where "StatusCanceled \<equiv> ''canceled''"

definition validExecutionStatuses :: "ExecutionStatus list" where
  "validExecutionStatuses =
     [StatusPending, StatusRunning, StatusCompleted, StatusFailed, StatusCanceled]"

definition terminalExecutionStatuses :: "ExecutionStatus list" where
  "terminalExecutionStatuses = [StatusCompleted, StatusFailed, StatusCanceled]"

definition status_IsValid :: "ExecutionStatus \<Rightarrow> bool" where
  "status_IsValid s \<longleftrightarrow> s \<in> set validExecutionStatuses"

definition IsTerminal :: "ExecutionStatus \<Rightarrow> bool" where
  "IsTerminal s \<longleftrightarrow> s \<in> set terminalExecutionStatuses"

type_synonym ExecutionMode = string

abbreviation (input) ModeAuto :: ExecutionMode where "ModeAuto \<equiv> []"
abbreviation ModeDirect :: ExecutionMode where "ModeDirect \<equiv> ''direct''"
abbreviation ModeStore :: ExecutionMode where "ModeStore \<equiv> ''store''"

type_synonym FieldSelection = "(string, string list) gomap"

record ExtractionRequest =
  MappedFields :: "(string, FieldSelection) gomap"
  Filters :: "(string, any) gomap"
  Metadata :: "(string, any) gomap"
  Overrides :: "Limits option"

record PlanStep =
  st_Ordinal :: nat
  st_ConfigName :: string
  st_Tables :: "string list"
  st_Fields :: "(string, string list) gomap"
  st_Filters :: "(string, (string, any) gomap) gomap"

record ExtractionPlan =
  pl_TenantID :: string
  pl_RequestID :: string
  pl_Steps :: "PlanStep list"
  pl_Metadata :: "(string, any) gomap"
  pl_Limits :: Limits
  pl_Mode :: ExecutionMode

record ExecutionState =
  es_JobID :: string
  es_Status :: ExecutionStatus
  es_StartedAt :: int
  es_CompletedAt :: "int option"
  es_FailureMessage :: string

type_synonym ProtectionApplier = string

abbreviation ProtectionAppliedByEngine :: ProtectionApplier where
  "ProtectionAppliedByEngine \<equiv> ''engine''"
abbreviation ProtectionAppliedByAdapter :: ProtectionApplier where
  "ProtectionAppliedByAdapter \<equiv> ''adapter''"
abbreviation ProtectionAppliedByHost :: ProtectionApplier where
  "ProtectionAppliedByHost \<equiv> ''host''"

definition applier_IsValid :: "ProtectionApplier \<Rightarrow> bool" where
  "applier_IsValid a \<longleftrightarrow>
     a \<in> {ProtectionAppliedByEngine, ProtectionAppliedByAdapter, ProtectionAppliedByHost}"

record ResultIntegrity =
  ri_Algorithm :: string
  ri_Digest :: string
  ri_Signature :: string

definition IsPresent :: "ResultIntegrity \<Rightarrow> bool" where
  "IsPresent i \<longleftrightarrow> ri_Digest i \<noteq> [] \<or> ri_Signature i \<noteq> []"

record ResultProtection =
  rp_Encrypted :: bool
  rp_KeyVersion :: int
  rp_Mode :: string
  rp_AppliedBy :: ProtectionApplier

record DirectResult =
  dr_Data :: string
  dr_Format :: string
  dr_RowCount :: nat
  dr_PlaintextSize :: nat
  dr_Integrity :: "ResultIntegrity option"
  dr_Protection :: "ResultProtection option"
  dr_CompletedAt :: int

record ResultReference =
  rr_Path :: string
  rr_Format :: string
  rr_RowCount :: nat
  rr_SizeBytes :: nat
  rr_Integrity :: "ResultIntegrity option"
  rr_Protection :: "ResultProtection option"
  rr_CompletedAt :: int

record ExtractionResult =
  er_State :: ExecutionState
  er_Direct :: "DirectResult option"
  er_Reference :: "ResultReference option"
  er_RowCounts :: "(string, nat) gomap"

subsection \<open>Lemmas\<close>

lemma isValidTenantID_chars:
  "isValidTenantID t \<Longrightarrow> c \<in> set t \<Longrightarrow> isTenantIDAlnum c \<or> c = CHR ''-'' \<or> c = CHR ''_''"
  by (cases t) auto

lemma isValidTenantID_bounds: "isValidTenantID t \<Longrightarrow> 0 < length t \<and> length t \<le> 256"
  by (cases t) auto

lemma alnum_no_slash: "\<not> isTenantIDAlnum (CHR ''/'')"
  by (simp add: isTenantIDAlnum_def less_eq_char_def)

lemma isValidTenantID_no_slash: "isValidTenantID t \<Longrightarrow> CHR ''/'' \<notin> set t"
  using isValidTenantID_chars[of t "CHR ''/''"] alnum_no_slash by auto

lemma validateTenantScope_None_iff [simp]:
  "validateTenantScope tenant = None \<longleftrightarrow> isValidTenantID (TenantID tenant)"
  by (simp add: validateTenantScope_def)

lemma validateTenantScope_Some_iff:
  "validateTenantScope tenant = Some e \<longleftrightarrow>
     \<not> isValidTenantID (TenantID tenant) \<and>
     e = NewEngineError CategoryValidation ''tenant scope is required''"
  by (auto simp: validateTenantScope_def)

lemma NewTenantContext_scoped:
  "NewTenantContext t = Inr tc \<Longrightarrow> validateTenantScope tc = None"
  by (auto simp: NewTenantContext_def Let_def split: if_splits)

lemma DescriptorFromInput_simps [simp]:
  "d_ConfigName (DescriptorFromInput input) = in_ConfigName input"
  "d_KeyVersion (DescriptorFromInput input) = 0"
  "d_ID (DescriptorFromInput input) = []"
  by (simp_all add: DescriptorFromInput_def)

end
