(* ===== verification/Engine_Ports.thy ===== *)
theory Engine_Ports
  imports Engine_Types
begin

text \<open>
  The host ports (\<^verbatim>\<open>ports.go\<close>, \<^verbatim>\<open>connector.go\<close>), the Engine options and
  constructor (\<^verbatim>\<open>options.go\<close>, \<^verbatim>\<open>engine.go\<close>).

  A port is an interface the host implements, so it is a parameter: a record of
  operations over a host world \<open>'w\<close>. Every call takes the world and returns the new
  one, so a call may fail, may have effects, and two calls of the same operation may
  answer differently. The context of Go's \<^verbatim>\<open>context\<close> package belongs to the world as
  well: \<open>ctx_Err\<close> observes it, and two observations in a row may differ, because a
  cancellation or a deadline can fire at any moment. Connector factories, connectors
  and cursors are handles into the world. An absent (or typed-nil) port is
  \<^const>\<open>None\<close>.
\<close>

record ProtectedCredential =
  Ciphertext :: string
  KeyVersion :: int

record 'w ConnectionStore =
  FindConnection :: "TenantContext \<Rightarrow> string \<Rightarrow> 'w \<Rightarrow> ConnectionDescriptor option res \<times> 'w"
  Create :: "TenantContext \<Rightarrow> ConnectionDescriptor \<Rightarrow> ProtectedCredential option \<Rightarrow> 'w \<Rightarrow> goerror option \<times> 'w"
  Update :: "TenantContext \<Rightarrow> ConnectionDescriptor \<Rightarrow> ProtectedCredential option \<Rightarrow> 'w \<Rightarrow> goerror option \<times> 'w"
  Delete :: "TenantContext \<Rightarrow> string \<Rightarrow> 'w \<Rightarrow> goerror option \<times> 'w"
  ListAll :: "TenantContext \<Rightarrow> 'w \<Rightarrow> ConnectionDescriptor list res \<times> 'w"
  FindByID :: "TenantContext \<Rightarrow> string \<Rightarrow> 'w \<Rightarrow> ConnectionDescriptor option res \<times> 'w"
  UpdateByID :: "TenantContext \<Rightarrow> string \<Rightarrow> ConnectionDescriptor \<Rightarrow> ProtectedCredential option \<Rightarrow> 'w \<Rightarrow> goerror option \<times> 'w"
  DeleteByID :: "TenantContext \<Rightarrow> string \<Rightarrow> 'w \<Rightarrow> goerror option \<times> 'w"
  ListPaged :: "TenantContext \<Rightarrow> any \<Rightarrow> 'w \<Rightarrow> ConnectionPage res \<times> 'w"

record 'w CredentialProtector =
  Protect :: "TenantContext \<Rightarrow> string \<Rightarrow> 'w \<Rightarrow> (string \<times> int) res \<times> 'w"
  Reveal :: "TenantContext \<Rightarrow> string \<Rightarrow> int \<Rightarrow> 'w \<Rightarrow> string res \<times> 'w"

record 'w ConnectorRegistry =
  Connector :: "string \<Rightarrow> 'w \<Rightarrow> nat option \<times> bool"
  Build :: "nat \<Rightarrow> ConnectionDescriptor \<Rightarrow> 'w \<Rightarrow> nat option res \<times> 'w"
  ConnTest :: "nat \<Rightarrow> 'w \<Rightarrow> goerror option \<times> 'w"
  ConnDiscover :: "nat \<Rightarrow> 'w \<Rightarrow> SchemaSnapshot res \<times> 'w"
  QueryStream :: "nat \<Rightarrow> ExtractionRequest \<Rightarrow> 'w \<Rightarrow> nat res \<times> 'w"
  ConnClose :: "nat \<Rightarrow> 'w \<Rightarrow> goerror option \<times> 'w"
  CurNext :: "nat \<Rightarrow> 'w \<Rightarrow> bool \<times> 'w"
  CurRow :: "nat \<Rightarrow> 'w \<Rightarrow> string \<times> row"
  CurErr :: "nat \<Rightarrow> 'w \<Rightarrow> goerror option"
  CurClose :: "nat \<Rightarrow> 'w \<Rightarrow> goerror option \<times> 'w"

record 'w SchemaCache =
  GetSchema :: "TenantContext \<Rightarrow> string \<Rightarrow> 'w \<Rightarrow> SchemaSnapshot option res \<times> 'w"
  PutSchema :: "TenantContext \<Rightarrow> SchemaSnapshot \<Rightarrow> 'w \<Rightarrow> goerror option \<times> 'w"

record 'w ExecutionStore =
  SaveExecution :: "TenantContext \<Rightarrow> ExecutionState \<Rightarrow> 'w \<Rightarrow> goerror option \<times> 'w"

record 'w ResultSink =
  PersistResult :: "TenantContext \<Rightarrow> string \<Rightarrow> 'w \<Rightarrow> ResultReference res \<times> 'w"
  OpenResultStream :: "TenantContext \<Rightarrow> 'w \<Rightarrow> nat res \<times> 'w"
  StreamWrite :: "nat \<Rightarrow> string \<Rightarrow> 'w \<Rightarrow> goerror option \<times> 'w"
  StreamClose :: "nat \<Rightarrow> 'w \<Rightarrow> ResultReference res \<times> 'w"

record 'w ActiveExecutionChecker =
  HasActiveExecutions :: "TenantContext \<Rightarrow> string \<Rightarrow> 'w \<Rightarrow> bool res \<times> 'w"

record 'w Observability =
  StartSpan :: "string \<Rightarrow> 'w \<Rightarrow> 'w"
  EndSpan :: "string \<Rightarrow> 'w \<Rightarrow> 'w"

text \<open>
  The standard library of the host process: contexts, the clock, and SHA-256 in hex.
  Contexts are scopes: \<open>ctx_WithTimeout\<close> and \<open>ctx_WithCancel\<close> enter a child
  context, \<open>ctx_CancelUp k\<close> calls the cancel function of the context \<open>k\<close>
  levels above the current one, and \<open>ctx_Cancel\<close> is the deferred cancel that leaves
  the current context for its parent.
\<close>

record 'w Runtime =
  ctx_Err :: "'w \<Rightarrow> goerror option \<times> 'w"
  ctx_WithTimeout :: "int \<Rightarrow> 'w \<Rightarrow> 'w"
  ctx_WithCancel :: "'w \<Rightarrow> 'w"
  ctx_CancelUp :: "nat \<Rightarrow> 'w \<Rightarrow> 'w"
  ctx_Cancel :: "'w \<Rightarrow> 'w"
  time_Now :: "'w \<Rightarrow> int \<times> 'w"
  sha256_hex :: "string \<Rightarrow> string"

record 'w Options =
  connectorRegistry :: "'w ConnectorRegistry option"
  credentialProtector :: "'w CredentialProtector option"
  connectionStore :: "'w ConnectionStore option"
  executionStore :: "'w ExecutionStore option"
  resultSink :: "'w ResultSink option"
  schemaCache :: "'w SchemaCache option"
  activeExecutionChecker :: "'w ActiveExecutionChecker option"
  observability :: "'w Observability option"
  encryptedPersistence :: bool
  limits :: Limits

text \<open>An \<^verbatim>\<open>Engine\<close> is its resolved options; the runtime it executes in comes with it.\<close>

record 'w Engine =
  options :: "'w Options"
  rt :: "'w Runtime"

subsection \<open>Construction\<close>

definition zero_limits :: Limits where
  "zero_limits =
     \<lparr>MaxDatasources = 0, MaxTablesPerDatasource = 0, MaxFieldsPerTable = 0, MaxConcurrency = 0,
      Timeout = 0, MaxResultBytes = 0, ConnectorHardLimits = []\<rparr>"

definition zero_options :: "'w Options" where
  "zero_options =
     \<lparr>connectorRegistry = None, credentialProtector = None, connectionStore = None,
      executionStore = None, resultSink = None, schemaCache = None,
      activeExecutionChecker = None, observability = None, encryptedPersistence = False,
      limits = zero_limits\<rparr>"

definition WithConnectorRegistry :: "'w ConnectorRegistry option \<Rightarrow> 'w Options \<Rightarrow> 'w Options" where
  "WithConnectorRegistry registry o' = o'\<lparr>connectorRegistry := registry\<rparr>"

definition WithCredentialProtector :: "'w CredentialProtector option \<Rightarrow> 'w Options \<Rightarrow> 'w Options" where
  "WithCredentialProtector protector o' = o'\<lparr>credentialProtector := protector\<rparr>"

definition WithEncryptedPersistence :: "bool \<Rightarrow> 'w Options \<Rightarrow> 'w Options" where
  "WithEncryptedPersistence enabled o' = o'\<lparr>encryptedPersistence := enabled\<rparr>"

definition WithConnectionStore :: "'w ConnectionStore option \<Rightarrow> 'w Options \<Rightarrow> 'w Options" where
  "WithConnectionStore store o' = o'\<lparr>connectionStore := store\<rparr>"

definition WithExecutionStore :: "'w ExecutionStore option \<Rightarrow> 'w Options \<Rightarrow> 'w Options" where
  "WithExecutionStore store o' = o'\<lparr>executionStore := store\<rparr>"

definition WithResultSink :: "'w ResultSink option \<Rightarrow> 'w Options \<Rightarrow> 'w Options" where
  "WithResultSink sink o' = o'\<lparr>resultSink := sink\<rparr>"

definition WithSchemaCache :: "'w SchemaCache option \<Rightarrow> 'w Options \<Rightarrow> 'w Options" where
  "WithSchemaCache cache o' = o'\<lparr>schemaCache := cache\<rparr>"

definition WithActiveExecutionChecker :: "'w ActiveExecutionChecker option \<Rightarrow> 'w Options \<Rightarrow> 'w Options" where
  "WithActiveExecutionChecker checker o' = o'\<lparr>activeExecutionChecker := checker\<rparr>"

definition WithObservability :: "'w Observability option \<Rightarrow> 'w Options \<Rightarrow> 'w Options" where
  "WithObservability obs o' = o'\<lparr>observability := obs\<rparr>"

definition WithLimits :: "Limits \<Rightarrow> 'w Options \<Rightarrow> 'w Options" where
  "WithLimits l o' = o'\<lparr>limits := l\<rparr>"

text \<open>Options are applied in order; a nil option is skipped.\<close>

fun apply_options :: "('w Options \<Rightarrow> 'w Options) option list \<Rightarrow> 'w Options \<Rightarrow> 'w Options" where
  "apply_options [] o' = o'"
| "apply_options (None # opts) o' = apply_options opts o'"
| "apply_options (Some opt # opts) o' = apply_options opts (opt o')"

definition New :: "'w Runtime \<Rightarrow> ('w Options \<Rightarrow> 'w Options) option list \<Rightarrow> 'w Engine res" where
  "New runtime opts =
     (let o' = apply_options opts zero_options in
      if Option.is_none (connectorRegistry o')
      then Inl (NewEngineError CategoryValidation ''connector registry is required'')
      else if encryptedPersistence o' \<and> Option.is_none (credentialProtector o')
      then Inl (NewEngineError CategoryValidation
             ''credential protector is required when encrypted persistence is enabled'')
      else Inr \<lparr>options = (if limits_IsZero (limits o') then o'\<lparr>limits := DefaultLimits\<rparr> else o'),
                rt = runtime\<rparr>)"

text \<open>What every constructed Engine satisfies for its lifetime.\<close>

definition engine_ok :: "'w Engine \<Rightarrow> bool" where
  "engine_ok e \<longleftrightarrow>
     connectorRegistry (options e) \<noteq> None \<and>
     (encryptedPersistence (options e) \<longrightarrow> credentialProtector (options e) \<noteq> None) \<and>
     \<not> limits_IsZero (limits (options e))"

lemma New_engine_ok: "New runtime opts = Inr e \<Longrightarrow> engine_ok e"
  by (auto simp: New_def engine_ok_def Option.is_none_def Let_def limits_IsZero_def DefaultLimits_def map_len_def
      split: if_splits)

subsection \<open>Guards every operation starts with\<close>

text \<open>\<^verbatim>\<open>ctx, end := e.startSpan(ctx, op); defer end()\<close> around an operation's body.\<close>

definition with_span :: "'w Engine \<Rightarrow> string \<Rightarrow> ('w \<Rightarrow> 'a \<times> 'w) \<Rightarrow> 'w \<Rightarrow> 'a \<times> 'w" where
  "with_span e operation body w =
     (case observability (options e) of
        None \<Rightarrow> body w
      | Some obs \<Rightarrow> (case body (StartSpan obs operation w) of (r, w') \<Rightarrow> (r, EndSpan obs operation w')))"

definition requireConnectionStore :: "'w Engine \<Rightarrow> 'w ConnectionStore res" where
  "requireConnectionStore e =
     (case connectionStore (options e) of
        None \<Rightarrow> Inl (NewEngineError CategoryValidation ''connection store is not configured'')
      | Some store \<Rightarrow> Inr store)"

definition requireCredentialProtector :: "'w Engine \<Rightarrow> 'w CredentialProtector res" where
  "requireCredentialProtector e =
     (case credentialProtector (options e) of
        None \<Rightarrow> Inl (NewEngineError CategoryValidation ''credential protector is not configured'')
      | Some protector \<Rightarrow> Inr protector)"

text \<open>The two guards at the head of every store operation: the store, then the tenant scope.\<close>

definition scoped ::
  "'w Engine \<Rightarrow> TenantContext \<Rightarrow> ('w ConnectionStore \<Rightarrow> 'w \<Rightarrow> 'a res \<times> 'w) \<Rightarrow> 'w \<Rightarrow> 'a res \<times> 'w"
where
  "scoped e tenant body w =
     (case requireConnectionStore e of
        Inl err \<Rightarrow> (Inl err, w)
      | Inr store \<Rightarrow>
         (case validateTenantScope tenant of
            Some err \<Rightarrow> (Inl err, w)
          | None \<Rightarrow> body store w))"

definition UnknownConnectorTypeError :: "string \<Rightarrow> goerror" where
  "UnknownConnectorTypeError datasourceType =
     NewEngineError CategoryNotFound (''no connector registered for datasource type '' @ datasourceType)"

text \<open>
  \<^verbatim>\<open>New\<close> guarantees the registry, so the code dereferences it unconditionally; on
  an Engine that did not come from \<open>New\<close> the model answers like a registry
  without the type.
\<close>

definition requireConnectorFactory ::
  "'w Engine \<Rightarrow> string \<Rightarrow> 'w \<Rightarrow> ('w ConnectorRegistry \<times> nat) res" where
  "requireConnectorFactory e datasourceType w =
     (case connectorRegistry (options e) of
        None \<Rightarrow> Inl (UnknownConnectorTypeError datasourceType)
      | Some reg \<Rightarrow>
          (case Connector reg datasourceType w of
             (Some factory, True) \<Rightarrow> Inr (reg, factory)
           | _ \<Rightarrow> Inl (UnknownConnectorTypeError datasourceType)))"

lemma requireConnectorFactory_Inr:
  "requireConnectorFactory e ty w = Inr (reg, f) \<Longrightarrow>
   connectorRegistry (options e) = Some reg \<and> Connector reg ty w = (Some f, True)"
  by (auto simp: requireConnectorFactory_def split: option.splits bool.splits prod.splits)

lemma scoped_unscoped:
  "\<not> isValidTenantID (TenantID tenant) \<Longrightarrow>
   \<exists>err. scoped e tenant body w = (Inl err, w) \<and> Category err = CategoryValidation"
  by (auto simp: scoped_def requireConnectionStore_def validateTenantScope_def split: option.splits)

lemma scoped_cases:
  assumes "scoped e tenant body w = (r, w')"
  obtains (guard) err where "r = Inl err" "w' = w" "Category err = CategoryValidation"
  | (body) store where "connectionStore (options e) = Some store"
      "isValidTenantID (TenantID tenant)" "body store w = (r, w')"
  using assms
  by (auto simp: scoped_def requireConnectionStore_def validateTenantScope_def
      split: option.splits if_splits)

lemma scoped_ok [port_simps]:
  "connectionStore (options e) = Some store \<Longrightarrow> isValidTenantID (TenantID tenant) \<Longrightarrow>
   scoped e tenant body w = body store w"
  by (simp add: scoped_def requireConnectionStore_def validateTenantScope_def)

lemma with_span_cases:
  assumes "with_span e op body w = (r, w')"
  obtains w1 w2 where "body w1 = (r, w2)"
    and "w1 = (case observability (options e) of None \<Rightarrow> w | Some obs \<Rightarrow> StartSpan obs op w)"
    and "w' = (case observability (options e) of None \<Rightarrow> w2 | Some obs \<Rightarrow> EndSpan obs op w2)"
  using assms by (auto simp: with_span_def split: option.splits prod.splits)

end
