(* ===== verification/Engine_Connections.thy ===== *)
theory Engine_Connections
  imports Engine_Ports
begin

text \<open>
  \<^verbatim>\<open>pkg/engine/connection_ops.go\<close> and \<^verbatim>\<open>test_connection.go\<close>: the
  tenant-scoped connection lifecycle. Each operation is the whole Go method: the
  span, the guards, then the port calls in the code's order with every early return.
  The contract the operations rely on is the locale \<open>connection_store\<close>; the
  locale \<open>connection_engine\<close> adds that the other ports leave the store alone.
\<close>

record ConnectionPatch =
  cp_Type :: "string option"
  cp_Host :: "string option"
  cp_Port :: "int option"
  cp_DatabaseName :: "string option"
  cp_Schema :: "string option"
  cp_Username :: "string option"
  cp_SSLMode :: "string option"
  cp_HostAttributes :: "row option"
  cp_password :: "string option"
  cp_hasPassword :: bool

definition WithPassword :: "ConnectionPatch \<Rightarrow> string \<Rightarrow> ConnectionPatch" where
  "WithPassword p password = p\<lparr>cp_password := Some password, cp_hasPassword := True\<rparr>"

definition patch_HasPassword :: "ConnectionPatch \<Rightarrow> bool" where
  "patch_HasPassword p \<longleftrightarrow> cp_hasPassword p \<and> cp_password p \<noteq> None"

definition opt :: "'a \<Rightarrow> 'a option \<Rightarrow> 'a" where
  "opt current patched = (case patched of None \<Rightarrow> current | Some v \<Rightarrow> v)"

definition applyConnectionPatch :: "ConnectionDescriptor \<Rightarrow> ConnectionPatch \<Rightarrow> ConnectionDescriptor" where
  "applyConnectionPatch current patch =
     current\<lparr>d_Type := opt (d_Type current) (cp_Type patch),
             d_Host := opt (d_Host current) (cp_Host patch),
             d_Port := opt (d_Port current) (cp_Port patch),
             d_DatabaseName := opt (d_DatabaseName current) (cp_DatabaseName patch),
             d_Schema := opt (d_Schema current) (cp_Schema patch),
             d_Username := opt (d_Username current) (cp_Username patch),
             d_SSLMode := opt (d_SSLMode current) (cp_SSLMode patch),
             d_HostAttributes :=
               (case cp_HostAttributes patch of None \<Rightarrow> d_HostAttributes current | Some h \<Rightarrow> Some h)\<rparr>"

definition protectSecret ::
  "'w Engine \<Rightarrow> TenantContext \<Rightarrow> string \<Rightarrow> 'w \<Rightarrow> ProtectedCredential res \<times> 'w" where
  "protectSecret e tenant plaintext w =
     (case requireCredentialProtector e of
        Inl err \<Rightarrow> (Inl err, w)
      | Inr protector \<Rightarrow>
         (case Protect protector tenant plaintext w of
            (Inl _, w1) \<Rightarrow>
              (Inl (NewEngineError CategoryUnavailable ''failed to protect connection credential''), w1)
          | (Inr (ciphertext, keyVersion), w1) \<Rightarrow>
              (Inr \<lparr>Ciphertext = ciphertext, KeyVersion = keyVersion\<rparr>, w1)))"

text \<open>
  The block that \<^verbatim>\<open>CreateConnection\<close>, \<^verbatim>\<open>UpdateConnection\<close> and
  \<^verbatim>\<open>UpdateConnectionByID\<close> share: protect a supplied secret under encrypted
  persistence and stamp its key version, otherwise pass a nil credential.
\<close>

definition protectDescriptor ::
  "'w Engine \<Rightarrow> TenantContext \<Rightarrow> string option \<Rightarrow> ConnectionDescriptor \<Rightarrow> 'w \<Rightarrow>
   (ConnectionDescriptor \<times> ProtectedCredential option) res \<times> 'w" where
  "protectDescriptor e tenant secret descriptor w =
     (case (encryptedPersistence (options e), secret) of
        (True, Some password) \<Rightarrow>
          (case protectSecret e tenant password w of
             (Inl err, w1) \<Rightarrow> (Inl err, w1)
           | (Inr protected', w1) \<Rightarrow>
               (Inr (descriptor\<lparr>d_KeyVersion := KeyVersion protected'\<rparr>, Some protected'), w1))
      | _ \<Rightarrow> (Inr (descriptor, None), w))"

definition CreateConnection ::
  "'w Engine \<Rightarrow> TenantContext \<Rightarrow> ConnectionInput \<Rightarrow> 'w \<Rightarrow> ConnectionDescriptor res \<times> 'w" where
  "CreateConnection e tenant input =
     with_span e ''engine.connection.create'' (scoped e tenant (\<lambda>store w.
       let descriptor = DescriptorFromInput input in
       case FindConnection store tenant (d_ConfigName descriptor) w of
         (Inl err, w1) \<Rightarrow> (Inl err, w1)
       | (Inr (Some _), w1) \<Rightarrow> (Inl (NewEngineError CategoryConflict ''connection already exists''), w1)
       | (Inr None, w1) \<Rightarrow>
          (case protectDescriptor e tenant (if HasPassword input then Some (Password input) else None)
                  descriptor w1 of
             (Inl err, w2) \<Rightarrow> (Inl err, w2)
           | (Inr (descriptor', credential), w2) \<Rightarrow>
              (case Create store tenant descriptor' credential w2 of
                 (Some err, w3) \<Rightarrow> (Inl err, w3)
               | (None, w3) \<Rightarrow> (Inr descriptor', w3)))))"

text \<open>A lookup whose absence is the not-found error of every read operation.\<close>

definition found_or :: "string \<Rightarrow> 'a option res \<times> 'w \<Rightarrow> 'a res \<times> 'w" where
  "found_or message r =
     (case r of
        (Inl err, w) \<Rightarrow> (Inl err, w)
      | (Inr None, w) \<Rightarrow> (Inl (NewEngineError CategoryNotFound message), w)
      | (Inr (Some d), w) \<Rightarrow> (Inr d, w))"

definition GetConnection ::
  "'w Engine \<Rightarrow> TenantContext \<Rightarrow> string \<Rightarrow> 'w \<Rightarrow> ConnectionDescriptor res \<times> 'w" where
  "GetConnection e tenant configName =
     with_span e ''engine.connection.get'' (scoped e tenant (\<lambda>store w.
       found_or ''connection not found'' (FindConnection store tenant configName w)))"

definition ListConnections ::
  "'w Engine \<Rightarrow> TenantContext \<Rightarrow> 'w \<Rightarrow> ConnectionDescriptor list res \<times> 'w" where
  "ListConnections e tenant =
     with_span e ''engine.connection.list'' (scoped e tenant (\<lambda>store w. ListAll store tenant w))"

definition GetConnectionByID ::
  "'w Engine \<Rightarrow> TenantContext \<Rightarrow> string \<Rightarrow> 'w \<Rightarrow> ConnectionDescriptor res \<times> 'w" where
  "GetConnectionByID e tenant id' =
     with_span e ''engine.connection.get_by_id'' (scoped e tenant (\<lambda>store w.
       found_or ''connection not found'' (FindByID store tenant id' w)))"

definition ListConnectionsPaged ::
  "'w Engine \<Rightarrow> TenantContext \<Rightarrow> any \<Rightarrow> 'w \<Rightarrow> ConnectionPage res \<times> 'w" where
  "ListConnectionsPaged e tenant params =
     with_span e ''engine.connection.list_paged'' (scoped e tenant (\<lambda>store w.
       ListPaged store tenant params w))"

definition UpdateConnectionByID ::
  "'w Engine \<Rightarrow> TenantContext \<Rightarrow> string \<Rightarrow> ConnectionDescriptor \<Rightarrow> ConnectionPatch \<Rightarrow> 'w \<Rightarrow>
   ConnectionDescriptor res \<times> 'w" where
  "UpdateConnectionByID e tenant id' descriptor patch =
     with_span e ''engine.connection.update_by_id'' (scoped e tenant (\<lambda>store w.
       case protectDescriptor e tenant (if patch_HasPassword patch then cp_password patch else None)
              descriptor w of
         (Inl err, w1) \<Rightarrow> (Inl err, w1)
       | (Inr (descriptor', credential), w1) \<Rightarrow>
          (case UpdateByID store tenant id' descriptor' credential w1 of
             (Some err, w2) \<Rightarrow> (Inl err, w2)
           | (None, w2) \<Rightarrow> (Inr descriptor', w2))))"

definition unit_res :: "goerror option \<times> 'w \<Rightarrow> unit res \<times> 'w" where
  "unit_res r = (case r of (Some err, w) \<Rightarrow> (Inl err, w) | (None, w) \<Rightarrow> (Inr (), w))"

definition DeleteConnectionByID ::
  "'w Engine \<Rightarrow> TenantContext \<Rightarrow> string \<Rightarrow> 'w \<Rightarrow> unit res \<times> 'w" where
  "DeleteConnectionByID e tenant id' =
     with_span e ''engine.connection.delete_by_id'' (scoped e tenant (\<lambda>store w.
       unit_res (DeleteByID store tenant id' w)))"

definition guardActiveExecutions ::
  "'w Engine \<Rightarrow> TenantContext \<Rightarrow> string \<Rightarrow> 'w \<Rightarrow> goerror option \<times> 'w" where
  "guardActiveExecutions e tenant connectionID w =
     (case activeExecutionChecker (options e) of
        None \<Rightarrow> (None, w)
      | Some checker \<Rightarrow>
         (case HasActiveExecutions checker tenant connectionID w of
            (Inl _, w1) \<Rightarrow>
              (Some (NewEngineError CategoryUnavailable ''failed to check for active executions''), w1)
          | (Inr True, w1) \<Rightarrow>
              (Some (NewEngineError CategoryConflict ''connection has active executions''), w1)
          | (Inr False, w1) \<Rightarrow> (None, w1)))"

definition UpdateConnection ::
  "'w Engine \<Rightarrow> TenantContext \<Rightarrow> string \<Rightarrow> ConnectionPatch \<Rightarrow> 'w \<Rightarrow> ConnectionDescriptor res \<times> 'w" where
  "UpdateConnection e tenant configName patch =
     with_span e ''engine.connection.update'' (scoped e tenant (\<lambda>store w.
       case found_or ''connection not found'' (FindConnection store tenant configName w) of
         (Inl err, w1) \<Rightarrow> (Inl err, w1)
       | (Inr current, w1) \<Rightarrow>
          (case guardActiveExecutions e tenant configName w1 of
             (Some err, w2) \<Rightarrow> (Inl err, w2)
           | (None, w2) \<Rightarrow>
              (case protectDescriptor e tenant
                      (if patch_HasPassword patch then cp_password patch else None)
                      (applyConnectionPatch current patch) w2 of
                 (Inl err, w3) \<Rightarrow> (Inl err, w3)
               | (Inr (updated, credential), w3) \<Rightarrow>
                  (case Update store tenant updated credential w3 of
                     (Some err, w4) \<Rightarrow> (Inl err, w4)
                   | (None, w4) \<Rightarrow> (Inr updated, w4))))))"

definition DeleteConnection ::
  "'w Engine \<Rightarrow> TenantContext \<Rightarrow> string \<Rightarrow> 'w \<Rightarrow> unit res \<times> 'w" where
  "DeleteConnection e tenant configName =
     with_span e ''engine.connection.delete'' (scoped e tenant (\<lambda>store w.
       case found_or ''connection not found'' (FindConnection store tenant configName w) of
         (Inl err, w1) \<Rightarrow> (Inl err, w1)
       | (Inr _, w1) \<Rightarrow>
          (case guardActiveExecutions e tenant configName w1 of
             (Some err, w2) \<Rightarrow> (Inl err, w2)
           | (None, w2) \<Rightarrow> unit_res (Delete store tenant configName w2))))"

definition CheckActiveExecutions ::
  "'w Engine \<Rightarrow> TenantContext \<Rightarrow> string \<Rightarrow> 'w \<Rightarrow> goerror option \<times> 'w" where
  "CheckActiveExecutions e tenant connectionID =
     with_span e ''engine.connection.check_active_executions'' (\<lambda>w.
       case validateTenantScope tenant of
         Some err \<Rightarrow> (Some err, w)
       | None \<Rightarrow>
          (case activeExecutionChecker (options e) of
             None \<Rightarrow> (None, w)
           | Some checker \<Rightarrow>
              (case HasActiveExecutions checker tenant connectionID w of
                 (Inl err, w1) \<Rightarrow> (Some err, w1)
               | (Inr True, w1) \<Rightarrow>
                   (Some (NewEngineError CategoryConflict ''connection has active executions''), w1)
               | (Inr False, w1) \<Rightarrow> (None, w1))))"

definition AuthorizeConnectionAccess ::
  "'w Engine \<Rightarrow> TenantContext \<Rightarrow> 'w \<Rightarrow> goerror option \<times> 'w" where
  "AuthorizeConnectionAccess e tenant =
     with_span e ''engine.connection.authorize_access'' (\<lambda>w. (validateTenantScope tenant, w))"

record ConnectionTestResult =
  ct_Success :: bool
  ct_ConfigName :: string

text \<open>Build a connector for a descriptor; a build error and a nil connector are one failure.\<close>

definition buildConnector ::
  "'w Engine \<Rightarrow> ConnectionDescriptor \<Rightarrow> 'w \<Rightarrow> ('w ConnectorRegistry \<times> nat) res \<times> 'w" where
  "buildConnector e descriptor w =
     (case requireConnectorFactory e (d_Type descriptor) w of
        Inl err \<Rightarrow> (Inl err, w)
      | Inr (reg, factory) \<Rightarrow>
         (case Build reg factory descriptor w of
            (Inr (Some connector), w1) \<Rightarrow> (Inr (reg, connector), w1)
          | (_, w1) \<Rightarrow>
              (Inl (NewEngineError CategoryUnavailable ''failed to build connector for connection''), w1)))"

definition TestConnection ::
  "'w Engine \<Rightarrow> TenantContext \<Rightarrow> string \<Rightarrow> 'w \<Rightarrow> ConnectionTestResult res \<times> 'w" where
  "TestConnection e tenant configName =
     with_span e ''engine.connection.test'' (scoped e tenant (\<lambda>store w.
       case found_or ''connection not found'' (FindConnection store tenant configName w) of
         (Inl err, w1) \<Rightarrow> (Inl err, w1)
       | (Inr descriptor, w1) \<Rightarrow>
          (case buildConnector e descriptor w1 of
             (Inl err, w2) \<Rightarrow> (Inl err, w2)
           | (Inr (reg, connector), w2) \<Rightarrow>
              (case ConnTest reg connector w2 of
                 (Some _, w3) \<Rightarrow>
                   (Inl (NewEngineError CategoryConnect ''failed to connect to datasource''),
                    snd (ConnClose reg connector w3))
               | (None, w3) \<Rightarrow>
                   (Inr \<lparr>ct_Success = True, ct_ConfigName = d_ConfigName descriptor\<rparr>,
                    snd (ConnClose reg connector w3))))))"

lemma buildConnector_Inr:
  assumes "buildConnector e d w = (Inr (reg, c), w')"
  shows "\<exists>f. connectorRegistry (options e) = Some reg \<and> Connector reg (d_Type d) w = (Some f, True) \<and>
    Build reg f d w = (Inr (Some c), w')"
proof (cases "requireConnectorFactory e (d_Type d) w")
  case (Inl err)
  with assms show ?thesis by (simp add: buildConnector_def)
next
  case (Inr rf)
  obtain reg' f where rf: "rf = (reg', f)" by (cases rf)
  obtain r w1 where b: "Build reg' f d w = (r, w1)" by fastforce
  with assms Inr rf have "r = Inr (Some c) \<and> reg' = reg \<and> w1 = w'"
    by (simp add: buildConnector_def split: sum.splits option.splits)
  with requireConnectorFactory_Inr[OF Inr[unfolded rf]] b show ?thesis by blast
qed
subsection \<open>The contract of a connection store\<close>

text \<open>
  What \<^verbatim>\<open>ports.go\<close> promises of a \<^verbatim>\<open>ConnectionStore\<close>, over an abstraction of
  its state: the record (descriptor and protected credential) each tenant holds under
  each config name. Any call may fail for infrastructure reasons; a failed call changes
  no record.
\<close>

type_synonym stored = "ConnectionDescriptor \<times> ProtectedCredential option"
type_synonym conn_view = "string \<Rightarrow> string \<Rightarrow> stored option"

definition put :: "conn_view \<Rightarrow> string \<Rightarrow> string \<Rightarrow> stored option \<Rightarrow> conn_view" where
  "put v tid c x = v(tid := (v tid)(c := x))"

lemma put_apply [simp]: "put v tid c x tid' c' = (if tid' = tid \<and> c' = c then x else v tid' c')"
  by (simp add: put_def)

lemma put_other_tenant: "tid' \<noteq> tid \<Longrightarrow> put v tid c x tid' = v tid'"
  by (simp add: put_def)

definition keep_secret :: "ProtectedCredential option \<Rightarrow> stored \<Rightarrow> ProtectedCredential option" where
  "keep_secret credential old = (case credential of None \<Rightarrow> snd old | Some x \<Rightarrow> Some x)"

locale connection_store =
  fixes cs :: "'w ConnectionStore"
    and view :: "'w \<Rightarrow> conn_view"
    and wf :: "'w \<Rightarrow> bool"
  assumes find_law: "wf w \<Longrightarrow> FindConnection cs t c w = (r, w') \<Longrightarrow>
      wf w' \<and> view w' = view w \<and> (\<forall>x. r = Inr x \<longrightarrow> x = map_option fst (view w (TenantID t) c))"
    and create_law: "wf w \<Longrightarrow> Create cs t d cred w = (rc, w') \<Longrightarrow>
      wf w' \<and> (case rc of
        None \<Rightarrow> view w (TenantID t) (d_ConfigName d) = None \<and>
                view w' = put (view w) (TenantID t) (d_ConfigName d) (Some (d, cred))
      | Some _ \<Rightarrow> view w' = view w)"
    and update_law: "wf w \<Longrightarrow> Update cs t d cred w = (rc, w') \<Longrightarrow>
      wf w' \<and> (case rc of
        None \<Rightarrow> (\<exists>old. view w (TenantID t) (d_ConfigName d) = Some old \<and>
                view w' = put (view w) (TenantID t) (d_ConfigName d) (Some (d, keep_secret cred old)))
      | Some _ \<Rightarrow> view w' = view w)"
    and delete_law: "wf w \<Longrightarrow> Delete cs t c w = (rc, w') \<Longrightarrow>
      wf w' \<and> (case rc of
        None \<Rightarrow> view w (TenantID t) c \<noteq> None \<and> view w' = put (view w) (TenantID t) c None
      | Some _ \<Rightarrow> view w' = view w)"
    and list_law: "wf w \<Longrightarrow> ListAll cs t w = (rl, w') \<Longrightarrow>
      wf w' \<and> view w' = view w \<and>
      (\<forall>ds. rl = Inr ds \<longrightarrow> set ds = {d. \<exists>c k. view w (TenantID t) c = Some (d, k)} \<and>
         sorted (map d_ConfigName ds))"
    and named: "wf w \<Longrightarrow> view w tid c = Some (d, k) \<Longrightarrow> d_ConfigName d = c"
begin

lemma find_None_iff:
  "wf w \<Longrightarrow> FindConnection cs t c w = (Inr x, w') \<Longrightarrow> x = None \<longleftrightarrow> view w (TenantID t) c = None"
  using find_law by fastforce

end

lemma protectDescriptor_result:
  assumes "protectDescriptor e t secret d w = (Inr (d', cred), w')"
  shows "(if encryptedPersistence (options e) \<and> secret \<noteq> None
          then \<exists>p ct kv. credentialProtector (options e) = Some p \<and>
                 Protect p t (the secret) w = (Inr (ct, kv), w') \<and>
                 cred = Some \<lparr>Ciphertext = ct, KeyVersion = kv\<rparr> \<and> d' = d\<lparr>d_KeyVersion := kv\<rparr>
          else d' = d \<and> cred = None \<and> w' = w)"
  using assms
  by (auto simp: protectDescriptor_def protectSecret_def requireCredentialProtector_def
      split: prod.splits sum.splits option.splits bool.splits)

lemma protectDescriptor_name:
  "protectDescriptor e t secret d w = (Inr (d', cred), w') \<Longrightarrow> d_ConfigName d' = d_ConfigName d"
  by (drule protectDescriptor_result) (auto split: if_splits)

lemma applyConnectionPatch_name [simp]:
  "d_ConfigName (applyConnectionPatch d patch) = d_ConfigName d"
  by (simp add: applyConnectionPatch_def)

text \<open>An Engine over such a store: its other ports leave the connection records alone.\<close>

locale connection_engine = connection_store cs view wf
  for cs :: "'w ConnectionStore" and view :: "'w \<Rightarrow> conn_view" and wf :: "'w \<Rightarrow> bool" +
  fixes e :: "'w Engine"
  assumes store: "connectionStore (options e) = Some cs"
    and protect_frame: "credentialProtector (options e) = Some p \<Longrightarrow> Protect p t s w = (r, w') \<Longrightarrow>
      view w' = view w \<and> (wf w \<longrightarrow> wf w')"
    and checker_frame: "activeExecutionChecker (options e) = Some ch \<Longrightarrow>
      HasActiveExecutions ch t c w = (ra, w') \<Longrightarrow> view w' = view w \<and> (wf w \<longrightarrow> wf w')"
    and span_frame: "observability (options e) = Some obs \<Longrightarrow>
      view (StartSpan obs op w) = view w \<and> view (EndSpan obs op w) = view w \<and>
      (wf w \<longrightarrow> wf (StartSpan obs op w) \<and> wf (EndSpan obs op w))"
begin

lemma span_view:
  assumes "with_span e op body w = (r, w')" and "wf w"
  obtains w1 w2 where "body w1 = (r, w2)" "view w1 = view w" "view w' = view w2" "wf w1"
    "wf w2 \<longrightarrow> wf w'"
  using assms span_frame
  by (elim with_span_cases) (auto split: option.splits)

lemma scoped_store: "isValidTenantID (TenantID t) \<Longrightarrow> scoped e t body w = body cs w"
  by (simp add: port_simps store)

lemma scoped_elim:
  assumes "scoped e t body w = (r, w')"
  obtains (guard) err where "r = Inl err" "w' = w"
  | (body) "isValidTenantID (TenantID t)" "body cs w = (r, w')"
  using assms by (elim scoped_cases) (auto simp: store)

lemma protect_view:
  assumes "protectDescriptor e t secret d w = (r, w')" and "wf w"
  shows "view w' = view w \<and> wf w' \<and> (\<forall>d' cred. r = Inr (d', cred) \<longrightarrow> d_ConfigName d' = d_ConfigName d)"
  using assms
  by (auto simp: protectDescriptor_def protectSecret_def requireCredentialProtector_def
      dest: protect_frame split: prod.splits sum.splits option.splits bool.splits)

lemma guard_view:
  assumes "guardActiveExecutions e t c w = (r, w')" and "wf w"
  shows "view w' = view w \<and> wf w'"
  using assms
  by (auto simp: guardActiveExecutions_def dest: checker_frame
      split: prod.splits sum.splits option.splits bool.splits)

lemma found_view:
  assumes "found_or m (FindConnection cs t c w) = (r, w')" and "wf w"
  shows "view w' = view w \<and> wf w' \<and> (\<forall>d. r = Inr d \<longrightarrow> map_option fst (view w (TenantID t) c) = Some d)"
  using assms find_law[of w t c]
  by (auto simp: found_or_def split: prod.splits sum.splits option.splits)

lemmas port_views = find_law[rotated] protect_view guard_view found_view
  create_law[rotated] update_law[rotated] delete_law[rotated] list_law[rotated]

lemmas port_splits = prod.splits sum.splits option.splits

lemma create_ok:
  assumes "CreateConnection e t input w = (Inr d, w')" and "wf w"
  shows "isValidTenantID (TenantID t) \<and> d_ConfigName d = in_ConfigName input \<and>
    view w (TenantID t) (in_ConfigName input) = None \<and> wf w' \<and>
    (\<exists>cred. view w' = put (view w) (TenantID t) (in_ConfigName input) (Some (d, cred)))"
  using assms unfolding CreateConnection_def
  by (elim span_view scoped_elim) (auto simp: Let_def split: port_splits dest!: port_views)

lemma create_err:
  assumes "CreateConnection e t input w = (Inl err, w')" and "wf w"
  shows "view w' = view w \<and> wf w'"
  using assms unfolding CreateConnection_def
  by (elim span_view scoped_elim) (auto simp: Let_def split: port_splits dest!: port_views)

lemma get_result:
  assumes "GetConnection e t c w = (r, w')" and "wf w"
  shows "view w' = view w \<and> wf w' \<and>
    (\<forall>d. r = Inr d \<longrightarrow> map_option fst (view w (TenantID t) c) = Some d)"
  using assms unfolding GetConnection_def
  by (elim span_view scoped_elim) (auto dest!: port_views)

lemma list_result:
  assumes "ListConnections e t w = (Inr ds, w')" and "wf w"
  shows "view w' = view w \<and> wf w' \<and> sorted (map d_ConfigName ds) \<and>
    set ds = {d. \<exists>c k. view w (TenantID t) c = Some (d, k)}"
proof -
  from assms(1)[unfolded ListConnections_def] assms(2) obtain w1 w2 where
    b: "scoped e t (\<lambda>store. ListAll store t) w1 = (Inr ds, w2)" and
    v: "view w1 = view w" "view w' = view w2" "wf w1" "wf w2 \<longrightarrow> wf w'"
    by (rule span_view)
  from b have "ListAll cs t w1 = (Inr ds, w2)" by (rule scoped_elim) simp_all
  from list_law[OF v(3) this] v show ?thesis by simp
qed

lemma update_ok:
  assumes "UpdateConnection e t c patch w = (Inr d, w')" and "wf w"
  shows "wf w' \<and> (\<exists>d0 k0 kv cred. view w (TenantID t) c = Some (d0, k0) \<and>
    d = (applyConnectionPatch d0 patch)\<lparr>d_KeyVersion := kv\<rparr> \<and>
    (cred = None \<longrightarrow> kv = d_KeyVersion d0) \<and>
    view w' = put (view w) (TenantID t) c (Some (d, keep_secret cred (d0, k0))))"
  using assms unfolding UpdateConnection_def
proof (elim span_view scoped_elim, simp_all, goal_cases)
  case (1 w1 w2)
  then obtain cur wa wb wc cred where
    a: "found_or ''connection not found'' (FindConnection cs t c w1) = (Inr cur, wa)" and
    b: "guardActiveExecutions e t c wa = (None, wb)" and
    p: "protectDescriptor e t (if patch_HasPassword patch then cp_password patch else None)
          (applyConnectionPatch cur patch) wb = (Inr (d, cred), wc)" and
    u: "Update cs t d cred wc = (None, w2)"
    by (auto split: port_splits)
  from found_view[OF a] 1 have f: "view wa = view w" "wf wa"
      "map_option fst (view w (TenantID t) c) = Some cur"
    by auto
  then obtain k0 where v: "view w (TenantID t) c = Some (cur, k0)" by auto
  from named[of w] v 1 have n: "d_ConfigName cur = c" by blast
  from guard_view[OF b] f have g: "view wb = view w" "wf wb" by auto
  from protect_view[OF p] g n have q: "view wc = view w" "wf wc" "d_ConfigName d = c" by auto
  from update_law[OF _ u] q v have w2: "wf w2"
      "view w2 = put (view w) (TenantID t) c (Some (d, keep_secret cred (cur, k0)))"
    by auto
  have "\<exists>kv. d = (applyConnectionPatch cur patch)\<lparr>d_KeyVersion := kv\<rparr> \<and>
      (cred = None \<longrightarrow> kv = d_KeyVersion cur)"
    using protectDescriptor_result[OF p]
    by (fastforce simp: applyConnectionPatch_def split: if_splits)
  with v w2 1 show ?case by auto
qed

lemma update_err:
  assumes "UpdateConnection e t c patch w = (Inl err, w')" and "wf w"
  shows "view w' = view w \<and> wf w'"
  using assms unfolding UpdateConnection_def
  by (elim span_view scoped_elim) (auto split: port_splits dest!: port_views)

lemma delete_ok:
  assumes "DeleteConnection e t c w = (Inr u, w')" and "wf w"
  shows "view w (TenantID t) c \<noteq> None \<and> wf w' \<and> view w' = put (view w) (TenantID t) c None"
  using assms unfolding DeleteConnection_def
  by (elim span_view scoped_elim) (auto simp: unit_res_def split: port_splits dest!: port_views)

lemma delete_err:
  assumes "DeleteConnection e t c w = (Inl err, w')" and "wf w"
  shows "view w' = view w \<and> wf w'"
  using assms unfolding DeleteConnection_def
  by (elim span_view scoped_elim) (auto simp: unit_res_def split: port_splits dest!: port_views)

end

end
