(* ===== verification/Engine_Schema.thy ===== *)
theory Engine_Schema
  imports Engine_Connections
begin

text \<open>
  \<^verbatim>\<open>pkg/engine/schema_ops.go\<close>: cache-first schema discovery and the validation of a
  mapping against a schema snapshot. \<open>SearchStrings\<close> is the binary search of
  \<^verbatim>\<open>sort.SearchStrings\<close>; \<open>has\<close> uses it as the code does, and
  \<open>has_iff\<close> states what it decides.
\<close>

subsection \<open>Discovery\<close>

definition cachedSchema ::
  "'w Engine \<Rightarrow> TenantContext \<Rightarrow> string \<Rightarrow> 'w \<Rightarrow> SchemaSnapshot option \<times> 'w" where
  "cachedSchema e tenant configName w =
     (case schemaCache (options e) of
        None \<Rightarrow> (None, w)
      | Some cache \<Rightarrow>
         (case GetSchema cache tenant configName w of
            (Inl _, w1) \<Rightarrow> (None, w1)
          | (Inr snapshot, w1) \<Rightarrow> (snapshot, w1)))"

definition cacheSchema :: "'w Engine \<Rightarrow> TenantContext \<Rightarrow> SchemaSnapshot \<Rightarrow> 'w \<Rightarrow> 'w" where
  "cacheSchema e tenant snapshot w =
     (case schemaCache (options e) of
        None \<Rightarrow> w
      | Some cache \<Rightarrow> snd (PutSchema cache tenant snapshot w))"

text \<open>
  A connect-stage failure passes through unchanged; any other discovery failure is
  replaced by a redacted one.
\<close>

definition discoverError :: "goerror \<Rightarrow> goerror" where
  "discoverError err =
     (case asEngineError err of
        Some engErr \<Rightarrow>
          if Category engErr = CategoryConnect then engErr
          else NewEngineError CategoryUnavailable ''failed to discover datasource schema''
      | None \<Rightarrow> NewEngineError CategoryUnavailable ''failed to discover datasource schema'')"

definition discoverLive ::
  "'w Engine \<Rightarrow> TenantContext \<Rightarrow> ConnectionDescriptor \<Rightarrow> bool \<Rightarrow> 'w \<Rightarrow> SchemaSnapshot res \<times> 'w" where
  "discoverLive e tenant descriptor skipCache w =
     (case buildConnector e descriptor w of
        (Inl err, w1) \<Rightarrow> (Inl err, w1)
      | (Inr (reg, connector), w1) \<Rightarrow>
         (case ConnDiscover reg connector w1 of
            (Inl err, w2) \<Rightarrow> (Inl (discoverError err), snd (ConnClose reg connector w2))
          | (Inr snapshot0, w2) \<Rightarrow>
             (let snapshot = snapshot0\<lparr>sn_ConfigName := d_ConfigName descriptor\<rparr>;
                  w3 = (if skipCache then w2 else cacheSchema e tenant snapshot w2)
              in (Inr snapshot, snd (ConnClose reg connector w3)))))"

definition resolveSchema ::
  "'w Engine \<Rightarrow> TenantContext \<Rightarrow> ConnectionDescriptor \<Rightarrow> bool \<Rightarrow> 'w \<Rightarrow> SchemaSnapshot res \<times> 'w" where
  "resolveSchema e tenant descriptor skipCache w =
     (if skipCache then discoverLive e tenant descriptor True w
      else (case cachedSchema e tenant (d_ConfigName descriptor) w of
              (Some snapshot, w1) \<Rightarrow> (Inr snapshot, w1)
            | (None, w1) \<Rightarrow> discoverLive e tenant descriptor False w1))"

definition discoverWith ::
  "string \<Rightarrow> bool \<Rightarrow> 'w Engine \<Rightarrow> TenantContext \<Rightarrow> string \<Rightarrow> 'w \<Rightarrow> SchemaSnapshot res \<times> 'w" where
  "discoverWith span skipCache e tenant configName =
     with_span e span (scoped e tenant (\<lambda>store w.
       case found_or ''connection not found'' (FindConnection store tenant configName w) of
         (Inl err, w1) \<Rightarrow> (Inl err, w1)
       | (Inr descriptor, w1) \<Rightarrow> resolveSchema e tenant descriptor skipCache w1))"

definition DiscoverSchema ::
  "'w Engine \<Rightarrow> TenantContext \<Rightarrow> string \<Rightarrow> 'w \<Rightarrow> SchemaSnapshot res \<times> 'w" where
  "DiscoverSchema = discoverWith ''engine.schema.discover'' False"

definition DiscoverSchemaFresh ::
  "'w Engine \<Rightarrow> TenantContext \<Rightarrow> string \<Rightarrow> 'w \<Rightarrow> SchemaSnapshot res \<times> 'w" where
  "DiscoverSchemaFresh = discoverWith ''engine.schema.discover_fresh'' True"

subsection \<open>Validation contracts\<close>

type_synonym ValidationFailureType = string

abbreviation ValidationDatasourceNotFound :: ValidationFailureType where
  "ValidationDatasourceNotFound \<equiv> ''datasource_not_found''"
abbreviation ValidationTableNotFound :: ValidationFailureType where
  "ValidationTableNotFound \<equiv> ''table_not_found''"
abbreviation ValidationFieldNotFound :: ValidationFailureType where
  "ValidationFieldNotFound \<equiv> ''field_not_found''"
abbreviation ValidationInvalidFilter :: ValidationFailureType where
  "ValidationInvalidFilter \<equiv> ''invalid_filter''"
abbreviation ValidationLimitExceeded :: ValidationFailureType where
  "ValidationLimitExceeded \<equiv> ''limit_exceeded''"

record TableMapping =
  tm_Name :: string
  tm_Fields :: "string list"
  tm_FilterFields :: "string list"

record DatasourceMapping =
  dm_ConfigName :: string
  dm_Tables :: "TableMapping list"

record SchemaValidationRequest =
  Datasources :: "DatasourceMapping list"

record ValidationFailure =
  vf_Type :: ValidationFailureType
  vf_ConfigName :: string
  vf_Table :: string
  vf_Field :: string
  vf_Detail :: string

record ValidationReport =
  Valid :: bool
  Failures :: "ValidationFailure list"

subsection \<open>Field lookup\<close>

record fieldIndex =
  exact :: "(string, unit) gomap"
  sorted_names :: "string list"

text \<open>
  \<^verbatim>\<open>sort.Search\<close>: halve \<open>[i, j)\<close> until it is empty. The Go code computes
  \<^verbatim>\<open>int(uint(i+j) >> 1)\<close>, which is the floor of the mean.
\<close>

function search :: "(nat \<Rightarrow> bool) \<Rightarrow> nat \<Rightarrow> nat \<Rightarrow> nat" where
  "search f i j =
     (if i < j then
        (let h = (i + j) div 2 in if \<not> f h then search f (Suc h) j else search f i h)
      else i)"
  by pat_completeness auto
termination
  by (relation "measure (\<lambda>(f, i, j). j - i)") auto

declare search.simps [simp del]

definition SearchStrings :: "string list \<Rightarrow> string \<Rightarrow> nat" where
  "SearchStrings a x = search (\<lambda>i. a ! i \<ge> x) 0 (length a)"

definition has :: "fieldIndex \<Rightarrow> string \<Rightarrow> bool" where
  "has i name \<longleftrightarrow>
     map_of (exact i) name \<noteq> None \<or>
     (let pre = name @ ''.''; p = SearchStrings (sorted_names i) pre
      in p < length (sorted_names i) \<and> prefix pre (sorted_names i ! p))"

definition field_index :: "string list \<Rightarrow> fieldIndex" where
  "field_index names =
     \<lparr>exact = foldl (\<lambda>m f. AList.update f () m) [] names, sorted_names = sort names\<rparr>"

definition indexSnapshotFields :: "SchemaSnapshot \<Rightarrow> (string, fieldIndex) gomap" where
  "indexSnapshotFields snapshot =
     foldl (\<lambda>index table. AList.update (tb_Name table) (field_index (tb_Fields table)) index) []
       (sn_Tables snapshot)"

subsection \<open>Validation\<close>

definition fieldFailures ::
  "fieldIndex \<Rightarrow> ValidationFailureType \<Rightarrow> string \<Rightarrow> string \<Rightarrow> string \<Rightarrow> string list \<Rightarrow> ValidationFailure list" where
  "fieldFailures index ty configName table detail names =
     map (\<lambda>f. \<lparr>vf_Type = ty, vf_ConfigName = configName, vf_Table = table, vf_Field = f,
                vf_Detail = detail\<rparr>)
       (filter (\<lambda>f. \<not> has index f) names)"

definition tableFailures ::
  "string \<Rightarrow> (string, fieldIndex) gomap \<Rightarrow> TableMapping \<Rightarrow> ValidationFailure list" where
  "tableFailures configName fieldsByTable table =
     (case map_of fieldsByTable (tm_Name table) of
        None \<Rightarrow>
          [\<lparr>vf_Type = ValidationTableNotFound, vf_ConfigName = configName, vf_Table = tm_Name table,
            vf_Field = [], vf_Detail = ''table not found in datasource schema''\<rparr>]
      | Some index \<Rightarrow>
          fieldFailures index ValidationFieldNotFound configName (tm_Name table)
            ''field not found in table schema'' (tm_Fields table) @
          fieldFailures index ValidationInvalidFilter configName (tm_Name table)
            ''filter references a field not found in table schema'' (tm_FilterFields table))"

definition validateMappingAgainstSnapshot ::
  "DatasourceMapping \<Rightarrow> SchemaSnapshot \<Rightarrow> ValidationFailure list" where
  "validateMappingAgainstSnapshot datasource snapshot =
     concat (map (tableFailures (dm_ConfigName datasource) (indexSnapshotFields snapshot))
               (dm_Tables datasource))"

definition blankNameError :: "string \<Rightarrow> string \<Rightarrow> goerror option" where
  "blankNameError what name =
     (if isBlank name
      then Some (NewEngineError CategoryValidation (''schema validation request has a blank '' @ what))
      else None)"

definition blankTableName :: "TableMapping \<Rightarrow> goerror option" where
  "blankTableName table =
     (case blankNameError ''table name'' (tm_Name table) of
        Some err \<Rightarrow> Some err
      | None \<Rightarrow>
         (case first_error (blankNameError ''field name'') (tm_Fields table) of
            Some err \<Rightarrow> Some err
          | None \<Rightarrow> first_error (blankNameError ''filter field name'') (tm_FilterFields table)))"

definition blankDatasourceName :: "DatasourceMapping \<Rightarrow> goerror option" where
  "blankDatasourceName datasource =
     (case blankNameError ''datasource config name'' (dm_ConfigName datasource) of
        Some err \<Rightarrow> Some err
      | None \<Rightarrow> first_error blankTableName (dm_Tables datasource))"

definition validateRequestNames :: "SchemaValidationRequest \<Rightarrow> goerror option" where
  "validateRequestNames request = first_error blankDatasourceName (Datasources request)"

definition limitFailure :: "string \<Rightarrow> string \<Rightarrow> string \<Rightarrow> ValidationFailure" where
  "limitFailure configName table detail =
     \<lparr>vf_Type = ValidationLimitExceeded, vf_ConfigName = configName, vf_Table = table,
      vf_Field = [], vf_Detail = detail\<rparr>"

definition over :: "int \<Rightarrow> 'a list \<Rightarrow> bool" where
  "over maximum xs \<longleftrightarrow> maximum > 0 \<and> int (length xs) > maximum"

definition limitFailures :: "SchemaValidationRequest \<Rightarrow> Limits \<Rightarrow> ValidationFailure list" where
  "limitFailures request l =
     (if over (MaxDatasources l) (Datasources request)
      then [limitFailure [] [] ''datasource count exceeds the configured limit''] else []) @
     concat (map (\<lambda>datasource.
       (if over (MaxTablesPerDatasource l) (dm_Tables datasource)
        then [limitFailure (dm_ConfigName datasource) [] ''table count exceeds the configured limit'']
        else []) @
       concat (map (\<lambda>table.
         (if over (MaxFieldsPerTable l) (tm_Fields table)
          then [limitFailure (dm_ConfigName datasource) (tm_Name table)
                  ''field count exceeds the configured limit''] else []) @
         (if over (MaxFieldsPerTable l) (tm_FilterFields table)
          then [limitFailure (dm_ConfigName datasource) (tm_Name table)
                  ''filter count exceeds the configured limit''] else []))
         (dm_Tables datasource)))
       (Datasources request))"

definition failure_key :: "ValidationFailure \<Rightarrow> string \<times> string \<times> string \<times> string" where
  "failure_key f = (vf_ConfigName f, vf_Table f, vf_Type f, vf_Field f)"

definition newValidationReport :: "ValidationFailure list \<Rightarrow> ValidationReport" where
  "newValidationReport failures =
     (if failures = [] then \<lparr>Valid = True, Failures = []\<rparr>
      else \<lparr>Valid = False, Failures = sort_key failure_key failures\<rparr>)"

definition validateDatasource ::
  "'w Engine \<Rightarrow> TenantContext \<Rightarrow> 'w ConnectionStore \<Rightarrow> DatasourceMapping \<Rightarrow> 'w \<Rightarrow>
   ValidationFailure list res \<times> 'w" where
  "validateDatasource e tenant store datasource w =
     (case FindConnection store tenant (dm_ConfigName datasource) w of
        (Inl err, w1) \<Rightarrow> (Inl err, w1)
      | (Inr None, w1) \<Rightarrow>
          (Inr [\<lparr>vf_Type = ValidationDatasourceNotFound, vf_ConfigName = dm_ConfigName datasource,
                 vf_Table = [], vf_Field = [],
                 vf_Detail = ''no connection configured for the requested datasource''\<rparr>], w1)
      | (Inr (Some descriptor), w1) \<Rightarrow>
          (case resolveSchema e tenant descriptor False w1 of
             (Inl err, w2) \<Rightarrow> (Inl err, w2)
           | (Inr snapshot, w2) \<Rightarrow> (Inr (validateMappingAgainstSnapshot datasource snapshot), w2)))"

fun validateDatasources ::
  "'w Engine \<Rightarrow> TenantContext \<Rightarrow> 'w ConnectionStore \<Rightarrow> DatasourceMapping list \<Rightarrow> 'w \<Rightarrow>
   ValidationFailure list res \<times> 'w" where
  "validateDatasources e tenant store [] w = (Inr [], w)"
| "validateDatasources e tenant store (ds # dss) w =
     (case validateDatasource e tenant store ds w of
        (Inl err, w1) \<Rightarrow> (Inl err, w1)
      | (Inr dsFailures, w1) \<Rightarrow>
          (case validateDatasources e tenant store dss w1 of
             (Inl err, w2) \<Rightarrow> (Inl err, w2)
           | (Inr failures, w2) \<Rightarrow> (Inr (dsFailures @ failures), w2)))"

text \<open>\<^verbatim>\<open>context.WithTimeout\<close> with the deferred cancel, when the timeout is positive.\<close>

definition with_timeout :: "'w Engine \<Rightarrow> int \<Rightarrow> ('w \<Rightarrow> 'a \<times> 'w) \<Rightarrow> 'w \<Rightarrow> 'a \<times> 'w" where
  "with_timeout e timeout body w =
     (if timeout > 0
      then (case body (ctx_WithTimeout (rt e) timeout w) of (r, w') \<Rightarrow> (r, ctx_Cancel (rt e) w'))
      else body w)"

text \<open>Under the deadline: the structural limits first, then each datasource in order.\<close>

definition validateUnderLimits ::
  "'w Engine \<Rightarrow> TenantContext \<Rightarrow> SchemaValidationRequest \<Rightarrow> Limits \<Rightarrow> 'w ConnectionStore \<Rightarrow> 'w \<Rightarrow>
   ValidationReport res \<times> 'w" where
  "validateUnderLimits e tenant request l store w =
     (if limitFailures request l \<noteq> []
      then (Inr (newValidationReport (limitFailures request l)), w)
      else
        (case validateDatasources e tenant store (Datasources request) w of
           (Inl err, w1) \<Rightarrow> (Inl err, w1)
         | (Inr failures, w1) \<Rightarrow> (Inr (newValidationReport failures), w1)))"

definition validateStages ::
  "'w Engine \<Rightarrow> TenantContext \<Rightarrow> SchemaValidationRequest \<Rightarrow> Limits \<Rightarrow> 'w ConnectionStore \<Rightarrow> 'w \<Rightarrow>
   ValidationReport res \<times> 'w" where
  "validateStages e tenant request l store w =
     (if Datasources request = []
      then (Inl (NewEngineError CategoryValidation ''schema validation request has no datasources''), w)
      else
        (case validateRequestNames request of
           Some err \<Rightarrow> (Inl err, w)
         | None \<Rightarrow> with_timeout e (Timeout l) (validateUnderLimits e tenant request l store) w))"

definition validateSchemaWithLimits ::
  "'w Engine \<Rightarrow> TenantContext \<Rightarrow> SchemaValidationRequest \<Rightarrow> Limits \<Rightarrow> 'w \<Rightarrow> ValidationReport res \<times> 'w" where
  "validateSchemaWithLimits e tenant request l =
     with_span e ''engine.schema.validate'' (scoped e tenant (validateStages e tenant request l))"

definition ValidateSchema ::
  "'w Engine \<Rightarrow> TenantContext \<Rightarrow> SchemaValidationRequest \<Rightarrow> 'w \<Rightarrow> ValidationReport res \<times> 'w" where
  "ValidateSchema e tenant request = validateSchemaWithLimits e tenant request (limits (options e))"

subsection \<open>Binary search and the prefix probe\<close>

text \<open>For a monotone predicate the search returns the boundary.\<close>

lemma search_boundary:
  assumes "i \<le> j" and mono: "\<And>a b. a \<le> b \<Longrightarrow> b < n \<Longrightarrow> f a \<Longrightarrow> f b" and "j \<le> n"
    and "\<And>k. k < i \<Longrightarrow> \<not> f k" and "\<And>k. j \<le> k \<Longrightarrow> k < n \<Longrightarrow> f k"
  shows "(\<forall>k < search f i j. \<not> f k) \<and> (\<forall>k. search f i j \<le> k \<and> k < n \<longrightarrow> f k)"
  using assms(1,3-)
proof (induction "j - i" arbitrary: i j rule: less_induct)
  case less
  show ?case
  proof (cases "i < j")
    case False
    then have "search f i j = i" by (simp add: search.simps[of f i j])
    with less.prems False show ?thesis by auto
  next
    case True
    define h where "h = (i + j) div 2"
    from True have h: "i \<le> h" "h < j" by (auto simp: h_def)
    show ?thesis
    proof (cases "f h")
      case True
      then have s: "search f i j = search f i h"
        using \<open>i < j\<close> by (simp add: search.simps[of f i j] Let_def h_def)
      have "(\<forall>k < search f i h. \<not> f k) \<and> (\<forall>k. search f i h \<le> k \<and> k < n \<longrightarrow> f k)"
        using True h less.prems by (intro less.hyps) (auto intro: mono)
      with s show ?thesis by simp
    next
      case False
      then have s: "search f i j = search f (Suc h) j"
        using \<open>i < j\<close> by (simp add: search.simps[of f i j] Let_def h_def)
      have "\<not> f k" if "k < Suc h" for k
        using that False mono[of k h] h less.prems(2) by auto
      then have "(\<forall>k < search f (Suc h) j. \<not> f k) \<and> (\<forall>k. search f (Suc h) j \<le> k \<and> k < n \<longrightarrow> f k)"
        using h less.prems by (intro less.hyps) auto
      with s show ?thesis by simp
    qed
  qed
qed

lemma SearchStrings_boundary:
  assumes "sorted a"
  shows "(\<forall>k < SearchStrings a x. a ! k < x) \<and>
         (\<forall>k. SearchStrings a x \<le> k \<and> k < length a \<longrightarrow> x \<le> a ! k)"
proof -
  have "(\<forall>k < search (\<lambda>i. a ! i \<ge> x) 0 (length a). \<not> a ! k \<ge> x) \<and>
        (\<forall>k. search (\<lambda>i. a ! i \<ge> x) 0 (length a) \<le> k \<and> k < length a \<longrightarrow> a ! k \<ge> x)"
    by (rule search_boundary) (use assms in \<open>auto intro: order_trans dest: sorted_nth_mono\<close>)
  then show ?thesis by (auto simp: SearchStrings_def not_le)
qed

text \<open>Nothing without the prefix \<open>p\<close> lies between \<open>p\<close> and a string with that prefix.\<close>

lemma between_prefix:
  fixes p :: string
  shows "p \<le> y \<Longrightarrow> y \<le> p @ s \<Longrightarrow> prefix p y"
proof (induction p arbitrary: y)
  case Nil
  then show ?case by simp
next
  case (Cons a p)
  then obtain b y' where "y = b # y'" by (cases y) auto
  with Cons show ?case by auto
qed

lemma le_append_self: "(p :: string) \<le> p @ s"
  by (induction p) auto

lemma probe_iff:
  assumes "sorted a"
  shows "(let i = SearchStrings a p in i < length a \<and> prefix p (a ! i)) \<longleftrightarrow> (\<exists>f \<in> set a. prefix p f)"
proof (cases "SearchStrings a p < length a")
  case True
  have "prefix p (a ! SearchStrings a p)" if f: "f \<in> set a" "prefix p f" for f
  proof -
    obtain k where k: "k < length a" "a ! k = f" using f(1) by (auto simp: in_set_conv_nth)
    obtain s where s: "f = p @ s" using f(2) by (auto simp: prefix_def)
    have le: "p \<le> f" using s le_append_self by simp
    with SearchStrings_boundary[OF assms, of p] k have "SearchStrings a p \<le> k"
      by (meson leD not_le_imp_less)
    then have "a ! SearchStrings a p \<le> p @ s"
      using sorted_nth_mono[OF assms] k s by metis
    moreover have "p \<le> a ! SearchStrings a p"
      using SearchStrings_boundary[OF assms, of p] True by auto
    ultimately show ?thesis by (rule between_prefix[rotated])
  qed
  with True show ?thesis by (auto simp: Let_def)
next
  case False
  have "\<not> prefix p f" if f: "f \<in> set a" for f
  proof
    assume "prefix p f"
    then have "p \<le> f" using le_append_self by (auto simp: prefix_def)
    moreover obtain k where "k < length a" "a ! k = f" using f by (auto simp: in_set_conv_nth)
    moreover have "\<forall>k < SearchStrings a p. a ! k < p" using SearchStrings_boundary[OF assms] by blast
    ultimately show False using False by (meson leD less_le_trans not_le_imp_less)
  qed
  with False show ?thesis by (auto simp: Let_def)
qed

subsection \<open>What validation decides\<close>

text \<open>The matching rule, stated on the column list: an exact column or a parent object.\<close>

definition field_matches :: "string list \<Rightarrow> string \<Rightarrow> bool" where
  "field_matches columns name \<longleftrightarrow> name \<in> set columns \<or> (\<exists>c \<in> set columns. prefix (name @ ''.'') c)"

lemma foldl_update_dom:
  "map_of (foldl (\<lambda>m f. AList.update f () m) acc fs) name \<noteq> None \<longleftrightarrow>
     name \<in> set fs \<or> map_of acc name \<noteq> None"
  by (induction fs arbitrary: acc) auto

lemma has_iff: "has (field_index fs) name \<longleftrightarrow> field_matches fs name"
proof -
  have "(let i = SearchStrings (sort fs) (name @ ''.'')
         in i < length (sort fs) \<and> prefix (name @ ''.'') (sort fs ! i)) \<longleftrightarrow>
        (\<exists>c \<in> set (sort fs). prefix (name @ ''.'') c)"
    by (rule probe_iff) simp
  moreover have "map_of (exact (field_index fs)) name \<noteq> None \<longleftrightarrow> name \<in> set fs"
    using foldl_update_dom[of "[]" fs name] by (simp add: field_index_def)
  ultimately show ?thesis
    by (simp add: has_def field_index_def field_matches_def Let_def)
qed

text \<open>The columns of a table: a later table of the same name replaces an earlier one.\<close>

definition table_columns :: "SchemaSnapshot \<Rightarrow> string \<Rightarrow> string list option" where
  "table_columns s name = map_option tb_Fields (find (\<lambda>t. tb_Name t = name) (rev (sn_Tables s)))"

lemma foldl_index_lookup:
  "map_of (foldl (\<lambda>index table. AList.update (tb_Name table) (field_index (tb_Fields table)) index) acc ts) name =
     (case find (\<lambda>t. tb_Name t = name) (rev ts) of
        None \<Rightarrow> map_of acc name | Some t \<Rightarrow> Some (field_index (tb_Fields t)))"
proof (induction ts rule: rev_induct)
  case Nil
  then show ?case by simp
next
  case (snoc t ts)
  then show ?case by auto
qed

lemma indexSnapshotFields_lookup:
  "map_of (indexSnapshotFields s) name = map_option field_index (table_columns s name)"
  by (simp add: indexSnapshotFields_def foldl_index_lookup table_columns_def split: option.splits)

lemma HasTable_iff: "HasTable s name \<longleftrightarrow> table_columns s name \<noteq> None"
  by (auto simp: HasTable_def table_columns_def find_None_iff)

definition table_valid :: "SchemaSnapshot \<Rightarrow> TableMapping \<Rightarrow> bool" where
  "table_valid s table \<longleftrightarrow>
     (case table_columns s (tm_Name table) of
        None \<Rightarrow> False
      | Some cols \<Rightarrow> \<forall>f \<in> set (tm_Fields table) \<union> set (tm_FilterFields table). field_matches cols f)"

lemma fieldFailures_Nil_iff:
  "fieldFailures (field_index cols) ty c t d fs = [] \<longleftrightarrow> (\<forall>f \<in> set fs. field_matches cols f)"
  by (auto simp: fieldFailures_def has_iff filter_empty_conv)

lemma tableFailures_Nil_iff:
  "tableFailures c (indexSnapshotFields s) table = [] \<longleftrightarrow> table_valid s table"
  by (auto simp: tableFailures_def table_valid_def indexSnapshotFields_lookup fieldFailures_Nil_iff
      split: option.splits)

lemma validateMapping_Nil_iff:
  "validateMappingAgainstSnapshot ds s = [] \<longleftrightarrow> (\<forall>table \<in> set (dm_Tables ds). table_valid s table)"
  by (auto simp: validateMappingAgainstSnapshot_def tableFailures_Nil_iff)

lemma limitFailures_Nil_iff:
  "limitFailures request l = [] \<longleftrightarrow>
     \<not> over (MaxDatasources l) (Datasources request) \<and>
     (\<forall>ds \<in> set (Datasources request). \<not> over (MaxTablesPerDatasource l) (dm_Tables ds) \<and>
        (\<forall>t \<in> set (dm_Tables ds). \<not> over (MaxFieldsPerTable l) (tm_Fields t) \<and>
                                  \<not> over (MaxFieldsPerTable l) (tm_FilterFields t)))"
  by (auto simp: limitFailures_def)

lemma newValidationReport_Valid [simp]: "Valid (newValidationReport fs) \<longleftrightarrow> fs = []"
  by (simp add: newValidationReport_def)

lemma newValidationReport_Failures:
  "set (Failures (newValidationReport fs)) = set fs \<and>
   sorted (map failure_key (Failures (newValidationReport fs)))"
  by (simp add: newValidationReport_def)


subsection \<open>A valid report\<close>

lemma validate_success:
  assumes "validateSchemaWithLimits e t req l w = (Inr report, w')" and "Valid report"
  obtains store w1 w2 where "limitFailures req l = []" "validateRequestNames req = None"
    "connectionStore (options e) = Some store" "validateDatasources e t store (Datasources req) w1 = (Inr [], w2)"
    "w1 = (let w0 = (case observability (options e) of None \<Rightarrow> w | Some obs \<Rightarrow> StartSpan obs ''engine.schema.validate'' w)
           in if Timeout l > 0 then ctx_WithTimeout (rt e) (Timeout l) w0 else w0)"
proof -
  from assms(1) obtain w1 w2 where b: "scoped e t (validateStages e t req l) w1 = (Inr report, w2)"
    "w1 = (case observability (options e) of None \<Rightarrow> w | Some obs \<Rightarrow> StartSpan obs ''engine.schema.validate'' w)"
    unfolding validateSchemaWithLimits_def by (rule with_span_cases)
  from b(1) obtain store where s: "connectionStore (options e) = Some store"
      "validateStages e t req l store w1 = (Inr report, w2)"
    by (rule scoped_cases) auto
  let ?w1 = "if Timeout l > 0 then ctx_WithTimeout (rt e) (Timeout l) w1 else w1"
  from s(2) obtain w3 where n: "validateRequestNames req = None" and
    u: "validateUnderLimits e t req l store ?w1 = (Inr report, w3)"
    by (auto simp: validateStages_def with_timeout_def split: if_splits option.splits prod.splits)
  from u assms(2) have lf: "limitFailures req l = []"
    by (auto simp: validateUnderLimits_def split: if_splits)
  with u obtain fs where d: "validateDatasources e t store (Datasources req) ?w1 = (Inr fs, w3)"
    "report = newValidationReport fs"
    by (auto simp: validateUnderLimits_def split: prod.splits sum.splits)
  from d assms(2) have "validateDatasources e t store (Datasources req) ?w1 = (Inr [], w3)" by simp
  from that[OF lf n s(1) this] show thesis by (simp add: b(2) Let_def)
qed

end
