(* ===== verification/Model_Schema.thy ===== *)
theory Model_Schema
  imports Engine_Schema
begin

text \<open>
  \<^verbatim>\<open>pkg/model/schema.go\<close>: the Manager's own schema model, which the Engine's
  validation replaced. A \<^verbatim>\<open>map[string]bool\<close> of columns is an association list;
  \<^verbatim>\<open>Columns[f]\<close> is false for a missing key. The clock is an argument.
\<close>

abbreviation MaxDataSourcesPerRequest :: int where "MaxDataSourcesPerRequest \<equiv> 10"
abbreviation MaxTablesPerDataSource :: int where "MaxTablesPerDataSource \<equiv> 20"
abbreviation MaxFieldsPerTable_model :: int where "MaxFieldsPerTable_model \<equiv> 50"

record TableSchema =
  ts_TableName :: string
  ts_Columns :: "(string, bool) gomap"

record DataSourceSchema =
  ds_ConfigName :: string
  ds_Tables :: "(string, TableSchema) gomap"
  ds_CachedAt :: int
  ds_ExpiresAt :: int

definition NewDataSourceSchema :: "string \<Rightarrow> DataSourceSchema" where
  "NewDataSourceSchema configName =
     \<lparr>ds_ConfigName = configName, ds_Tables = [], ds_CachedAt = 0, ds_ExpiresAt = 0\<rparr>"

definition NewTableSchema :: "string \<Rightarrow> string list \<Rightarrow> TableSchema" where
  "NewTableSchema tableName columns =
     \<lparr>ts_TableName = tableName, ts_Columns = foldl (\<lambda>m col. AList.update col True m) [] columns\<rparr>"

definition AddTable :: "DataSourceSchema \<Rightarrow> string \<Rightarrow> string list \<Rightarrow> DataSourceSchema" where
  "AddTable s tableName columns =
     s\<lparr>ds_Tables := AList.update tableName (NewTableSchema tableName columns) (ds_Tables s)\<rparr>"

definition model_HasTable :: "DataSourceSchema \<Rightarrow> string \<Rightarrow> bool" where
  "model_HasTable s tableName \<longleftrightarrow> map_of (ds_Tables s) tableName \<noteq> None"

definition HasField :: "DataSourceSchema \<Rightarrow> string \<Rightarrow> string \<Rightarrow> bool" where
  "HasField s tableName fieldName =
     (case map_of (ds_Tables s) tableName of
        None \<Rightarrow> False
      | Some table \<Rightarrow>
          map_of (ts_Columns table) fieldName = Some True \<or>
          (\<exists>(col, _) \<in> set (ts_Columns table). prefix (fieldName @ ''.'') col))"

definition IsExpired :: "int \<Rightarrow> DataSourceSchema \<Rightarrow> bool" where
  "IsExpired now s \<longleftrightarrow> now > ds_ExpiresAt s"

definition SetCacheTTL :: "int \<Rightarrow> int \<Rightarrow> DataSourceSchema \<Rightarrow> DataSourceSchema" where
  "SetCacheTTL now ttl s = s\<lparr>ds_CachedAt := now, ds_ExpiresAt := now + ttl\<rparr>"

definition GetColumnsList :: "TableSchema \<Rightarrow> string list" where
  "GetColumnsList t = keys (ts_Columns t)"

subsection \<open>Request validation\<close>

type_synonym MappedTables = "(string, (string, string list) gomap) gomap"

text \<open>The distinct outcomes of \<^verbatim>\<open>Validate\<close>; the error codes are in \<^verbatim>\<open>pkg/constant\<close>.\<close>

datatype spec_error =
    MissingFields
  | EmptyMappedFields
  | TooManyDatasources
  | BlankConfigName
  | TooManyTables string
  | BlankTableName string
  | TooManyFields string string
  | BlankFieldName string string

definition checkTable :: "string \<Rightarrow> string \<times> string list \<Rightarrow> spec_error option" where
  "checkTable configName tf =
     (case tf of (tableName, names) \<Rightarrow>
        if TrimSpace tableName = [] then Some (BlankTableName configName)
        else if int (length names) > MaxFieldsPerTable_model then Some (TooManyFields configName tableName)
        else first_error (\<lambda>f. if TrimSpace f = [] then Some (BlankFieldName configName tableName) else None) names)"

definition checkDatasource :: "string \<times> (string, string list) gomap \<Rightarrow> spec_error option" where
  "checkDatasource ct =
     (case ct of (configName, tables) \<Rightarrow>
        if TrimSpace configName = [] then Some BlankConfigName
        else if map_len tables > MaxTablesPerDataSource then Some (TooManyTables configName)
        else first_error (checkTable configName) tables)"

definition Validate :: "MappedTables option \<Rightarrow> spec_error option" where
  "Validate mappedFields =
     (case mappedFields of
        None \<Rightarrow> Some MissingFields
      | Some m \<Rightarrow>
          if map_len m = 0 then Some EmptyMappedFields
          else if map_len m > MaxDataSourcesPerRequest then Some TooManyDatasources
          else first_error checkDatasource m)"

text \<open>\<^verbatim>\<open>strings.Cut(s, ".")\<close>: split at the first dot.\<close>

definition cut_dot :: "string \<Rightarrow> (string \<times> string) option" where
  "cut_dot s =
     (case dropWhile (\<lambda>c. c \<noteq> CHR ''.'') s of
        [] \<Rightarrow> None
      | _ # rest \<Rightarrow> Some (takeWhile (\<lambda>c. c \<noteq> CHR ''.'') s, rest))"

definition splitSchemaTable :: "string \<Rightarrow> string \<times> string" where
  "splitSchemaTable qualified0 =
     (let qualified = TrimSpace qualified0 in
      if qualified = [] then ([], [])
      else (case cut_dot qualified of
              None \<Rightarrow> ([], qualified)
            | Some (s, t) \<Rightarrow>
                (let schema = TrimSpace s; table = TrimSpace t in
                 if schema = [] \<or> table = [] then ([], []) else (schema, table))))"

datatype schema_error = TableNotFound string string | FieldNotFound string string string

definition ValidateAgainstSchema ::
  "MappedTables \<Rightarrow> string \<Rightarrow> DataSourceSchema \<Rightarrow> schema_error list" where
  "ValidateAgainstSchema mappedFields configName schema =
     (case map_of mappedFields configName of
        None \<Rightarrow> []
      | Some tables \<Rightarrow>
          concat (map (\<lambda>(qualified, names).
            let tableName = snd (splitSchemaTable qualified) in
            if \<not> model_HasTable schema tableName then [TableNotFound configName tableName]
            else map (FieldNotFound configName tableName)
                   (filter (\<lambda>f. \<not> HasField schema tableName f) names)) tables))"

subsection \<open>Agreement with the Engine's snapshot validation\<close>

text \<open>The legacy schema holding the same tables and columns as a snapshot.\<close>

definition legacy_schema :: "SchemaSnapshot \<Rightarrow> DataSourceSchema" where
  "legacy_schema s =
     foldl (\<lambda>d t. AddTable d (tb_Name t) (tb_Fields t)) (NewDataSourceSchema (sn_ConfigName s)) (sn_Tables s)"

lemma columns_fold:
  "map_ok acc \<Longrightarrow> map_ok (foldl (\<lambda>m col. AList.update col True m) acc cols)"
  "map_of (foldl (\<lambda>m col. AList.update col True m) acc cols) c =
     (if c \<in> set cols then Some True else map_of acc c)"
  by (induction cols arbitrary: acc) auto

lemma NewTableSchema_columns:
  "map_of (ts_Columns (NewTableSchema n cols)) c = (if c \<in> set cols then Some True else None)"
  "fst ` set (ts_Columns (NewTableSchema n cols)) = set cols"
proof -
  show m: "map_of (ts_Columns (NewTableSchema n cols)) c = (if c \<in> set cols then Some True else None)" for c
    by (simp add: NewTableSchema_def columns_fold)
  show "fst ` set (ts_Columns (NewTableSchema n cols)) = set cols"
    using m by (auto simp: dom_map_of_conv_image_fst[symmetric] split: if_splits)
qed

lemma AddTable_fold:
  "map_of (ds_Tables (foldl (\<lambda>d t. AddTable d (tb_Name t) (tb_Fields t)) acc ts)) name =
     (case find (\<lambda>t. tb_Name t = name) (rev ts) of
        None \<Rightarrow> map_of (ds_Tables acc) name | Some t \<Rightarrow> Some (NewTableSchema name (tb_Fields t)))"
proof (induction ts rule: rev_induct)
  case Nil
  then show ?case by simp
next
  case (snoc t ts)
  then show ?case by (auto simp: AddTable_def)
qed

lemma legacy_lookup:
  "map_of (ds_Tables (legacy_schema s)) name = map_option (NewTableSchema name) (table_columns s name)"
  by (simp add: legacy_schema_def AddTable_fold table_columns_def NewDataSourceSchema_def
      split: option.splits)

lemma HasField_legacy:
  "HasField (legacy_schema s) table name \<longleftrightarrow>
     (case table_columns s table of None \<Rightarrow> False | Some cols \<Rightarrow> field_matches cols name)"
proof (cases "table_columns s table")
  case None
  then show ?thesis by (simp add: HasField_def legacy_lookup)
next
  case (Some cols)
  have "(\<exists>(col, _) \<in> set (ts_Columns (NewTableSchema table cols)). prefix (name @ ''.'') col) \<longleftrightarrow>
        (\<exists>col \<in> set cols. prefix (name @ ''.'') col)"
    by (subst NewTableSchema_columns(2)[of table cols, symmetric]) force
  with Some show ?thesis
    by (simp add: HasField_def legacy_lookup NewTableSchema_columns(1) field_matches_def)
qed

lemma model_HasTable_legacy: "model_HasTable (legacy_schema s) table \<longleftrightarrow> HasTable s table"
  by (simp add: model_HasTable_def legacy_lookup HasTable_iff)

end
