(* ===== verification/Engine_Planner.thy ===== *)
theory Engine_Planner
  imports Engine_Schema
begin

text \<open>
  \<^verbatim>\<open>pkg/engine/planner.go\<close>: \<^verbatim>\<open>PlanExtraction\<close> turns a request into a
  deterministic, secret-free plan. Loops over Go maps are folds over the association
  list, in whatever order it has; the theorems below show that the order never
  reaches the plan.
\<close>

subsection \<open>Filters and metadata\<close>

definition copy_map :: "('k, 'v) gomap \<Rightarrow> ('k, 'v) gomap" where
  "copy_map m = foldl (\<lambda>out (k, v). AList.update k v out) [] m"

definition datasourceFilters ::
  "(string, any) gomap \<Rightarrow> string \<Rightarrow> (string, (string, any) gomap) gomap" where
  "datasourceFilters filters configName =
     (case map_of filters configName of
        Some (AMap tables) \<Rightarrow>
          foldl (\<lambda>out (table, tableRaw).
                   case tableRaw of
                     AMap names \<Rightarrow> AList.update table (copy_map names) out
                   | _ \<Rightarrow> out) [] tables
      | _ \<Rightarrow> [])"

definition filterFieldsByTable :: "(string, any) gomap \<Rightarrow> string \<Rightarrow> (string, string list) gomap" where
  "filterFieldsByTable filters configName =
     map (\<lambda>(table, names). (table, sort (keys names))) (datasourceFilters filters configName)"

definition copyMetadata :: "(string, any) gomap \<Rightarrow> (string, any) gomap" where
  "copyMetadata metadata = copy_map metadata"

subsection \<open>Stages\<close>

definition requireNonEmptySelections :: "ExtractionRequest \<Rightarrow> goerror option" where
  "requireNonEmptySelections request =
     first_error (\<lambda>configName.
        if slice_at (MappedFields request) configName = []
        then Some (NewEngineError CategoryValidation ''extraction datasource selects no tables'')
        else None)
       (sortedKeys (MappedFields request))"

fun probeConnections ::
  "'w ConnectionStore \<Rightarrow> TenantContext \<Rightarrow> string list \<Rightarrow> 'w \<Rightarrow> goerror option \<times> 'w" where
  "probeConnections store tenant [] w = (None, w)"
| "probeConnections store tenant (configName # names) w =
     (if isBlank configName
      then (Some (NewEngineError CategoryValidation
              ''extraction request has a blank datasource config name''), w)
      else
        (case FindConnection store tenant configName w of
           (Inl err, w1) \<Rightarrow> (Some err, w1)
         | (Inr None, w1) \<Rightarrow>
             (Some (NewEngineError CategoryNotFound
                ''extraction references an unknown datasource connection''), w1)
         | (Inr (Some _), w1) \<Rightarrow> probeConnections store tenant names w1))"

definition requireScopedConnections ::
  "TenantContext \<Rightarrow> 'w ConnectionStore \<Rightarrow> ExtractionRequest \<Rightarrow> Limits \<Rightarrow> 'w \<Rightarrow> goerror option \<times> 'w" where
  "requireScopedConnections tenant store request l w =
     (let names = sortedKeys (MappedFields request);
          probeBudget = (if MaxDatasources l > 0 \<and> int (length names) > MaxDatasources l
                         then MaxDatasources l + 1 else int (length names))
      in case probeConnections store tenant (take (nat probeBudget) names) w of
           (Some err, w1) \<Rightarrow> (Some err, w1)
         | (None, w1) \<Rightarrow>
             if MaxDatasources l > 0 \<and> int (length names) > MaxDatasources l
             then (Some (NewEngineError CategoryValidation
                    (''datasource count exceeds the configured maximum: '' @ limitFieldMaxDatasources)), w1)
             else (None, w1))"

definition schemaValidationRequestFromExtraction :: "ExtractionRequest \<Rightarrow> SchemaValidationRequest" where
  "schemaValidationRequestFromExtraction request =
     \<lparr>Datasources = map (\<lambda>configName.
        let selection = slice_at (MappedFields request) configName;
            filterFields = filterFieldsByTable (Filters request) configName
        in \<lparr>dm_ConfigName = configName,
            dm_Tables = map (\<lambda>tableName.
              \<lparr>tm_Name = tableName,
               tm_Fields = sortedCopy (slice_at selection tableName),
               tm_FilterFields = sortedCopy (slice_at filterFields tableName)\<rparr>)
              (sortedKeys selection)\<rparr>)
       (sortedKeys (MappedFields request))\<rparr>"

definition buildStep :: "ExtractionRequest \<Rightarrow> nat \<Rightarrow> string \<Rightarrow> PlanStep" where
  "buildStep request ordinal configName =
     (let selection = slice_at (MappedFields request) configName;
          tables = sortedKeys selection
      in \<lparr>st_Ordinal = ordinal, st_ConfigName = configName, st_Tables = tables,
          st_Fields = map (\<lambda>table. (table, sortedCopy (slice_at selection table))) tables,
          st_Filters = datasourceFilters (Filters request) configName\<rparr>)"

definition buildExtractionPlan :: "TenantContext \<Rightarrow> ExtractionRequest \<Rightarrow> Limits \<Rightarrow> ExtractionPlan" where
  "buildExtractionPlan tenant request l =
     \<lparr>pl_TenantID = TenantID tenant, pl_RequestID = RequestID tenant,
      pl_Steps = map (\<lambda>(ordinal, configName). buildStep request ordinal configName)
                   (enumerate 0 (sortedKeys (MappedFields request))),
      pl_Metadata = copyMetadata (Metadata request), pl_Limits = l, pl_Mode = ModeAuto\<rparr>"

definition planValidationError :: "ValidationReport \<Rightarrow> goerror" where
  "planValidationError report =
     (if \<exists>failure \<in> set (Failures report). vf_Type failure = ValidationDatasourceNotFound
      then NewEngineError CategoryNotFound ''extraction references an unknown datasource connection''
      else NewEngineError CategoryValidation ''extraction request failed schema validation'')"

text \<open>The body of \<open>PlanExtraction\<close> behind the store and tenant guards.\<close>

definition planStages ::
  "'w Engine \<Rightarrow> TenantContext \<Rightarrow> ExtractionRequest \<Rightarrow> 'w ConnectionStore \<Rightarrow> 'w \<Rightarrow> ExtractionPlan res \<times> 'w" where
  "planStages e tenant request store w =
     (if MappedFields request = []
      then (Inl (NewEngineError CategoryValidation ''extraction request has no mapped fields''), w)
      else
        (case requireNonEmptySelections request of
           Some err \<Rightarrow> (Inl err, w)
         | None \<Rightarrow>
            (case Effective (limits (options e)) (Overrides request) of
               Inl err \<Rightarrow> (Inl err, w)
             | Inr l \<Rightarrow>
                (case requireScopedConnections tenant store request l w of
                   (Some err, w1) \<Rightarrow> (Inl err, w1)
                 | (None, w1) \<Rightarrow>
                    (case validateSchemaWithLimits e tenant
                            (schemaValidationRequestFromExtraction request) l w1 of
                       (Inl err, w2) \<Rightarrow> (Inl err, w2)
                     | (Inr report, w2) \<Rightarrow>
                         if \<not> Valid report then (Inl (planValidationError report), w2)
                         else (Inr (buildExtractionPlan tenant request l), w2))))))"

definition PlanExtraction ::
  "'w Engine \<Rightarrow> TenantContext \<Rightarrow> ExtractionRequest \<Rightarrow> 'w \<Rightarrow> ExtractionPlan res \<times> 'w" where
  "PlanExtraction e tenant request =
     with_span e ''engine.extraction.plan'' (scoped e tenant (planStages e tenant request))"

subsection \<open>Requests that differ only in map iteration order\<close>

definition same_fields :: "any \<Rightarrow> any \<Rightarrow> bool" where
  "same_fields a b \<longleftrightarrow>
     (case (a, b) of (AMap f, AMap f') \<Rightarrow> same_map f f' | (AMap _, _) \<Rightarrow> False | (_, AMap _) \<Rightarrow> False
      | _ \<Rightarrow> a = b)"

definition same_filters :: "any \<Rightarrow> any \<Rightarrow> bool" where
  "same_filters a b \<longleftrightarrow>
     (case (a, b) of (AMap m, AMap m') \<Rightarrow> map_rel same_fields m m' | (AMap _, _) \<Rightarrow> False
      | (_, AMap _) \<Rightarrow> False | _ \<Rightarrow> a = b)"

definition same_request :: "ExtractionRequest \<Rightarrow> ExtractionRequest \<Rightarrow> bool" where
  "same_request r r' \<longleftrightarrow>
     map_rel same_map (MappedFields r) (MappedFields r') \<and>
     map_rel same_filters (Filters r) (Filters r') \<and>
     same_map (Metadata r) (Metadata r') \<and> Overrides r = Overrides r'"

text \<open>Deep equality of plans: equal up to the iteration order of the filter and metadata maps.\<close>

definition same_step :: "PlanStep \<Rightarrow> PlanStep \<Rightarrow> bool" where
  "same_step s s' \<longleftrightarrow>
     s\<lparr>st_Filters := []\<rparr> = s'\<lparr>st_Filters := []\<rparr> \<and> map_rel same_map (st_Filters s) (st_Filters s')"

definition same_plan :: "ExtractionPlan \<Rightarrow> ExtractionPlan \<Rightarrow> bool" where
  "same_plan p p' \<longleftrightarrow>
     pl_TenantID p = pl_TenantID p' \<and> pl_RequestID p = pl_RequestID p' \<and>
     list_all2 same_step (pl_Steps p) (pl_Steps p') \<and>
     same_map (pl_Metadata p) (pl_Metadata p') \<and> pl_Limits p = pl_Limits p' \<and> pl_Mode p = pl_Mode p'"

lemma map_rel_dom: "map_rel R m m' \<Longrightarrow> dom (map_of m) = dom (map_of m')"
proof (rule set_eqI)
  fix k
  assume "map_rel R m m'"
  then have "rel_option R (map_of m k) (map_of m' k)" by (simp add: map_rel_def)
  then show "k \<in> dom (map_of m) \<longleftrightarrow> k \<in> dom (map_of m')"
    by (cases rule: option.rel_cases) (auto simp: dom_def)
qed

lemma map_rel_sortedKeys:
  fixes m :: "(string, 'a) gomap" and m' :: "(string, 'b) gomap"
  shows "map_rel R m m' \<Longrightarrow> sortedKeys m = sortedKeys m'"
proof (rule sorted_distinct_set_unique)
  assume r: "map_rel R m m'"
  then show "distinct (sortedKeys m)" "distinct (sortedKeys m')" by (simp_all add: map_rel_def)
  from r show "set (sortedKeys m) = set (sortedKeys m')" by (simp add: map_rel_dom)
qed simp_all

lemma map_rel_empty_iff:
  fixes m :: "(string, 'a) gomap" and m' :: "(string, 'b) gomap"
  shows "map_rel R m m' \<Longrightarrow> m = [] \<longleftrightarrow> m' = []"
  using map_rel_sortedKeys[of R m m'] by (metis sortedKeys_Nil_iff)

lemma map_rel_slice_at:
  "map_rel same_map m m' \<Longrightarrow> same_map (slice_at m k) (slice_at m' k)"
  by (cases "map_of m k"; cases "map_of m' k")
    (auto simp: map_rel_def slice_at_def dest!: spec[of _ k])

lemma copy_map_ok [simp]: "map_ok (copy_map m)"
  unfolding copy_map_def by (rule copy_fold_ok) simp

lemma copy_map_of: "map_ok m \<Longrightarrow> map_of (copy_map m) = map_of m"
  by (simp add: copy_map_def copy_fold_map_of map_of_rev_ok)

lemma copy_map_same: "same_map m m' \<Longrightarrow> same_map (copy_map m) (copy_map m')"
  by (simp add: same_map_def copy_map_of)

subsection \<open>Determinism of the stages\<close>

abbreviation filter_step ::
  "(string, (string, any) gomap) gomap \<Rightarrow> string \<times> any \<Rightarrow> (string, (string, any) gomap) gomap" where
  "filter_step \<equiv> (\<lambda>out (table, tableRaw).
     case tableRaw of AMap names \<Rightarrow> AList.update table (copy_map names) out | _ \<Rightarrow> out)"

lemma filter_fold_ok: "map_ok acc \<Longrightarrow> map_ok (foldl filter_step acc tables)"
  by (induction tables arbitrary: acc) (auto split: any.splits)

definition filter_fields :: "any \<Rightarrow> (string, any) gomap option" where
  "filter_fields a = (case a of AMap f \<Rightarrow> Some (copy_map f) | _ \<Rightarrow> None)"

lemma filter_fold_lookup:
  "map_ok tables \<Longrightarrow>
   map_of (foldl filter_step acc tables) k =
     (case Option.bind (map_of tables k) filter_fields of None \<Rightarrow> map_of acc k | Some f \<Rightarrow> Some f)"
proof (induction tables arbitrary: acc)
  case Nil
  then show ?case by simp
next
  case (Cons kv tables)
  obtain t raw where kv: "kv = (t, raw)" by (cases kv)
  from Cons.prems kv have ok: "map_ok tables" "map_of tables t = None" by auto
  show ?case
  proof (cases raw)
    case (AMap names)
    have "map_of (AList.update t (copy_map names) acc) k = (if k = t then Some (copy_map names) else map_of acc k)"
      by (simp add: update_conv')
    then show ?thesis
      using ok(2) by (simp add: kv AMap Cons.IH[OF ok(1)] filter_fields_def[of "any.AMap names"]
            split: option.split)
  qed (use ok(2) in \<open>simp_all add: kv Cons.IH[OF ok(1)] filter_fields_def\<close>)
qed

lemma datasourceFilters_ok [simp]: "map_ok (datasourceFilters filters c)"
  by (auto simp: datasourceFilters_def filter_fold_ok split: option.splits any.splits)

lemma filter_fields_rel:
  "same_fields a b \<Longrightarrow> rel_option same_map (filter_fields a) (filter_fields b)"
  by (auto simp: same_fields_def filter_fields_def copy_map_same split: any.splits)

lemma datasourceFilters_rel:
  assumes "map_rel same_filters fs fs'"
  shows "map_rel same_map (datasourceFilters fs c) (datasourceFilters fs' c)"
proof (cases "map_of fs c")
  case None
  with assms have "map_of fs' c = None"
    by (auto simp: map_rel_def) (metis option.rel_distinct(1) option.exhaust)
  with None show ?thesis by (simp add: datasourceFilters_def map_rel_def)
next
  case (Some a)
  with assms obtain b where b: "map_of fs' c = Some b" "same_filters a b"
    by (auto simp: map_rel_def) (metis option.rel_cases option.distinct(1) option.inject)
  show ?thesis
  proof (cases "\<exists>m. a = AMap m")
    case True
    with b obtain m m' where m: "a = AMap m" "b = AMap m'" "map_rel same_fields m m'"
      by (auto simp: same_filters_def split: any.splits)
    have "rel_option same_map (map_of (datasourceFilters fs c) k) (map_of (datasourceFilters fs' c) k)" for k
    proof -
      from m(3) have r: "rel_option same_fields (map_of m k) (map_of m' k)" and
        ok: "map_ok m" "map_ok m'"
        by (auto simp: map_rel_def)
      have "rel_option same_map (Option.bind (map_of m k) filter_fields) (Option.bind (map_of m' k) filter_fields)"
        using r by (cases rule: option.rel_cases) (auto dest: filter_fields_rel)
      then have "rel_option same_map (map_of (foldl filter_step [] m) k) (map_of (foldl filter_step [] m') k)"
        unfolding filter_fold_lookup[OF ok(1)] filter_fold_lookup[OF ok(2)]
        by (cases rule: option.rel_cases) simp_all
      then show ?thesis
        using Some b(1) m(1,2) by (simp add: datasourceFilters_def)
    qed
    then show ?thesis by (simp add: map_rel_def)
  next
    case False
    with b have "\<nexists>m. b = AMap m" by (auto simp: same_filters_def split: any.splits)
    with False Some b show ?thesis
      by (auto simp: datasourceFilters_def map_rel_def split: any.splits)
  qed
qed

lemma same_map_keys_sort:
  fixes m :: "(string, 'a) gomap"
  shows "same_map m m' \<Longrightarrow> sort (keys m) = sort (keys m')"
  using sortedKeys_same_map[of m m'] by (simp add: sortedKeys_def)

lemma filterFieldsByTable_slice:
  assumes "map_rel same_filters fs fs'"
  shows "slice_at (filterFieldsByTable fs c) t = slice_at (filterFieldsByTable fs' c) t"
proof -
  have "rel_option same_map (map_of (datasourceFilters fs c) t) (map_of (datasourceFilters fs' c) t)"
    using datasourceFilters_rel[OF assms, of c] by (simp add: map_rel_def)
  then show ?thesis
    by (cases rule: option.rel_cases)
      (simp_all add: filterFieldsByTable_def slice_at_def
        map_of_map_entries[where f = "\<lambda>_ names. sort (keys names)"] same_map_keys_sort)
qed

lemma validation_request_deterministic:
  assumes "same_request r r'"
  shows "schemaValidationRequestFromExtraction r = schemaValidationRequestFromExtraction r'"
proof -
  from assms have m: "map_rel same_map (MappedFields r) (MappedFields r')"
    and f: "map_rel same_filters (Filters r) (Filters r')"
    by (auto simp: same_request_def)
  have "sortedKeys (slice_at (MappedFields r) c) = sortedKeys (slice_at (MappedFields r') c)"
    and "slice_at (slice_at (MappedFields r) c) = slice_at (slice_at (MappedFields r') c)" for c
    using map_rel_slice_at[OF m, of c]
    by (simp_all add: sortedKeys_same_map slice_at_def same_map_def fun_eq_iff)
  then show ?thesis
    by (simp add: schemaValidationRequestFromExtraction_def map_rel_sortedKeys[OF m] Let_def
        filterFieldsByTable_slice[OF f])
qed

lemma buildStep_rel:
  assumes "same_request r r'"
  shows "same_step (buildStep r i c) (buildStep r' i c)"
proof -
  from assms have m: "map_rel same_map (MappedFields r) (MappedFields r')"
    and f: "map_rel same_filters (Filters r) (Filters r')"
    by (auto simp: same_request_def)
  from map_rel_slice_at[OF m, of c]
  have "sortedKeys (slice_at (MappedFields r) c) = sortedKeys (slice_at (MappedFields r') c)"
    and "slice_at (slice_at (MappedFields r) c) = slice_at (slice_at (MappedFields r') c)"
    by (simp_all add: sortedKeys_same_map slice_at_def same_map_def fun_eq_iff)
  with datasourceFilters_rel[OF f] show ?thesis
    by (simp add: same_step_def buildStep_def Let_def)
qed

lemma build_plan_rel:
  assumes "same_request r r'"
  shows "same_plan (buildExtractionPlan t r l) (buildExtractionPlan t r' l)"
proof -
  from assms have k: "sortedKeys (MappedFields r) = sortedKeys (MappedFields r')"
    by (auto simp: same_request_def intro: map_rel_sortedKeys)
  show ?thesis
    using assms buildStep_rel[OF assms]
    by (auto simp: same_plan_def buildExtractionPlan_def k list_all2_conv_all_nth case_prod_beta
        copyMetadata_def same_request_def intro: copy_map_same)
qed

lemma require_stages_deterministic:
  assumes "same_request r r'"
  shows "requireNonEmptySelections r = requireNonEmptySelections r'"
    and "requireScopedConnections t store r l w = requireScopedConnections t store r' l w"
    and "MappedFields r = [] \<longleftrightarrow> MappedFields r' = []"
proof -
  from assms have m: "map_rel same_map (MappedFields r) (MappedFields r')"
    by (simp add: same_request_def)
  have "slice_at (MappedFields r) c = [] \<longleftrightarrow> slice_at (MappedFields r') c = []" for c
    using same_map_length[OF map_rel_slice_at[OF m, of c]] by auto
  then show "requireNonEmptySelections r = requireNonEmptySelections r'"
    by (simp add: requireNonEmptySelections_def map_rel_sortedKeys[OF m])
  show "requireScopedConnections t store r l w = requireScopedConnections t store r' l w"
    by (simp add: requireScopedConnections_def map_rel_sortedKeys[OF m])
  show "MappedFields r = [] \<longleftrightarrow> MappedFields r' = []"
    by (rule map_rel_empty_iff[OF m])
qed

subsection \<open>What a successful plan went through\<close>

lemma plan_success:
  assumes "fst (PlanExtraction e t r w) = Inr p"
  obtains l store w1 w2 report w3 where
    "isValidTenantID (TenantID t)" "connectionStore (options e) = Some store" "MappedFields r \<noteq> []"
    "requireNonEmptySelections r = None" "Effective (limits (options e)) (Overrides r) = Inr l"
    "requireScopedConnections t store r l w1 = (None, w2)"
    "validateSchemaWithLimits e t (schemaValidationRequestFromExtraction r) l w2 = (Inr report, w3)"
    "Valid report" "p = buildExtractionPlan t r l"
    "w1 = (case observability (options e) of None \<Rightarrow> w | Some obs \<Rightarrow> StartSpan obs ''engine.extraction.plan'' w)"
proof -
  obtain x w' where "PlanExtraction e t r w = (Inr p, w')" using assms by (cases "PlanExtraction e t r w") auto
  then obtain w1 w2 where b: "scoped e t (planStages e t r) w1 = (Inr p, w2)"
    "w1 = (case observability (options e) of None \<Rightarrow> w | Some obs \<Rightarrow> StartSpan obs ''engine.extraction.plan'' w)"
    unfolding PlanExtraction_def by (rule with_span_cases)
  from b(1) obtain store where s: "isValidTenantID (TenantID t)" "connectionStore (options e) = Some store"
      "planStages e t r store w1 = (Inr p, w2)"
    by (rule scoped_cases) auto
  from s(3) show thesis
    by (auto simp: planStages_def split: if_splits option.splits sum.splits prod.splits intro: that s(1,2) b(2))
qed

lemma requireNonEmptySelections_None:
  "requireNonEmptySelections r = None \<longleftrightarrow>
   (\<forall>c \<in> dom (map_of (MappedFields r)). slice_at (MappedFields r) c \<noteq> [])"
  by (simp add: requireNonEmptySelections_def first_error_None_iff)

lemma buildStep_simps [simp]:
  "st_ConfigName (buildStep r i c) = c" "st_Ordinal (buildStep r i c) = i"
  "st_Tables (buildStep r i c) = sortedKeys (slice_at (MappedFields r) c)"
  "st_Fields (buildStep r i c) = map (\<lambda>table. (table, sort (slice_at (slice_at (MappedFields r) c) table)))
     (sortedKeys (slice_at (MappedFields r) c))"
  by (simp_all add: buildStep_def Let_def)

lemma plan_step_cases:
  assumes "step \<in> set (pl_Steps (buildExtractionPlan t r l))"
  obtains i c where "c \<in> dom (map_of (MappedFields r))" "step = buildStep r i c"
proof -
  from assms obtain i c where "(i, c) \<in> set (enumerate 0 (sortedKeys (MappedFields r)))" "step = buildStep r i c"
    by (auto simp: buildExtractionPlan_def)
  moreover from this(1) have "c \<in> set (sortedKeys (MappedFields r))"
    unfolding enumerate_eq_zip by (rule set_zip_rightD)
  ultimately show thesis using that by simp
qed

end
