(* ===== verification/Engine_Cursor.thy ===== *)
theory Engine_Cursor
  imports Engine_Types
begin

text \<open>
  \<^verbatim>\<open>pkg/engine/cursor.go\<close>: the eager row cursor. \<open>Next\<close> takes the context
  error it observes; an error once recorded is final.
\<close>

type_synonym eagerRow = "string \<times> row"

record eagerCursor =
  pairs :: "eagerRow list"
  pos :: nat
  exhausted :: bool
  cur_err :: "goerror option"

definition flatten :: "(string, row list) gomap \<Rightarrow> eagerRow list" where
  "flatten data = concat (map (\<lambda>table. map (Pair table) (slice_at data table)) (sortedKeys data))"

definition NewEagerCursor :: "(string, row list) gomap \<Rightarrow> eagerCursor" where
  "NewEagerCursor data = \<lparr>pairs = flatten data, pos = 0, exhausted = False, cur_err = None\<rparr>"

definition eager_Next :: "goerror option \<Rightarrow> eagerCursor \<Rightarrow> bool \<times> eagerCursor" where
  "eager_Next ctxErr c =
     (if cur_err c \<noteq> None then (False, c)
      else if ctxErr \<noteq> None then (False, c\<lparr>cur_err := ctxErr, exhausted := True\<rparr>)
      else if pos c \<ge> length (pairs c) then (False, c\<lparr>exhausted := True\<rparr>)
      else (True, c\<lparr>pos := Suc (pos c)\<rparr>))"

text \<open>The zero row is the empty table name with a nil map.\<close>

definition eager_Row :: "eagerCursor \<Rightarrow> eagerRow" where
  "eager_Row c =
     (if exhausted c \<or> pos c = 0 \<or> pos c > length (pairs c) then ([], [])
      else pairs c ! (pos c - 1))"

definition eager_Err :: "eagerCursor \<Rightarrow> goerror option" where
  "eager_Err c = cur_err c"

definition eager_Close :: "eagerCursor \<Rightarrow> eagerCursor" where
  "eager_Close c = c\<lparr>pairs := [], pos := 0, exhausted := True, cur_err := None\<rparr>"

subsection \<open>Driving a cursor\<close>

text \<open>
  \<^verbatim>\<open>for cursor.Next(ctx) { cursor.Row() }\<close> under a list of context observations,
  one per \<open>Next\<close> (none is left when the list is exhausted and the context is live).
\<close>

fun drive :: "nat \<Rightarrow> (nat \<Rightarrow> goerror option) \<Rightarrow> eagerCursor \<Rightarrow> eagerRow list \<times> eagerCursor" where
  "drive 0 ctx c = ([], c)"
| "drive (Suc fuel) ctx c =
     (case eager_Next (ctx 0) c of
        (False, c') \<Rightarrow> ([], c')
      | (True, c') \<Rightarrow>
          (case drive fuel (\<lambda>n. ctx (Suc n)) c' of (rows, c'') \<Rightarrow> (eager_Row c' # rows, c'')))"

definition cursor_ok :: "eagerCursor \<Rightarrow> bool" where
  "cursor_ok c \<longleftrightarrow> pos c \<le> length (pairs c) \<and> (cur_err c \<noteq> None \<longrightarrow> exhausted c)"

lemma NewEagerCursor_ok [simp]: "cursor_ok (NewEagerCursor data)"
  by (simp add: cursor_ok_def NewEagerCursor_def)

lemma eager_Next_ok: "cursor_ok c \<Longrightarrow> eager_Next ctxErr c = (b, c') \<Longrightarrow> cursor_ok c'"
  by (auto simp: cursor_ok_def eager_Next_def split: if_splits)

lemma eager_Close_ok [simp]: "cursor_ok (eager_Close c)"
  by (simp add: cursor_ok_def eager_Close_def)

lemma drive_prefix:
  assumes "drive fuel ctx c = (rows, c')" and "\<not> exhausted c" and "cur_err c = None"
    and "pos c \<le> length (pairs c)"
  shows "prefix rows (drop (pos c) (pairs c))"
  using assms
proof (induction fuel arbitrary: ctx c rows)
  case 0
  then show ?case by simp
next
  case (Suc fuel)
  show ?case
  proof (cases "fst (eager_Next (ctx 0) c)")
    case False
    with Suc.prems show ?thesis by (auto split: prod.splits)
  next
    case True
    let ?c = "c\<lparr>pos := Suc (pos c)\<rparr>"
    from True Suc.prems have n: "eager_Next (ctx 0) c = (True, ?c)" and lt: "pos c < length (pairs c)"
      by (auto simp: eager_Next_def split: if_splits)
    obtain rs where r: "drive fuel (\<lambda>n. ctx (Suc n)) ?c = (rs, c')" "rows = eager_Row ?c # rs"
      using Suc.prems(1) n by (auto split: prod.splits)
    from Suc.IH[OF r(1)] Suc.prems lt have "prefix rs (drop (Suc (pos c)) (pairs c))" by simp
    moreover have "drop (pos c) (pairs c) = eager_Row ?c # drop (Suc (pos c)) (pairs c)"
      using lt Suc.prems by (simp add: Cons_nth_drop_Suc eager_Row_def)
    ultimately show ?thesis using r by simp
  qed
qed

text \<open>With a live context and enough iterations the loop sees every row and ends cleanly.\<close>

lemma drive_complete:
  assumes "\<not> exhausted c" and "cur_err c = None" and "pos c \<le> length (pairs c)"
    and "length (pairs c) - pos c < fuel"
  shows "drive fuel (\<lambda>_. None) c =
    (drop (pos c) (pairs c), c\<lparr>pos := length (pairs c), exhausted := True\<rparr>)"
  using assms
proof (induction fuel arbitrary: c)
  case 0
  then show ?case by simp
next
  case (Suc fuel)
  show ?case
  proof (cases "pos c = length (pairs c)")
    case True
    with Suc.prems show ?thesis by (simp add: eager_Next_def)
  next
    case False
    let ?c = "c\<lparr>pos := Suc (pos c)\<rparr>"
    from False Suc.prems have lt: "pos c < length (pairs c)" by simp
    have "drive fuel (\<lambda>_. None) ?c =
        (drop (Suc (pos c)) (pairs c), ?c\<lparr>pos := length (pairs c), exhausted := True\<rparr>)"
      using Suc.prems lt by (subst Suc.IH) auto
    moreover have "drop (pos c) (pairs c) = eager_Row ?c # drop (Suc (pos c)) (pairs c)"
      using lt Suc.prems by (simp add: Cons_nth_drop_Suc eager_Row_def)
    ultimately show ?thesis using lt Suc.prems by (simp add: eager_Next_def)
  qed
qed

lemma slice_at_same_map: "same_map m m' \<Longrightarrow> slice_at m = slice_at m'"
  by (simp add: slice_at_def same_map_def fun_eq_iff)

lemma flatten_same_map: "same_map data data' \<Longrightarrow> flatten data = flatten data'"
  by (simp add: flatten_def sortedKeys_same_map[of data data'] slice_at_same_map[of data data'])

end
