(* ===== verification/Engine_Runner.thy ===== *)
theory Engine_Runner
  imports Engine_Planner Engine_Cursor
begin

text \<open>
  \<^verbatim>\<open>pkg/engine/runner.go\<close> and the encoder of \<^verbatim>\<open>runner_parallel.go\<close>: what one
  planned step does (open a connector, drive its cursor, close everything), how rows
  become bytes, and the status writes around an execution. The loop over a host cursor
  ends only if the cursor does, so it is a partial function: \<^const>\<open>None\<close> is a loop
  that never returns.
\<close>

subsection \<open>Status writes and modes\<close>

definition effectiveConcurrency :: "Limits \<Rightarrow> nat" where
  "effectiveConcurrency l = (if MaxConcurrency l > 0 then nat (MaxConcurrency l) else 1)"

definition recordExecutionStatus ::
  "'w Engine \<Rightarrow> TenantContext \<Rightarrow> string \<Rightarrow> ExecutionStatus \<Rightarrow> string \<Rightarrow> 'w \<Rightarrow> 'w" where
  "recordExecutionStatus e tenant requestID status failureMessage w =
     (case executionStore (options e) of
        None \<Rightarrow> w
      | Some store \<Rightarrow>
         (let state = \<lparr>es_JobID = requestID, es_Status = status, es_StartedAt = 0,
                       es_CompletedAt = None, es_FailureMessage = failureMessage\<rparr>
          in case time_Now (rt e) w of
               (now, w1) \<Rightarrow>
                 snd (SaveExecution store tenant
                   (if IsTerminal status then state\<lparr>es_CompletedAt := Some now\<rparr>
                    else state\<lparr>es_StartedAt := now\<rparr>) w1)))"

definition recordTerminalFailure ::
  "'w Engine \<Rightarrow> TenantContext \<Rightarrow> string \<Rightarrow> goerror \<Rightarrow> 'w \<Rightarrow> 'w" where
  "recordTerminalFailure e tenant requestID failure w =
     (case asEngineError failure of
        Some engErr \<Rightarrow>
          if Category engErr = CategoryCanceled
          then recordExecutionStatus e tenant requestID StatusCanceled (Message engErr) w
          else recordExecutionStatus e tenant requestID StatusFailed (Message engErr) w
      | None \<Rightarrow> recordExecutionStatus e tenant requestID StatusFailed ''execution failed'' w)"

definition resolveExecutionMode :: "'w Engine \<Rightarrow> ExecutionMode \<Rightarrow> ExecutionMode" where
  "resolveExecutionMode e requested =
     (if requested = ModeStore then ModeStore
      else if requested = ModeDirect then ModeDirect
      else (case resultSink (options e) of Some _ \<Rightarrow> ModeStore | None \<Rightarrow> ModeDirect))"

definition engineContentIntegrity :: "'w Engine \<Rightarrow> string \<Rightarrow> ResultIntegrity" where
  "engineContentIntegrity e payload =
     \<lparr>ri_Algorithm = ''SHA-256'', ri_Digest = sha256_hex (rt e) payload, ri_Signature = []\<rparr>"

definition enginePlaintextProtection :: ResultProtection where
  "enginePlaintextProtection =
     \<lparr>rp_Encrypted = False, rp_KeyVersion = 0, rp_Mode = [], rp_AppliedBy = ProtectionAppliedByEngine\<rparr>"

text \<open>\<^verbatim>\<open>if engErr := contextError(ctx.Err()); engErr != nil { return engErr }\<close>\<close>

definition ctx_guard :: "'w Engine \<Rightarrow> 'w \<Rightarrow> goerror option \<times> 'w" where
  "ctx_guard e w = (case ctx_Err (rt e) w of (err, w1) \<Rightarrow> (contextError err, w1))"

definition safeConnectorError ::
  "'w Engine \<Rightarrow> goerror \<Rightarrow> string \<Rightarrow> 'w \<Rightarrow> goerror \<times> 'w" where
  "safeConnectorError e failure fallbackMessage w =
     (case contextError (Some failure) of
        Some engErr \<Rightarrow> (engErr, w)
      | None \<Rightarrow>
         (case ctx_guard e w of
            (Some engErr, w1) \<Rightarrow> (engErr, w1)
          | (None, w1) \<Rightarrow> (NewEngineError CategoryUnavailable fallbackMessage, w1)))"

subsection \<open>One step\<close>

definition openStepConnector ::
  "'w Engine \<Rightarrow> TenantContext \<Rightarrow> 'w ConnectionStore \<Rightarrow> PlanStep \<Rightarrow> 'w \<Rightarrow>
   ('w ConnectorRegistry \<times> nat) res \<times> 'w" where
  "openStepConnector e tenant store step w =
     (case found_or ''extraction references an unknown datasource connection''
             (FindConnection store tenant (st_ConfigName step) w) of
        (Inl err, w1) \<Rightarrow> (Inl err, w1)
      | (Inr descriptor, w1) \<Rightarrow>
         (case buildConnector e descriptor w1 of
            (Inl err, w2) \<Rightarrow> (Inl err, w2)
          | (Inr (reg, connector), w2) \<Rightarrow>
             (case ConnTest reg connector w2 of
                (None, w3) \<Rightarrow> (Inr (reg, connector), w3)
              | (Some err, w3) \<Rightarrow>
                 (let w4 = snd (ConnClose reg connector w3)
                  in case safeConnectorError e err ''failed to connect to datasource'' w4 of
                       (engErr, w5) \<Rightarrow> (Inl engErr, w5)))))"

definition filtersToAny :: "(string, (string, any) gomap) gomap \<Rightarrow> (string, any) gomap" where
  "filtersToAny filters = foldl (\<lambda>out (table, names). AList.update table (AMap names) out) [] filters"

definition extractionRequestForStep :: "PlanStep \<Rightarrow> ExtractionRequest" where
  "extractionRequestForStep step =
     \<lparr>MappedFields = [(st_ConfigName step, copy_map (st_Fields step))],
      Filters = (if map_len (st_Filters step) > 0
                 then [(st_ConfigName step, AMap (filtersToAny (st_Filters step)))] else []),
      Metadata = [], Overrides = None\<rparr>"

type_synonym table_rows = "(string, row list) gomap"

definition add_row :: "string \<Rightarrow> row \<Rightarrow> table_rows \<Rightarrow> table_rows" where
  "add_row table r rows = AList.update table (slice_at rows table @ [r]) rows"

partial_function (option) drainCursor ::
  "'w ConnectorRegistry \<Rightarrow> nat \<Rightarrow> table_rows \<Rightarrow> nat \<Rightarrow> 'w \<Rightarrow> (table_rows \<times> nat \<times> 'w) option" where
  "drainCursor reg cur rows count w =
     (case CurNext reg cur w of
        (ok, w1) \<Rightarrow>
          if ok
          then (case CurRow reg cur w1 of
                  (table, r) \<Rightarrow> drainCursor reg cur (add_row table r rows) (Suc count) w1)
          else Some (rows, count, w1))"

text \<open>
  \<open>queryStep\<close> is the body of \<open>executeStep\<close> once it owns a connector; the
  deferred closes run on every path.
\<close>

definition queryStep ::
  "'w Engine \<Rightarrow> PlanStep \<Rightarrow> 'w ConnectorRegistry \<Rightarrow> nat \<Rightarrow> 'w \<Rightarrow> ((table_rows \<times> nat) res \<times> 'w) option" where
  "queryStep e step reg connector w =
     (case ctx_guard e w of
        (Some engErr, w1) \<Rightarrow> Some (Inl engErr, w1)
      | (None, w1) \<Rightarrow>
         (case QueryStream reg connector (extractionRequestForStep step) w1 of
            (Inl err, w2) \<Rightarrow>
              (case safeConnectorError e err ''failed to query datasource'' w2 of
                 (engErr, w3) \<Rightarrow> Some (Inl engErr, w3))
          | (Inr cursor, w2) \<Rightarrow>
             (case drainCursor reg cursor [] 0 w2 of
                None \<Rightarrow> None
              | Some (rows, count, w3) \<Rightarrow>
                 (case CurErr reg cursor w3 of
                    Some err \<Rightarrow>
                      (case safeConnectorError e err ''failed to query datasource'' w3 of
                         (engErr, w4) \<Rightarrow> Some (Inl engErr, snd (CurClose reg cursor w4)))
                  | None \<Rightarrow>
                     (case ctx_guard e w3 of
                        (Some engErr, w4) \<Rightarrow> Some (Inl engErr, snd (CurClose reg cursor w4))
                      | (None, w4) \<Rightarrow> Some (Inr (rows, count), snd (CurClose reg cursor w4)))))))"

definition executeStep ::
  "'w Engine \<Rightarrow> TenantContext \<Rightarrow> 'w ConnectionStore \<Rightarrow> PlanStep \<Rightarrow> 'w \<Rightarrow>
   ((table_rows \<times> nat) res \<times> 'w) option" where
  "executeStep e tenant store step w =
     (case ctx_guard e w of
        (Some engErr, w1) \<Rightarrow> Some (Inl engErr, w1)
      | (None, w1) \<Rightarrow>
         (case openStepConnector e tenant store step w1 of
            (Inl err, w2) \<Rightarrow> Some (Inl err, w2)
          | (Inr (reg, connector), w2) \<Rightarrow>
             map_option (\<lambda>(r, w3). (r, snd (ConnClose reg connector w3)))
               (queryStep e step reg connector w2)))"

subsection \<open>NDJSON\<close>

record ndjsonBatch =
  b_bytes :: string
  b_rows :: nat

record ndjsonEncoder =
  enc_configName :: string
  enc_buf :: string

definition newNDJSONEncoder :: "string \<Rightarrow> ndjsonEncoder" where
  "newNDJSONEncoder configName = \<lparr>enc_configName = configName, enc_buf = []\<rparr>"

text \<open>The struct tags fix the member order: config, table, row.\<close>

definition ndjsonLine :: "string \<Rightarrow> string \<Rightarrow> row \<Rightarrow> string option" where
  "ndjsonLine configName table r =
     map_option (\<lambda>body.
       ''{'' @ json_quote ''config'' @ '':'' @ json_quote configName @ '','' @
       json_quote ''table'' @ '':'' @ json_quote table @ '','' @ json_quote ''row'' @ '':'' @ body @ ''}'')
       (Marshal (AMap r))"

definition appendRow :: "string \<Rightarrow> row \<Rightarrow> ndjsonEncoder \<Rightarrow> ndjsonEncoder res" where
  "appendRow table r enc =
     (case ndjsonLine (enc_configName enc) table r of
        None \<Rightarrow> Inl (NewEngineError CategoryInternal ''failed to serialize extraction result'')
      | Some line \<Rightarrow> Inr (enc\<lparr>enc_buf := enc_buf enc @ line @ [CHR 0x0A]\<rparr>))"

definition encoder_take :: "ndjsonEncoder \<Rightarrow> string \<times> ndjsonEncoder" where
  "encoder_take enc = (enc_buf enc, enc\<lparr>enc_buf := []\<rparr>)"

abbreviation storeBatchRows :: nat where "storeBatchRows \<equiv> 256"

definition sumRowCounts :: "ExtractionPlan \<Rightarrow> nat list \<Rightarrow> (string, nat) gomap" where
  "sumRowCounts plan counts =
     foldl (\<lambda>out (step, n). AList.update (st_ConfigName step) n out) [] (zip (pl_Steps plan) counts)"

declare drainCursor.simps [code]

subsection \<open>What a step returns\<close>

definition total_rows :: "table_rows \<Rightarrow> nat" where
  "total_rows rows = sum_list (map (length \<circ> snd) rows)"

lemma total_rows_update:
  "map_ok rows \<Longrightarrow> total_rows (AList.update t rs rows) + length (slice_at rows t) = total_rows rows + length rs"
  by (induction rows) (auto simp: total_rows_def slice_at_def split: option.splits)

lemma total_rows_add [simp]: "map_ok rows \<Longrightarrow> total_rows (add_row t r rows) = Suc (total_rows rows)"
  using total_rows_update[of rows t "slice_at rows t @ [r]"] by (simp add: add_row_def)

lemma add_row_ok [simp]: "map_ok rows \<Longrightarrow> map_ok (add_row t r rows)"
  by (simp add: add_row_def)

lemma drainCursor_counts:
  assumes "drainCursor reg cur rows count w = Some (rows', count', w')" and "map_ok rows"
  shows "map_ok rows' \<and> count' + total_rows rows = count + total_rows rows'"
proof -
  let ?P = "\<lambda>_ _ rows count _ (rows', count', _). map_ok rows \<longrightarrow>
    map_ok rows' \<and> count' + total_rows rows = count + total_rows rows'"
  have "?P reg cur rows count w (rows', count', w')"
  proof (rule drainCursor.raw_induct[where P = ?P, OF _ assms(1)], goal_cases)
    case (1 drain reg cur rows count w y)
    from 1(2) show ?case
      by (auto split: prod.splits if_splits dest!: 1(1))
  qed
  with assms(2) show ?thesis by simp
qed

lemma executeStep_counts:
  "executeStep e tenant store step w = Some (Inr (rows, count), w') \<Longrightarrow>
   map_ok rows \<and> count = total_rows rows"
  by (auto simp: executeStep_def queryStep_def total_rows_def map_option_case
      split: prod.splits option.splits sum.splits dest!: drainCursor_counts)

subsection \<open>The contract of a cursor: it ends\<close>

locale finite_cursors =
  fixes reg :: "'w ConnectorRegistry" and remaining :: "nat \<Rightarrow> 'w \<Rightarrow> nat"
  assumes next_decreases: "CurNext reg cur w = (True, w') \<Longrightarrow> remaining cur w' < remaining cur w"
begin

lemma drain_returns: "drainCursor reg cur rows count w \<noteq> None"
proof (induction "remaining cur w" arbitrary: rows count w rule: less_induct)
  case less
  show ?case
    by (subst drainCursor.simps) (simp add: less next_decreases split: prod.split del: not_None_eq)
qed

lemma query_returns: "queryStep e step reg connector w \<noteq> None"
  by (simp add: queryStep_def drain_returns split: prod.split sum.split option.split)

lemma execute_returns:
  assumes "connectorRegistry (options e) = Some reg"
  shows "executeStep e tenant store step w \<noteq> None"
proof -
  have "reg' = reg" if "openStepConnector e tenant store step w1 = (Inr (reg', c), w2)" for reg' c w1 w2
    using that assms
    by (auto simp: openStepConnector_def buildConnector_def requireConnectorFactory_def
        split: prod.splits sum.splits option.splits bool.splits)
  then show ?thesis
    by (simp add: executeStep_def split: prod.split sum.split option.split)
      (metis query_returns not_None_eq prod.exhaust)
qed

end

end
