(* ===== verification/Engine_Lifecycle.thy ===== *)
theory Engine_Lifecycle
  imports Engine_Runner
begin

text \<open>
  The connector lifecycle: every connector a factory builds is closed on every path.
  The contract of \<^verbatim>\<open>connector.go\<close> is a locale over the set of live connectors of a
  world: a successful \<open>Build\<close> adds a fresh one, \<open>Close\<close> removes it (whatever
  it returns), and nothing else the Engine calls opens or closes one.
\<close>

locale connector_lifecycle =
  fixes e :: "'w Engine" and reg :: "'w ConnectorRegistry" and cs :: "'w ConnectionStore"
    and live :: "'w \<Rightarrow> nat set"
  assumes registry: "connectorRegistry (options e) = Some reg"
    and store_port: "connectionStore (options e) = Some cs"
    and build_fresh: "Build reg f d w = (Inr (Some c), w') \<Longrightarrow> c \<notin> live w \<and> live w' = insert c (live w)"
    and build_failed: "Build reg f d w = (r, w') \<Longrightarrow> \<nexists>c. r = Inr (Some c) \<Longrightarrow> live w' = live w"
    and close_law: "live (snd (ConnClose reg c w)) = live w - {c}"
    and test_frame: "live (snd (ConnTest reg c w)) = live w"
    and discover_frame: "live (snd (ConnDiscover reg c w)) = live w"
    and query_frame: "live (snd (QueryStream reg c request w)) = live w"
    and next_frame: "live (snd (CurNext reg cur w)) = live w"
    and cursor_close_frame: "live (snd (CurClose reg cur w)) = live w"
    and find_frame: "live (snd (FindConnection cs t cfg w)) = live w"
    and cache_frame: "schemaCache (options e) = Some cache \<Longrightarrow>
      live (snd (GetSchema cache t cfg w)) = live w \<and> live (snd (PutSchema cache t snap w)) = live w"
    and span_frame: "observability (options e) = Some obs \<Longrightarrow>
      live (StartSpan obs op w) = live w \<and> live (EndSpan obs op w) = live w"
    and ctx_frame: "live (snd (ctx_Err (rt e) w)) = live w" "live (ctx_WithTimeout (rt e) n w) = live w"
      "live (ctx_WithCancel (rt e) w) = live w" "live (ctx_CancelUp (rt e) k w) = live w"
      "live (ctx_Cancel (rt e) w) = live w"
begin

lemmas frames = close_law test_frame discover_frame query_frame next_frame cursor_close_frame
  find_frame ctx_frame

lemma found_frame: "live (snd (found_or m (FindConnection cs t cfg w))) = live w"
  by (simp add: found_or_def case_prod_beta frames split: sum.split option.split)

lemma guard_frame: "live (snd (ctx_guard e w)) = live w"
  by (simp add: ctx_guard_def frames case_prod_beta)

lemma safe_error_frame: "live (snd (safeConnectorError e err m w)) = live w"
  by (simp add: safeConnectorError_def case_prod_beta guard_frame split: option.split)

text \<open>What a call that hands out a connector does to the live set.\<close>

definition hands_out :: "'w \<Rightarrow> ('w ConnectorRegistry \<times> nat) res \<times> 'w \<Rightarrow> bool" where
  "hands_out w out \<longleftrightarrow>
     (case out of
        (Inl _, w') \<Rightarrow> live w' = live w
      | (Inr (reg', c), w') \<Rightarrow> reg' = reg \<and> c \<notin> live w \<and> live w' = insert c (live w))"

lemma hands_out_cases:
  assumes "hands_out w out"
  obtains (failed) err w' where "out = (Inl err, w')" "live w' = live w"
  | (built) c w' where "out = (Inr (reg, c), w')" "c \<notin> live w" "live w' = insert c (live w)"
proof (cases out)
  case (Pair r w')
  show thesis
  proof (cases r)
    case (Inl err)
    with assms Pair failed show thesis by (simp add: hands_out_def)
  next
    case (Inr rc)
    with assms Pair built show thesis by (cases rc) (simp add: hands_out_def)
  qed
qed

lemma built: "hands_out w (buildConnector e d w)"
proof (cases "requireConnectorFactory e (d_Type d) w")
  case (Inl err)
  then show ?thesis by (simp add: buildConnector_def hands_out_def)
next
  case (Inr rf)
  then obtain f where f: "rf = (reg, f)"
    using registry by (auto simp: requireConnectorFactory_def split: prod.splits option.splits bool.splits)
  obtain r w1 where b: "Build reg f d w = (r, w1)" by (cases "Build reg f d w")
  show ?thesis
  proof (cases "\<exists>c. r = Inr (Some c)")
    case True
    with b build_fresh[of f d w] Inr f show ?thesis by (auto simp: buildConnector_def hands_out_def)
  next
    case False
    with b build_failed[OF b False] Inr f show ?thesis
      by (auto simp: buildConnector_def hands_out_def split: sum.splits option.splits)
  qed
qed

lemma opened: "hands_out w (openStepConnector e t cs step w)"
proof -
  obtain r w1 where f: "found_or ''extraction references an unknown datasource connection''
      (FindConnection cs t (st_ConfigName step) w) = (r, w1)"
    by (cases "found_or ''extraction references an unknown datasource connection''
      (FindConnection cs t (st_ConfigName step) w)")
  have l1: "live w1 = live w" using found_frame f by (metis snd_conv)
  show ?thesis
  proof (cases r)
    case (Inl err)
    with f l1 show ?thesis by (simp add: openStepConnector_def hands_out_def)
  next
    case (Inr d)
    from built[of w1 d] show ?thesis
    proof (cases rule: hands_out_cases)
      case (failed err w2)
      with f Inr l1 show ?thesis by (simp add: openStepConnector_def hands_out_def)
    next
      case (built c w2)
      obtain te w3 where te: "ConnTest reg c w2 = (te, w3)" by (cases "ConnTest reg c w2")
      have "live w3 = live w2" using test_frame te by (metis snd_conv)
      moreover have "live (snd (safeConnectorError e x m (snd (ConnClose reg c w3)))) = live w3 - {c}" for x m
        by (simp add: safe_error_frame frames)
      ultimately show ?thesis
        using f Inr l1 built te
        by (auto simp: openStepConnector_def hands_out_def Let_def case_prod_beta split: option.split)
    qed
  qed
qed

lemma drain_frame:
  assumes "drainCursor reg cur rows count w = Some (rows', count', w')"
  shows "live w' = live w"
proof -
  let ?P = "\<lambda>reg' _ _ _ w (_, _, w'). reg' = reg \<longrightarrow> live w' = live w"
  have "?P reg cur rows count w (rows', count', w')"
  proof (rule drainCursor.raw_induct[where P = ?P, OF _ assms], goal_cases)
    case (1 drain reg' cur rows count w y)
    obtain ok w1 where n: "CurNext reg' cur w = (ok, w1)" by (cases "CurNext reg' cur w")
    show ?case
    proof (cases ok)
      case False
      with 1(2) n have y: "y = (rows, count, w1)" by simp
      have "live w1 = live w" if "reg' = reg" using that n next_frame[of cur w] by simp
      with y show ?thesis by simp
    next
      case True
      with 1(2) n have "drain reg' cur (add_row (fst (CurRow reg' cur w1)) (snd (CurRow reg' cur w1)) rows)
          (Suc count) w1 = Some y"
        by (simp add: case_prod_beta)
      from 1(1)[OF this] have "case y of (_, _, w') \<Rightarrow> reg' = reg \<longrightarrow> live w' = live w1" .
      moreover have "live w1 = live w" if "reg' = reg" using that n next_frame[of cur w] by simp
      ultimately show ?thesis by (simp add: case_prod_beta)
    qed
  qed
  then show ?thesis by simp
qed

lemma query_step_frame:
  assumes "queryStep e step reg c w = Some (r, w')"
  shows "live w' = live w"
proof -
  have g: "live (snd (ctx_guard e v)) = live v"
    and q: "live (snd (QueryStream reg c req v)) = live v"
    and x: "live (snd (safeConnectorError e err m v)) = live v"
    and k: "live (snd (CurClose reg cur v)) = live v" for v req err m cur
    by (simp_all add: guard_frame frames safe_error_frame)
  show ?thesis
    using assms
    by (auto simp: queryStep_def case_prod_beta g q x k dest: drain_frame split: option.splits sum.splits)
qed

lemma execute_step_closes:
  assumes "executeStep e t cs step w = Some (r, w')"
  shows "live w' = live w"
proof (cases "fst (ctx_guard e w)")
  case (Some err)
  with assms guard_frame[of w] show ?thesis by (auto simp: executeStep_def case_prod_beta)
next
  case None
  let ?w = "snd (ctx_guard e w)"
  from opened[of ?w t step] show ?thesis
  proof (cases rule: hands_out_cases)
    case (failed err w2)
    with assms None guard_frame[of w] show ?thesis by (auto simp: executeStep_def case_prod_beta)
  next
    case (built c w2)
    with assms None obtain w3 where q: "queryStep e step reg c w2 = Some (r, w3)"
      and w': "w' = snd (ConnClose reg c w3)"
      by (auto simp: executeStep_def case_prod_beta)
    from query_step_frame[OF q] built w' guard_frame[of w] show ?thesis
      by (simp add: frames)
  qed
qed

lemma span_live:
  assumes "\<And>w. live (snd (body w)) = live w"
  shows "live (snd (with_span e op body w)) = live w"
  using assms span_frame by (auto simp: with_span_def case_prod_beta split: option.split)

lemma scoped_live:
  assumes "\<And>w. live (snd (body cs w)) = live w"
  shows "live (snd (scoped e t body w)) = live w"
  using assms store_port by (auto simp: scoped_def requireConnectionStore_def split: option.split)

lemma with_connector:
  assumes "\<And>err w'. live w' = live w \<Longrightarrow> live (snd (fail err w')) = live w"
    and "\<And>c w'. c \<notin> live w \<Longrightarrow> live w' = insert c (live w) \<Longrightarrow> live (snd (use reg c w')) = live w"
  shows "live (snd (case buildConnector e d w of
      (Inl err, w') \<Rightarrow> fail err w' | (Inr (reg', c), w') \<Rightarrow> use reg' c w')) = live w"
  using built[of w d] by (cases rule: hands_out_cases) (auto simp: assms)

lemma test_connection_closes: "live (snd (TestConnection e t cfg w)) = live w"
  unfolding TestConnection_def
proof (intro span_live scoped_live)
  fix w
  let ?f = "found_or ''connection not found'' (FindConnection cs t cfg w)"
  have f: "live (snd ?f) = live w" by (rule found_frame)
  show "live (snd (case ?f of (Inl err, w1) \<Rightarrow> (Inl err, w1)
       | (Inr descriptor, w1) \<Rightarrow>
          (case buildConnector e descriptor w1 of
             (Inl err, w2) \<Rightarrow> (Inl err, w2)
           | (Inr (reg, connector), w2) \<Rightarrow>
              (case ConnTest reg connector w2 of
                 (Some _, w3) \<Rightarrow>
                   (Inl (NewEngineError CategoryConnect ''failed to connect to datasource''),
                    snd (ConnClose reg connector w3))
               | (None, w3) \<Rightarrow>
                   (Inr \<lparr>ct_Success = True, ct_ConfigName = d_ConfigName descriptor\<rparr>,
                    snd (ConnClose reg connector w3)))))) = live w"
  proof (cases "fst ?f")
    case (Inl err)
    with f show ?thesis by (simp add: case_prod_beta)
  next
    case (Inr d)
    from built[of "snd ?f" d] show ?thesis
      using f Inr by (cases rule: hands_out_cases) (auto simp: case_prod_beta frames split: option.split)
  qed
qed

lemma cached_frame: "live (snd (cachedSchema e t cfg w)) = live w"
proof (cases "schemaCache (options e)")
  case None
  then show ?thesis by (simp add: cachedSchema_def)
next
  case (Some cache)
  from cache_frame[OF Some] have "live (snd (GetSchema cache t cfg w)) = live w" by simp
  with Some show ?thesis by (simp add: cachedSchema_def case_prod_beta split: sum.split)
qed

lemma cache_put_frame: "live (cacheSchema e t snap w) = live w"
  using cache_frame by (auto simp: cacheSchema_def split: option.split)

lemma discover_live_closes: "live (snd (discoverLive e t d skip w)) = live w"
  using built[of w d]
  by (cases rule: hands_out_cases)
    (auto simp: discoverLive_def Let_def case_prod_beta frames cache_put_frame split: sum.split)

lemma resolve_closes: "live (snd (resolveSchema e t d skip w)) = live w"
  using cached_frame[of t "d_ConfigName d" w]
  by (auto simp: resolveSchema_def discover_live_closes case_prod_beta split: option.split)

lemma discover_closes: "live (snd (discoverWith op skip e t cfg w)) = live w"
  unfolding discoverWith_def
proof (intro span_live scoped_live)
  fix w
  show "live (snd (case found_or ''connection not found'' (FindConnection cs t cfg w) of
      (Inl err, w1) \<Rightarrow> (Inl err, w1)
    | (Inr descriptor, w1) \<Rightarrow> resolveSchema e t descriptor skip w1)) = live w"
    using found_frame[of "''connection not found''" t cfg w]
    by (simp add: case_prod_beta resolve_closes split: sum.split)
qed

lemma validate_datasource_closes: "live (snd (validateDatasource e t cs ds w)) = live w"
  by (simp add: validateDatasource_def case_prod_beta frames resolve_closes split: sum.split option.split)

lemma validate_datasources_closes: "live (snd (validateDatasources e t cs dss w)) = live w"
  by (induction dss arbitrary: w)
    (simp_all add: case_prod_beta validate_datasource_closes split: sum.split)

lemma timeout_live:
  assumes "\<And>w. live (snd (body w)) = live w"
  shows "live (snd (with_timeout e n body w)) = live w"
  using assms by (simp add: with_timeout_def case_prod_beta frames)

lemma validate_schema_closes: "live (snd (validateSchemaWithLimits e t request l w)) = live w"
  unfolding validateSchemaWithLimits_def
  by (intro span_live scoped_live)
    (simp add: validateStages_def validateUnderLimits_def case_prod_beta validate_datasources_closes timeout_live
      split: option.split sum.split)

lemma probe_frame: "live (snd (probeConnections cs t names w)) = live w"
  by (induction names arbitrary: w)
    (simp_all add: case_prod_beta frames split: sum.split option.split)

lemma scoped_probe_frame: "live (snd (requireScopedConnections t cs request l w)) = live w"
  by (simp add: requireScopedConnections_def Let_def case_prod_beta probe_frame split: option.split)

lemma plan_closes: "live (snd (PlanExtraction e t request w)) = live w"
  unfolding PlanExtraction_def
  by (intro span_live scoped_live)
    (auto simp: planStages_def case_prod_beta scoped_probe_frame validate_schema_closes
      split: option.split sum.split)

end

end
