(* ===== verification/Engine_Pool.thy ===== *)
theory Engine_Pool
  imports Engine_Lifecycle
begin

text \<open>
  The direct path's bounded worker pool (\<^verbatim>\<open>runner_parallel.go\<close>:
  \<^verbatim>\<open>runStepsParallel\<close>, \<^verbatim>\<open>forEachStep\<close>) as a machine. One goroutine per plan
  step; a move of goroutine \<open>i\<close> is one of the code's synchronisation points (the
  select on the semaphore and the run context, the step function, the size accounting
  under the mutex, \<^verbatim>\<open>record\<close>, the deferred release). A schedule is the list of
  moves, so every interleaving is a schedule and \<open>pool_step\<close> is executable. The host
  world is shared by all goroutines; the step function's own calls happen in one move.
\<close>

record stepResult =
  sr_ordinal :: nat
  sr_configName :: string
  sr_rows :: table_rows
  sr_count :: nat

definition zero_stepResult :: stepResult where
  "zero_stepResult = \<lparr>sr_ordinal = 0, sr_configName = [], sr_rows = [], sr_count = 0\<rparr>"

text \<open>Where a goroutine is; the flag says whether it holds a semaphore slot.\<close>

datatype gpc =
    Parked
  | Invoked bool
  | Ran bool "(table_rows \<times> nat) res"
  | Returned bool "goerror option"
  | Recorded bool
  | Joined

record 'w pool =
  pcs :: "gpc list"
  slots :: nat
  results :: "stepResult list"
  runningSize :: nat
  first :: "goerror option"
  world :: 'w

definition rows_any :: "table_rows \<Rightarrow> any" where
  "rows_any rows = AMap (map (\<lambda>(table, rs). (table, ASlice (map AMap rs))) rows)"

abbreviation sizeLimitError :: goerror where
  "sizeLimitError \<equiv>
     NewEngineError CategoryLimitExceeded ''extraction result exceeds the configured size limit''"

abbreviation serializeError :: goerror where
  "serializeError \<equiv> NewEngineError CategoryInternal ''failed to serialize extraction result''"

definition step_result :: "PlanStep \<Rightarrow> table_rows \<times> nat \<Rightarrow> stepResult" where
  "step_result step out =
     \<lparr>sr_ordinal = st_Ordinal step, sr_configName = st_ConfigName step,
      sr_rows = fst out, sr_count = snd out\<rparr>"

definition set_pc :: "nat \<Rightarrow> gpc \<Rightarrow> 'w pool \<Rightarrow> 'w pool" where
  "set_pc i pc st = st\<lparr>pcs := (pcs st)[i := pc]\<rparr>"

text \<open>The rest of the step function after \<open>executeStep\<close> returned rows.\<close>

definition account :: "ExtractionPlan \<Rightarrow> nat \<Rightarrow> bool \<Rightarrow> table_rows \<times> nat \<Rightarrow> 'w pool \<Rightarrow> 'w pool" where
  "account plan i slot out st =
     (let maximum = MaxResultBytes (pl_Limits plan);
          kept = st\<lparr>results := (results st)[i := step_result (pl_Steps plan ! i) out]\<rparr>
      in if maximum > 0
         then (case Marshal (rows_any (fst out)) of
                 None \<Rightarrow> set_pc i (Returned slot (Some serializeError)) st
               | Some bytes \<Rightarrow>
                  (let size = runningSize st + length bytes
                   in if int size > maximum
                      then set_pc i (Returned slot (Some sizeLimitError)) (st\<lparr>runningSize := size\<rparr>)
                      else set_pc i (Returned slot None) (kept\<lparr>runningSize := size\<rparr>)))
         else set_pc i (Returned slot None) kept)"

text \<open>\<^verbatim>\<open>record\<close>: only the first error is kept, and it cancels the run context.\<close>

definition record_error :: "'w Engine \<Rightarrow> goerror option \<Rightarrow> 'w pool \<Rightarrow> 'w pool" where
  "record_error e err st =
     (if err = None \<or> first st \<noteq> None then st
      else st\<lparr>first := err, world := ctx_CancelUp (rt e) 0 (world st)\<rparr>)"

text \<open>A move: the goroutine and, at its select, the branch it takes.\<close>

type_synonym move = "nat \<times> bool"

definition pool_step ::
  "'w Engine \<Rightarrow> TenantContext \<Rightarrow> 'w ConnectionStore \<Rightarrow> ExtractionPlan \<Rightarrow> move \<Rightarrow> 'w pool \<Rightarrow> 'w pool option"
where
  "pool_step e tenant store plan m st =
     (case m of (i, acquire) \<Rightarrow>
       if i \<ge> length (pcs st) then None
       else (case pcs st ! i of
         Parked \<Rightarrow>
           if acquire
           then (if slots st < effectiveConcurrency (pl_Limits plan)
                 then Some (set_pc i (Invoked True) (st\<lparr>slots := Suc (slots st)\<rparr>)) else None)
           else (case ctx_Err (rt e) (world st) of
                   (None, _) \<Rightarrow> None
                 | (Some _, w) \<Rightarrow> Some (set_pc i (Invoked False) (st\<lparr>world := w\<rparr>)))
       | Invoked slot \<Rightarrow>
           map_option (\<lambda>(r, w). set_pc i (Ran slot r) (st\<lparr>world := w\<rparr>))
             (executeStep e tenant store (pl_Steps plan ! i) (world st))
       | Ran slot (Inl err) \<Rightarrow> Some (set_pc i (Returned slot (Some err)) st)
       | Ran slot (Inr out) \<Rightarrow> Some (account plan i slot out st)
       | Returned slot err \<Rightarrow> Some (set_pc i (Recorded slot) (record_error e err st))
       | Recorded slot \<Rightarrow>
           Some (set_pc i Joined (st\<lparr>slots := slots st - (if slot then 1 else 0)\<rparr>))
       | Joined \<Rightarrow> None))"

fun pool_run ::
  "'w Engine \<Rightarrow> TenantContext \<Rightarrow> 'w ConnectionStore \<Rightarrow> ExtractionPlan \<Rightarrow> move list \<Rightarrow> 'w pool \<Rightarrow> 'w pool option"
where
  "pool_run e tenant store plan [] st = Some st"
| "pool_run e tenant store plan (m # ms) st =
     (case pool_step e tenant store plan m st of
        None \<Rightarrow> None
      | Some st' \<Rightarrow> pool_run e tenant store plan ms st')"

definition pool_init :: "ExtractionPlan \<Rightarrow> 'w \<Rightarrow> 'w pool" where
  "pool_init plan w =
     \<lparr>pcs = replicate (length (pl_Steps plan)) Parked, slots = 0,
      results = replicate (length (pl_Steps plan)) zero_stepResult,
      runningSize = 0, first = None, world = w\<rparr>"

definition joined :: "'w pool \<Rightarrow> bool" where
  "joined st \<longleftrightarrow> (\<forall>pc \<in> set (pcs st). pc = Joined)"

text \<open>
  \<open>runStepsParallel\<close> under a schedule: \<^const>\<open>None\<close> when the schedule is not one
  of complete executions.
\<close>

definition runStepsParallel ::
  "move list \<Rightarrow> 'w Engine \<Rightarrow> TenantContext \<Rightarrow> 'w ConnectionStore \<Rightarrow> ExtractionPlan \<Rightarrow> 'w \<Rightarrow>
   (stepResult list res \<times> 'w) option" where
  "runStepsParallel sched e tenant store plan w =
     (if pl_Steps plan = [] then (if sched = [] then Some (Inr [], w) else None)
      else
        (case pool_run e tenant store plan sched (pool_init plan (ctx_WithCancel (rt e) w)) of
           None \<Rightarrow> None
         | Some st \<Rightarrow>
             if \<not> joined st then None
             else
               (case first st of
                  Some err \<Rightarrow> Some (Inl err, ctx_Cancel (rt e) (world st))
                | None \<Rightarrow>
                   (case ctx_guard e (ctx_Cancel (rt e) (world st)) of
                      (Some engErr, w1) \<Rightarrow> Some (Inl engErr, w1)
                    | (None, w1) \<Rightarrow> Some (Inr (results st), w1)))))"

subsection \<open>Reachable pools\<close>

inductive reachable ::
  "'w Engine \<Rightarrow> TenantContext \<Rightarrow> 'w ConnectionStore \<Rightarrow> ExtractionPlan \<Rightarrow> 'w \<Rightarrow> 'w pool \<Rightarrow> bool"
  for e tenant store plan w where
  start: "reachable e tenant store plan w (pool_init plan w)"
| move: "reachable e tenant store plan w st \<Longrightarrow> pool_step e tenant store plan m st = Some st' \<Longrightarrow>
    reachable e tenant store plan w st'"

lemma pool_run_reachable:
  "reachable e t store plan w st \<Longrightarrow> pool_run e t store plan ms st = Some st' \<Longrightarrow>
   reachable e t store plan w st'"
  by (induction ms arbitrary: st) (auto split: option.splits intro: reachable.move)

fun holds_slot :: "gpc \<Rightarrow> bool" where
  "holds_slot (Invoked s) = s"
| "holds_slot (Ran s _) = s"
| "holds_slot (Returned s _) = s"
| "holds_slot (Recorded s) = s"
| "holds_slot _ = False"

fun rank :: "gpc \<Rightarrow> nat" where
  "rank Parked = 5"
| "rank (Invoked _) = 4"
| "rank (Ran _ _) = 3"
| "rank (Returned _ _) = 2"
| "rank (Recorded _) = 1"
| "rank Joined = 0"

definition work_left :: "'w pool \<Rightarrow> nat" where
  "work_left st = sum_list (map rank (pcs st))"

lemma pool_step_cases:
  assumes "pool_step e t store plan (i, b) st = Some st'"
  obtains
    (acquire) "i < length (pcs st)" "pcs st ! i = Parked" "slots st < effectiveConcurrency (pl_Limits plan)"
      "st' = set_pc i (Invoked True) (st\<lparr>slots := Suc (slots st)\<rparr>)"
  | (skip) err w where "i < length (pcs st)" "pcs st ! i = Parked" "ctx_Err (rt e) (world st) = (Some err, w)"
      "st' = set_pc i (Invoked False) (st\<lparr>world := w\<rparr>)"
  | (run) s r w where "i < length (pcs st)" "pcs st ! i = Invoked s"
      "executeStep e t store (pl_Steps plan ! i) (world st) = Some (r, w)"
      "st' = set_pc i (Ran s r) (st\<lparr>world := w\<rparr>)"
  | (failed) s err where "i < length (pcs st)" "pcs st ! i = Ran s (Inl err)"
      "st' = set_pc i (Returned s (Some err)) st"
  | (unserialized) s out where "i < length (pcs st)" "pcs st ! i = Ran s (Inr out)"
      "MaxResultBytes (pl_Limits plan) > 0" "Marshal (rows_any (fst out)) = None"
      "st' = set_pc i (Returned s (Some serializeError)) st"
  | (over_limit) s out c where "i < length (pcs st)" "pcs st ! i = Ran s (Inr out)"
      "MaxResultBytes (pl_Limits plan) > 0" "Marshal (rows_any (fst out)) = Some c"
      "int (runningSize st + length c) > MaxResultBytes (pl_Limits plan)"
      "st' = set_pc i (Returned s (Some sizeLimitError)) (st\<lparr>runningSize := runningSize st + length c\<rparr>)"
  | (kept) s out c where "i < length (pcs st)" "pcs st ! i = Ran s (Inr out)"
      "MaxResultBytes (pl_Limits plan) > 0" "Marshal (rows_any (fst out)) = Some c"
      "int (runningSize st + length c) \<le> MaxResultBytes (pl_Limits plan)"
      "st' = set_pc i (Returned s None) (st\<lparr>results := (results st)[i := step_result (pl_Steps plan ! i) out],
         runningSize := runningSize st + length c\<rparr>)"
  | (unbounded) s out where "i < length (pcs st)" "pcs st ! i = Ran s (Inr out)"
      "\<not> MaxResultBytes (pl_Limits plan) > 0"
      "st' = set_pc i (Returned s None) (st\<lparr>results := (results st)[i := step_result (pl_Steps plan ! i) out]\<rparr>)"
  | (recorded) s err where "i < length (pcs st)" "pcs st ! i = Returned s err"
      "st' = set_pc i (Recorded s) (record_error e err st)"
  | (left) s where "i < length (pcs st)" "pcs st ! i = Recorded s"
      "st' = set_pc i Joined (st\<lparr>slots := slots st - (if s then 1 else 0)\<rparr>)"
proof -
  have i: "i < length (pcs st)" using assms by (auto simp: pool_step_def split: if_splits)
  show thesis
  proof (cases "pcs st ! i")
    case Parked
    with assms i acquire skip show thesis
      by (auto simp: pool_step_def split: if_splits prod.splits option.splits)
  next
    case (Invoked s)
    with assms i run show thesis by (auto simp: pool_step_def)
  next
    case (Ran s r)
    with assms i failed unserialized over_limit kept unbounded show thesis
      by (cases r) (auto simp: pool_step_def account_def Let_def split: if_splits option.splits)
  next
    case (Returned s err)
    with assms i recorded show thesis by (simp add: pool_step_def)
  next
    case (Recorded s)
    with assms i left show thesis by (simp add: pool_step_def)
  next
    case Joined
    with assms i show thesis by (simp add: pool_step_def)
  qed
qed

lemma set_pc_simps [simp]:
  "pcs (set_pc i pc st) = (pcs st)[i := pc]" "slots (set_pc i pc st) = slots st"
  "results (set_pc i pc st) = results st" "runningSize (set_pc i pc st) = runningSize st"
  "first (set_pc i pc st) = first st" "world (set_pc i pc st) = world st"
  by (simp_all add: set_pc_def)

lemma record_error_simps [simp]:
  "pcs (record_error e err st) = pcs st" "slots (record_error e err st) = slots st"
  "results (record_error e err st) = results st" "runningSize (record_error e err st) = runningSize st"
  "first (record_error e err st) = (if first st = None then err else first st)"
  by (auto simp: record_error_def)

text \<open>Every move replaces one goroutine's position by a later one.\<close>

lemma pool_step_pcs:
  assumes "pool_step e t store plan (i, b) st = Some st'"
  obtains pc where "i < length (pcs st)" "pcs st' = (pcs st)[i := pc]" "rank pc < rank (pcs st ! i)"
  using assms by (cases rule: pool_step_cases) (auto intro: that)

lemma work_left_decreases:
  assumes "pool_step e t store plan m st = Some st'"
  shows "work_left st' < work_left st"
proof -
  obtain i b where m: "m = (i, b)" by (cases m)
  with assms obtain pc where pc: "i < length (pcs st)" "pcs st' = (pcs st)[i := pc]"
      "rank pc < rank (pcs st ! i)"
    by (blast elim: pool_step_pcs)
  from sum_list_map_update[OF pc(1), of rank pc] pc(2,3) show ?thesis by (simp add: work_left_def)
qed

lemma pool_run_bounded:
  "pool_run e t store plan ms st = Some st' \<Longrightarrow> length ms + work_left st' \<le> work_left st"
proof (induction ms arbitrary: st)
  case (Cons m ms)
  then obtain st1 where s: "pool_step e t store plan m st = Some st1"
      "pool_run e t store plan ms st1 = Some st'"
    by (auto split: option.splits)
  with Cons.IH[OF s(2)] work_left_decreases[OF s(1)] show ?case by simp
qed simp

subsection \<open>The semaphore\<close>

definition holders :: "'w pool \<Rightarrow> nat" where
  "holders st = length (filter holds_slot (pcs st))"

definition slots_ok :: "ExtractionPlan \<Rightarrow> 'w pool \<Rightarrow> bool" where
  "slots_ok plan st \<longleftrightarrow> slots st = holders st \<and> holders st \<le> effectiveConcurrency (pl_Limits plan)"

lemma slots_ok_step:
  assumes "slots_ok plan st" and "pool_step e t store plan m st = Some st'"
  shows "slots_ok plan st'"
proof -
  obtain i b where m: "m = (i, b)" by (cases m)
  from assms(2)[unfolded m] show ?thesis
  proof (cases rule: pool_step_cases)
    case acquire
    with assms(1) filter_length_update[of i "pcs st" holds_slot "Invoked True"] show ?thesis
      by (simp add: slots_ok_def holders_def)
  next
    case (left s)
    with assms(1) filter_length_update[of i "pcs st" holds_slot Joined] show ?thesis
      by (auto simp: slots_ok_def holders_def split: if_splits)
  qed (use assms(1) in \<open>simp_all add: slots_ok_def holders_def filter_length_same\<close>)
qed

lemma effectiveConcurrency_pos [simp]: "0 < effectiveConcurrency l"
  by (simp add: effectiveConcurrency_def)

lemma reachable_slots: "reachable e t store plan w st \<Longrightarrow> slots_ok plan st"
proof (induction rule: reachable.induct)
  case start
  then show ?case by (simp add: slots_ok_def holders_def pool_init_def)
next
  case (move st m st')
  then show ?case by (blast intro: slots_ok_step)
qed

subsection \<open>No deadlock\<close>

lemma not_stuck:
  assumes "slots_ok plan st" and "\<not> joined st"
    and returns: "\<And>step w. executeStep e t store step w \<noteq> None"
  shows "\<exists>m st'. pool_step e t store plan m st = Some st'"
proof (cases "\<exists>i < length (pcs st). pcs st ! i \<noteq> Parked \<and> pcs st ! i \<noteq> Joined")
  case True
  then obtain i where i: "i < length (pcs st)" "pcs st ! i \<noteq> Parked" "pcs st ! i \<noteq> Joined" by blast
  have "pool_step e t store plan (i, True) st \<noteq> None"
    using i returns[of "pl_Steps plan ! i" "world st"]
    by (cases "pcs st ! i") (auto simp: pool_step_def simp del: not_None_eq split: sum.split)
  then show ?thesis by blast
next
  case False
  then have "\<forall>pc \<in> set (pcs st). pc = Parked \<or> pc = Joined" by (auto simp: in_set_conv_nth)
  then have "filter holds_slot (pcs st) = []" by (auto simp: filter_empty_conv)
  with assms(1) have "slots st = 0" by (simp add: slots_ok_def holders_def)
  moreover obtain i where "i < length (pcs st)" "pcs st ! i = Parked"
    using assms(2) False by (metis joined_def in_set_conv_nth)
  ultimately have "pool_step e t store plan (i, True) st \<noteq> None" by (simp add: pool_step_def)
  then show ?thesis by blast
qed

lemma completes:
  assumes "slots_ok plan st" and "\<And>step w. executeStep e t store step w \<noteq> None"
  shows "\<exists>ms st'. pool_run e t store plan ms st = Some st' \<and> joined st'"
  using assms(1)
proof (induction "work_left st" arbitrary: st rule: less_induct)
  case less
  show ?case
  proof (cases "joined st")
    case True
    then have "pool_run e t store plan [] st = Some st \<and> joined st" by simp
    then show ?thesis by blast
  next
    case False
    then obtain m st1 where m: "pool_step e t store plan m st = Some st1"
      using not_stuck[OF less.prems _ assms(2)] by blast
    with less slots_ok_step[OF less.prems m] work_left_decreases[OF m] obtain ms st' where
      "pool_run e t store plan ms st1 = Some st'" "joined st'"
      by blast
    with m have "pool_run e t store plan (m # ms) st = Some st' \<and> joined st'" by simp
    then show ?thesis by blast
  qed
qed

subsection \<open>What a joined pool holds\<close>

text \<open>What a step can return in a world that satisfies \<open>P\<close>, an invariant of the run.\<close>

definition yields :: "('w \<Rightarrow> bool) \<Rightarrow> 'w Engine \<Rightarrow> TenantContext \<Rightarrow> 'w ConnectionStore \<Rightarrow> PlanStep \<Rightarrow> table_rows \<times> nat \<Rightarrow> bool" where
  "yields P e t store step out \<longleftrightarrow> (\<exists>w w'. P w \<and> executeStep e t store step w = Some (Inr out, w'))"

definition stored_result ::
  "('w \<Rightarrow> bool) \<Rightarrow> 'w Engine \<Rightarrow> TenantContext \<Rightarrow> 'w ConnectionStore \<Rightarrow> PlanStep \<Rightarrow> stepResult \<Rightarrow> bool" where
  "stored_result P e t store step r \<longleftrightarrow> (\<exists>out. yields P e t store step out \<and> r = step_result step out)"

lemma stored_resultI: "yields P e t store step out \<Longrightarrow> stored_result P e t store step (step_result step out)"
  unfolding stored_result_def by blast

text \<open>What a position says about a step, given whether an error is recorded and a result stored.\<close>

fun pc_fact :: "(table_rows \<times> nat \<Rightarrow> bool) \<Rightarrow> bool \<Rightarrow> bool \<Rightarrow> gpc \<Rightarrow> bool" where
  "pc_fact good err kept (Ran _ (Inr out)) = good out"
| "pc_fact good err kept (Returned _ None) = kept"
| "pc_fact good err kept (Recorded _) = (err \<or> kept)"
| "pc_fact good err kept Joined = (err \<or> kept)"
| "pc_fact good err kept _ = True"

lemma pc_fact_mono: "pc_fact good err kept pc \<Longrightarrow> err \<longrightarrow> err' \<Longrightarrow> pc_fact good err' kept pc"
  by (induction good err kept pc rule: pc_fact.induct) auto

lemma pc_fact_Ran [simp]: "pc_fact good err kept (Ran s r) \<longleftrightarrow> (\<forall>out. r = Inr out \<longrightarrow> good out)"
  by (cases r) auto

lemma pc_fact_Returned [simp]: "pc_fact good err kept (Returned s x) \<longleftrightarrow> (x = None \<longrightarrow> kept)"
  by (cases x) auto

definition results_ok ::
  "('w \<Rightarrow> bool) \<Rightarrow> 'w Engine \<Rightarrow> TenantContext \<Rightarrow> 'w ConnectionStore \<Rightarrow> ExtractionPlan \<Rightarrow> 'w pool \<Rightarrow> bool" where
  "results_ok P e t store plan st \<longleftrightarrow>
     length (pcs st) = length (pl_Steps plan) \<and> length (results st) = length (pl_Steps plan) \<and>
     (\<forall>i < length (pl_Steps plan).
        pc_fact (yields P e t store (pl_Steps plan ! i)) (first st \<noteq> None)
          (stored_result P e t store (pl_Steps plan ! i) (results st ! i)) (pcs st ! i))"

lemma results_ok_pc:
  "results_ok P e t store plan st \<Longrightarrow> i < length (pcs st) \<Longrightarrow>
   pc_fact (yields P e t store (pl_Steps plan ! i)) (first st \<noteq> None)
     (stored_result P e t store (pl_Steps plan ! i) (results st ! i)) (pcs st ! i)"
  by (simp add: results_ok_def)

lemma results_ok_step:
  assumes ok: "results_ok P e t store plan st" and "pool_step e t store plan m st = Some st'"
    and P: "P (world st)"
  shows "results_ok P e t store plan st'"
proof -
  obtain i b where m: "m = (i, b)" by (cases m)
  note defs = results_ok_def nth_list_update
  from assms(2)[unfolded m] show ?thesis
  proof (cases rule: pool_step_cases)
    case (run s r w)
    with ok P show ?thesis by (auto simp: defs yields_def)
  next
    case (kept s out c)
    with results_ok_pc[OF ok, of i] have "yields P e t store (pl_Steps plan ! i) out" by simp
    with kept ok show ?thesis by (auto simp: defs intro: stored_resultI)
  next
    case (unbounded s out)
    with results_ok_pc[OF ok, of i] have "yields P e t store (pl_Steps plan ! i) out" by simp
    with unbounded ok show ?thesis by (auto simp: defs intro: stored_resultI)
  next
    case (recorded s err)
    with results_ok_pc[OF ok, of i] have
      "err = None \<longrightarrow> stored_result P e t store (pl_Steps plan ! i) (results st ! i)" by simp
    with recorded ok show ?thesis by (auto simp: defs intro: pc_fact_mono)
  next
    case (left s)
    with results_ok_pc[OF ok, of i] ok show ?thesis by (auto simp: defs)
  qed (use ok in \<open>simp_all add: defs\<close>)
qed

lemma reachable_results:
  assumes "reachable e t store plan w st" and inv: "\<And>st. reachable e t store plan w st \<Longrightarrow> P (world st)"
  shows "results_ok P e t store plan st"
  using assms(1)
proof (induction rule: reachable.induct)
  case start
  then show ?case by (simp add: results_ok_def pool_init_def)
next
  case (move st m st')
  then show ?case using inv[OF move(1)] by (blast intro: results_ok_step)
qed

lemma runStepsParallel_results:
  assumes "runStepsParallel sched e t store plan w = Some (Inr rs, w')"
    and inv: "\<And>st. reachable e t store plan (ctx_WithCancel (rt e) w) st \<Longrightarrow> P (world st)"
  shows "length rs = length (pl_Steps plan) \<and>
    (\<forall>i < length rs. stored_result P e t store (pl_Steps plan ! i) (rs ! i))"
proof (cases "pl_Steps plan = []")
  case True
  with assms(1) show ?thesis by (auto simp: runStepsParallel_def split: if_splits)
next
  case False
  with assms(1) obtain st where
    st: "pool_run e t store plan sched (pool_init plan (ctx_WithCancel (rt e) w)) = Some st"
      "joined st" "first st = None" "rs = results st"
    by (auto simp: runStepsParallel_def split: option.splits if_splits prod.splits)
  have ok: "results_ok P e t store plan st"
    using reachable_results[where P = P, OF pool_run_reachable[OF reachable.start st(1)] inv] .
  have "pcs st ! i = Joined" if "i < length (pcs st)" for i
    using that st(2) by (simp add: joined_def)
  with ok st(3,4) show ?thesis by (simp add: results_ok_def)
qed

subsection \<open>The running size is a lower bound\<close>

definition step_size :: "table_rows \<times> nat \<Rightarrow> nat" where
  "step_size out = marshal_size (rows_any (fst out))"

text \<open>
  For steps whose rows are determined (\<open>data i\<close>), the running size never exceeds
  what the accounted steps add up to, and a size-limit error means it is over the limit.
\<close>

definition accounted :: "'w pool \<Rightarrow> nat set" where
  "accounted st = {i. i < length (pcs st) \<and> rank (pcs st ! i) \<le> 2}"

definition size_ok :: "(nat \<Rightarrow> table_rows \<times> nat) \<Rightarrow> ExtractionPlan \<Rightarrow> 'w pool \<Rightarrow> bool" where
  "size_ok data plan st \<longleftrightarrow>
     runningSize st \<le> (\<Sum>i \<in> accounted st. step_size (data i)) \<and>
     (first st = Some sizeLimitError \<or> (\<exists>i < length (pcs st). \<exists>s. pcs st ! i = Returned s (Some sizeLimitError)) \<longrightarrow>
        int (runningSize st) > MaxResultBytes (pl_Limits plan)) \<and>
     (\<forall>i < length (pcs st). \<forall>s r. pcs st ! i = Ran s r \<longrightarrow>
        r \<noteq> Inl sizeLimitError \<and> (\<forall>out. r = Inr out \<longrightarrow> out = data i))"

lemma size_ok_ran: "size_ok data plan st \<Longrightarrow> i < length (pcs st) \<Longrightarrow> pcs st ! i = Ran s (Inr out) \<Longrightarrow> out = data i"
  unfolding size_ok_def by blast

lemma finite_accounted [simp]: "finite (accounted st)"
  by (simp add: accounted_def)

lemma accounted_update:
  "pcs st' = (pcs st)[i := pc] \<Longrightarrow> i < length (pcs st) \<Longrightarrow>
   accounted st' = (if rank pc \<le> 2 then insert i (accounted st) else accounted st - {i})"
  by (auto simp: accounted_def nth_list_update)

lemma serialize_not_size: "serializeError \<noteq> sizeLimitError"
  by simp

lemma size_ok_step:
  assumes ok: "size_ok data plan st" and step: "pool_step e t store plan m st = Some st'"
    and det: "\<And>i out. yields P e t store (pl_Steps plan ! i) out \<Longrightarrow> out = data i"
    and lim: "\<And>i w w'. P w \<Longrightarrow> executeStep e t store (pl_Steps plan ! i) w \<noteq> Some (Inl sizeLimitError, w')"
    and P: "P (world st)"
  shows "size_ok data plan st'"
proof -
  obtain i b where m: "m = (i, b)" by (cases m)
  from ok have le: "runningSize st \<le> (\<Sum>i \<in> accounted st. step_size (data i))" by (simp add: size_ok_def)
  have grow: "(\<Sum>i \<in> accounted st. step_size (data i)) \<le> (\<Sum>i \<in> insert i (accounted st). step_size (data i))"
    by (rule sum_mono2) auto
  from step[unfolded m] show ?thesis
  proof (cases rule: pool_step_cases)
    case acquire
    then have "accounted st' = accounted st" by (auto simp: accounted_def nth_list_update)
    with acquire ok show ?thesis by (auto simp: size_ok_def nth_list_update)
  next
    case (skip err w)
    then have "accounted st' = accounted st" by (auto simp: accounted_def nth_list_update)
    with skip ok show ?thesis by (auto simp: size_ok_def nth_list_update)
  next
    case (run s r w)
    then have "accounted st' = accounted st" by (auto simp: accounted_def nth_list_update)
    moreover have "r \<noteq> Inl sizeLimitError" "\<forall>out. r = Inr out \<longrightarrow> out = data i"
      using run(3) lim[OF P] det P unfolding yields_def by blast+
    ultimately show ?thesis using run ok by (auto simp: size_ok_def nth_list_update)
  next
    case (failed s err)
    then have "accounted st' = insert i (accounted st)" by (auto simp: accounted_def nth_list_update)
    moreover have "err \<noteq> sizeLimitError" using failed ok by (auto simp: size_ok_def)
    ultimately show ?thesis using failed ok le grow by (auto simp: size_ok_def nth_list_update)
  next
    case (unserialized s out)
    then have "accounted st' = insert i (accounted st)" by (auto simp: accounted_def nth_list_update)
    with unserialized ok le grow serialize_not_size show ?thesis by (auto simp: size_ok_def nth_list_update)
  next
    case (over_limit s out c)
    then have a: "accounted st' = insert i (accounted st)" "i \<notin> accounted st"
      by (auto simp: accounted_def nth_list_update)
    have "step_size (data i) = length c"
      using over_limit(4) size_ok_ran[OF ok over_limit(1,2)] by (simp add: step_size_def marshal_size_def)
    with a over_limit ok le show ?thesis by (auto simp: size_ok_def nth_list_update)
  next
    case (kept s out c)
    then have a: "accounted st' = insert i (accounted st)" "i \<notin> accounted st"
      by (auto simp: accounted_def nth_list_update)
    have "step_size (data i) = length c"
      using kept(4) size_ok_ran[OF ok kept(1,2)] by (simp add: step_size_def marshal_size_def)
    with a kept ok le show ?thesis by (auto simp: size_ok_def nth_list_update)
  next
    case (unbounded s out)
    then have "accounted st' = insert i (accounted st)" by (auto simp: accounted_def nth_list_update)
    with unbounded ok le grow show ?thesis by (auto simp: size_ok_def nth_list_update)
  next
    case (recorded s err)
    then have "accounted st' = accounted st" by (auto simp: accounted_def nth_list_update)
    with recorded ok show ?thesis by (auto simp: size_ok_def nth_list_update)
  next
    case (left s)
    then have "accounted st' = accounted st" by (auto simp: accounted_def nth_list_update)
    with left ok show ?thesis by (auto simp: size_ok_def nth_list_update)
  qed
qed

lemma reachable_size:
  assumes "reachable e t store plan w st"
    and "\<And>i out. yields P e t store (pl_Steps plan ! i) out \<Longrightarrow> out = data i"
    and "\<And>i w w'. P w \<Longrightarrow> executeStep e t store (pl_Steps plan ! i) w \<noteq> Some (Inl sizeLimitError, w')"
    and inv: "\<And>st. reachable e t store plan w st \<Longrightarrow> P (world st)"
  shows "size_ok data plan st"
  using assms(1)
proof (induction rule: reachable.induct)
  case start
  then show ?case by (auto simp: size_ok_def pool_init_def)
next
  case (move st m st')
  from move(3,2) assms(2,3) inv[OF move(1)] show ?case by (rule size_ok_step)
qed

lemma accounted_bound:
  assumes "results_ok P e t store plan st"
  shows "(\<Sum>i \<in> accounted st. step_size (data i)) \<le> sum_list (map (step_size \<circ> data) [0..<length (pl_Steps plan)])"
proof -
  have "(\<Sum>i \<in> accounted st. step_size (data i)) \<le> (\<Sum>i \<in> {0..<length (pl_Steps plan)}. step_size (data i))"
    using assms by (intro sum_mono2) (auto simp: accounted_def results_ok_def)
  then show ?thesis by (simp add: sum_list_distinct_conv_sum_set interv_sum_list_conv_sum_set_nat)
qed

subsection \<open>Connectors under the pool\<close>

context connector_lifecycle
begin

lemma record_error_live: "live (world (record_error e err st)) = live (world st)"
  by (simp add: record_error_def frames)

lemma pool_step_live:
  assumes "pool_step e t cs plan m st = Some st'"
  shows "live (world st') = live (world st)"
proof -
  obtain i b where m: "m = (i, b)" by (cases m)
  from assms[unfolded m] show ?thesis
  proof (cases rule: pool_step_cases)
    case (skip err w)
    then show ?thesis using ctx_frame(1)[of "world st"] by simp
  next
    case (run s r w)
    then show ?thesis using execute_step_closes by simp
  qed (simp_all add: record_error_live)
qed

lemma pool_run_live: "pool_run e t cs plan ms st = Some st' \<Longrightarrow> live (world st') = live (world st)"
  by (induction ms arbitrary: st) (auto split: option.splits dest: pool_step_live)

lemma run_parallel_closes:
  assumes "runStepsParallel sched e t cs plan w = Some (r, w')"
  shows "live w' = live w"
proof (cases "pl_Steps plan = []")
  case True
  with assms show ?thesis by (auto simp: runStepsParallel_def split: if_splits)
next
  case False
  with assms obtain st where
    st: "pool_run e t cs plan sched (pool_init plan (ctx_WithCancel (rt e) w)) = Some st" and
    w': "w' = ctx_Cancel (rt e) (world st) \<or> w' = snd (ctx_guard e (ctx_Cancel (rt e) (world st)))"
    by (auto simp: runStepsParallel_def case_prod_beta split: option.splits if_splits)
  have "live (world st) = live w"
    using pool_run_live[OF st] by (simp add: pool_init_def frames)
  with w' show ?thesis by (elim disjE) (simp_all add: frames guard_frame)
qed

end

end
