(* ===== verification/Engine_Stream.thy ===== *)
theory Engine_Stream
  imports Engine_Pool
begin

text \<open>
  The store path (\<^verbatim>\<open>runner_parallel.go\<close>: \<^verbatim>\<open>streamSteps\<close>,
  \<^verbatim>\<open>streamPlanToSink\<close>, \<^verbatim>\<open>streamStep\<close>, \<^verbatim>\<open>flushBatch\<close>): one producer
  goroutine per step, a size-one channel per step, an ordinal window of gates, one
  writer that drains the channels in ordinal order, and the goroutine that waits for
  both. As in \<open>Engine_Pool\<close> a schedule is a list of moves and \<open>stream_step\<close> is
  executable; here a producer's loop is split at every \<^verbatim>\<open>cursor.Next\<close> and at every
  channel operation, and a host panic is a move of its own.

  \<open>h_rows\<close> and \<open>h_sent\<close> are history variables: the rows a step encoded and the
  batches it sent. No move reads them.
\<close>

record 'w producer =
  p_reg :: "'w ConnectorRegistry"
  p_conn :: nat
  p_cur :: nat
  p_enc :: ndjsonEncoder
  p_count :: nat
  p_pending :: nat

text \<open>What the deferred calls of \<open>streamStep\<close> still have to close: the connector and, once open, the cursor.\<close>

type_synonym 'w held = "('w ConnectorRegistry \<times> nat \<times> nat option) option"

datatype 'w spc =
    Gated
  | Entered
  | Streaming "'w producer"
  | Sending bool "'w producer" ndjsonBatch
  | Closing "'w held" "nat res"
  | StepReturned "nat res"
  | StepRecorded
  | Finished

fun is_finished :: "'w spc \<Rightarrow> bool" where
  "is_finished Finished = True"
| "is_finished _ = False"

record writerOutcome =
  wo_digest :: string
  wo_rowCount :: nat
  wo_size :: nat

datatype wpc = WRecv nat | WGot nat ndjsonBatch | WDone "writerOutcome res"

record 'w stream =
  spcs :: "'w spc list"
  chans :: "ndjsonBatch list list"
  closed :: "bool list"
  rowCounts :: "nat list"
  sfirst :: "goerror option"
  writer :: wpc
  hashed :: string
  wrows :: nat
  wsize :: nat
  runErr :: "goerror option option"
  sworld :: 'w
  h_rows :: "(string \<times> row) list list"
  h_sent :: "ndjsonBatch list list"

definition set_spc :: "nat \<Rightarrow> 'w spc \<Rightarrow> 'w stream \<Rightarrow> 'w stream" where
  "set_spc i pc st = st\<lparr>spcs := (spcs st)[i := pc]\<rparr>"

subsection \<open>Producers\<close>

definition held_of :: "'w producer \<Rightarrow> 'w held" where
  "held_of p = Some (p_reg p, p_conn p, Some (p_cur p))"

text \<open>Entering \<open>streamStep\<close>: the cancel guard, the connector, the cursor.\<close>

definition open_stream ::
  "'w Engine \<Rightarrow> TenantContext \<Rightarrow> 'w ConnectionStore \<Rightarrow> PlanStep \<Rightarrow> 'w \<Rightarrow> 'w spc \<times> 'w" where
  "open_stream e tenant store step w =
     (case ctx_guard e w of
        (Some engErr, w1) \<Rightarrow> (Closing None (Inl engErr), w1)
      | (None, w1) \<Rightarrow>
         (case openStepConnector e tenant store step w1 of
            (Inl err, w2) \<Rightarrow> (Closing None (Inl err), w2)
          | (Inr (reg, connector), w2) \<Rightarrow>
             (case QueryStream reg connector (extractionRequestForStep step) w2 of
                (Inl err, w3) \<Rightarrow>
                  (case safeConnectorError e err ''failed to query datasource'' w3 of
                     (engErr, w4) \<Rightarrow> (Closing (Some (reg, connector, None)) (Inl engErr), w4))
              | (Inr cursor, w3) \<Rightarrow>
                  (Streaming \<lparr>p_reg = reg, p_conn = connector, p_cur = cursor,
                              p_enc = newNDJSONEncoder (st_ConfigName step), p_count = 0,
                              p_pending = 0\<rparr>, w3))))"

text \<open>\<^verbatim>\<open>flushBatch\<close> up to its select: the encoder's bytes become the batch to send.\<close>

definition flushBatch :: "bool \<Rightarrow> 'w producer \<Rightarrow> 'w spc" where
  "flushBatch final p =
     (case encoder_take (p_enc p) of
        (bytes, enc) \<Rightarrow>
          Sending final (p\<lparr>p_enc := enc, p_pending := 0\<rparr>) \<lparr>b_bytes = bytes, b_rows = p_pending p\<rparr>)"

text \<open>One turn of the cursor loop, with the row it encoded, or the code after the loop.\<close>

definition turn ::
  "'w Engine \<Rightarrow> 'w producer \<Rightarrow> 'w \<Rightarrow> 'w spc \<times> (string \<times> row) list \<times> 'w" where
  "turn e p w =
     (case CurNext (p_reg p) (p_cur p) w of
        (ok, w1) \<Rightarrow>
          if ok
          then (case CurRow (p_reg p) (p_cur p) w1 of
                  (table, r) \<Rightarrow>
                    (case appendRow table r (p_enc p) of
                       Inl err \<Rightarrow> (Closing (held_of p) (Inl err), [], w1)
                     | Inr enc \<Rightarrow>
                        (let p' = p\<lparr>p_enc := enc, p_count := Suc (p_count p), p_pending := Suc (p_pending p)\<rparr>
                         in (if p_pending p' \<ge> storeBatchRows then flushBatch False p' else Streaming p',
                             [(table, r)], w1))))
          else (case CurErr (p_reg p) (p_cur p) w1 of
                  Some err \<Rightarrow>
                    (case safeConnectorError e err ''failed to query datasource'' w1 of
                       (engErr, w2) \<Rightarrow> (Closing (held_of p) (Inl engErr), [], w2))
                | None \<Rightarrow>
                    (case ctx_guard e w1 of
                       (Some engErr, w2) \<Rightarrow> (Closing (held_of p) (Inl engErr), [], w2)
                     | (None, w2) \<Rightarrow>
                         (if p_pending p > 0 then flushBatch True p
                          else Closing (held_of p) (Inr (p_count p)), [], w2))))"

definition after_send :: "bool \<Rightarrow> 'w producer \<Rightarrow> 'w spc" where
  "after_send final p = (if final then Closing (held_of p) (Inr (p_count p)) else Streaming p)"

definition close_held :: "'w held \<Rightarrow> 'w \<Rightarrow> 'w" where
  "close_held h w =
     (case h of
        None \<Rightarrow> w
      | Some (reg, connector, cursor) \<Rightarrow>
          snd (ConnClose reg connector
            (case cursor of None \<Rightarrow> w | Some c \<Rightarrow> snd (CurClose reg c w))))"

definition record_stream :: "'w Engine \<Rightarrow> goerror option \<Rightarrow> 'w stream \<Rightarrow> 'w stream" where
  "record_stream e err st =
     (if err = None \<or> sfirst st \<noteq> None then st
      else st\<lparr>sfirst := err, sworld := ctx_CancelUp (rt e) 0 (sworld st)\<rparr>)"

text \<open>
  A move of producer \<open>i\<close>; \<open>b\<close> picks the branch of a select (\<open>True\<close> for the
  channel, \<open>False\<close> for the done context).
\<close>

definition producer_step ::
  "'w Engine \<Rightarrow> TenantContext \<Rightarrow> 'w ConnectionStore \<Rightarrow> ExtractionPlan \<Rightarrow> nat \<Rightarrow> bool \<Rightarrow>
   'w stream \<Rightarrow> 'w stream option" where
  "producer_step e tenant store plan i b st =
     (if i \<ge> length (spcs st) then None
      else (case spcs st ! i of
        Gated \<Rightarrow>
          (let window = effectiveConcurrency (pl_Limits plan)
           in if b then (if i < window \<or> is_finished (spcs st ! (i - window))
                         then Some (set_spc i Entered st) else None)
              else if i < window then None
              else (case ctx_Err (rt e) (sworld st) of
                      (None, _) \<Rightarrow> None
                    | (Some _, w) \<Rightarrow> Some (set_spc i Entered (st\<lparr>sworld := w\<rparr>))))
      | Entered \<Rightarrow>
          (case open_stream e tenant store (pl_Steps plan ! i) (sworld st) of
             (pc, w) \<Rightarrow> Some (set_spc i pc (st\<lparr>sworld := w\<rparr>)))
      | Streaming p \<Rightarrow>
          (case turn e p (sworld st) of
             (pc, rows, w) \<Rightarrow>
               Some (set_spc i pc (st\<lparr>sworld := w, h_rows := (h_rows st)[i := h_rows st ! i @ rows]\<rparr>)))
      | Sending final p batch \<Rightarrow>
          if b
          then (if chans st ! i = []
                then Some (set_spc i (after_send final p)
                       (st\<lparr>chans := (chans st)[i := [batch]],
                           h_sent := (h_sent st)[i := h_sent st ! i @ [batch]]\<rparr>))
                else None)
          else (case ctx_Err (rt e) (sworld st) of
                  (None, _) \<Rightarrow> None
                | (Some err, w) \<Rightarrow>
                    Some (set_spc i (Closing (held_of p)
                        (Inl (case contextError (Some err) of
                                Some engErr \<Rightarrow> engErr
                              | None \<Rightarrow> NewEngineError CategoryCanceled ''execution canceled'')))
                      (st\<lparr>sworld := w\<rparr>)))
      | Closing h r \<Rightarrow>
          Some (set_spc i (StepReturned r)
            (st\<lparr>closed := (closed st)[i := True], sworld := close_held h (sworld st)\<rparr>))
      | StepReturned r \<Rightarrow>
          Some (set_spc i StepRecorded
            (case r of
               Inl err \<Rightarrow> record_stream e (Some err) st
             | Inr count \<Rightarrow> st\<lparr>rowCounts := (rowCounts st)[i := count]\<rparr>))
      | StepRecorded \<Rightarrow> Some (set_spc i Finished st)
      | Finished \<Rightarrow> None))"

text \<open>
  A panic of host code inside a producer unwinds through the deferred closes and is
  recorded as an internal error. The panics modelled are those before a connector is built (at
  \<open>Entered\<close>) and those while a query streams. A panic inside \<^verbatim>\<open>TestConnection\<close>, between
  the two, skips the close that is not deferred yet and leaks the connector; it is not a move here.
\<close>

definition panicError :: "string \<Rightarrow> goerror" where
  "panicError msg = NewEngineError CategoryInternal (''extraction step panicked: '' @ msg)"

definition panic_step :: "nat \<Rightarrow> string \<Rightarrow> 'w stream \<Rightarrow> 'w stream option" where
  "panic_step i msg st =
     (if i \<ge> length (spcs st) then None
      else (case spcs st ! i of
        Entered \<Rightarrow> Some (set_spc i (Closing None (Inl (panicError msg))) st)
      | Streaming p \<Rightarrow> Some (set_spc i (Closing (held_of p) (Inl (panicError msg))) st)
      | _ \<Rightarrow> None))"

subsection \<open>The writer\<close>

abbreviation persistError :: goerror where
  "persistError \<equiv> NewEngineError CategoryUnavailable ''failed to persist extraction result''"

text \<open>\<^verbatim>\<open>cancelWrite\<close> is one level up while \<open>streamSteps\<close> has not returned.\<close>

definition cancelWrite :: "'w Engine \<Rightarrow> 'w stream \<Rightarrow> 'w stream" where
  "cancelWrite e st =
     st\<lparr>sworld := ctx_CancelUp (rt e) (if runErr st = None \<and> spcs st \<noteq> [] then 1 else 0) (sworld st)\<rparr>"

definition writer_step ::
  "'w Engine \<Rightarrow> 'w ResultSink \<Rightarrow> nat \<Rightarrow> ExtractionPlan \<Rightarrow> 'w stream \<Rightarrow> 'w stream option" where
  "writer_step e sink handle plan st =
     (case writer st of
        WRecv k \<Rightarrow>
          if k \<ge> length (chans st)
          then Some (st\<lparr>writer := WDone (Inr \<lparr>wo_digest = sha256_hex (rt e) (hashed st),
                                    wo_rowCount = wrows st, wo_size = wsize st\<rparr>)\<rparr>)
          else (case chans st ! k of
                  batch # _ \<Rightarrow> Some (st\<lparr>writer := WGot k batch, chans := (chans st)[k := tl (chans st ! k)]\<rparr>)
                | [] \<Rightarrow> if closed st ! k then Some (st\<lparr>writer := WRecv (Suc k)\<rparr>) else None)
      | WGot k batch \<Rightarrow>
          (let size = wsize st + length (b_bytes batch); maximum = MaxResultBytes (pl_Limits plan)
           in if maximum > 0 \<and> int size > maximum
              then Some (cancelWrite e (st\<lparr>writer := WDone (Inl sizeLimitError), wsize := size\<rparr>))
              else (case StreamWrite sink handle (b_bytes batch) (sworld st) of
                      (Some _, w) \<Rightarrow>
                        Some (cancelWrite e (st\<lparr>writer := WDone (Inl persistError), wsize := size, sworld := w\<rparr>))
                    | (None, w) \<Rightarrow>
                        Some (st\<lparr>writer := WRecv k, wsize := size, hashed := hashed st @ b_bytes batch,
                                 wrows := wrows st + b_rows batch, sworld := w\<rparr>)))
      | WDone _ \<Rightarrow> None)"

text \<open>\<open>streamSteps\<close> returns once every producer is done: the first error, or the state of the write context.\<close>

definition main_step :: "'w Engine \<Rightarrow> 'w stream \<Rightarrow> 'w stream option" where
  "main_step e st =
     (if runErr st \<noteq> None \<or> (\<exists>pc \<in> set (spcs st). \<not> is_finished pc) then None
      else if spcs st = [] then Some (st\<lparr>runErr := Some None\<rparr>)
      else (let w = ctx_Cancel (rt e) (sworld st)
            in case sfirst st of
                 Some err \<Rightarrow> Some (st\<lparr>runErr := Some (Some err), sworld := w\<rparr>)
               | None \<Rightarrow> (case ctx_guard e w of (err, w1) \<Rightarrow> Some (st\<lparr>runErr := Some err, sworld := w1\<rparr>))))"

datatype smove = Producer nat bool | Panic nat string | Writer | Main

definition stream_step ::
  "'w Engine \<Rightarrow> TenantContext \<Rightarrow> 'w ConnectionStore \<Rightarrow> 'w ResultSink \<Rightarrow> nat \<Rightarrow> ExtractionPlan \<Rightarrow> smove \<Rightarrow>
   'w stream \<Rightarrow> 'w stream option" where
  "stream_step e tenant store sink handle plan m st =
     (case m of
        Producer i b \<Rightarrow> producer_step e tenant store plan i b st
      | Panic i msg \<Rightarrow> panic_step i msg st
      | Writer \<Rightarrow> writer_step e sink handle plan st
      | Main \<Rightarrow> main_step e st)"

fun stream_run ::
  "'w Engine \<Rightarrow> TenantContext \<Rightarrow> 'w ConnectionStore \<Rightarrow> 'w ResultSink \<Rightarrow> nat \<Rightarrow> ExtractionPlan \<Rightarrow> smove list \<Rightarrow>
   'w stream \<Rightarrow> 'w stream option" where
  "stream_run e tenant store sink handle plan [] st = Some st"
| "stream_run e tenant store sink handle plan (m # ms) st =
     (case stream_step e tenant store sink handle plan m st of
        None \<Rightarrow> None
      | Some st' \<Rightarrow> stream_run e tenant store sink handle plan ms st')"

definition stream_init :: "ExtractionPlan \<Rightarrow> 'w \<Rightarrow> 'w stream" where
  "stream_init plan w =
     (let n = length (pl_Steps plan)
      in \<lparr>spcs = replicate n Gated, chans = replicate n [], closed = replicate n False,
          rowCounts = replicate n 0, sfirst = None, writer = WRecv 0, hashed = [], wrows = 0,
          wsize = 0, runErr = None, sworld = w, h_rows = replicate n [], h_sent = replicate n []\<rparr>)"

subsection \<open>The handlers\<close>

definition buildStoreReference ::
  "'w Engine \<Rightarrow> ExtractionPlan \<Rightarrow> 'w ResultSink \<Rightarrow> nat \<Rightarrow> writerOutcome \<Rightarrow> (string, nat) gomap \<Rightarrow> 'w \<Rightarrow>
   ExtractionResult res \<times> 'w" where
  "buildStoreReference e plan sink handle out perConfig w =
     (case StreamClose sink handle w of
        (Inl _, w1) \<Rightarrow> (Inl persistError, w1)
      | (Inr ref0, w1) \<Rightarrow>
          if (case rr_Protection ref0 of None \<Rightarrow> False | Some p \<Rightarrow> \<not> applier_IsValid (rp_AppliedBy p))
          then (Inl (NewEngineError CategoryValidation ''result protection appliedBy is invalid''), w1)
          else
            (case time_Now (rt e) w1 of
               (now, w2) \<Rightarrow>
                 (Inr \<lparr>er_State = \<lparr>es_JobID = pl_RequestID plan, es_Status = StatusCompleted,
                                   es_StartedAt = 0, es_CompletedAt = Some now, es_FailureMessage = []\<rparr>,
                       er_Direct = None,
                       er_Reference = Some (ref0\<lparr>
                         rr_Integrity := (case rr_Integrity ref0 of
                             None \<Rightarrow> Some \<lparr>ri_Algorithm = ''SHA-256'', ri_Digest = wo_digest out, ri_Signature = []\<rparr>
                           | Some i \<Rightarrow> Some i),
                         rr_Format := ''json'', rr_RowCount := wo_rowCount out,
                         rr_SizeBytes := (if rr_SizeBytes ref0 = 0 then wo_size out else rr_SizeBytes ref0),
                         rr_CompletedAt := now\<rparr>),
                       er_RowCounts = perConfig\<rparr>, w2)))"

definition streamPlanToSink ::
  "smove list \<Rightarrow> 'w Engine \<Rightarrow> TenantContext \<Rightarrow> 'w ConnectionStore \<Rightarrow> 'w ResultSink \<Rightarrow> ExtractionPlan \<Rightarrow> nat \<Rightarrow> 'w \<Rightarrow>
   (ExtractionResult res \<times> 'w) option" where
  "streamPlanToSink sched e tenant store sink plan handle w =
     (let w0 = ctx_WithCancel (rt e) w;
          w1 = (if pl_Steps plan = [] then w0 else ctx_WithCancel (rt e) w0)
      in case stream_run e tenant store sink handle plan sched (stream_init plan w1) of
           None \<Rightarrow> None
         | Some st \<Rightarrow>
             (case (runErr st, writer st) of
                (Some err, WDone outcome) \<Rightarrow>
                  (case outcome of
                     Inl werr \<Rightarrow> Some (Inl werr, ctx_Cancel (rt e) (sworld st))
                   | Inr out \<Rightarrow>
                      (case err of
                         Some x \<Rightarrow> Some (Inl x, ctx_Cancel (rt e) (sworld st))
                       | None \<Rightarrow>
                          (case ctx_guard e (ctx_Cancel (rt e) (sworld st)) of
                             (Some engErr, w2) \<Rightarrow> Some (Inl engErr, w2)
                           | (None, w2) \<Rightarrow>
                               Some (buildStoreReference e plan sink handle out
                                       (sumRowCounts plan (rowCounts st)) w2))))
              | _ \<Rightarrow> None))"

definition runStoreExtraction ::
  "smove list \<Rightarrow> 'w Engine \<Rightarrow> TenantContext \<Rightarrow> 'w ConnectionStore \<Rightarrow> 'w ResultSink \<Rightarrow> ExtractionPlan \<Rightarrow> 'w \<Rightarrow>
   (ExtractionResult res \<times> 'w) option" where
  "runStoreExtraction sched e tenant store sink plan w =
     (case ctx_guard e w of
        (Some engErr, w1) \<Rightarrow>
          Some (Inl engErr, recordTerminalFailure e tenant (pl_RequestID plan) engErr w1)
      | (None, w1) \<Rightarrow>
         (case OpenResultStream sink tenant w1 of
            (Inl _, w2) \<Rightarrow>
              Some (Inl persistError,
                recordExecutionStatus e tenant (pl_RequestID plan) StatusFailed
                  ''failed to persist extraction result'' w2)
          | (Inr handle, w2) \<Rightarrow>
             (case streamPlanToSink sched e tenant store sink plan handle w2 of
                None \<Rightarrow> None
              | Some (Inl err, w3) \<Rightarrow>
                  Some (Inl err, recordTerminalFailure e tenant (pl_RequestID plan) err w3)
              | Some (Inr result, w3) \<Rightarrow>
                  Some (Inr result, recordExecutionStatus e tenant (pl_RequestID plan) StatusCompleted [] w3))))"

subsection \<open>Case analysis of a move\<close>

lemma is_finished_iff [simp]: "is_finished pc \<longleftrightarrow> pc = Finished"
  by (cases pc) auto

text \<open>The moves that touch no history and no channel of the writer's side.\<close>

lemma stream_step_cases:
  assumes "stream_step e t store sink handle plan m st = Some st'"
  obtains
    (gate) i where "i < length (spcs st)" "spcs st ! i = Gated"
      "i < effectiveConcurrency (pl_Limits plan) \<or> spcs st ! (i - effectiveConcurrency (pl_Limits plan)) = Finished"
      "st' = set_spc i Entered st"
  | (gate_cancel) i err w where "i < length (spcs st)" "spcs st ! i = Gated"
      "ctx_Err (rt e) (sworld st) = (Some err, w)" "st' = set_spc i Entered (st\<lparr>sworld := w\<rparr>)"
  | (enter) i pc w where "i < length (spcs st)" "spcs st ! i = Entered"
      "open_stream e t store (pl_Steps plan ! i) (sworld st) = (pc, w)"
      "st' = set_spc i pc (st\<lparr>sworld := w\<rparr>)"
  | (turn) i p pc rows w where "i < length (spcs st)" "spcs st ! i = Streaming p"
      "turn e p (sworld st) = (pc, rows, w)"
      "st' = set_spc i pc (st\<lparr>sworld := w, h_rows := (h_rows st)[i := h_rows st ! i @ rows]\<rparr>)"
  | (send) i final p batch where "i < length (spcs st)" "spcs st ! i = Sending final p batch" "chans st ! i = []"
      "st' = set_spc i (after_send final p) (st\<lparr>chans := (chans st)[i := [batch]],
         h_sent := (h_sent st)[i := h_sent st ! i @ [batch]]\<rparr>)"
  | (send_cancel) i final p batch err w x where "i < length (spcs st)" "spcs st ! i = Sending final p batch"
      "ctx_Err (rt e) (sworld st) = (Some err, w)" "st' = set_spc i (Closing (held_of p) (Inl x)) (st\<lparr>sworld := w\<rparr>)"
  | (close) i h r where "i < length (spcs st)" "spcs st ! i = Closing h r"
      "st' = set_spc i (StepReturned r) (st\<lparr>closed := (closed st)[i := True], sworld := close_held h (sworld st)\<rparr>)"
  | (failed) i err where "i < length (spcs st)" "spcs st ! i = StepReturned (Inl err)"
      "st' = set_spc i StepRecorded (record_stream e (Some err) st)"
  | (counted) i n where "i < length (spcs st)" "spcs st ! i = StepReturned (Inr n)"
      "st' = set_spc i StepRecorded (st\<lparr>rowCounts := (rowCounts st)[i := n]\<rparr>)"
  | (finish) i where "i < length (spcs st)" "spcs st ! i = StepRecorded" "st' = set_spc i Finished st"
  | (panic_entered) i msg where "i < length (spcs st)" "spcs st ! i = Entered"
      "st' = set_spc i (Closing None (Inl (panicError msg))) st"
  | (panic_streaming) i p msg where "i < length (spcs st)" "spcs st ! i = Streaming p"
      "st' = set_spc i (Closing (held_of p) (Inl (panicError msg))) st"
  | (drained) k where "writer st = WRecv k" "length (chans st) \<le> k"
      "st' = st\<lparr>writer := WDone (Inr \<lparr>wo_digest = sha256_hex (rt e) (hashed st),
                    wo_rowCount = wrows st, wo_size = wsize st\<rparr>)\<rparr>"
  | (receive) k batch rest where "writer st = WRecv k" "k < length (chans st)" "chans st ! k = batch # rest"
      "st' = st\<lparr>writer := WGot k batch, chans := (chans st)[k := rest]\<rparr>"
  | (advance) k where "writer st = WRecv k" "k < length (chans st)" "chans st ! k = []" "closed st ! k"
      "st' = st\<lparr>writer := WRecv (Suc k)\<rparr>"
  | (over_limit) k batch where "writer st = WGot k batch" "MaxResultBytes (pl_Limits plan) > 0"
      "int (wsize st + length (b_bytes batch)) > MaxResultBytes (pl_Limits plan)"
      "st' = cancelWrite e (st\<lparr>writer := WDone (Inl sizeLimitError), wsize := wsize st + length (b_bytes batch)\<rparr>)"
  | (write_failed) k batch err w where "writer st = WGot k batch"
      "StreamWrite sink handle (b_bytes batch) (sworld st) = (Some err, w)"
      "st' = cancelWrite e (st\<lparr>writer := WDone (Inl persistError), wsize := wsize st + length (b_bytes batch), sworld := w\<rparr>)"
  | (written) k batch w where "writer st = WGot k batch"
      "MaxResultBytes (pl_Limits plan) > 0 \<longrightarrow> int (wsize st + length (b_bytes batch)) \<le> MaxResultBytes (pl_Limits plan)"
      "StreamWrite sink handle (b_bytes batch) (sworld st) = (None, w)"
      "st' = st\<lparr>writer := WRecv k, wsize := wsize st + length (b_bytes batch), hashed := hashed st @ b_bytes batch,
                wrows := wrows st + b_rows batch, sworld := w\<rparr>"
  | (main) err w where "runErr st = None" "\<forall>pc \<in> set (spcs st). pc = Finished"
      "sfirst st \<noteq> None \<longrightarrow> err \<noteq> None \<or> spcs st = []"
      "st' = st\<lparr>runErr := Some err, sworld := w\<rparr>"
      "w = sworld st \<or> w = ctx_Cancel (rt e) (sworld st) \<or> w = snd (ctx_guard e (ctx_Cancel (rt e) (sworld st)))"
proof (cases m)
  case (Producer i b)
  with assms have s: "producer_step e t store plan i b st = Some st'" by (simp add: stream_step_def)
  then have i: "i < length (spcs st)" by (simp add: producer_step_def split: if_splits)
  show thesis
  proof (cases "spcs st ! i")
    case Gated
    with s i gate gate_cancel show thesis
      by (auto simp: producer_step_def Let_def split: if_splits prod.splits option.splits)
  next
    case Entered
    with s i enter show thesis by (auto simp: producer_step_def split: prod.splits)
  next
    case (Streaming p)
    with s i turn show thesis by (auto simp: producer_step_def split: prod.splits)
  next
    case (Sending final p batch)
    with s i send send_cancel show thesis
      by (auto simp: producer_step_def split: if_splits prod.splits option.splits)
  next
    case (Closing h r)
    with s i close show thesis by (simp add: producer_step_def)
  next
    case (StepReturned r)
    with s i failed counted show thesis by (cases r) (auto simp: producer_step_def)
  next
    case StepRecorded
    with s i finish show thesis by (simp add: producer_step_def)
  next
    case Finished
    with s i show thesis by (simp add: producer_step_def)
  qed
next
  case (Panic i msg)
  with assms panic_entered panic_streaming show thesis
    by (auto simp: stream_step_def panic_step_def not_le split: if_splits spc.splits)
next
  case Writer
  with assms have "writer_step e sink handle plan st = Some st'" by (simp add: stream_step_def)
  then show thesis
    using drained receive advance over_limit write_failed written
    by (auto simp: writer_step_def Let_def split: wpc.splits if_splits list.splits prod.splits option.splits)
next
  case Main
  with assms have s: "main_step e st = Some st'" by (simp add: stream_step_def)
  show thesis
  proof (cases "spcs st = []")
    case True
    with s have "runErr st = None" "st' = st\<lparr>runErr := Some None, sworld := sworld st\<rparr>"
      by (simp_all add: main_step_def split: if_splits)
    from this(1) _ _ this(2) show thesis by (rule main) (simp_all add: True)
  next
    case False
    with s main show thesis
      by (auto simp: main_step_def Let_def split: if_splits option.splits prod.splits)
  qed
qed

subsection \<open>What a returned stream run went through\<close>

lemma stream_result:
  assumes "streamPlanToSink sched e t store sink plan h w = Some (r, w')"
  obtains st err outcome where
    "stream_run e t store sink h plan sched (stream_init plan (let w0 = ctx_WithCancel (rt e) w in
       if pl_Steps plan = [] then w0 else ctx_WithCancel (rt e) w0)) = Some st"
    "runErr st = Some err" "writer st = WDone outcome"
    "(r, w') = (case outcome of
       Inl werr \<Rightarrow> (Inl werr, ctx_Cancel (rt e) (sworld st))
     | Inr out \<Rightarrow>
         (case err of
            Some x \<Rightarrow> (Inl x, ctx_Cancel (rt e) (sworld st))
          | None \<Rightarrow>
              (case ctx_guard e (ctx_Cancel (rt e) (sworld st)) of
                 (Some engErr, w2) \<Rightarrow> (Inl engErr, w2)
               | (None, w2) \<Rightarrow> buildStoreReference e plan sink h out (sumRowCounts plan (rowCounts st)) w2)))"
proof -
  from assms obtain st where st: "stream_run e t store sink h plan sched (stream_init plan
      (let w0 = ctx_WithCancel (rt e) w in if pl_Steps plan = [] then w0 else ctx_WithCancel (rt e) w0)) = Some st"
    by (auto simp: streamPlanToSink_def Let_def split: option.splits)
  with assms obtain err outcome where f: "runErr st = Some err" "writer st = WDone outcome"
    by (cases "runErr st"; cases "writer st") (simp_all add: streamPlanToSink_def Let_def)
  from st f show thesis
    by (rule that)
      (use assms st f in \<open>simp add: streamPlanToSink_def Let_def split: sum.splits option.splits prod.splits\<close>)
qed

end
