(* ===== verification/Engine_Stream_Data.thy ===== *)
theory Engine_Stream_Data
  imports Engine_Stream
begin

text \<open>
  What reaches the sink on the store path: in every reachable state of the streaming
  machine the bytes written and hashed are the batches of the steps in ordinal order,
  and a step that completed has sent exactly the NDJSON lines of the rows it read.
\<close>

inductive streamed ::
  "'w Engine \<Rightarrow> TenantContext \<Rightarrow> 'w ConnectionStore \<Rightarrow> 'w ResultSink \<Rightarrow> nat \<Rightarrow> ExtractionPlan \<Rightarrow> 'w \<Rightarrow>
   'w stream \<Rightarrow> bool"
  for e tenant store sink handle plan w where
  start: "streamed e tenant store sink handle plan w (stream_init plan w)"
| move: "streamed e tenant store sink handle plan w st \<Longrightarrow>
    stream_step e tenant store sink handle plan m st = Some st' \<Longrightarrow>
    streamed e tenant store sink handle plan w st'"

lemma stream_run_streamed:
  "streamed e t store sink h plan w st \<Longrightarrow> stream_run e t store sink h plan ms st = Some st' \<Longrightarrow>
   streamed e t store sink h plan w st'"
  by (induction ms arbitrary: st) (auto split: option.splits intro: streamed.move)

lemma set_spc_simps [simp]:
  "spcs (set_spc i pc st) = (spcs st)[i := pc]" "chans (set_spc i pc st) = chans st"
  "closed (set_spc i pc st) = closed st" "rowCounts (set_spc i pc st) = rowCounts st"
  "sfirst (set_spc i pc st) = sfirst st" "writer (set_spc i pc st) = writer st"
  "hashed (set_spc i pc st) = hashed st" "wrows (set_spc i pc st) = wrows st"
  "wsize (set_spc i pc st) = wsize st" "runErr (set_spc i pc st) = runErr st"
  "sworld (set_spc i pc st) = sworld st" "h_rows (set_spc i pc st) = h_rows st"
  "h_sent (set_spc i pc st) = h_sent st"
  by (simp_all add: set_spc_def)

lemma record_stream_simps [simp]:
  "spcs (record_stream e x st) = spcs st" "chans (record_stream e x st) = chans st"
  "closed (record_stream e x st) = closed st" "rowCounts (record_stream e x st) = rowCounts st"
  "sfirst (record_stream e x st) = (if sfirst st = None then x else sfirst st)"
  "writer (record_stream e x st) = writer st" "hashed (record_stream e x st) = hashed st"
  "wrows (record_stream e x st) = wrows st" "wsize (record_stream e x st) = wsize st"
  "runErr (record_stream e x st) = runErr st" "h_rows (record_stream e x st) = h_rows st"
  "h_sent (record_stream e x st) = h_sent st"
  by (auto simp: record_stream_def)

lemma cancelWrite_simps [simp]:
  "spcs (cancelWrite e st) = spcs st" "chans (cancelWrite e st) = chans st"
  "closed (cancelWrite e st) = closed st" "rowCounts (cancelWrite e st) = rowCounts st"
  "sfirst (cancelWrite e st) = sfirst st" "writer (cancelWrite e st) = writer st"
  "hashed (cancelWrite e st) = hashed st" "wrows (cancelWrite e st) = wrows st"
  "wsize (cancelWrite e st) = wsize st" "runErr (cancelWrite e st) = runErr st"
  "h_rows (cancelWrite e st) = h_rows st" "h_sent (cancelWrite e st) = h_sent st"
  by (simp_all add: cancelWrite_def)

subsection \<open>Shape\<close>

definition sealed :: "'w spc \<Rightarrow> bool" where
  "sealed pc \<longleftrightarrow> (case pc of StepReturned _ \<Rightarrow> True | StepRecorded \<Rightarrow> True | Finished \<Rightarrow> True | _ \<Rightarrow> False)"

lemma sealed_simps [simp]:
  "\<not> sealed Gated" "\<not> sealed Entered" "\<not> sealed (Streaming p)" "\<not> sealed (Sending f p b)"
  "\<not> sealed (Closing h r)" "sealed (StepReturned r)" "sealed StepRecorded" "sealed Finished"
  by (simp_all add: sealed_def)

definition shape_ok :: "ExtractionPlan \<Rightarrow> 'w stream \<Rightarrow> bool" where
  "shape_ok plan st \<longleftrightarrow>
     (let n = length (pl_Steps plan)
      in length (spcs st) = n \<and> length (chans st) = n \<and> length (closed st) = n \<and>
         length (rowCounts st) = n \<and> length (h_rows st) = n \<and> length (h_sent st) = n \<and>
         (\<forall>i < n. closed st ! i = sealed (spcs st ! i)))"

lemma open_stream_not_sealed: "open_stream e t store step w = (pc, w') \<Longrightarrow> \<not> sealed pc"
  by (auto simp: open_stream_def split: prod.splits option.splits sum.splits)

lemma turn_not_sealed: "turn e p w = (pc, rows, w') \<Longrightarrow> \<not> sealed pc"
  by (auto simp: turn_def flushBatch_def encoder_take_def Let_def
      split: prod.splits option.splits sum.splits if_splits)

lemma after_send_not_sealed [simp]: "\<not> sealed (after_send final p)"
  by (simp add: after_send_def)

lemma shape_ok_step:
  assumes "shape_ok plan st" and "stream_step e t store sink h plan m st = Some st'"
  shows "shape_ok plan st'"
  using assms(2)
proof (cases rule: stream_step_cases)
  case (enter i pc w)
  with assms(1) open_stream_not_sealed[OF enter(3)] show ?thesis
    by (auto simp: shape_ok_def Let_def nth_list_update)
next
  case (turn i p pc rows w)
  with assms(1) turn_not_sealed[OF turn(3)] show ?thesis
    by (auto simp: shape_ok_def Let_def nth_list_update)
qed (use assms(1) in \<open>auto simp: shape_ok_def Let_def nth_list_update\<close>)

lemma streamed_shape: "streamed e t store sink h plan w st \<Longrightarrow> shape_ok plan st"
proof (induction rule: streamed.induct)
  case start
  then show ?case by (simp add: shape_ok_def stream_init_def Let_def)
next
  case (move st m st')
  then show ?case by (blast intro: shape_ok_step)
qed

subsection \<open>Producers\<close>

definition batch_bytes :: "ndjsonBatch list \<Rightarrow> string" where
  "batch_bytes bs = concat (map b_bytes bs)"

definition batch_rows :: "ndjsonBatch list \<Rightarrow> nat" where
  "batch_rows bs = sum_list (map b_rows bs)"

lemma batch_simps [simp]:
  "batch_bytes [] = []" "batch_bytes (b # bs) = b_bytes b @ batch_bytes bs"
  "batch_bytes (bs @ cs) = batch_bytes bs @ batch_bytes cs"
  "batch_rows [] = 0" "batch_rows (b # bs) = b_rows b + batch_rows bs"
  "batch_rows (bs @ cs) = batch_rows bs + batch_rows cs"
  by (simp_all add: batch_bytes_def batch_rows_def)

text \<open>The NDJSON text of a list of rows of one datasource.\<close>

definition ndjson_line :: "string \<Rightarrow> string \<times> row \<Rightarrow> string" where
  "ndjson_line c tr = (case ndjsonLine c (fst tr) (snd tr) of None \<Rightarrow> [] | Some l \<Rightarrow> l @ [CHR 0x0A])"

definition ndjson :: "string \<Rightarrow> (string \<times> row) list \<Rightarrow> string" where
  "ndjson c rows = concat (map (ndjson_line c) rows)"

lemma ndjson_simps [simp]: "ndjson c [] = []" "ndjson c (rs @ rs') = ndjson c rs @ ndjson c rs'"
  by (simp_all add: ndjson_def)

lemma appendRow_line:
  "appendRow table r enc = Inr enc' \<Longrightarrow>
   enc_configName enc' = enc_configName enc \<and>
   enc_buf enc' = enc_buf enc @ ndjson (enc_configName enc) [(table, r)]"
  by (auto simp: appendRow_def ndjson_def ndjson_line_def split: option.splits)

definition whole :: "string \<Rightarrow> (string \<times> row) list \<Rightarrow> ndjsonBatch list \<Rightarrow> nat \<Rightarrow> bool" where
  "whole c rows sent n \<longleftrightarrow> n = length rows \<and> batch_bytes sent = ndjson c rows \<and> batch_rows sent = n"

text \<open>What a producer's position says about its history.\<close>

fun producer_fact ::
  "string \<Rightarrow> (string \<times> row) list \<Rightarrow> ndjsonBatch list \<Rightarrow> bool \<Rightarrow> nat \<Rightarrow> 'w spc \<Rightarrow> bool" where
  "producer_fact c rows sent err n Gated \<longleftrightarrow> rows = [] \<and> sent = []"
| "producer_fact c rows sent err n Entered \<longleftrightarrow> rows = [] \<and> sent = []"
| "producer_fact c rows sent err n (Streaming p) \<longleftrightarrow>
     enc_configName (p_enc p) = c \<and> p_count p = length rows \<and>
     batch_bytes sent @ enc_buf (p_enc p) = ndjson c rows \<and>
     batch_rows sent + p_pending p = length rows \<and> (p_pending p = 0 \<longrightarrow> enc_buf (p_enc p) = [])"
| "producer_fact c rows sent err n (Sending final p b) \<longleftrightarrow>
     enc_configName (p_enc p) = c \<and> p_count p = length rows \<and> p_pending p = 0 \<and> enc_buf (p_enc p) = [] \<and>
     batch_bytes sent @ b_bytes b = ndjson c rows \<and> batch_rows sent + b_rows b = length rows"
| "producer_fact c rows sent err n (Closing h r) \<longleftrightarrow> (\<forall>k. r = Inr k \<longrightarrow> whole c rows sent k)"
| "producer_fact c rows sent err n (StepReturned r) \<longleftrightarrow> (\<forall>k. r = Inr k \<longrightarrow> whole c rows sent k)"
| "producer_fact c rows sent err n StepRecorded \<longleftrightarrow> err \<or> whole c rows sent n"
| "producer_fact c rows sent err n Finished \<longleftrightarrow> err \<or> whole c rows sent n"

lemma producer_fact_mono:
  "producer_fact c rows sent err n pc \<Longrightarrow> err \<longrightarrow> err' \<Longrightarrow> producer_fact c rows sent err' n pc"
  by (cases pc) auto

lemma open_stream_fact:
  "open_stream e t store step w = (pc, w') \<Longrightarrow> producer_fact (st_ConfigName step) [] [] err n pc"
  by (auto simp: open_stream_def newNDJSONEncoder_def split: prod.splits option.splits sum.splits)

lemma flushBatch_fact:
  assumes "producer_fact c rows sent err n (Streaming p)"
  shows "producer_fact c rows sent err n (flushBatch final p)"
  using assms by (simp add: flushBatch_def encoder_take_def)

lemma turn_fact:
  assumes "turn e p w = (pc, rows', w')" and "producer_fact c rows sent err n (Streaming p)"
  shows "producer_fact c (rows @ rows') sent err n pc"
proof (cases "fst (CurNext (p_reg p) (p_cur p) w)")
  case True
  obtain table r where tr: "CurRow (p_reg p) (p_cur p) (snd (CurNext (p_reg p) (p_cur p) w)) = (table, r)"
    by (cases "CurRow (p_reg p) (p_cur p) (snd (CurNext (p_reg p) (p_cur p) w))")
  show ?thesis
  proof (cases "appendRow table r (p_enc p)")
    case (Inl x)
    with True tr assms show ?thesis by (auto simp: turn_def case_prod_beta)
  next
    case (Inr enc)
    let ?p = "p\<lparr>p_enc := enc, p_count := Suc (p_count p), p_pending := Suc (p_pending p)\<rparr>"
    have "producer_fact c (rows @ [(table, r)]) sent err n (Streaming ?p)"
      using appendRow_line[OF Inr] assms(2) by auto
    with flushBatch_fact[OF this, of False] Inr True tr assms(1) show ?thesis
      by (auto simp: turn_def case_prod_beta Let_def split: if_splits)
  qed
next
  case False
  with flushBatch_fact[OF assms(2), of True] assms show ?thesis
    by (auto simp: turn_def case_prod_beta whole_def split: if_splits option.splits)
qed

definition producers_ok :: "ExtractionPlan \<Rightarrow> 'w stream \<Rightarrow> bool" where
  "producers_ok plan st \<longleftrightarrow>
     (\<forall>i < length (pl_Steps plan).
        producer_fact (st_ConfigName (pl_Steps plan ! i)) (h_rows st ! i) (h_sent st ! i)
          (sfirst st \<noteq> None) (rowCounts st ! i) (spcs st ! i))"

lemma producers_ok_step:
  assumes sh: "shape_ok plan st" and ok: "producers_ok plan st"
    and "stream_step e t store sink h plan m st = Some st'"
  shows "producers_ok plan st'"
proof -
  have pf: "producer_fact (st_ConfigName (pl_Steps plan ! i)) (h_rows st ! i) (h_sent st ! i)
      (sfirst st \<noteq> None) (rowCounts st ! i) (spcs st ! i)" if "i < length (spcs st)" for i
    using that ok sh by (simp add: producers_ok_def shape_ok_def Let_def)
  note defs = producers_ok_def nth_list_update
  note lens = sh[unfolded shape_ok_def Let_def]
  from assms(3) show ?thesis
  proof (cases rule: stream_step_cases)
    case (enter i pc w)
    with pf[of i] open_stream_fact[OF enter(3)] ok lens show ?thesis by (simp add: defs)
  next
    case (turn i p pc rows w)
    with pf[of i] turn_fact[OF turn(3)] ok lens show ?thesis by (simp add: defs)
  next
    case (send i final p batch)
    with pf[of i] ok lens show ?thesis by (simp add: defs after_send_def whole_def)
  next
    case (failed i err)
    with ok lens show ?thesis by (auto simp: defs intro: producer_fact_mono)
  next
    case (counted i n)
    with pf[of i] ok lens show ?thesis by (auto simp: defs)
  next
    case (finish i)
    with pf[of i] ok lens show ?thesis by (simp add: defs)
  qed (use ok lens pf in \<open>auto simp: defs\<close>)
qed

lemma streamed_producers: "streamed e t store sink h plan w st \<Longrightarrow> producers_ok plan st"
proof (induction rule: streamed.induct)
  case start
  then show ?case by (simp add: producers_ok_def stream_init_def Let_def)
next
  case (move st m st')
  then show ?case by (blast intro: producers_ok_step streamed_shape)
qed

subsection \<open>The writer\<close>

text \<open>
  At ordinal \<open>k\<close>, with \<open>got\<close> in hand: the channels below \<open>k\<close> are closed and
  drained, nothing has been taken from those above, and what was written and hashed,
  what is in hand and what waits in channel \<open>k\<close> is everything sent up to \<open>k\<close>.
\<close>

definition position_ok :: "ExtractionPlan \<Rightarrow> 'w stream \<Rightarrow> nat \<Rightarrow> ndjsonBatch list \<Rightarrow> bool" where
  "position_ok plan st k got \<longleftrightarrow>
     k \<le> length (chans st) \<and> (\<forall>j < k. closed st ! j \<and> chans st ! j = []) \<and>
     (\<forall>j. k < j \<and> j < length (chans st) \<longrightarrow> h_sent st ! j = chans st ! j) \<and>
     wsize st = length (hashed st) \<and>
     (MaxResultBytes (pl_Limits plan) > 0 \<longrightarrow> int (wsize st) \<le> MaxResultBytes (pl_Limits plan)) \<and>
     (\<exists>bs. hashed st = batch_bytes bs \<and> wrows st = batch_rows bs \<and>
        concat (take (Suc k) (h_sent st)) =
          bs @ got @ (if k < length (chans st) then chans st ! k else []))"

definition all_written :: "'w Engine \<Rightarrow> ExtractionPlan \<Rightarrow> 'w stream \<Rightarrow> writerOutcome \<Rightarrow> bool" where
  "all_written e plan st out \<longleftrightarrow>
     (\<forall>j < length (chans st). closed st ! j) \<and> hashed st = batch_bytes (concat (h_sent st)) \<and>
     (MaxResultBytes (pl_Limits plan) > 0 \<longrightarrow> int (length (hashed st)) \<le> MaxResultBytes (pl_Limits plan)) \<and>
     out = \<lparr>wo_digest = sha256_hex (rt e) (hashed st),
            wo_rowCount = batch_rows (concat (h_sent st)), wo_size = length (hashed st)\<rparr>"

definition writer_ok :: "'w Engine \<Rightarrow> ExtractionPlan \<Rightarrow> 'w stream \<Rightarrow> bool" where
  "writer_ok e plan st \<longleftrightarrow>
     (case writer st of
        WRecv k \<Rightarrow> position_ok plan st k []
      | WGot k b \<Rightarrow> k < length (chans st) \<and> position_ok plan st k [b]
      | WDone (Inr out) \<Rightarrow> all_written e plan st out
      | WDone (Inl _) \<Rightarrow> True)"

lemma take_concat_update:
  assumes "i < length hs"
  shows "concat (take (Suc k) (hs[i := hs ! i @ [b]])) =
    (if i = k then concat (take (Suc k) hs) @ [b]
     else if k < i then concat (take (Suc k) hs) else concat (take (Suc k) (hs[i := hs ! i @ [b]])))"
proof -
  have "take (Suc i) (hs[i := hs ! i @ [b]]) = take i hs @ [hs ! i @ [b]]"
    using assms by (simp add: take_Suc_conv_app_nth)
  moreover have "take (Suc i) hs = take i hs @ [hs ! i]" using assms by (simp add: take_Suc_conv_app_nth)
  ultimately show ?thesis by (cases "i = k") (auto simp: take_update_cancel)
qed

text \<open>A send by an unsealed producer leaves the writer's account intact.\<close>

lemma send_position:
  assumes pos: "position_ok plan st k got" and i: "i < length (chans st)" "\<not> closed st ! i" "chans st ! i = []"
    and len: "length (h_sent st) = length (chans st)"
    and st': "st' = set_spc j pc (st\<lparr>chans := (chans st)[i := [b]], h_sent := (h_sent st)[i := h_sent st ! i @ [b]]\<rparr>)"
  shows "position_ok plan st' k got"
proof -
  from pos i(2) have ki: "k \<le> i" by (auto simp: position_ok_def not_le[symmetric])
  from pos obtain bs where bs: "hashed st = batch_bytes bs" "wrows st = batch_rows bs"
      "concat (take (Suc k) (h_sent st)) = bs @ got @ (if k < length (chans st) then chans st ! k else [])"
    by (auto simp: position_ok_def)
  have "concat (take (Suc k) ((h_sent st)[i := h_sent st ! i @ [b]])) =
      bs @ got @ (if k < length (chans st) then (chans st)[i := [b]] ! k else [])"
    using take_concat_update[of i "h_sent st" k b] bs(3) i ki len by (auto simp: nth_list_update)
  with bs(1,2) pos ki i len show ?thesis
    unfolding position_ok_def st' by (auto simp: nth_list_update)
qed

lemma position_cong:
  assumes "chans st' = chans st" "h_sent st' = h_sent st" "wsize st' = wsize st"
    "hashed st' = hashed st" "wrows st' = wrows st"
    and "\<And>j. closed st ! j \<Longrightarrow> closed st' ! j"
  shows "position_ok plan st k got \<Longrightarrow> position_ok plan st' k got"
  using assms unfolding position_ok_def by auto

lemma writer_cong:
  assumes "chans st' = chans st" "h_sent st' = h_sent st" "wsize st' = wsize st"
    "hashed st' = hashed st" "wrows st' = wrows st" "writer st' = writer st"
    and "\<And>j. closed st ! j \<Longrightarrow> closed st' ! j"
  shows "writer_ok e plan st \<Longrightarrow> writer_ok e plan st'"
  using assms position_cong[of st' st plan]
  by (auto simp: writer_ok_def all_written_def split: wpc.splits sum.splits)

lemma writer_ok_step:
  assumes sh: "shape_ok plan st" and ok: "writer_ok e plan st"
    and "stream_step e t store sink h plan m st = Some st'"
  shows "writer_ok e plan st'"
proof -
  note lens = sh[unfolded shape_ok_def Let_def]
  from assms(3) show ?thesis
  proof (cases rule: stream_step_cases)
    case (send i final p batch)
    with lens have i: "i < length (chans st)" "\<not> closed st ! i" by auto
    show ?thesis
    proof (cases "writer st")
      case (WRecv k)
      with ok send_position[OF _ i send(3) _ send(4), of plan k "[]"] lens send(4) show ?thesis
        by (simp add: writer_ok_def)
    next
      case (WGot k b)
      with ok send_position[OF _ i send(3) _ send(4), of plan k "[b]"] lens send(4) show ?thesis
        by (simp add: writer_ok_def)
    next
      case (WDone r)
      with ok i send(4) show ?thesis by (auto simp: writer_ok_def all_written_def split: sum.splits)
    qed
  next
    case (close i hh r)
    show ?thesis
      by (rule writer_cong[OF _ _ _ _ _ _ _ ok]) (use close lens in \<open>auto simp: nth_list_update\<close>)
  next
    case (drained k)
    with ok have "position_ok plan st k []" by (simp add: writer_ok_def)
    with drained lens show ?thesis
      by (auto simp: writer_ok_def all_written_def position_ok_def)
  next
    case (receive k batch rest)
    with ok have "position_ok plan st k []" by (simp add: writer_ok_def)
    with receive lens show ?thesis
      by (auto simp: writer_ok_def position_ok_def nth_list_update)
  next
    case (advance k)
    with ok have pos: "position_ok plan st k []" by (simp add: writer_ok_def)
    have "concat (take (Suc (Suc k)) (h_sent st)) =
        concat (take (Suc k) (h_sent st)) @ (if Suc k < length (chans st) then chans st ! Suc k else [])"
      using pos lens by (auto simp: position_ok_def take_Suc_conv_app_nth[of "Suc k"])
    with pos advance lens show ?thesis
      by (auto simp: writer_ok_def position_ok_def less_Suc_eq)
  next
    case (over_limit k batch)
    then show ?thesis by (simp add: writer_ok_def)
  next
    case (write_failed k batch err w)
    then show ?thesis by (simp add: writer_ok_def)
  next
    case (written k batch w)
    with ok have pos: "k < length (chans st)" "position_ok plan st k [batch]" by (simp_all add: writer_ok_def)
    then obtain bs where bs: "hashed st = batch_bytes bs" "wrows st = batch_rows bs"
        "concat (take (Suc k) (h_sent st)) = bs @ [batch] @ chans st ! k"
      by (auto simp: position_ok_def)
    have "\<exists>cs. hashed st @ b_bytes batch = batch_bytes cs \<and> wrows st + b_rows batch = batch_rows cs \<and>
        concat (take (Suc k) (h_sent st)) = cs @ chans st ! k"
      by (rule exI[of _ "bs @ [batch]"]) (simp add: bs)
    with pos written show ?thesis
      by (auto simp: writer_ok_def position_ok_def)
  qed (rule writer_cong[OF _ _ _ _ _ _ _ ok]; simp)+
qed

lemma streamed_writer: "streamed e t store sink h plan w st \<Longrightarrow> writer_ok e plan st"
proof (induction rule: streamed.induct)
  case start
  have "concat (take (Suc 0) (replicate n [])) = []" for n :: nat by (cases n) auto
  then show ?case by (auto simp: writer_ok_def position_ok_def stream_init_def Let_def intro: exI[of _ "[]"])
next
  case (move st m st')
  then show ?case by (blast intro: writer_ok_step streamed_shape)
qed

subsection \<open>A completed run\<close>

text \<open>The NDJSON artefact of a plan for the rows each step read.\<close>

definition artefact :: "ExtractionPlan \<Rightarrow> (string \<times> row) list list \<Rightarrow> string" where
  "artefact plan rows =
     concat (map (\<lambda>(step, rs). ndjson (st_ConfigName step) rs) (zip (pl_Steps plan) rows))"

lemma complete_run:
  assumes s: "streamed e t store sink h plan w st"
    and r: "runErr st = Some None" and wr: "writer st = WDone (Inr out)" and f: "sfirst st = None"
    and fin: "\<forall>pc \<in> set (spcs st). pc = Finished"
  shows "hashed st = artefact plan (h_rows st) \<and> length (h_rows st) = length (pl_Steps plan) \<and>
    rowCounts st = map length (h_rows st) \<and>
    out = \<lparr>wo_digest = sha256_hex (rt e) (hashed st), wo_rowCount = sum_list (map length (h_rows st)),
           wo_size = length (hashed st)\<rparr> \<and>
    (MaxResultBytes (pl_Limits plan) > 0 \<longrightarrow> int (length (hashed st)) \<le> MaxResultBytes (pl_Limits plan))"
proof -
  let ?n = "length (pl_Steps plan)"
  from streamed_shape[OF s] have len: "length (spcs st) = ?n" "length (h_rows st) = ?n"
      "length (h_sent st) = ?n" "length (rowCounts st) = ?n"
    by (simp_all add: shape_ok_def Let_def)
  have wh: "whole (st_ConfigName (pl_Steps plan ! i)) (h_rows st ! i) (h_sent st ! i) (rowCounts st ! i)"
    if "i < ?n" for i
  proof -
    from fin len that have "spcs st ! i = Finished" by simp
    with streamed_producers[OF s] that f show ?thesis by (auto simp: producers_ok_def)
  qed
  have counts: "rowCounts st = map length (h_rows st)"
    using wh len by (auto intro: nth_equalityI simp: whole_def)
  have "map batch_bytes (h_sent st) =
      map (\<lambda>(step, rs). ndjson (st_ConfigName step) rs) (zip (pl_Steps plan) (h_rows st))"
    using wh len by (auto intro: nth_equalityI simp: whole_def)
  moreover have "batch_bytes (concat bss) = concat (map batch_bytes bss)" for bss
    by (induction bss) simp_all
  ultimately have bytes: "batch_bytes (concat (h_sent st)) = artefact plan (h_rows st)"
    by (simp add: artefact_def)
  have "map batch_rows (h_sent st) = map length (h_rows st)"
    using wh len by (auto intro: nth_equalityI simp: whole_def)
  moreover have "batch_rows (concat bss) = sum_list (map batch_rows bss)" for bss
    by (induction bss) simp_all
  ultimately have rows: "batch_rows (concat (h_sent st)) = sum_list (map length (h_rows st))"
    by simp
  from streamed_writer[OF s] wr have "all_written e plan st out" by (simp add: writer_ok_def)
  with bytes rows counts len show ?thesis by (auto simp: all_written_def)
qed

end
