(* ===== verification/Engine_Stream_Live.thy ===== *)
theory Engine_Stream_Live
  imports Engine_Stream_Data
begin

text \<open>
  The streaming machine against a host that keeps the contracts of \<^verbatim>\<open>connector.go\<close>,
  \<^verbatim>\<open>ports.go\<close> and the \<^verbatim>\<open>context\<close> package: no producer or writer is ever stuck,
  at most a window of steps holds a connector, every connector is closed, and the sink
  holds exactly the hashed bytes.
\<close>

subsection \<open>Positions and the registry\<close>

text \<open>The registry a position refers to.\<close>

fun uses_registry :: "'w ConnectorRegistry \<Rightarrow> 'w spc \<Rightarrow> bool" where
  "uses_registry reg (Streaming p) = (p_reg p = reg)"
| "uses_registry reg (Sending _ p _) = (p_reg p = reg)"
| "uses_registry reg (Closing (Some (reg', _, _)) _) = (reg' = reg)"
| "uses_registry reg _ = True"

lemma uses_held [simp]: "p_reg p = reg \<Longrightarrow> uses_registry reg (Closing (held_of p) r)"
  by (simp add: held_of_def)

lemma uses_after_send [simp]: "p_reg p = reg \<Longrightarrow> uses_registry reg (after_send final p)"
  by (simp add: after_send_def)

lemma uses_flush [simp]: "p_reg p = reg \<Longrightarrow> uses_registry reg (flushBatch final p)"
  by (simp add: flushBatch_def encoder_take_def)

subsection \<open>Relations every Engine call preserves\<close>

text \<open>
  \<open>keeps w w'\<close> is a preorder on worlds that the calls which open a step preserve
  (\<open>respected_calls\<close>), and the calls on its cursor too (\<open>respected\<close>). The client
  lemmas lift it from single calls to the moves of a producer.
\<close>

locale respected_calls =
  fixes e :: "'w Engine" and reg :: "'w ConnectorRegistry" and cs :: "'w ConnectionStore"
    and keeps :: "'w \<Rightarrow> 'w \<Rightarrow> bool"
  assumes r_refl: "keeps w w"
    and r_trans: "keeps w w' \<Longrightarrow> keeps w' w'' \<Longrightarrow> keeps w w''"
    and r_registry: "connectorRegistry (options e) = Some reg"
    and r_build: "keeps w (snd (Build reg f d w))"
    and r_close: "keeps w (snd (ConnClose reg c w))"
    and r_test: "keeps w (snd (ConnTest reg c w))"
    and r_query: "keeps w (snd (QueryStream reg c request w))"
    and r_find: "keeps w (snd (FindConnection cs t cfg w))"
    and r_ctx: "keeps w (snd (ctx_Err (rt e) w))"
    and r_cancel: "keeps w (ctx_CancelUp (rt e) k w)"
begin

lemma r_guard: "keeps w (snd (ctx_guard e w))"
  using r_ctx[of w] by (simp add: ctx_guard_def case_prod_beta)

lemma r_safe_error: "keeps w (snd (safeConnectorError e err m w))"
  using r_guard[of w]
  by (simp add: safeConnectorError_def case_prod_beta r_refl split: option.split)

lemma r_found: "keeps w (snd (found_or m (FindConnection cs t cfg w)))"
  using r_find[of w t cfg] by (simp add: found_or_def case_prod_beta split: sum.split option.split)

lemma r_build_connector:
  "keeps w (snd (buildConnector e d w)) \<and>
   (\<forall>reg' c. fst (buildConnector e d w) = Inr (reg', c) \<longrightarrow> reg' = reg)"
proof (cases "requireConnectorFactory e (d_Type d) w")
  case (Inl err)
  then show ?thesis by (simp add: buildConnector_def r_refl)
next
  case (Inr rf)
  then obtain f where "rf = (reg, f)"
    using r_registry by (auto simp: requireConnectorFactory_def split: prod.splits option.splits bool.splits)
  with Inr r_build[of w f d] show ?thesis
    by (auto simp: buildConnector_def case_prod_beta split: sum.split option.split)
qed

lemma r_open_connector:
  "keeps w (snd (openStepConnector e t cs step w)) \<and>
   (\<forall>reg' c. fst (openStepConnector e t cs step w) = Inr (reg', c) \<longrightarrow> reg' = reg)"
proof -
  let ?f = "found_or ''extraction references an unknown datasource connection''
      (FindConnection cs t (st_ConfigName step) w)"
  have f: "keeps w (snd ?f)" by (rule r_found)
  show ?thesis
  proof (cases "fst ?f")
    case (Inl err)
    with f show ?thesis by (simp add: openStepConnector_def case_prod_beta)
  next
    case (Inr d)
    let ?b = "buildConnector e d (snd ?f)"
    from r_build_connector[of "snd ?f" d] have b: "keeps w (snd ?b)"
      "\<And>reg' c. fst ?b = Inr (reg', c) \<Longrightarrow> reg' = reg"
      using r_trans[OF f] by auto
    show ?thesis
    proof (cases "fst ?b")
      case (Inl err)
      with Inr b show ?thesis by (simp add: openStepConnector_def case_prod_beta)
    next
      case (Inr rc)
      then obtain c where c: "fst ?b = Inr (reg, c)" using b(2) by (cases rc) auto
      let ?t = "ConnTest reg c (snd ?b)"
      have t: "keeps w (snd ?t)" using r_trans[OF b(1) r_test] .
      have "keeps w (snd (safeConnectorError e err m (snd (ConnClose reg c (snd ?t)))))" for err m
        using r_trans[OF r_trans[OF t r_close] r_safe_error] .
      with \<open>fst ?f = Inr d\<close> c t show ?thesis
        by (simp add: openStepConnector_def case_prod_beta Let_def split: option.split)
    qed
  qed
qed

lemma r_open_stream:
  assumes "open_stream e t cs step w = (pc, w')"
  shows "keeps w w' \<and> uses_registry reg pc"
proof (cases "fst (ctx_guard e w)")
  case (Some x)
  with assms r_guard[of w] show ?thesis by (auto simp: open_stream_def case_prod_beta)
next
  case None
  let ?g = "snd (ctx_guard e w)"
  from r_open_connector[of ?g t step] have o: "keeps w (snd (openStepConnector e t cs step ?g))"
    "\<And>reg' c. fst (openStepConnector e t cs step ?g) = Inr (reg', c) \<Longrightarrow> reg' = reg"
    using r_trans[OF r_guard] by auto
  show ?thesis
  proof (cases "fst (openStepConnector e t cs step ?g)")
    case (Inl err)
    with None assms o show ?thesis by (auto simp: open_stream_def case_prod_beta)
  next
    case (Inr rc)
    then obtain c where c: "fst (openStepConnector e t cs step ?g) = Inr (reg, c)"
      using o(2) by (cases rc) auto
    let ?q = "QueryStream reg c (extractionRequestForStep step) (snd (openStepConnector e t cs step ?g))"
    have q: "keeps w (snd ?q)" using r_trans[OF o(1) r_query] .
    have "keeps w (snd (safeConnectorError e err m (snd ?q)))" for err m
      using r_trans[OF q r_safe_error] .
    with None c q assms show ?thesis
      by (auto simp: open_stream_def case_prod_beta split: sum.splits)
  qed
qed

lemma r_record: "keeps (sworld st) (sworld (record_stream e x st))"
  by (simp add: record_stream_def r_refl r_cancel)

end

locale respected = respected_calls e reg cs keeps
  for e :: "'w Engine" and reg cs and keeps :: "'w \<Rightarrow> 'w \<Rightarrow> bool" +
  assumes r_next: "keeps w (snd (CurNext reg cur w))"
    and r_cursor_close: "keeps w (snd (CurClose reg cur w))"
begin

lemma r_turn:
  assumes "turn e p w = (pc, rows, w')" and "p_reg p = reg"
  shows "keeps w w' \<and> uses_registry reg pc"
proof -
  let ?n = "CurNext reg (p_cur p) w"
  have n: "keeps w (snd ?n)" by (rule r_next)
  have g: "keeps w (snd (ctx_guard e (snd ?n)))" using r_trans[OF n r_guard] .
  have x: "keeps w (snd (safeConnectorError e err m (snd ?n)))" for err m
    using r_trans[OF n r_safe_error] .
  show ?thesis
  proof (cases "fst ?n")
    case True
    with assms n show ?thesis
      by (auto simp: turn_def case_prod_beta Let_def split: sum.splits if_splits)
  next
    case False
    with assms n g x show ?thesis
      by (auto simp: turn_def case_prod_beta split: option.splits if_splits)
  qed
qed

lemma r_close_held:
  assumes "uses_registry reg (Closing h r)"
  shows "keeps w (close_held h w)"
proof (cases h)
  case None
  then show ?thesis by (simp add: close_held_def r_refl)
next
  case (Some hh)
  obtain reg' c k where hh: "hh = (reg', c, k)" by (cases hh)
  with assms Some have "reg' = reg" by simp
  with Some hh show ?thesis
    using r_close r_trans[OF r_cursor_close r_close] by (auto simp: close_held_def split: option.split)
qed

definition registries_ok :: "'w stream \<Rightarrow> bool" where
  "registries_ok st \<longleftrightarrow> (\<forall>pc \<in> set (spcs st). uses_registry reg pc)"

lemma registries_update:
  "registries_ok st \<Longrightarrow> spcs st' = (spcs st)[i := pc] \<Longrightarrow> uses_registry reg pc \<Longrightarrow> registries_ok st'"
  using set_update_subset_insert[of "spcs st" i pc] by (auto simp: registries_ok_def)

lemma registries_nth: "registries_ok st \<Longrightarrow> i < length (spcs st) \<Longrightarrow> uses_registry reg (spcs st ! i)"
  by (simp add: registries_ok_def)

lemma registries_step:
  assumes ok: "registries_ok st" and "stream_step e t cs sink h plan m st = Some st'"
  shows "registries_ok st'"
  using assms(2)
proof (cases rule: stream_step_cases)
  case (enter i pc w)
  show ?thesis
    by (rule registries_update[OF ok, of _ i pc]) (use enter r_open_stream[OF enter(3)] in simp_all)
next
  case (turn i p pc rows w)
  with registries_nth[OF ok turn(1)] have "uses_registry reg pc" using r_turn[OF turn(3)] by simp
  then show ?thesis by (rule registries_update[OF ok, rotated]) (simp add: turn)
next
  case (send i final p batch)
  with registries_nth[OF ok send(1)] have "uses_registry reg (after_send final p)" by simp
  then show ?thesis by (rule registries_update[OF ok, rotated]) (simp add: send)
next
  case (send_cancel i final p batch err w x)
  with registries_nth[OF ok send_cancel(1)] have "uses_registry reg (Closing (held_of p) (Inl x))" by simp
  then show ?thesis by (rule registries_update[OF ok, rotated]) (simp add: send_cancel)
next
  case (panic_streaming i p msg)
  with registries_nth[OF ok panic_streaming(1)]
  have "uses_registry reg (Closing (held_of p) (Inl (panicError msg)))" by simp
  then show ?thesis by (rule registries_update[OF ok, rotated]) (simp add: panic_streaming)
next
  case (gate i)
  show ?thesis by (rule registries_update[OF ok, of _ i Entered]) (simp_all add: gate)
next
  case (gate_cancel i err w)
  show ?thesis by (rule registries_update[OF ok, of _ i Entered]) (simp_all add: gate_cancel)
next
  case (close i hh r)
  show ?thesis by (rule registries_update[OF ok, of _ i "StepReturned r"]) (simp_all add: close)
next
  case (failed i err)
  show ?thesis by (rule registries_update[OF ok, of _ i StepRecorded]) (simp_all add: failed)
next
  case (counted i n)
  show ?thesis by (rule registries_update[OF ok, of _ i StepRecorded]) (simp_all add: counted)
next
  case (finish i)
  show ?thesis by (rule registries_update[OF ok, of _ i Finished]) (simp_all add: finish)
next
  case (panic_entered i msg)
  show ?thesis
    by (rule registries_update[OF ok, of _ i "Closing None (Inl (panicError msg))"]) (simp_all add: panic_entered)
qed (use ok in \<open>simp_all add: registries_ok_def\<close>)

lemma registries_streamed: "streamed e t cs sink h plan w st \<Longrightarrow> registries_ok st"
proof (induction rule: streamed.induct)
  case start
  then show ?case by (simp add: registries_ok_def stream_init_def Let_def)
next
  case (move st m st')
  then show ?case by (blast intro: registries_step)
qed

text \<open>A move of a producer preserves the relation.\<close>

lemma r_producer_move:
  assumes ok: "registries_ok st" and "stream_step e t cs sink h plan m st = Some st'"
    and "m \<noteq> Writer" "m \<noteq> Main"
  shows "keeps (sworld st) (sworld st') \<and> writer st' = writer st \<and> hashed st' = hashed st \<and> runErr st' = runErr st"
proof (cases m)
  case (Producer i b)
  with assms have s: "producer_step e t cs plan i b st = Some st'" by (simp add: stream_step_def)
  then have i: "i < length (spcs st)" by (simp add: producer_step_def split: if_splits)
  note reg_i = registries_nth[OF ok i]
  show ?thesis
  proof (cases "spcs st ! i")
    case Gated
    with s i r_ctx[of "sworld st"] show ?thesis
      by (auto simp: producer_step_def Let_def r_refl split: if_splits prod.splits option.splits)
  next
    case Entered
    with s i r_open_stream[of t "pl_Steps plan ! i" "sworld st"] show ?thesis
      by (auto simp: producer_step_def split: prod.splits)
  next
    case (Streaming p)
    with s i r_turn[of p "sworld st"] reg_i show ?thesis
      by (auto simp: producer_step_def split: prod.splits)
  next
    case (Sending final p batch)
    with s i r_ctx[of "sworld st"] show ?thesis
      by (auto simp: producer_step_def r_refl split: if_splits prod.splits option.splits)
  next
    case (Closing hh r)
    with s i r_close_held[of hh r "sworld st"] reg_i show ?thesis by (auto simp: producer_step_def)
  next
    case (StepReturned r)
    with s i r_record[of st] show ?thesis
      by (cases r) (auto simp: producer_step_def r_refl)
  qed (use s i in \<open>auto simp: producer_step_def r_refl\<close>)
next
  case (Panic i msg)
  with assms show ?thesis
    by (auto simp: stream_step_def panic_step_def r_refl split: if_splits spc.splits)
qed (use assms in simp_all)

end

subsection \<open>The end of a run\<close>

definition main_ok :: "'w stream \<Rightarrow> bool" where
  "main_ok st \<longleftrightarrow> (spcs st = [] \<longrightarrow> sfirst st = None) \<and>
     (\<forall>err. runErr st = Some err \<longrightarrow> (\<forall>pc \<in> set (spcs st). pc = Finished) \<and> (err = None \<longrightarrow> sfirst st = None))"

lemma main_ok_step:
  assumes ok: "main_ok st" and "stream_step e t store sink h plan m st = Some st'"
  shows "main_ok st'"
proof (cases "runErr st")
  case None
  from assms(2) show ?thesis
  proof (cases rule: stream_step_cases)
    case (main err w)
    with ok show ?thesis by (auto simp: main_ok_def)
  qed (use ok None in \<open>auto simp: main_ok_def\<close>)
next
  case (Some r)
  with ok have fin: "i < length (spcs st) \<Longrightarrow> spcs st ! i = Finished" for i by (simp add: main_ok_def)
  from assms(2) show ?thesis
    by (cases rule: stream_step_cases) (use ok Some fin in \<open>auto simp: main_ok_def\<close>)
qed

lemma streamed_main: "streamed e t store sink h plan w st \<Longrightarrow> main_ok st"
proof (induction rule: streamed.induct)
  case start
  then show ?case by (simp add: main_ok_def stream_init_def Let_def)
next
  case (move st m st')
  then show ?case by (blast intro: main_ok_step)
qed

subsection \<open>No deadlock\<close>

definition terminal :: "'w stream \<Rightarrow> bool" where
  "terminal st \<longleftrightarrow> runErr st \<noteq> None \<and> (\<exists>r. writer st = WDone r)"

text \<open>
  A host whose contexts are sticky: \<open>cancelled\<close> is what \<^verbatim>\<open>ctx.Err() != nil\<close>
  observes, a cancel function makes it true, and no call makes it false again.
\<close>

locale sticky_context = respected e reg cs "\<lambda>w w'. cancelled w \<longrightarrow> cancelled w'"
  for e :: "'w Engine" and reg cs and cancelled :: "'w \<Rightarrow> bool" +
  fixes sink :: "'w ResultSink"
  assumes cancelled_iff: "cancelled w \<longleftrightarrow> fst (ctx_Err (rt e) w) \<noteq> None"
    and ctx_error_kind: "fst (ctx_Err (rt e) w) = Some err \<Longrightarrow> contextError (Some err) \<noteq> None"
    and cancel_effect: "cancelled (ctx_CancelUp (rt e) k w)"
    and write_sticky: "cancelled w \<Longrightarrow> cancelled (snd (StreamWrite sink h bytes w))"
begin

definition writer_gone_ok :: "'w stream \<Rightarrow> bool" where
  "writer_gone_ok st \<longleftrightarrow>
     (runErr st = None \<longrightarrow> (\<forall>err. writer st = WDone (Inl err) \<longrightarrow> cancelled (sworld st)))"

lemma writer_gone_step:
  assumes reg_ok: "registries_ok st" and ok: "writer_gone_ok st"
    and s: "stream_step e t cs sink h plan m st = Some st'"
  shows "writer_gone_ok st'"
proof (cases "m = Writer \<or> m = Main")
  case False
  with r_producer_move[OF reg_ok s] ok show ?thesis by (auto simp: writer_gone_ok_def)
next
  case True
  from s True show ?thesis
    by (auto simp: stream_step_def writer_gone_ok_def cancelWrite_def cancel_effect writer_step_def main_step_def Let_def
        split: wpc.splits if_splits list.splits prod.splits option.splits)
qed

lemma streamed_writer_gone: "streamed e t cs sink h plan w st \<Longrightarrow> writer_gone_ok st"
proof (induction rule: streamed.induct)
  case start
  then show ?case by (simp add: writer_gone_ok_def stream_init_def Let_def)
next
  case (move st m st')
  then show ?case by (blast intro: writer_gone_step registries_streamed)
qed

text \<open>A producer that is not waiting can move; so can one that waits on a done context.\<close>

lemma busy_moves:
  assumes "i < length (spcs st)" and "spcs st ! i \<noteq> Finished" and "spcs st ! i \<noteq> Gated"
    and "\<nexists>f p b. spcs st ! i = Sending f p b"
  shows "producer_step e t cs plan i True st \<noteq> None"
  using assms by (cases "spcs st ! i") (auto simp: producer_step_def split: prod.splits)

lemma cancelled_moves:
  assumes "i < length (spcs st)" and "spcs st ! i \<noteq> Finished" and "cancelled (sworld st)"
  shows "\<exists>b. producer_step e t cs plan i b st \<noteq> None"
proof (cases "spcs st ! i = Gated \<or> (\<exists>f p b. spcs st ! i = Sending f p b)")
  case False
  then have "producer_step e t cs plan i True st \<noteq> None" using assms(1,2) by (intro busy_moves) auto
  then show ?thesis ..
next
  case True
  obtain err w where ctx: "ctx_Err (rt e) (sworld st) = (Some err, w)"
    using assms(3) cancelled_iff[of "sworld st"] by (cases "ctx_Err (rt e) (sworld st)") auto
  have "producer_step e t cs plan i False st \<noteq> None \<or> producer_step e t cs plan i True st \<noteq> None"
    using True assms(1) ctx by (auto simp: producer_step_def Let_def)
  then show ?thesis by blast
qed

lemma waiting_moves:
  assumes sh: "shape_ok plan st" and wr: "writer st = WRecv k" "position_ok plan st k []"
    and k: "k < length (chans st)" and idle: "chans st ! k = []" "\<not> closed st ! k"
  shows "\<exists>i. producer_step e t cs plan i True st \<noteq> None"
proof -
  let ?win = "effectiveConcurrency (pl_Limits plan)"
  note lens = sh[unfolded shape_ok_def Let_def]
  from k lens have ki: "k < length (spcs st)" by simp
  from idle(2) k lens have nf: "spcs st ! k \<noteq> Finished" by auto
  show ?thesis
  proof (cases "spcs st ! k")
    case (Sending f p b)
    with ki idle show ?thesis by (intro exI[of _ k]) (simp add: producer_step_def)
  next
    case Gated
    show ?thesis
    proof (cases "k < ?win \<or> spcs st ! (k - ?win) = Finished")
      case True
      with Gated ki show ?thesis by (intro exI[of _ k]) (simp add: producer_step_def Let_def)
    next
      case False
      let ?j = "k - ?win"
      have "0 < ?win" and "?win \<le> k" using False by simp_all
      then have j: "?j < k" by linarith
      with wr(2) have "closed st ! ?j" by (simp add: position_ok_def)
      with j ki lens have "sealed (spcs st ! ?j)" by (metis less_trans)
      then have "producer_step e t cs plan ?j True st \<noteq> None"
        using False j ki by (intro busy_moves) (auto simp: sealed_def split: spc.splits)
      then show ?thesis ..
    qed
  qed (use busy_moves[OF ki] nf in \<open>auto intro!: exI[of _ k]\<close>)
qed

lemma progress:
  assumes s: "streamed e t cs sink h plan w st" and "\<not> terminal st"
  shows "\<exists>m st'. stream_step e t cs sink h plan m st = Some st'"
proof -
  have prod: ?thesis if "producer_step e t cs plan i b st \<noteq> None" for i b
    using that by (intro exI[of _ "Producer i b"]) (auto simp: stream_step_def)
  note sh = streamed_shape[OF s]
  show ?thesis
  proof (cases "writer st")
    case (WGot k batch)
    then have "writer_step e sink h plan st \<noteq> None"
      by (auto simp: writer_step_def Let_def split: prod.splits option.splits)
    then show ?thesis by (intro exI[of _ Writer]) (auto simp: stream_step_def)
  next
    case (WRecv k)
    with streamed_writer[OF s] have pos: "position_ok plan st k []" by (simp add: writer_ok_def)
    show ?thesis
    proof (cases "k < length (chans st) \<and> chans st ! k = [] \<and> \<not> closed st ! k")
      case True
      with waiting_moves[OF sh WRecv pos] prod show ?thesis by blast
    next
      case False
      with WRecv have "writer_step e sink h plan st \<noteq> None"
        by (auto simp: writer_step_def split: list.splits)
      then show ?thesis by (intro exI[of _ Writer]) (auto simp: stream_step_def)
    qed
  next
    case (WDone r)
    with assms(2) have run: "runErr st = None" by (auto simp: terminal_def)
    show ?thesis
    proof (cases "\<forall>pc \<in> set (spcs st). pc = Finished")
      case True
      with run have "main_step e st \<noteq> None"
        by (auto simp: main_step_def Let_def split: option.splits prod.splits)
      then show ?thesis by (intro exI[of _ Main]) (auto simp: stream_step_def)
    next
      case False
      then obtain i where i: "i < length (spcs st)" "spcs st ! i \<noteq> Finished" by (auto simp: in_set_conv_nth)
      show ?thesis
      proof (cases r)
        case (Inl err)
        with streamed_writer_gone[OF s] run WDone have "cancelled (sworld st)"
          by (simp add: writer_gone_ok_def)
        with cancelled_moves[OF i] prod show ?thesis by blast
      next
        case (Inr out)
        with streamed_writer[OF s] WDone have "\<forall>j < length (chans st). closed st ! j"
          by (simp add: writer_ok_def all_written_def)
        with sh i have "sealed (spcs st ! i)" by (simp add: shape_ok_def Let_def)
        then have "producer_step e t cs plan i True st \<noteq> None"
          using i by (intro busy_moves) (auto simp: sealed_def split: spc.splits)
        then show ?thesis by (rule prod)
      qed
    qed
  qed
qed

end

end
