(* ===== verification/Engine_Stream_Bounds.thy ===== *)
theory Engine_Stream_Bounds
  imports Engine_Stream_Live
begin

text \<open>
  Bounds of the streaming machine: at most a window of steps holds a connector, every
  run is finite when the cursors are, the sink holds the hashed bytes, and no connector
  outlives the run.
\<close>

subsection \<open>The window\<close>

fun holds_connector :: "'w spc \<Rightarrow> bool" where
  "holds_connector (Streaming _) = True"
| "holds_connector (Sending _ _ _) = True"
| "holds_connector (Closing (Some _) _) = True"
| "holds_connector _ = False"

definition connected :: "'w stream \<Rightarrow> nat set" where
  "connected st = {i. i < length (spcs st) \<and> holds_connector (spcs st ! i)}"

lemma finite_connected [simp]: "finite (connected st)"
  by (simp add: connected_def)

definition in_turn :: "ExtractionPlan \<Rightarrow> 'w stream \<Rightarrow> bool" where
  "in_turn plan st \<longleftrightarrow>
     (\<forall>i < length (spcs st). spcs st ! i \<noteq> Gated \<longrightarrow>
        i < effectiveConcurrency (pl_Limits plan) \<or>
        spcs st ! (i - effectiveConcurrency (pl_Limits plan)) = Finished)"

lemma in_turn_chain:
  assumes it: "in_turn plan st" and "i < length (spcs st)" "spcs st ! i \<noteq> Gated"
    and "j < i" "j mod effectiveConcurrency (pl_Limits plan) = i mod effectiveConcurrency (pl_Limits plan)"
  shows "spcs st ! j = Finished"
  using assms(2-)
proof (induction i rule: less_induct)
  case (less i)
  let ?win = "effectiveConcurrency (pl_Limits plan)"
  have win: "0 < ?win" by simp
  have dist: "?win \<le> i - j" using less.prems(3,4) win
    by (metis dvd_imp_le less_or_eq_imp_le mod_eq_dvd_iff_nat zero_less_diff)
  then have "?win \<le> i" by simp
  with it less.prems have prev: "spcs st ! (i - ?win) = Finished" by (auto simp: in_turn_def)
  show ?case
  proof (cases "j = i - ?win")
    case True
    with prev show ?thesis by simp
  next
    case False
    with dist less.prems(3) have "j < i - ?win" by linarith
    moreover have "(i - ?win) mod ?win = i mod ?win" using \<open>?win \<le> i\<close> by (simp add: le_mod_geq)
    ultimately show ?thesis
      using less.IH[of "i - ?win"] less.prems win prev \<open>?win \<le> i\<close> by simp
  qed
qed

lemma in_turn_window:
  assumes "in_turn plan st" and "S \<subseteq> {i. i < length (spcs st) \<and> spcs st ! i \<noteq> Gated \<and> spcs st ! i \<noteq> Finished}"
  shows "card S \<le> effectiveConcurrency (pl_Limits plan)"
proof -
  let ?win = "effectiveConcurrency (pl_Limits plan)"
  have "inj_on (\<lambda>i. i mod ?win) S"
  proof (rule inj_onI)
    fix i j assume ij: "i \<in> S" "j \<in> S" "i mod ?win = j mod ?win"
    from ij(1,2) assms(2) have i: "i < length (spcs st)" "spcs st ! i \<noteq> Gated" "spcs st ! i \<noteq> Finished"
      and j: "j < length (spcs st)" "spcs st ! j \<noteq> Gated" "spcs st ! j \<noteq> Finished" by auto
    show "i = j"
    proof (rule linorder_cases[of i j])
      assume "i < j"
      from in_turn_chain[OF assms(1) j(1,2) this ij(3)] i(3) show ?thesis by simp
    next
      assume "j < i"
      from in_turn_chain[OF assms(1) i(1,2) this ij(3)[symmetric]] j(3) show ?thesis by simp
    qed
  qed
  moreover have "(\<lambda>i. i mod ?win) ` S \<subseteq> {..<?win}" by auto
  ultimately show ?thesis by (metis card_inj_on_le card_lessThan finite_lessThan)
qed

lemma open_holds:
  assumes "open_stream e t store step w = (pc, w')" and "holds_connector pc"
  shows "fst (ctx_guard e w) = None"
  using assms by (auto simp: open_stream_def case_prod_beta split: option.splits)

lemma in_turn_update:
  assumes "in_turn plan st" and "spcs st' = (spcs st)[i := pc]" and "spcs st ! i \<noteq> Finished"
    and "i < length (spcs st)"
    and "spcs st ! i \<noteq> Gated \<or> pc = Gated \<or> i < effectiveConcurrency (pl_Limits plan) \<or>
         spcs st ! (i - effectiveConcurrency (pl_Limits plan)) = Finished"
  shows "in_turn plan st'"
proof -
  let ?win = "effectiveConcurrency (pl_Limits plan)"
  have keep: "spcs st' ! j = Finished" if "spcs st ! j = Finished" "j < length (spcs st)" for j
    using that assms(2,3) by (cases "j = i") simp_all
  show ?thesis
    unfolding in_turn_def
  proof (intro allI impI)
    fix j assume j: "j < length (spcs st')" "spcs st' ! j \<noteq> Gated"
    then have jl: "j < length (spcs st)" using assms(2) by simp
    have "j < ?win \<or> spcs st ! (j - ?win) = Finished"
      using assms j jl by (cases "j = i") (auto simp: in_turn_def nth_list_update)
    with keep jl show "j < ?win \<or> spcs st' ! (j - ?win) = Finished" by (metis less_imp_diff_less)
  qed
qed

context sticky_context
begin

definition gates_ok :: "ExtractionPlan \<Rightarrow> 'w stream \<Rightarrow> bool" where
  "gates_ok plan st \<longleftrightarrow> cancelled (sworld st) \<or> in_turn plan st"

lemma gates_producer:
  assumes reg_ok: "registries_ok st" and ok: "gates_ok plan st"
    and s: "stream_step e t cs sink h plan m st = Some st'" and "m \<noteq> Writer" "m \<noteq> Main"
  shows "gates_ok plan st'"
proof (cases "cancelled (sworld st)")
  case True
  with r_producer_move[OF reg_ok s] assms(4,5) show ?thesis by (simp add: gates_ok_def)
next
  case False
  with ok have it: "in_turn plan st" by (simp add: gates_ok_def)
  from s have "in_turn plan st'"
  proof (cases rule: stream_step_cases)
    case (gate_cancel i err w)
    with False cancelled_iff show ?thesis by simp
  next
    case (gate i)
    show ?thesis by (rule in_turn_update[OF it, of _ i Entered]) (use gate in auto)
  next
    case (enter i pc w)
    show ?thesis by (rule in_turn_update[OF it, of _ i pc]) (use enter in auto)
  next
    case (turn i p pc rows w)
    show ?thesis by (rule in_turn_update[OF it, of _ i pc]) (use turn in auto)
  next
    case (send i final p batch)
    show ?thesis by (rule in_turn_update[OF it, of _ i "after_send final p"]) (use send in auto)
  next
    case (send_cancel i final p batch err w x)
    show ?thesis by (rule in_turn_update[OF it, of _ i "Closing (held_of p) (Inl x)"]) (use send_cancel in auto)
  next
    case (close i hh r)
    show ?thesis by (rule in_turn_update[OF it, of _ i "StepReturned r"]) (use close in auto)
  next
    case (failed i err)
    show ?thesis by (rule in_turn_update[OF it, of _ i StepRecorded]) (use failed in auto)
  next
    case (counted i n)
    show ?thesis by (rule in_turn_update[OF it, of _ i StepRecorded]) (use counted in auto)
  next
    case (finish i)
    show ?thesis by (rule in_turn_update[OF it, of _ i Finished]) (use finish in auto)
  next
    case (panic_entered i msg)
    show ?thesis
      by (rule in_turn_update[OF it, of _ i "Closing None (Inl (panicError msg))"]) (use panic_entered in auto)
  next
    case (panic_streaming i p msg)
    show ?thesis
      by (rule in_turn_update[OF it, of _ i "Closing (held_of p) (Inl (panicError msg))"])
        (use panic_streaming in auto)
  qed (use it in \<open>simp_all add: in_turn_def\<close>)
  then show ?thesis by (simp add: gates_ok_def)
qed

lemma gates_step:
  assumes "registries_ok st" and ok: "gates_ok plan st"
    and s: "stream_step e t cs sink h plan m st = Some st'"
  shows "gates_ok plan st'"
proof -
  consider "m \<noteq> Writer \<and> m \<noteq> Main" | "m = Writer" | "m = Main" by blast
  then show ?thesis
  proof cases
    case 1
    with gates_producer[OF assms] show ?thesis by blast
  next
    case 2
    with s have w: "writer_step e sink h plan st = Some st'" by (simp add: stream_step_def)
    have wr: "cancelled w' \<longrightarrow> cancelled (snd (StreamWrite sink h b w'))" for b w'
      using write_sticky by blast
    from w have "spcs st' = spcs st" and "cancelled (sworld st) \<longrightarrow> cancelled (sworld st')"
      using wr
      by (auto simp: writer_step_def cancelWrite_def cancel_effect Let_def
          split: wpc.splits if_splits list.splits prod.splits option.splits) (metis snd_conv)+
    with ok show ?thesis by (auto simp: gates_ok_def in_turn_def)
  next
    case 3
    with s have "\<forall>pc \<in> set (spcs st). pc = Finished" "spcs st' = spcs st"
      by (auto simp: stream_step_def main_step_def Let_def split: if_splits option.splits prod.splits)
    then have "in_turn plan st'" by (auto simp: in_turn_def)
    then show ?thesis by (simp add: gates_ok_def)
  qed
qed

lemma streamed_gates: "streamed e t cs sink h plan w st \<Longrightarrow> gates_ok plan st"
proof (induction rule: streamed.induct)
  case start
  then show ?case by (simp add: gates_ok_def in_turn_def stream_init_def Let_def)
next
  case (move st m st')
  then show ?case by (blast intro: gates_step registries_streamed)
qed

lemma window_step:
  assumes g: "gates_ok plan st" and le: "card (connected st) \<le> effectiveConcurrency (pl_Limits plan)"
    and s: "stream_step e t cs sink h plan m st = Some st'"
  shows "card (connected st') \<le> effectiveConcurrency (pl_Limits plan)"
proof -
  have smaller: ?thesis if "connected st' \<subseteq> connected st"
    using that le by (meson card_mono finite_connected le_trans)
  from s show ?thesis
  proof (cases rule: stream_step_cases)
    case (enter i pc w)
    show ?thesis
    proof (cases "holds_connector pc")
      case False
      with enter have "connected st' \<subseteq> connected st" by (auto simp: connected_def nth_list_update)
      then show ?thesis by (rule smaller)
    next
      case True
      from open_holds[OF enter(3) this] ctx_error_kind[of "sworld st"] cancelled_iff[of "sworld st"]
      have "\<not> cancelled (sworld st)"
        by (auto simp: ctx_guard_def case_prod_beta)
      with g have it: "in_turn plan st" by (simp add: gates_ok_def)
      have "insert i (connected st) \<subseteq> {i. i < length (spcs st) \<and> spcs st ! i \<noteq> Gated \<and> spcs st ! i \<noteq> Finished}"
        using enter by (auto simp: connected_def)
      from in_turn_window[OF it this] have
        "card (insert i (connected st)) \<le> effectiveConcurrency (pl_Limits plan)" .
      moreover have "connected st' = insert i (connected st)"
        using enter True by (auto simp: connected_def nth_list_update)
      ultimately show ?thesis by simp
    qed
  next
    case (turn i p pc rows w)
    then have "connected st' \<subseteq> connected st" by (auto simp: connected_def nth_list_update)
    then show ?thesis by (rule smaller)
  next
    case (send i final p batch)
    then have "connected st' \<subseteq> connected st" by (auto simp: connected_def nth_list_update)
    then show ?thesis by (rule smaller)
  next
    case (send_cancel i final p batch err w x)
    then have "connected st' \<subseteq> connected st" by (auto simp: connected_def nth_list_update)
    then show ?thesis by (rule smaller)
  next
    case (panic_streaming i p msg)
    then have "connected st' \<subseteq> connected st" by (auto simp: connected_def nth_list_update)
    then show ?thesis by (rule smaller)
  qed (rule smaller; auto simp: connected_def nth_list_update)+
qed

lemma streamed_window:
  "streamed e t cs sink h plan w st \<Longrightarrow> card (connected st) \<le> effectiveConcurrency (pl_Limits plan)"
proof (induction rule: streamed.induct)
  case start
  have "connected (stream_init plan w) = {}" by (auto simp: connected_def stream_init_def Let_def)
  then show ?case by simp
next
  case (move st m st')
  then show ?case by (blast intro: window_step streamed_gates)
qed

end

subsection \<open>Every run is finite\<close>

text \<open>
  The work left, given a bound \<open>B\<close> on the rows of a step of which \<open>r\<close> are read.
  A row costs more than the batch it may complete, a batch more than its receive and write.
\<close>

fun potential :: "nat \<Rightarrow> nat \<Rightarrow> 'w spc \<Rightarrow> nat" where
  "potential B r Gated = 20 * B + 14"
| "potential B r Entered = 20 * B + 13"
| "potential B r (Streaming _) = 20 * (B - r) + 12"
| "potential B r (Sending final _ _) = 20 * (B - r) + (if final then 9 else 15)"
| "potential B r (Closing _ _) = 3"
| "potential B r (StepReturned _) = 2"
| "potential B r StepRecorded = 1"
| "potential B r Finished = 0"

definition writer_work :: "nat \<Rightarrow> wpc \<Rightarrow> nat" where
  "writer_work n w =
     (case w of WRecv k \<Rightarrow> Suc (n - k) | WGot k _ \<Rightarrow> Suc (Suc (n - k)) | WDone _ \<Rightarrow> 0)"

definition producer_work :: "nat \<Rightarrow> 'w stream \<Rightarrow> nat" where
  "producer_work B st = (\<Sum>i < length (spcs st). potential B (length (h_rows st ! i)) (spcs st ! i))"

definition stream_work :: "nat \<Rightarrow> 'w stream \<Rightarrow> nat" where
  "stream_work B st =
     producer_work B st + 2 * sum_list (map length (chans st)) +
     writer_work (length (chans st)) (writer st) + (if runErr st = None then 1 else 0)"

lemma sum_update:
  fixes f g :: "nat \<Rightarrow> nat"
  assumes "i < n" and "\<And>j. j < n \<Longrightarrow> j \<noteq> i \<Longrightarrow> g j = f j"
  shows "(\<Sum>j < n. g j) + f i = (\<Sum>j < n. f j) + g i"
proof -
  have "(\<Sum>j < n. f j) = f i + (\<Sum>j \<in> {..<n} - {i}. f j)"
    and "(\<Sum>j < n. g j) = g i + (\<Sum>j \<in> {..<n} - {i}. g j)"
    using assms(1) by (simp_all add: sum.remove)
  moreover have "(\<Sum>j \<in> {..<n} - {i}. g j) = (\<Sum>j \<in> {..<n} - {i}. f j)"
    using assms(2) by (intro sum.cong) auto
  ultimately show ?thesis by simp
qed

lemma producer_work_update:
  assumes "i < length (spcs st)" "spcs st' = (spcs st)[i := pc]" "length (h_rows st) = length (spcs st)"
    and "h_rows st' = (h_rows st)[i := rs]"
  shows "producer_work B st' + potential B (length (h_rows st ! i)) (spcs st ! i) =
    producer_work B st + potential B (length rs) pc"
proof -
  have "(\<Sum>j < length (spcs st). potential B (length (h_rows st' ! j)) (spcs st' ! j)) +
      potential B (length (h_rows st ! i)) (spcs st ! i) =
      (\<Sum>j < length (spcs st). potential B (length (h_rows st ! j)) (spcs st ! j)) +
      potential B (length (h_rows st' ! i)) (spcs st' ! i)"
    using assms by (intro sum_update) auto
  with assms show ?thesis by (simp add: producer_work_def)
qed

lemma producer_work_set:
  assumes "i < length (spcs st)" "spcs st' = (spcs st)[i := pc]" "length (h_rows st) = length (spcs st)"
    and "h_rows st' = h_rows st"
  shows "producer_work B st' + potential B (length (h_rows st ! i)) (spcs st ! i) =
    producer_work B st + potential B (length (h_rows st ! i)) pc"
  using producer_work_update[of i st st' pc "h_rows st ! i"] assms by simp

lemma open_stream_potential:
  "open_stream e t store step w = (pc, w') \<Longrightarrow> potential B 0 pc < 20 * B + 13"
  by (auto simp: open_stream_def case_prod_beta split: option.splits sum.splits)

lemma turn_potential:
  assumes "turn e p w = (pc, rows, w')" and "r + length rows \<le> B"
  shows "potential B (r + length rows) pc < 20 * (B - r) + 12"
  using assms
  by (auto simp: turn_def flushBatch_def encoder_take_def case_prod_beta Let_def
      split: if_splits option.splits sum.splits)

lemma stream_work_decreases:
  assumes sh: "shape_ok plan st" and pr: "producers_ok plan st" and wr: "writer_ok e plan st"
    and s: "stream_step e t store sink h plan m st = Some st'"
    and bound: "\<And>i. i < length (h_rows st') \<Longrightarrow> length (h_rows st' ! i) \<le> B"
  shows "stream_work B st' < stream_work B st"
proof -
  note lens = sh[unfolded shape_ok_def Let_def]
  have len: "length (h_rows st) = length (spcs st)" "length (chans st) = length (spcs st)" using lens by simp_all
  from s show ?thesis
  proof (cases rule: stream_step_cases)
    case (gate i)
    with producer_work_set[of i st st' Entered B] len show ?thesis by (simp add: stream_work_def)
  next
    case (gate_cancel i err w)
    with producer_work_set[of i st st' Entered B] len show ?thesis by (simp add: stream_work_def)
  next
    case (enter i pc w)
    then have "h_rows st ! i = []" using pr lens by (auto simp: producers_ok_def)
    with enter producer_work_set[of i st st' pc B] open_stream_potential[OF enter(3), of B] len show ?thesis
      by (simp add: stream_work_def)
  next
    case (turn i p pc rows w)
    with bound[of i] len have "length (h_rows st ! i) + length rows \<le> B" by simp
    from turn_potential[OF turn(3) this] turn
      producer_work_update[of i st st' pc "h_rows st ! i @ rows" B] len show ?thesis
      by (simp add: stream_work_def)
  next
    case (send i final p batch)
    have "sum_list (map length ((chans st)[i := [batch]])) = Suc (sum_list (map length (chans st)))"
      using sum_list_map_update[of i "chans st" length "[batch]"] send len by simp
    with send producer_work_set[of i st st' "after_send final p" B] len show ?thesis
      by (simp add: stream_work_def after_send_def split: if_splits)
  next
    case (send_cancel i final p batch err w x)
    with producer_work_set[of i st st' "Closing (held_of p) (Inl x)" B] len show ?thesis
      by (simp add: stream_work_def split: if_splits)
  next
    case (close i hh r)
    with producer_work_set[of i st st' "StepReturned r" B] len show ?thesis by (simp add: stream_work_def)
  next
    case (failed i err)
    with producer_work_set[of i st st' StepRecorded B] len show ?thesis by (simp add: stream_work_def)
  next
    case (counted i n)
    with producer_work_set[of i st st' StepRecorded B] len show ?thesis by (simp add: stream_work_def)
  next
    case (finish i)
    with producer_work_set[of i st st' Finished B] len show ?thesis by (simp add: stream_work_def)
  next
    case (panic_entered i msg)
    with producer_work_set[of i st st' "Closing None (Inl (panicError msg))" B] len show ?thesis
      by (simp add: stream_work_def)
  next
    case (panic_streaming i p msg)
    with producer_work_set[of i st st' "Closing (held_of p) (Inl (panicError msg))" B] len show ?thesis
      by (simp add: stream_work_def)
  next
    case (receive k batch rest)
    have "sum_list (map length ((chans st)[k := rest])) + 1 = sum_list (map length (chans st))"
      using sum_list_map_update[of k "chans st" length rest] receive by simp
    with receive show ?thesis by (simp add: stream_work_def producer_work_def writer_work_def)
  next
    case (written k batch w)
    then show ?thesis by (simp add: stream_work_def producer_work_def writer_work_def)
  next
    case (main err w)
    then show ?thesis by (simp add: stream_work_def producer_work_def)
  qed (simp_all add: stream_work_def producer_work_def writer_work_def)
qed

lemma stream_run_bounded:
  assumes s: "streamed e t store sink h plan w st" and "stream_run e t store sink h plan ms st = Some st'"
    and bound: "\<And>st i. streamed e t store sink h plan w st \<Longrightarrow> i < length (h_rows st) \<Longrightarrow> length (h_rows st ! i) \<le> B"
  shows "length ms + stream_work B st' \<le> stream_work B st"
  using assms(1,2)
proof (induction ms arbitrary: st)
  case (Cons m ms)
  then obtain st1 where st1: "stream_step e t store sink h plan m st = Some st1"
      "stream_run e t store sink h plan ms st1 = Some st'"
    by (auto split: option.splits)
  have s1: "streamed e t store sink h plan w st1" using Cons.prems(1) st1(1) by (rule streamed.move)
  have "stream_work B st1 < stream_work B st"
    using streamed_shape[OF Cons.prems(1)] streamed_producers[OF Cons.prems(1)]
      streamed_writer[OF Cons.prems(1)] st1(1) bound[OF s1]
    by (rule stream_work_decreases)
  with Cons.IH[OF s1 st1(2)] show ?case by simp
qed simp

lemma initial_work:
  "stream_work B (stream_init plan w) = length (pl_Steps plan) * (20 * B + 14) + length (pl_Steps plan) + 2"
  by (simp add: stream_work_def producer_work_def writer_work_def stream_init_def Let_def)

context sticky_context
begin

lemma stream_completes:
  assumes "streamed e t cs sink h plan w st"
    and bound: "\<And>st i. streamed e t cs sink h plan w st \<Longrightarrow> i < length (h_rows st) \<Longrightarrow> length (h_rows st ! i) \<le> B"
  shows "\<exists>ms st'. stream_run e t cs sink h plan ms st = Some st' \<and> terminal st'"
  using assms(1)
proof (induction "stream_work B st" arbitrary: st rule: less_induct)
  case less
  show ?case
  proof (cases "terminal st")
    case True
    then show ?thesis by (intro exI[of _ "[]"]) simp
  next
    case False
    then obtain m st1 where m: "stream_step e t cs sink h plan m st = Some st1"
      using progress[OF less.prems] by blast
    have s1: "streamed e t cs sink h plan w st1" using less.prems m by (rule streamed.move)
    have "stream_work B st1 < stream_work B st"
      using streamed_shape[OF less.prems] streamed_producers[OF less.prems]
        streamed_writer[OF less.prems] m bound[OF s1]
      by (rule stream_work_decreases)
    from less.hyps[OF this s1] obtain ms st' where
      "stream_run e t cs sink h plan ms st1 = Some st'" "terminal st'" by blast
    with m show ?thesis by (intro exI[of _ "m # ms"]) auto
  qed
qed

end

subsection \<open>The sink holds the hashed bytes\<close>

text \<open>
  The contract of a \<^verbatim>\<open>ResultStreamWriter\<close>: a successful write appends to the
  stream's contents, and only writes change them.
\<close>

locale stream_contents = respected e reg cs "\<lambda>w w'. contents w' = contents w"
  for e :: "'w Engine" and reg cs and contents :: "'w \<Rightarrow> string" +
  fixes sink :: "'w ResultSink" and handle :: nat
  assumes write_appends: "StreamWrite sink handle b w = (None, w') \<Longrightarrow> contents w' = contents w @ b"
    and leave_frame: "contents (ctx_Cancel (rt e) w) = contents w"
begin

lemma contents_step:
  assumes reg_ok: "registries_ok st"
    and ok: "(\<nexists>x. writer st = WDone (Inl x)) \<Longrightarrow> contents (sworld st) = c @ hashed st"
    and s: "stream_step e t cs sink handle plan m st = Some st'"
    and live: "\<nexists>x. writer st' = WDone (Inl x)"
  shows "contents (sworld st') = c @ hashed st'"
proof -
  consider "m \<noteq> Writer \<and> m \<noteq> Main" | "m = Writer" | "m = Main" by blast
  then show ?thesis
  proof cases
    case 1
    with r_producer_move[OF reg_ok s] ok live show ?thesis by simp
  next
    case 2
    with s have w: "writer_step e sink handle plan st = Some st'" by (simp add: stream_step_def)
    show ?thesis
    proof (cases "writer st")
      case (WRecv k)
      with w ok show ?thesis by (auto simp: writer_step_def split: if_splits list.splits)
    next
      case (WGot k b)
      with w ok live show ?thesis
        by (auto simp: writer_step_def Let_def dest: write_appends split: if_splits prod.splits option.splits)
    next
      case (WDone r)
      with w show ?thesis by (simp add: writer_step_def)
    qed
  next
    case 3
    with s have m: "main_step e st = Some st'" by (simp add: stream_step_def)
    then have "writer st' = writer st" "hashed st' = hashed st"
      "sworld st' \<in> {sworld st, ctx_Cancel (rt e) (sworld st), snd (ctx_guard e (ctx_Cancel (rt e) (sworld st)))}"
      by (auto simp: main_step_def Let_def case_prod_beta split: if_splits option.splits)
    moreover have "contents (snd (ctx_guard e (ctx_Cancel (rt e) (sworld st)))) = contents (sworld st)"
      using r_guard[of "ctx_Cancel (rt e) (sworld st)"] leave_frame by simp
    ultimately show ?thesis using ok live leave_frame by auto
  qed
qed

lemma streamed_contents:
  "streamed e t cs sink handle plan w st \<Longrightarrow> \<nexists>x. writer st = WDone (Inl x) \<Longrightarrow>
   contents (sworld st) = contents w @ hashed st"
proof (induction rule: streamed.induct)
  case start
  then show ?case by (simp add: stream_init_def Let_def)
next
  case (move st m st')
  from registries_streamed[OF move(1)] move(3,2,4) show ?case by (rule contents_step)
qed

end

subsection \<open>Connectors of a streaming run\<close>

fun conn_of :: "'w spc \<Rightarrow> nat option" where
  "conn_of (Streaming p) = Some (p_conn p)"
| "conn_of (Sending _ p _) = Some (p_conn p)"
| "conn_of (Closing (Some (_, c, _)) _) = Some c"
| "conn_of _ = None"

lemma conn_of_simps [simp]:
  "conn_of (Closing (held_of p) r) = Some (p_conn p)" "conn_of (after_send final p) = Some (p_conn p)"
  "conn_of (flushBatch final p) = Some (p_conn p)"
  by (simp_all add: held_of_def after_send_def flushBatch_def encoder_take_def)

lemma turn_conn: "turn e p w = (pc, rows, w') \<Longrightarrow> conn_of pc = Some (p_conn p)"
  by (auto simp: turn_def case_prod_beta Let_def split: if_splits option.splits sum.splits)

definition connectors :: "'w stream \<Rightarrow> nat set" where
  "connectors st = {c. \<exists>i < length (spcs st). conn_of (spcs st ! i) = Some c}"

definition distinct_connectors :: "'w stream \<Rightarrow> bool" where
  "distinct_connectors st \<longleftrightarrow>
     (\<forall>i j c. i < length (spcs st) \<and> j < length (spcs st) \<and> conn_of (spcs st ! i) = Some c \<and>
        conn_of (spcs st ! j) = Some c \<longrightarrow> i = j)"

lemma connectors_same:
  assumes "spcs st' = (spcs st)[i := pc]" and "conn_of pc = conn_of (spcs st ! i)" and "i < length (spcs st)"
  shows "connectors st' = connectors st \<and> (distinct_connectors st \<longrightarrow> distinct_connectors st')"
proof -
  have "conn_of (spcs st' ! j) = conn_of (spcs st ! j)" if "j < length (spcs st)" for j
    using that assms by (cases "j = i") simp_all
  with assms(1) show ?thesis by (auto simp: connectors_def distinct_connectors_def)
qed

locale stream_lifecycle = connector_lifecycle e reg cs live
  for e :: "'w Engine" and reg cs live +
  fixes sink :: "'w ResultSink"
  assumes write_frame: "live (snd (StreamWrite sink h b w)) = live w"
begin

lemma open_stream_live:
  assumes "open_stream e t cs step w = (pc, w')"
  shows "case conn_of pc of None \<Rightarrow> live w' = live w
    | Some c \<Rightarrow> c \<notin> live w \<and> live w' = insert c (live w)"
proof (cases "fst (ctx_guard e w)")
  case (Some x)
  with assms guard_frame[of w] show ?thesis by (auto simp: open_stream_def case_prod_beta)
next
  case None
  let ?g = "snd (ctx_guard e w)"
  have g: "live ?g = live w" by (rule guard_frame)
  from opened[of ?g t step] show ?thesis
  proof (cases rule: hands_out_cases)
    case (failed err w2)
    with None assms g show ?thesis by (auto simp: open_stream_def case_prod_beta)
  next
    case (built c w2)
    let ?q = "QueryStream reg c (extractionRequestForStep step) w2"
    have q: "live (snd ?q) = live w2" by (rule query_frame)
    have x: "live (snd (safeConnectorError e err m (snd ?q))) = live w2" for err m
      by (simp add: safe_error_frame q)
    show ?thesis
    proof (cases "fst ?q")
      case (Inl err)
      with None assms built have "pc = Closing (Some (reg, c, None))
          (Inl (fst (safeConnectorError e err ''failed to query datasource'' (snd ?q))))"
        "w' = snd (safeConnectorError e err ''failed to query datasource'' (snd ?q))"
        by (simp_all add: open_stream_def case_prod_beta)
      with x g built show ?thesis by simp
    next
      case (Inr cur)
      with None assms built have "conn_of pc = Some c" "w' = snd ?q"
        by (auto simp: open_stream_def case_prod_beta)
      with q g built show ?thesis by simp
    qed
  qed
qed

end

text \<open>The trivial relation is respected, which is what makes the registries of a run known.\<close>

sublocale stream_lifecycle \<subseteq> anything: respected e reg cs "\<lambda>_ _. True"
  by unfold_locales (simp_all add: registry)

context stream_lifecycle
begin

text \<open>The live connectors are those from before the run and those the producers hold.\<close>

definition connectors_ok :: "nat set \<Rightarrow> 'w stream \<Rightarrow> bool" where
  "connectors_ok outer st \<longleftrightarrow>
     live (sworld st) = outer \<union> connectors st \<and> outer \<inter> connectors st = {} \<and> distinct_connectors st"

lemma connectors_keep:
  assumes "connectors_ok outer st" and "spcs st' = (spcs st)[i := pc]"
    and "conn_of pc = conn_of (spcs st ! i)" and "i < length (spcs st)"
    and "live (sworld st') = live (sworld st)"
  shows "connectors_ok outer st'"
  using connectors_same[OF assms(2-4)] assms(1,5) by (simp add: connectors_ok_def)

lemma connectors_open:
  assumes ok: "connectors_ok outer st" and st': "spcs st' = (spcs st)[i := pc]" and i: "i < length (spcs st)"
    and none: "conn_of (spcs st ! i) = None" and c: "conn_of pc = Some c"
    and fresh: "c \<notin> live (sworld st)" "live (sworld st') = insert c (live (sworld st))"
  shows "connectors_ok outer st'"
proof -
  have nth: "conn_of (spcs st' ! j) = (if j = i then Some c else conn_of (spcs st ! j))"
    if "j < length (spcs st)" for j
    using that st' c by (simp add: nth_list_update)
  have len: "length (spcs st') = length (spcs st)" using st' by simp
  have cs': "connectors st' = insert c (connectors st)"
  proof (intro set_eqI iffI)
    fix x assume "x \<in> connectors st'"
    then obtain j where "j < length (spcs st)" "conn_of (spcs st' ! j) = Some x"
      by (auto simp: connectors_def len)
    with nth[of j] show "x \<in> insert c (connectors st)" by (auto simp: connectors_def split: if_splits)
  next
    fix x assume "x \<in> insert c (connectors st)"
    then consider "x = c" | j where "j < length (spcs st)" "conn_of (spcs st ! j) = Some x"
      by (auto simp: connectors_def)
    then show "x \<in> connectors st'"
    proof cases
      case 1
      with nth[OF i] i show ?thesis by (auto simp: connectors_def len intro!: exI[of _ i])
    next
      case (2 j)
      with nth[of j] none show ?thesis by (auto simp: connectors_def len intro!: exI[of _ j])
    qed
  qed
  have "c \<notin> outer" "c \<notin> connectors st" using fresh(1) ok by (auto simp: connectors_ok_def)
  then have "distinct_connectors st'"
    using ok nth by (auto simp: connectors_ok_def distinct_connectors_def connectors_def len split: if_splits)
  with cs' fresh ok \<open>c \<notin> outer\<close> show ?thesis by (auto simp: connectors_ok_def)
qed

lemma connectors_release:
  assumes ok: "connectors_ok outer st" and st': "spcs st' = (spcs st)[i := pc]" and i: "i < length (spcs st)"
    and c: "conn_of (spcs st ! i) = Some c" and none: "conn_of pc = None"
    and gone: "live (sworld st') = live (sworld st) - {c}"
  shows "connectors_ok outer st'"
proof -
  have nth: "conn_of (spcs st' ! j) = (if j = i then None else conn_of (spcs st ! j))"
    if "j < length (spcs st)" for j
    using that st' none by (simp add: nth_list_update)
  have d: "distinct_connectors st" using ok by (simp add: connectors_ok_def)
  have "connectors st' = connectors st - {c}"
  proof (intro set_eqI iffI)
    fix x assume "x \<in> connectors st'"
    then obtain j where "j < length (spcs st)" "j \<noteq> i" "conn_of (spcs st ! j) = Some x"
      using st' nth by (auto simp: connectors_def split: if_splits)
    with d c i show "x \<in> connectors st - {c}" by (auto simp: connectors_def distinct_connectors_def)
  next
    fix x assume "x \<in> connectors st - {c}"
    then obtain j where "j < length (spcs st)" "conn_of (spcs st ! j) = Some x" "x \<noteq> c"
      by (auto simp: connectors_def)
    with c nth st' show "x \<in> connectors st'" by (auto simp: connectors_def intro!: exI[of _ j])
  qed
  moreover have "c \<notin> outer" using ok c i by (auto simp: connectors_ok_def connectors_def)
  moreover have "distinct_connectors st'"
    using d nth st' by (auto simp: distinct_connectors_def split: if_splits)
  ultimately show ?thesis using ok gone by (auto simp: connectors_ok_def)
qed

lemma turn_live:
  assumes "turn e p w = (pc, rows, w')" and "p_reg p = reg"
  shows "live w' = live w"
proof -
  let ?n = "CurNext reg (p_cur p) w"
  have "live (snd ?n) = live w" "live (snd (ctx_guard e (snd ?n))) = live w"
    "live (snd (safeConnectorError e err m (snd ?n))) = live w" for err m
    by (simp_all add: frames guard_frame safe_error_frame)
  with assms show ?thesis
    by (auto simp: turn_def case_prod_beta Let_def split: if_splits option.splits sum.splits)
qed

lemma connectors_step:
  assumes ok: "connectors_ok outer st" and regs: "anything.registries_ok st"
    and s: "stream_step e t cs sink h plan m st = Some st'"
  shows "connectors_ok outer st'"
  using s
proof (cases rule: stream_step_cases)
  case (enter i pc w)
  note o = open_stream_live[OF enter(3)]
  show ?thesis
  proof (cases "conn_of pc")
    case None
    with o enter show ?thesis by (intro connectors_keep[OF ok, of _ i pc]) simp_all
  next
    case (Some c)
    with o enter show ?thesis by (intro connectors_open[OF ok, of _ i pc c]) simp_all
  qed
next
  case (turn i p pc rows w)
  with anything.registries_nth[OF regs turn(1)] turn_live[OF turn(3)] turn_conn[OF turn(3)] show ?thesis
    by (intro connectors_keep[OF ok, of _ i pc]) simp_all
next
  case (close i hh r)
  show ?thesis
  proof (cases hh)
    case None
    with close show ?thesis
      by (intro connectors_keep[OF ok, of _ i "StepReturned r"]) (simp_all add: close_held_def)
  next
    case (Some x)
    with anything.registries_nth[OF regs close(1)] close obtain c k where x: "hh = Some (reg, c, k)"
      by (cases x) auto
    have "live (close_held hh (sworld st)) = live (sworld st) - {c}"
      by (simp add: x close_held_def frames split: option.split)
    with x close show ?thesis by (intro connectors_release[OF ok, of _ i "StepReturned r" c]) simp_all
  qed
next
  case (gate i)
  then show ?thesis by (intro connectors_keep[OF ok, of _ i Entered]) simp_all
next
  case (gate_cancel i err w)
  with ctx_frame(1)[of "sworld st"] show ?thesis by (intro connectors_keep[OF ok, of _ i Entered]) simp_all
next
  case (send i final p batch)
  then show ?thesis by (intro connectors_keep[OF ok, of _ i "after_send final p"]) simp_all
next
  case (send_cancel i final p batch err w x)
  with ctx_frame(1)[of "sworld st"] show ?thesis
    by (intro connectors_keep[OF ok, of _ i "Closing (held_of p) (Inl x)"]) simp_all
next
  case (failed i err)
  then show ?thesis
    by (intro connectors_keep[OF ok, of _ i StepRecorded]) (simp_all add: record_stream_def frames)
next
  case (counted i n)
  then show ?thesis by (intro connectors_keep[OF ok, of _ i StepRecorded]) simp_all
next
  case (finish i)
  then show ?thesis by (intro connectors_keep[OF ok, of _ i Finished]) simp_all
next
  case (panic_entered i msg)
  then show ?thesis by (intro connectors_keep[OF ok, of _ i "Closing None (Inl (panicError msg))"]) simp_all
next
  case (panic_streaming i p msg)
  then show ?thesis
    by (intro connectors_keep[OF ok, of _ i "Closing (held_of p) (Inl (panicError msg))"]) simp_all
next
  case (write_failed k batch err w)
  with write_frame[of h "b_bytes batch" "sworld st"] ok show ?thesis
    by (simp add: connectors_ok_def connectors_def distinct_connectors_def cancelWrite_def frames)
next
  case (written k batch w)
  with write_frame[of h "b_bytes batch" "sworld st"] ok show ?thesis
    by (simp add: connectors_ok_def connectors_def distinct_connectors_def)
next
  case (main err w)
  then have "live w = live (sworld st)" by (elim disjE) (simp_all add: frames guard_frame)
  with main ok show ?thesis
    by (simp add: connectors_ok_def connectors_def distinct_connectors_def)
qed (use ok in \<open>simp_all add: connectors_ok_def connectors_def distinct_connectors_def cancelWrite_def frames\<close>)

lemma streamed_connectors: "streamed e t cs sink h plan w st \<Longrightarrow> connectors_ok (live w) st"
proof (induction rule: streamed.induct)
  case start
  then show ?case
    by (auto simp: connectors_ok_def connectors_def distinct_connectors_def stream_init_def Let_def)
next
  case (move st m st')
  from move(3) anything.registries_streamed[OF move(1)] move(2) show ?case by (rule connectors_step)
qed

lemma finished_connectors:
  assumes "streamed e t cs sink h plan w st" and "\<forall>pc \<in> set (spcs st). pc = Finished"
  shows "live (sworld st) = live w"
proof -
  have "conn_of (spcs st ! i) = None" if "i < length (spcs st)" for i
    using bspec[OF assms(2) nth_mem[OF that]] by simp
  then have "connectors st = {}" by (auto simp: connectors_def)
  with streamed_connectors[OF assms(1)] show ?thesis by (simp add: connectors_ok_def)
qed

end

end
