(* ===== verification/Engine_Execute.thy ===== *)
theory Engine_Execute
  imports Engine_Stream_Bounds
begin

text \<open>
  \<^verbatim>\<open>runner.go\<close>: the direct delivery path and \<^verbatim>\<open>ExecuteExtraction\<close> itself. The
  schedules of the two worker pools are arguments (\<open>schedule\<close>); a schedule that is not
  a complete execution yields \<^const>\<open>None\<close>.
\<close>

record extractionOutcome =
  oc_payload :: string
  oc_rowCount :: nat
  oc_rowCounts :: "(string, nat) gomap"
  oc_completedAt :: int

definition aggregate :: "stepResult list \<Rightarrow> (string, any) gomap" where
  "aggregate rs = foldl (\<lambda>m res. AList.update (sr_configName res) (rows_any (sr_rows res)) m) [] rs"

definition row_counts :: "stepResult list \<Rightarrow> (string, nat) gomap" where
  "row_counts rs = foldl (\<lambda>m res. AList.update (sr_configName res) (sr_count res) m) [] rs"

definition runDirectExtraction ::
  "move list \<Rightarrow> 'w Engine \<Rightarrow> TenantContext \<Rightarrow> 'w ConnectionStore \<Rightarrow> ExtractionPlan \<Rightarrow> 'w \<Rightarrow>
   (extractionOutcome res \<times> 'w) option" where
  "runDirectExtraction sched e tenant store plan w =
     (case ctx_guard e w of
        (Some engErr, w1) \<Rightarrow> Some (Inl engErr, w1)
      | (None, w1) \<Rightarrow>
         (case runStepsParallel sched e tenant store plan w1 of
            None \<Rightarrow> None
          | Some (Inl err, w2) \<Rightarrow> Some (Inl err, w2)
          | Some (Inr rs, w2) \<Rightarrow>
             (case ctx_guard e w2 of
                (Some engErr, w3) \<Rightarrow> Some (Inl engErr, w3)
              | (None, w3) \<Rightarrow>
                 (case MarshalIndent (AMap (aggregate rs)) of
                    None \<Rightarrow> Some (Inl serializeError, w3)
                  | Some payload \<Rightarrow>
                      if MaxResultBytes (pl_Limits plan) > 0 \<and>
                         int (length payload) > MaxResultBytes (pl_Limits plan)
                      then Some (Inl sizeLimitError, w3)
                      else
                        (case time_Now (rt e) w3 of
                           (now, w4) \<Rightarrow>
                             Some (Inr \<lparr>oc_payload = payload, oc_rowCount = sum_list (map sr_count rs),
                                        oc_rowCounts = row_counts rs, oc_completedAt = now\<rparr>, w4))))))"

definition completeDirectMode ::
  "'w Engine \<Rightarrow> TenantContext \<Rightarrow> string \<Rightarrow> extractionOutcome \<Rightarrow> 'w \<Rightarrow> ExtractionResult \<times> 'w" where
  "completeDirectMode e tenant requestID outcome w =
     (\<lparr>er_State = \<lparr>es_JobID = requestID, es_Status = StatusCompleted, es_StartedAt = 0,
                    es_CompletedAt = Some (oc_completedAt outcome), es_FailureMessage = []\<rparr>,
       er_Direct = Some \<lparr>dr_Data = oc_payload outcome, dr_Format = ''json'',
                         dr_RowCount = oc_rowCount outcome, dr_PlaintextSize = length (oc_payload outcome),
                         dr_Integrity = Some (engineContentIntegrity e (oc_payload outcome)),
                         dr_Protection = Some enginePlaintextProtection,
                         dr_CompletedAt = oc_completedAt outcome\<rparr>,
       er_Reference = None, er_RowCounts = oc_rowCounts outcome\<rparr>,
      recordExecutionStatus e tenant requestID StatusCompleted [] w)"

record schedule =
  pool_sched :: "move list"
  stream_sched :: "smove list"

definition plan_tenant :: "ExtractionPlan \<Rightarrow> TenantContext" where
  "plan_tenant plan = \<lparr>TenantID = pl_TenantID plan, RequestID = pl_RequestID plan\<rparr>"

text \<open>The two delivery paths, under the running deadline.\<close>

definition deliver ::
  "schedule \<Rightarrow> 'w Engine \<Rightarrow> ExecutionMode \<Rightarrow> ExtractionPlan \<Rightarrow> 'w ConnectionStore \<Rightarrow> 'w \<Rightarrow>
   (ExtractionResult res \<times> 'w) option" where
  "deliver sched e mode plan store w =
     (let tenant = plan_tenant plan;
          w1 = recordExecutionStatus e tenant (pl_RequestID plan) StatusRunning [] w
      in case (mode = ModeStore, resultSink (options e)) of
           (True, Some sink) \<Rightarrow> runStoreExtraction (stream_sched sched) e tenant store sink plan w1
         | _ \<Rightarrow>
           (case runDirectExtraction (pool_sched sched) e tenant store plan w1 of
              None \<Rightarrow> None
            | Some (Inl err, w2) \<Rightarrow>
                Some (Inl err, recordTerminalFailure e tenant (pl_RequestID plan) err w2)
            | Some (Inr outcome, w2) \<Rightarrow>
                (case completeDirectMode e tenant (pl_RequestID plan) outcome w2 of
                   (result, w3) \<Rightarrow> Some (Inr result, w3))))"

text \<open>The three guards before any resource is touched.\<close>

definition execute_guards :: "'w Engine \<Rightarrow> ExtractionPlan \<Rightarrow> 'w ConnectionStore res" where
  "execute_guards e plan =
     (case requireConnectionStore e of
        Inl err \<Rightarrow> Inl err
      | Inr store \<Rightarrow>
         (case validateTenantScope (plan_tenant plan) of
            Some err \<Rightarrow> Inl err
          | None \<Rightarrow>
              if resolveExecutionMode e (pl_Mode plan) = ModeStore \<and> Option.is_none (resultSink (options e))
              then Inl (NewEngineError CategoryValidation ''store mode requires a configured result sink'')
              else Inr store))"

definition ExecuteExtraction ::
  "schedule \<Rightarrow> 'w Engine \<Rightarrow> ExtractionPlan \<Rightarrow> 'w \<Rightarrow> (ExtractionResult res \<times> 'w) option" where
  "ExecuteExtraction sched e plan w =
     (let op = ''engine.extraction.execute'';
          w0 = (case observability (options e) of None \<Rightarrow> w | Some obs \<Rightarrow> StartSpan obs op w);
          fin = (\<lambda>w'. case observability (options e) of None \<Rightarrow> w' | Some obs \<Rightarrow> EndSpan obs op w');
          timeout = Timeout (pl_Limits plan)
      in case execute_guards e plan of
           Inl err \<Rightarrow> Some (Inl err, fin w0)
         | Inr store \<Rightarrow>
             map_option (\<lambda>(r, w'). (r, fin (if timeout > 0 then ctx_Cancel (rt e) w' else w')))
               (deliver sched e (resolveExecutionMode e (pl_Mode plan)) plan store
                  (if timeout > 0 then ctx_WithTimeout (rt e) timeout w0 else w0)))"

subsection \<open>Aggregation\<close>

lemma foldl_update_entries:
  "distinct (map k xs @ keys acc) \<Longrightarrow>
   foldl (\<lambda>m x. AList.update (k x) (v x) m) acc xs = acc @ map (\<lambda>x. (k x, v x)) xs"
proof (induction xs arbitrary: acc)
  case (Cons x xs)
  then have "AList.update (k x) (v x) acc = acc @ [(k x, v x)]"
    by (intro update_fresh) (auto simp: keys_def map_of_eq_None_iff)
  with Cons show ?case by (auto simp: keys_def)
qed simp

lemma aggregate_entries:
  "distinct (map sr_configName rs) \<Longrightarrow>
   aggregate rs = map (\<lambda>r. (sr_configName r, rows_any (sr_rows r))) rs"
  by (simp add: aggregate_def foldl_update_entries keys_def)

lemma row_counts_entries:
  "distinct (map sr_configName rs) \<Longrightarrow> row_counts rs = map (\<lambda>r. (sr_configName r, sr_count r)) rs"
  by (simp add: row_counts_def foldl_update_entries keys_def)

subsection \<open>The direct path\<close>

lemma direct_success:
  assumes "runDirectExtraction sched e t store plan w = Some (Inr oc, w')"
  obtains rs w1 w2 where
    "runStepsParallel sched e t store plan w1 = Some (Inr rs, w2)" "w1 = snd (ctx_guard e w)"
    "MarshalIndent (AMap (aggregate rs)) = Some (oc_payload oc)"
    "oc_rowCount oc = sum_list (map sr_count rs)" "oc_rowCounts oc = row_counts rs"
    "MaxResultBytes (pl_Limits plan) > 0 \<Longrightarrow> int (length (oc_payload oc)) \<le> MaxResultBytes (pl_Limits plan)"
  using assms
  by (auto simp: runDirectExtraction_def split: prod.splits option.splits sum.splits if_splits)

lemma results_determined:
  assumes "runStepsParallel sched e t store plan w = Some (Inr rs, w')"
    and det: "\<And>i out. yields P e t store (pl_Steps plan ! i) out \<Longrightarrow> out = data i"
    and inv: "\<And>st. reachable e t store plan (ctx_WithCancel (rt e) w) st \<Longrightarrow> P (world st)"
  shows "rs = map (\<lambda>i. step_result (pl_Steps plan ! i) (data i)) [0..<length (pl_Steps plan)]"
proof (rule nth_equalityI)
  note r = runStepsParallel_results[where P = P, OF assms(1) inv]
  from r show "length rs = length (map (\<lambda>i. step_result (pl_Steps plan ! i) (data i)) [0..<length (pl_Steps plan)])"
    by simp
  fix i assume i: "i < length rs"
  with r obtain out where "yields P e t store (pl_Steps plan ! i) out"
    "rs ! i = step_result (pl_Steps plan ! i) out"
    unfolding stored_result_def by blast
  with det i r show "rs ! i = map (\<lambda>i. step_result (pl_Steps plan ! i) (data i)) [0..<length (pl_Steps plan)] ! i"
    by simp
qed

text \<open>The direct payload of a plan for determined rows.\<close>

definition direct_rows :: "ExtractionPlan \<Rightarrow> (nat \<Rightarrow> table_rows \<times> nat) \<Rightarrow> stepResult list" where
  "direct_rows plan data = map (\<lambda>i. step_result (pl_Steps plan ! i) (data i)) [0..<length (pl_Steps plan)]"

lemma direct_rows_size:
  assumes "distinct (map st_ConfigName (pl_Steps plan))"
    and "MarshalIndent (AMap (aggregate (direct_rows plan data))) = Some p"
  shows "sum_list (map (step_size \<circ> data) [0..<length (pl_Steps plan)]) \<le> length p"
proof -
  have "map sr_configName (direct_rows plan data) = map st_ConfigName (pl_Steps plan)"
    by (auto simp: direct_rows_def step_result_def intro: nth_equalityI)
  with assms(1) have "aggregate (direct_rows plan data) =
      map (\<lambda>r. (sr_configName r, rows_any (sr_rows r))) (direct_rows plan data)"
    by (simp add: aggregate_entries)
  with object_size[OF assms(2)] show ?thesis
    by (simp add: direct_rows_def step_result_def step_size_def comp_def)
qed

lemma size_error_sound:
  assumes run: "pool_run e t store plan sched (pool_init plan w) = Some st" and lim: "first st = Some sizeLimitError"
    and det: "\<And>i out. yields P e t store (pl_Steps plan ! i) out \<Longrightarrow> out = data i"
    and inv: "\<And>st. reachable e t store plan w st \<Longrightarrow> P (world st)"
    and no: "\<And>i w w'. P w \<Longrightarrow> executeStep e t store (pl_Steps plan ! i) w \<noteq> Some (Inl sizeLimitError, w')"
  shows "MaxResultBytes (pl_Limits plan) < int (sum_list (map (step_size \<circ> data) [0..<length (pl_Steps plan)]))"
proof -
  have r: "reachable e t store plan w st" using pool_run_reachable[OF reachable.start run] .
  from reachable_size[where P = P, OF r det no inv] lim have
    "MaxResultBytes (pl_Limits plan) < int (runningSize st)"
    "runningSize st \<le> (\<Sum>i \<in> accounted st. step_size (data i))"
    by (simp_all add: size_ok_def)
  with accounted_bound[OF reachable_results[where P = P, OF r inv], of data] show ?thesis by linarith
qed

end
