(* ===== verification/Memory_Store.thy ===== *)
theory Memory_Store
  imports Engine_Execute
begin

text \<open>
  \<^verbatim>\<open>pkg/engine/memory\<close>, the stores: \<^verbatim>\<open>store.go\<close> (connections, executions)
  and \<^verbatim>\<open>cache.go\<close> (schema snapshots). Every collection is a map keyed by tenant and
  name; each operation runs under the store's mutex, so it is one function on the map.
\<close>

type_synonym connectionKey = "string \<times> string"

record storedConnection =
  sc_descriptor :: ConnectionDescriptor
  sc_credential :: "ProtectedCredential option"

type_synonym connections = "(connectionKey, storedConnection) gomap"

definition scopeOf :: "TenantContext \<Rightarrow> string" where
  "scopeOf tenant = TenantID tenant"

subsection \<open>Connections\<close>

definition store_FindConnection ::
  "TenantContext \<Rightarrow> string \<Rightarrow> connections \<Rightarrow> ConnectionDescriptor option" where
  "store_FindConnection tenant configName m =
     map_option sc_descriptor (map_of m (scopeOf tenant, configName))"

definition cloneCredential :: "ProtectedCredential option \<Rightarrow> ProtectedCredential option" where
  "cloneCredential credential =
     (case credential of
        None \<Rightarrow> None
      | Some c \<Rightarrow> Some \<lparr>Ciphertext = Ciphertext c, KeyVersion = KeyVersion c\<rparr>)"

definition store_Create ::
  "TenantContext \<Rightarrow> ConnectionDescriptor \<Rightarrow> ProtectedCredential option \<Rightarrow> connections \<Rightarrow>
   goerror option \<times> connections" where
  "store_Create tenant descriptor credential m =
     (let key = (scopeOf tenant, d_ConfigName descriptor)
      in case map_of m key of
           Some _ \<Rightarrow> (Some (NewEngineError CategoryValidation ''connection already exists''), m)
         | None \<Rightarrow>
             (None, AList.update key
                \<lparr>sc_descriptor = descriptor, sc_credential = cloneCredential credential\<rparr> m))"

definition updated_connection ::
  "ConnectionDescriptor \<Rightarrow> ProtectedCredential option \<Rightarrow> storedConnection \<Rightarrow> storedConnection" where
  "updated_connection descriptor credential existing =
     \<lparr>sc_descriptor = descriptor,
      sc_credential = (if credential \<noteq> None then cloneCredential credential else sc_credential existing)\<rparr>"

definition store_Update ::
  "TenantContext \<Rightarrow> ConnectionDescriptor \<Rightarrow> ProtectedCredential option \<Rightarrow> connections \<Rightarrow>
   goerror option \<times> connections" where
  "store_Update tenant descriptor credential m =
     (let key = (scopeOf tenant, d_ConfigName descriptor)
      in case map_of m key of
           None \<Rightarrow> (Some (NewEngineError CategoryNotFound ''connection not found''), m)
         | Some existing \<Rightarrow> (None, AList.update key (updated_connection descriptor credential existing) m))"

definition store_ProtectedCredential ::
  "TenantContext \<Rightarrow> string \<Rightarrow> connections \<Rightarrow> ProtectedCredential option" where
  "store_ProtectedCredential tenant configName m =
     (case map_of m (scopeOf tenant, configName) of
        None \<Rightarrow> None
      | Some stored \<Rightarrow> cloneCredential (sc_credential stored))"

definition store_Delete :: "TenantContext \<Rightarrow> string \<Rightarrow> connections \<Rightarrow> goerror option \<times> connections" where
  "store_Delete tenant configName m =
     (let key = (scopeOf tenant, configName)
      in case map_of m key of
           None \<Rightarrow> (Some (NewEngineError CategoryNotFound ''connection not found''), m)
         | Some _ \<Rightarrow> (None, AList.delete key m))"

definition scopedDescriptorsLocked :: "string \<Rightarrow> connections \<Rightarrow> ConnectionDescriptor list" where
  "scopedDescriptorsLocked scope m =
     sort_key d_ConfigName (map (sc_descriptor \<circ> snd) (filter (\<lambda>(key, _). fst key = scope) m))"

definition store_List :: "TenantContext \<Rightarrow> connections \<Rightarrow> ConnectionDescriptor list" where
  "store_List tenant m = scopedDescriptorsLocked (scopeOf tenant) m"

text \<open>The map is ranged over in iteration order and the first match is returned.\<close>

definition findByIDLocked :: "string \<Rightarrow> string \<Rightarrow> connections \<Rightarrow> (connectionKey \<times> storedConnection) option" where
  "findByIDLocked scope id' m =
     (if id' = [] then None
      else find (\<lambda>(key, stored). fst key = scope \<and> d_ID (sc_descriptor stored) = id') m)"

definition store_FindByID :: "TenantContext \<Rightarrow> string \<Rightarrow> connections \<Rightarrow> ConnectionDescriptor option" where
  "store_FindByID tenant id' m =
     map_option (sc_descriptor \<circ> snd) (findByIDLocked (scopeOf tenant) id' m)"

definition store_UpdateByID ::
  "TenantContext \<Rightarrow> string \<Rightarrow> ConnectionDescriptor \<Rightarrow> ProtectedCredential option \<Rightarrow> connections \<Rightarrow>
   goerror option \<times> connections" where
  "store_UpdateByID tenant id' descriptor credential m =
     (case findByIDLocked (scopeOf tenant) id' m of
        None \<Rightarrow> (Some (NewEngineError CategoryNotFound ''connection not found''), m)
      | Some (key, existing) \<Rightarrow>
          (let m' = (if d_ConfigName descriptor \<noteq> snd key then AList.delete key m else m);
               key' = (fst key, d_ConfigName descriptor)
           in (None, AList.update key' (updated_connection descriptor credential existing) m')))"

definition store_DeleteByID :: "TenantContext \<Rightarrow> string \<Rightarrow> connections \<Rightarrow> goerror option \<times> connections" where
  "store_DeleteByID tenant id' m =
     (case findByIDLocked (scopeOf tenant) id' m of
        None \<Rightarrow> (Some (NewEngineError CategoryNotFound ''connection not found''), m)
      | Some (key, _) \<Rightarrow> (None, AList.delete key m))"

definition store_ListPaged :: "TenantContext \<Rightarrow> any \<Rightarrow> connections \<Rightarrow> ConnectionPage" where
  "store_ListPaged tenant params m =
     (let items = scopedDescriptorsLocked (scopeOf tenant) m
      in \<lparr>pg_Items = items, pg_Total = int (length items)\<rparr>)"

subsection \<open>Executions\<close>

type_synonym executions = "(string \<times> string, ExecutionState) gomap"

definition store_SaveExecution :: "TenantContext \<Rightarrow> ExecutionState \<Rightarrow> executions \<Rightarrow> executions" where
  "store_SaveExecution tenant state m = AList.update (scopeOf tenant, es_JobID state) state m"

definition store_FindExecution :: "TenantContext \<Rightarrow> string \<Rightarrow> executions \<Rightarrow> ExecutionState option" where
  "store_FindExecution tenant jobID m = map_of m (scopeOf tenant, jobID)"

record RecordingExecutionStore =
  statuses :: "ExecutionStatus list"
  SaveErr :: "goerror option"

definition recording_SaveExecution ::
  "ExecutionState \<Rightarrow> RecordingExecutionStore \<Rightarrow> goerror option \<times> RecordingExecutionStore" where
  "recording_SaveExecution state s =
     (if SaveErr s \<noteq> None
      then Some (NewEngineError CategoryUnavailable ''execution store unavailable'') else None,
      s\<lparr>statuses := statuses s @ [es_Status state]\<rparr>)"

subsection \<open>The schema cache\<close>

record MemorySchemaCache =
  snapshots :: "(string \<times> string, SchemaSnapshot) gomap"
  GetErr :: "goerror option"
  PutErr :: "goerror option"

definition cache_GetSchema :: "TenantContext \<Rightarrow> string \<Rightarrow> MemorySchemaCache \<Rightarrow> SchemaSnapshot option res" where
  "cache_GetSchema tenant configName c =
     (case GetErr c of
        Some err \<Rightarrow> Inl err
      | None \<Rightarrow> Inr (map_of (snapshots c) (scopeOf tenant, configName)))"

definition cache_PutSchema ::
  "TenantContext \<Rightarrow> SchemaSnapshot \<Rightarrow> MemorySchemaCache \<Rightarrow> goerror option \<times> MemorySchemaCache" where
  "cache_PutSchema tenant snapshot c =
     (case PutErr c of
        Some err \<Rightarrow> (Some err, c)
      | None \<Rightarrow> (None, c\<lparr>snapshots := AList.update (scopeOf tenant, sn_ConfigName snapshot) snapshot (snapshots c)\<rparr>))"

subsection \<open>The store keeps its key invariant\<close>

text \<open>A connection is stored under its own config name.\<close>

definition connections_ok :: "connections \<Rightarrow> bool" where
  "connections_ok m \<longleftrightarrow> map_ok m \<and> (\<forall>((tid, c), stored) \<in> set m. d_ConfigName (sc_descriptor stored) = c)"

lemma connections_ok_lookup:
  "connections_ok m \<Longrightarrow> map_of m (tid, c) = Some stored \<Longrightarrow> d_ConfigName (sc_descriptor stored) = c"
  by (auto simp: connections_ok_def dest!: map_of_SomeD)

lemma cloneCredential_id [simp]: "cloneCredential c = c"
  by (simp add: cloneCredential_def split: option.split)

lemma set_update_subset: "set (AList.update k v m) \<subseteq> insert (k, v) (set m)"
  by (induction m) auto

lemma set_delete_subset: "set (AList.delete k m) \<subseteq> set m"
  by (auto simp: AList.delete_eq)

lemma connections_ok_update:
  "connections_ok m \<Longrightarrow> d_ConfigName (sc_descriptor s) = c \<Longrightarrow> connections_ok (AList.update (tid, c) s m)"
  using set_update_subset[of "(tid, c)" s m] by (fastforce simp: connections_ok_def)

lemma connections_ok_delete: "connections_ok m \<Longrightarrow> connections_ok (AList.delete k m)"
  using set_delete_subset[of k m] by (auto simp: connections_ok_def)

lemma connections_ok_ops:
  assumes "connections_ok m"
  shows "connections_ok (snd (store_Create t d cred m))" and "connections_ok (snd (store_Update t d cred m))"
    and "connections_ok (snd (store_Delete t c m))" and "connections_ok (snd (store_UpdateByID t i d cred m))"
    and "connections_ok (snd (store_DeleteByID t i m))"
  using assms
  by (auto simp: store_Create_def store_Update_def store_Delete_def store_UpdateByID_def store_DeleteByID_def
      updated_connection_def Let_def intro!: connections_ok_update connections_ok_delete split: option.split)

lemma scopedDescriptors_set:
  assumes "map_ok m"
  shows "set (scopedDescriptorsLocked scope m) = {sc_descriptor s |c s. map_of m (scope, c) = Some s}"
  using assms by (auto simp: scopedDescriptorsLocked_def map_ok_in_iff image_iff) force+

end
