(* ===== verification/Memory_Sink.thy ===== *)
theory Memory_Sink
  imports Engine_Execute
begin

text \<open>
  \<^verbatim>\<open>pkg/engine/memory/sink.go\<close>: the in-memory result sink and its streaming writer.
  An open writer is an entry of \<open>ws_writers\<close>, its handle is the index (a handle that
  was never handed out fails, which no caller can reach). The test hook
  \<^verbatim>\<open>WriteGate\<close>, which only delays the first write, is left out.
\<close>

record stream_writer =
  sw_tenant :: TenantContext
  sw_buf :: string

record MemoryResultSink =
  ws_results :: "(string, string) gomap"
  ws_seq :: nat
  ws_putCount :: nat
  ws_openCount :: nat
  ws_writeSizes :: "nat list"
  ws_PutErr :: "goerror option"
  ws_OpenErr :: "goerror option"
  ws_WriteErr :: "goerror option"
  ws_CloseErr :: "goerror option"
  ws_ProtectionResult :: "ResultProtection option"
  ws_OmitIntegrity :: bool
  ws_OmitSizeBytes :: bool
  ws_writers :: "stream_writer list"

definition result_path :: "string \<Rightarrow> string \<Rightarrow> nat \<Rightarrow> string" where
  "result_path tenantID digest n = ''memory://'' @ tenantID @ ''/'' @ digest @ ''-'' @ itoa (int n)"

text \<open>Store the bytes under the next path and describe them.\<close>

definition finalize ::
  "(string \<Rightarrow> string) \<Rightarrow> TenantContext \<Rightarrow> string \<Rightarrow> MemoryResultSink \<Rightarrow> ResultReference \<times> MemoryResultSink" where
  "finalize sha tenant payload s =
     (let digest = sha payload; n = Suc (ws_seq s); path = result_path (TenantID tenant) digest n
      in (\<lparr>rr_Path = path, rr_Format = [], rr_RowCount = 0,
           rr_SizeBytes = (if ws_OmitSizeBytes s then 0 else length payload),
           rr_Integrity = (if ws_OmitIntegrity s then None
                           else Some \<lparr>ri_Algorithm = ''SHA-256'', ri_Digest = digest, ri_Signature = []\<rparr>),
           rr_Protection = ws_ProtectionResult s, rr_CompletedAt = 0\<rparr>,
          s\<lparr>ws_seq := n, ws_results := AList.update path payload (ws_results s)\<rparr>))"

definition sink_PersistResult ::
  "(string \<Rightarrow> string) \<Rightarrow> TenantContext \<Rightarrow> string \<Rightarrow> MemoryResultSink \<Rightarrow> ResultReference res \<times> MemoryResultSink" where
  "sink_PersistResult sha tenant payload s =
     (let s1 = s\<lparr>ws_putCount := Suc (ws_putCount s)\<rparr>
      in if ws_PutErr s1 \<noteq> None
         then (Inl (NewEngineError CategoryUnavailable ''result sink unavailable''), s1)
         else (case finalize sha tenant payload s1 of (ref, s2) \<Rightarrow> (Inr ref, s2)))"

definition sink_OpenResultStream :: "TenantContext \<Rightarrow> MemoryResultSink \<Rightarrow> nat res \<times> MemoryResultSink" where
  "sink_OpenResultStream tenant s =
     (let s1 = s\<lparr>ws_openCount := Suc (ws_openCount s)\<rparr>
      in if ws_OpenErr s1 \<noteq> None
         then (Inl (NewEngineError CategoryUnavailable ''result sink unavailable''), s1)
         else (Inr (length (ws_writers s1)),
               s1\<lparr>ws_writers := ws_writers s1 @ [\<lparr>sw_tenant = tenant, sw_buf = []\<rparr>]\<rparr>))"

definition writer_Write :: "nat \<Rightarrow> string \<Rightarrow> MemoryResultSink \<Rightarrow> goerror option \<times> MemoryResultSink" where
  "writer_Write h p s =
     (let s1 = s\<lparr>ws_writeSizes := ws_writeSizes s @ [length p]\<rparr>
      in case ws_WriteErr s1 of
           Some err \<Rightarrow> (Some err, s1)
         | None \<Rightarrow>
             if h \<ge> length (ws_writers s1) then (Some (HostError ''no such writer''), s1)
             else (None, s1\<lparr>ws_writers := (ws_writers s1)
                [h := (ws_writers s1 ! h)\<lparr>sw_buf := sw_buf (ws_writers s1 ! h) @ p\<rparr>]\<rparr>))"

definition writer_Close ::
  "(string \<Rightarrow> string) \<Rightarrow> nat \<Rightarrow> MemoryResultSink \<Rightarrow> ResultReference res \<times> MemoryResultSink" where
  "writer_Close sha h s =
     (case ws_CloseErr s of
        Some err \<Rightarrow> (Inl err, s)
      | None \<Rightarrow>
         (case finalize sha (sw_tenant (ws_writers s ! h)) (sw_buf (ws_writers s ! h)) s of
            (ref, s1) \<Rightarrow> (Inr ref, s1)))"

definition sink_StoredCount :: "MemoryResultSink \<Rightarrow> nat" where
  "sink_StoredCount s = length (ws_results s)"

definition sink_Get :: "string \<Rightarrow> MemoryResultSink \<Rightarrow> string option" where
  "sink_Get path s = map_of (ws_results s) path"

lemma finalize_get:
  "finalize sha t payload s = (ref, s') \<Longrightarrow> sink_Get (rr_Path ref) s' = Some payload"
  by (auto simp: finalize_def sink_Get_def Let_def)

text \<open>The tenant of a path is the text up to the next slash, so tenants never share one.\<close>

lemma append_separator_cancel:
  assumes "c \<notin> set a" "c \<notin> set b" "a @ c # x = b @ c # y"
  shows "a = b"
proof -
  have tw: "takeWhile (\<lambda>x. x \<noteq> c) (s @ c # z) = s" if "c \<notin> set s" for s z
    using that by (subst takeWhile_append2) auto
  from arg_cong[OF assms(3), of "takeWhile (\<lambda>x. x \<noteq> c)"] show ?thesis
    unfolding tw[OF assms(1)] tw[OF assms(2)] .
qed

lemma result_path_tenant:
  assumes "isValidTenantID a" "isValidTenantID b" and "result_path a d n = result_path b d' n'"
  shows "a = b"
proof -
  from assms(3) have "a @ CHR ''/'' # d @ ''-'' @ itoa (int n) = b @ CHR ''/'' # d' @ ''-'' @ itoa (int n')"
    by (simp add: result_path_def)
  from append_separator_cancel[OF isValidTenantID_no_slash[OF assms(1)] isValidTenantID_no_slash[OF assms(2)] this]
  show ?thesis .
qed

end
