(* ===== verification/Memory_Registry.thy ===== *)
theory Memory_Registry
  imports Engine_Execute
begin

text \<open>
  \<^verbatim>\<open>pkg/engine/memory/registry.go\<close>: the registry, factories, connectors and cursors
  of the harness. Pointers are indices: a factory, a connector and a cursor are the
  positions of their records. The hooks that run test code or wait
  (\<^verbatim>\<open>BlockOnContext\<close>, \<^verbatim>\<open>LargeRowFactory\<close>, \<^verbatim>\<open>AfterQuery\<close>) are left out.
\<close>

record ConnectorBehavior =
  cb_Rows :: table_rows
  cb_Schema :: SchemaSnapshot
  cb_TestErr :: "goerror option"
  cb_QueryErr :: "goerror option"
  cb_CloseErr :: "goerror option"
  cb_StreamRowErr :: "goerror option"
  cb_StreamFailAfter :: nat

definition zero_behavior :: ConnectorBehavior where
  "zero_behavior =
     \<lparr>cb_Rows = [], cb_Schema = \<lparr>sn_ConfigName = [], sn_Tables = [], sn_CapturedAt = 0\<rparr>,
      cb_TestErr = None, cb_QueryErr = None, cb_CloseErr = None, cb_StreamRowErr = None,
      cb_StreamFailAfter = 0\<rparr>"

record MemoryConnector =
  mc_behavior :: ConnectorBehavior
  mc_queryCalls :: nat
  mc_closeCount :: nat

record ConnectorFactory =
  cf_template :: "ConnectorBehavior option"
  cf_built :: "nat list"
  cf_BuildErr :: "goerror option"
  cf_NilConnector :: bool

record erroringCursor =
  ec_inner :: eagerCursor
  ec_failAfter :: nat
  ec_seen :: nat
  ec_err :: goerror
  ec_tripped :: bool

datatype memory_cursor = Eager eagerCursor | Erroring erroringCursor

record MemoryRegistry =
  mr_factories :: "(string, nat) gomap"
  mr_factory_list :: "ConnectorFactory list"
  mr_connectors :: "MemoryConnector list"
  mr_cursors :: "memory_cursor list"

definition registry_Register :: "string \<Rightarrow> nat \<Rightarrow> MemoryRegistry \<Rightarrow> MemoryRegistry" where
  "registry_Register datasourceType factory r =
     r\<lparr>mr_factories := AList.update datasourceType factory (mr_factories r)\<rparr>"

definition registry_Connector :: "string \<Rightarrow> MemoryRegistry \<Rightarrow> nat option \<times> bool" where
  "registry_Connector datasourceType r =
     (map_of (mr_factories r) datasourceType, map_of (mr_factories r) datasourceType \<noteq> None)"

definition LookupOrError :: "string \<Rightarrow> MemoryRegistry \<Rightarrow> nat res" where
  "LookupOrError datasourceType r =
     (case registry_Connector datasourceType r of
        (Some factory, True) \<Rightarrow> Inr factory
      | _ \<Rightarrow> Inl (UnknownConnectorTypeError datasourceType))"

subsection \<open>Factories and connectors\<close>

definition factory_Build :: "nat \<Rightarrow> MemoryRegistry \<Rightarrow> nat option res \<times> MemoryRegistry" where
  "factory_Build f r =
     (if f \<ge> length (mr_factory_list r) then (Inr None, r)
      else
        (let factory = mr_factory_list r ! f
         in case cf_BuildErr factory of
              Some err \<Rightarrow> (Inl err, r)
            | None \<Rightarrow>
                if cf_NilConnector factory then (Inr None, r)
                else
                  (let c = length (mr_connectors r);
                       behavior = (case cf_template factory of None \<Rightarrow> zero_behavior | Some b \<Rightarrow> b)
                   in (Inr (Some c),
                       r\<lparr>mr_connectors := mr_connectors r @
                           [\<lparr>mc_behavior = behavior, mc_queryCalls = 0, mc_closeCount = 0\<rparr>],
                         mr_factory_list := (mr_factory_list r)
                           [f := factory\<lparr>cf_built := cf_built factory @ [c]\<rparr>]\<rparr>))))"

definition LastBuilt :: "ConnectorFactory \<Rightarrow> nat option" where
  "LastBuilt factory = (if cf_built factory = [] then None else Some (last (cf_built factory)))"

definition BuildCount :: "ConnectorFactory \<Rightarrow> nat" where
  "BuildCount factory = length (cf_built factory)"

definition connector_TestConnection :: "nat \<Rightarrow> MemoryRegistry \<Rightarrow> goerror option" where
  "connector_TestConnection c r = cb_TestErr (mc_behavior (mr_connectors r ! c))"

definition connector_DiscoverSchema :: "nat \<Rightarrow> MemoryRegistry \<Rightarrow> SchemaSnapshot" where
  "connector_DiscoverSchema c r = cb_Schema (mc_behavior (mr_connectors r ! c))"

definition connector_QueryStream :: "nat \<Rightarrow> MemoryRegistry \<Rightarrow> nat res \<times> MemoryRegistry" where
  "connector_QueryStream c r =
     (let conn = mr_connectors r ! c; behavior = mc_behavior conn;
          r1 = r\<lparr>mr_connectors := (mr_connectors r)[c := conn\<lparr>mc_queryCalls := Suc (mc_queryCalls conn)\<rparr>]\<rparr>
      in case cb_QueryErr behavior of
           Some err \<Rightarrow> (Inl err, r1)
         | None \<Rightarrow>
             (let inner = NewEagerCursor (copy_map (cb_Rows behavior));
                  cursor = (case cb_StreamRowErr behavior of
                              None \<Rightarrow> Eager inner
                            | Some err \<Rightarrow>
                                Erroring \<lparr>ec_inner = inner, ec_failAfter = cb_StreamFailAfter behavior,
                                          ec_seen = 0, ec_err = err, ec_tripped = False\<rparr>)
              in (Inr (length (mr_cursors r1)), r1\<lparr>mr_cursors := mr_cursors r1 @ [cursor]\<rparr>)))"

definition connector_Close :: "nat \<Rightarrow> MemoryRegistry \<Rightarrow> goerror option \<times> MemoryRegistry" where
  "connector_Close c r =
     (let conn = mr_connectors r ! c
      in (cb_CloseErr (mc_behavior conn),
          r\<lparr>mr_connectors := (mr_connectors r)[c := conn\<lparr>mc_closeCount := Suc (mc_closeCount conn)\<rparr>]\<rparr>))"

definition connector_CloseCount :: "nat \<Rightarrow> MemoryRegistry \<Rightarrow> nat" where
  "connector_CloseCount c r = mc_closeCount (mr_connectors r ! c)"

definition connector_QueryCalls :: "nat \<Rightarrow> MemoryRegistry \<Rightarrow> nat" where
  "connector_QueryCalls c r = mc_queryCalls (mr_connectors r ! c)"

subsection \<open>Cursors\<close>

definition erroring_Next :: "goerror option \<Rightarrow> erroringCursor \<Rightarrow> bool \<times> erroringCursor" where
  "erroring_Next ctxErr c =
     (if ec_tripped c then (False, c)
      else if ec_seen c \<ge> ec_failAfter c then (False, c\<lparr>ec_tripped := True\<rparr>)
      else (case eager_Next ctxErr (ec_inner c) of
              (ok, inner) \<Rightarrow>
                if ok then (True, c\<lparr>ec_inner := inner, ec_seen := Suc (ec_seen c)\<rparr>)
                else (False, c\<lparr>ec_inner := inner\<rparr>)))"

definition erroring_Err :: "erroringCursor \<Rightarrow> goerror option" where
  "erroring_Err c = (if ec_tripped c then Some (ec_err c) else eager_Err (ec_inner c))"

definition cursor_Next :: "goerror option \<Rightarrow> memory_cursor \<Rightarrow> bool \<times> memory_cursor" where
  "cursor_Next ctxErr c =
     (case c of
        Eager x \<Rightarrow> (case eager_Next ctxErr x of (ok, x') \<Rightarrow> (ok, Eager x'))
      | Erroring x \<Rightarrow> (case erroring_Next ctxErr x of (ok, x') \<Rightarrow> (ok, Erroring x')))"

definition cursor_Row :: "memory_cursor \<Rightarrow> string \<times> row" where
  "cursor_Row c = (case c of Eager x \<Rightarrow> eager_Row x | Erroring x \<Rightarrow> eager_Row (ec_inner x))"

definition cursor_Err :: "memory_cursor \<Rightarrow> goerror option" where
  "cursor_Err c = (case c of Eager x \<Rightarrow> eager_Err x | Erroring x \<Rightarrow> erroring_Err x)"

definition cursor_Close :: "memory_cursor \<Rightarrow> memory_cursor" where
  "cursor_Close c =
     (case c of
        Eager x \<Rightarrow> Eager (eager_Close x)
      | Erroring x \<Rightarrow> Erroring (x\<lparr>ec_inner := eager_Close (ec_inner x)\<rparr>))"

text \<open>The rows a cursor can still deliver.\<close>

definition inner_cursor :: "memory_cursor \<Rightarrow> eagerCursor" where
  "inner_cursor c = (case c of Eager x \<Rightarrow> x | Erroring x \<Rightarrow> ec_inner x)"

definition rows_left :: "memory_cursor \<Rightarrow> nat" where
  "rows_left c = length (pairs (inner_cursor c)) - pos (inner_cursor c)"

lemma cursor_Next_rows_left: "cursor_Next ctxErr c = (True, c') \<Longrightarrow> rows_left c' < rows_left c"
  by (cases c) (auto simp: cursor_Next_def erroring_Next_def eager_Next_def rows_left_def inner_cursor_def
      split: prod.splits if_splits)

end
