(* ===== verification/Memory_Harness.thy ===== *)
theory Memory_Harness
  imports Memory_Store Memory_Sink Memory_Registry
begin

text \<open>
  An Engine over the in-memory collaborators: the host world is the state of the
  stores, the sink, the registry and the context, and the ports are the operations of
  \<^verbatim>\<open>pkg/engine/memory\<close> on it. The interfaces of the Engine theories are interpreted
  here. Contexts are a stack of states; a deadline is a state the host sets; the credential protector, the
  active-execution checker and SHA-256, which the package does not provide, are
  parameters.
\<close>

datatype ctx_state = Active | DeadlinePassed | CtxCanceled

definition ctx_error :: "ctx_state \<Rightarrow> goerror option" where
  "ctx_error x = (case x of Active \<Rightarrow> None | DeadlinePassed \<Rightarrow> Some DeadlineExceeded | CtxCanceled \<Rightarrow> Some Canceled)"

record mem_world =
  mw_connections :: connections
  mw_executions :: executions
  mw_cache :: MemorySchemaCache
  mw_sink :: MemoryResultSink
  mw_registry :: MemoryRegistry
  mw_ctx :: ctx_state
  mw_parents :: "ctx_state list"
  mw_clock :: int

definition on_connections :: "(connections \<Rightarrow> 'a \<times> connections) \<Rightarrow> mem_world \<Rightarrow> 'a \<times> mem_world" where
  "on_connections f w = (case f (mw_connections w) of (r, m) \<Rightarrow> (r, w\<lparr>mw_connections := m\<rparr>))"

definition on_sink :: "(MemoryResultSink \<Rightarrow> 'a \<times> MemoryResultSink) \<Rightarrow> mem_world \<Rightarrow> 'a \<times> mem_world" where
  "on_sink f w = (case f (mw_sink w) of (r, s) \<Rightarrow> (r, w\<lparr>mw_sink := s\<rparr>))"

definition on_registry :: "(MemoryRegistry \<Rightarrow> 'a \<times> MemoryRegistry) \<Rightarrow> mem_world \<Rightarrow> 'a \<times> mem_world" where
  "on_registry f w = (case f (mw_registry w) of (r, s) \<Rightarrow> (r, w\<lparr>mw_registry := s\<rparr>))"

subsection \<open>Ports\<close>

definition mem_store :: "mem_world ConnectionStore" where
  "mem_store =
     \<lparr>FindConnection = (\<lambda>t c w. (Inr (store_FindConnection t c (mw_connections w)), w)),
      Create = (\<lambda>t d cred. on_connections (store_Create t d cred)),
      Update = (\<lambda>t d cred. on_connections (store_Update t d cred)),
      Delete = (\<lambda>t c. on_connections (store_Delete t c)),
      ListAll = (\<lambda>t w. (Inr (store_List t (mw_connections w)), w)),
      FindByID = (\<lambda>t i w. (Inr (store_FindByID t i (mw_connections w)), w)),
      UpdateByID = (\<lambda>t i d cred. on_connections (store_UpdateByID t i d cred)),
      DeleteByID = (\<lambda>t i. on_connections (store_DeleteByID t i)),
      ListPaged = (\<lambda>t p w. (Inr (store_ListPaged t p (mw_connections w)), w))\<rparr>"

definition cursor_at :: "nat \<Rightarrow> mem_world \<Rightarrow> memory_cursor" where
  "cursor_at cur w = mr_cursors (mw_registry w) ! cur"

definition set_cursor :: "nat \<Rightarrow> memory_cursor \<Rightarrow> mem_world \<Rightarrow> mem_world" where
  "set_cursor cur c w =
     w\<lparr>mw_registry := (mw_registry w)\<lparr>mr_cursors := (mr_cursors (mw_registry w))[cur := c]\<rparr>\<rparr>"

text \<open>A handle that was never handed out delivers nothing.\<close>

definition mem_registry :: "mem_world ConnectorRegistry" where
  "mem_registry =
     \<lparr>Connector = (\<lambda>ty w. registry_Connector ty (mw_registry w)),
      Build = (\<lambda>f d. on_registry (factory_Build f)),
      ConnTest = (\<lambda>c w. (connector_TestConnection c (mw_registry w), w)),
      ConnDiscover = (\<lambda>c w. (Inr (connector_DiscoverSchema c (mw_registry w)), w)),
      QueryStream = (\<lambda>c request. on_registry (connector_QueryStream c)),
      ConnClose = (\<lambda>c. on_registry (connector_Close c)),
      CurNext = (\<lambda>cur w.
        if cur < length (mr_cursors (mw_registry w))
        then (case cursor_Next (ctx_error (mw_ctx w)) (cursor_at cur w) of (ok, c) \<Rightarrow> (ok, set_cursor cur c w))
        else (False, w)),
      CurRow = (\<lambda>cur w. cursor_Row (cursor_at cur w)),
      CurErr = (\<lambda>cur w. cursor_Err (cursor_at cur w)),
      CurClose = (\<lambda>cur w. (None, set_cursor cur (cursor_Close (cursor_at cur w)) w))\<rparr>"

definition mem_cache :: "mem_world SchemaCache" where
  "mem_cache =
     \<lparr>GetSchema = (\<lambda>t c w. (cache_GetSchema t c (mw_cache w), w)),
      PutSchema = (\<lambda>t s w. case cache_PutSchema t s (mw_cache w) of (r, c) \<Rightarrow> (r, w\<lparr>mw_cache := c\<rparr>))\<rparr>"

definition mem_executions :: "mem_world ExecutionStore" where
  "mem_executions =
     \<lparr>SaveExecution = (\<lambda>t s w. (None, w\<lparr>mw_executions := store_SaveExecution t s (mw_executions w)\<rparr>))\<rparr>"

definition mem_sink :: "(string \<Rightarrow> string) \<Rightarrow> mem_world ResultSink" where
  "mem_sink sha =
     \<lparr>PersistResult = (\<lambda>t payload. on_sink (sink_PersistResult sha t payload)),
      OpenResultStream = (\<lambda>t. on_sink (sink_OpenResultStream t)),
      StreamWrite = (\<lambda>h p. on_sink (writer_Write h p)),
      StreamClose = (\<lambda>h. on_sink (writer_Close sha h))\<rparr>"

text \<open>The context package: cancelling a context cancels its descendants and keeps the first error.\<close>

definition cancel_ctx :: "ctx_state \<Rightarrow> ctx_state" where
  "cancel_ctx x = (case x of Active \<Rightarrow> CtxCanceled | _ \<Rightarrow> x)"

definition mem_runtime :: "(string \<Rightarrow> string) \<Rightarrow> mem_world Runtime" where
  "mem_runtime sha =
     \<lparr>ctx_Err = (\<lambda>w. (ctx_error (mw_ctx w), w)),
      ctx_WithTimeout = (\<lambda>n w. w\<lparr>mw_parents := mw_ctx w # mw_parents w\<rparr>),
      ctx_WithCancel = (\<lambda>w. w\<lparr>mw_parents := mw_ctx w # mw_parents w\<rparr>),
      ctx_CancelUp = (\<lambda>k w. w\<lparr>mw_ctx := cancel_ctx (mw_ctx w),
        mw_parents := map cancel_ctx (take k (mw_parents w)) @ drop k (mw_parents w)\<rparr>),
      ctx_Cancel = (\<lambda>w. case mw_parents w of
          [] \<Rightarrow> w | p # ps \<Rightarrow> w\<lparr>mw_ctx := p, mw_parents := ps\<rparr>),
      time_Now = (\<lambda>w. (mw_clock w, w\<lparr>mw_clock := mw_clock w + 1\<rparr>)),
      sha256_hex = sha\<rparr>"

text \<open>What the package leaves to its host.\<close>

record mem_host =
  mh_protect :: "TenantContext \<Rightarrow> string \<Rightarrow> (string \<times> int) res"
  mh_active :: "TenantContext \<Rightarrow> string \<Rightarrow> bool res"
  mh_encrypted :: bool
  mh_store_mode :: bool
  mh_limits :: Limits
  mh_sha :: "string \<Rightarrow> string"

definition mem_engine :: "mem_host \<Rightarrow> mem_world Engine" where
  "mem_engine host =
     \<lparr>options =
        \<lparr>connectorRegistry = Some mem_registry,
         credentialProtector = Some \<lparr>Protect = (\<lambda>t s w. (mh_protect host t s, w)),
                                     Reveal = (\<lambda>t c k w. (Inl (HostError ''unused''), w))\<rparr>,
         connectionStore = Some mem_store, executionStore = Some mem_executions,
         resultSink = (if mh_store_mode host then Some (mem_sink (mh_sha host)) else None),
         schemaCache = Some mem_cache,
         activeExecutionChecker = Some \<lparr>HasActiveExecutions = (\<lambda>t c w. (mh_active host t c, w))\<rparr>,
         observability = None, encryptedPersistence = mh_encrypted host, limits = mh_limits host\<rparr>,
      rt = mem_runtime (mh_sha host)\<rparr>"

lemmas mem_port_defs =
  mem_store_def mem_registry_def mem_cache_def mem_executions_def mem_sink_def mem_runtime_def
  on_connections_def on_sink_def on_registry_def set_cursor_def

lemma mem_engine_simps [simp]:
  "connectorRegistry (options (mem_engine host)) = Some mem_registry"
  "connectionStore (options (mem_engine host)) = Some mem_store"
  "schemaCache (options (mem_engine host)) = Some mem_cache"
  "executionStore (options (mem_engine host)) = Some mem_executions"
  "observability (options (mem_engine host)) = None"
  "encryptedPersistence (options (mem_engine host)) = mh_encrypted host"
  "limits (options (mem_engine host)) = mh_limits host"
  "rt (mem_engine host) = mem_runtime (mh_sha host)"
  "resultSink (options (mem_engine host)) = (if mh_store_mode host then Some (mem_sink (mh_sha host)) else None)"
  by (simp_all add: mem_engine_def)

subsection \<open>The connection contract\<close>

definition mem_view :: "mem_world \<Rightarrow> conn_view" where
  "mem_view w tid c =
     map_option (\<lambda>s. (sc_descriptor s, sc_credential s)) (map_of (mw_connections w) (tid, c))"

definition mem_wf :: "mem_world \<Rightarrow> bool" where
  "mem_wf w \<longleftrightarrow> connections_ok (mw_connections w)"

lemma mem_view_frame:
  "mw_connections w' = mw_connections w \<Longrightarrow> mem_view w' = mem_view w \<and> mem_wf w' = mem_wf w"
  by (simp add: mem_view_def mem_wf_def fun_eq_iff)

lemma mem_view_update:
  "mem_view (w\<lparr>mw_connections := AList.update (tid, c) s (mw_connections w)\<rparr>) =
   put (mem_view w) tid c (Some (sc_descriptor s, sc_credential s))"
  by (simp add: mem_view_def fun_eq_iff)

lemma mem_view_delete:
  "mem_view (w\<lparr>mw_connections := AList.delete (tid, c) (mw_connections w)\<rparr>) = put (mem_view w) tid c None"
  by (simp add: mem_view_def fun_eq_iff)

lemma mem_create_law:
  assumes "mem_wf w" and "Create mem_store t d cred w = (rc, w')"
  shows "mem_wf w' \<and> (case rc of
        None \<Rightarrow> mem_view w (TenantID t) (d_ConfigName d) = None \<and>
                mem_view w' = put (mem_view w) (TenantID t) (d_ConfigName d) (Some (d, cred))
      | Some _ \<Rightarrow> mem_view w' = mem_view w)"
  using assms connections_ok_ops(1)[of "mw_connections w" t d cred]
  by (auto simp: mem_store_def on_connections_def store_Create_def Let_def scopeOf_def mem_wf_def
      mem_view_update mem_view_def[of w] split: option.splits)

lemma mem_update_law:
  assumes "mem_wf w" and "Update mem_store t d cred w = (rc, w')"
  shows "mem_wf w' \<and> (case rc of
        None \<Rightarrow> (\<exists>old. mem_view w (TenantID t) (d_ConfigName d) = Some old \<and>
                mem_view w' = put (mem_view w) (TenantID t) (d_ConfigName d) (Some (d, keep_secret cred old)))
      | Some _ \<Rightarrow> mem_view w' = mem_view w)"
  using assms connections_ok_ops(2)[of "mw_connections w" t d cred]
  by (auto simp: mem_store_def on_connections_def store_Update_def Let_def scopeOf_def mem_wf_def
      mem_view_update mem_view_def[of w] updated_connection_def keep_secret_def split: option.splits)
    (cases cred; auto)

lemma mem_delete_law:
  assumes "mem_wf w" and "Delete mem_store t c w = (rc, w')"
  shows "mem_wf w' \<and> (case rc of
        None \<Rightarrow> mem_view w (TenantID t) c \<noteq> None \<and> mem_view w' = put (mem_view w) (TenantID t) c None
      | Some _ \<Rightarrow> mem_view w' = mem_view w)"
  using assms connections_ok_ops(3)[of "mw_connections w" t c]
  by (auto simp: mem_store_def on_connections_def store_Delete_def Let_def scopeOf_def mem_wf_def
      mem_view_delete mem_view_def[of w] split: option.splits)

lemma mem_list_law:
  assumes "mem_wf w" and "ListAll mem_store t w = (rl, w')"
  shows "mem_wf w' \<and> mem_view w' = mem_view w \<and>
      (\<forall>ds. rl = Inr ds \<longrightarrow> set ds = {d. \<exists>c k. mem_view w (TenantID t) c = Some (d, k)} \<and>
         sorted (map d_ConfigName ds))"
proof -
  from assms(1) have ok: "map_ok (mw_connections w)" by (simp add: mem_wf_def connections_ok_def)
  have "set (store_List t (mw_connections w)) = {d. \<exists>c k. mem_view w (TenantID t) c = Some (d, k)}"
    by (auto simp: store_List_def scopedDescriptors_set[OF ok] scopeOf_def mem_view_def)
  moreover have "sorted (map d_ConfigName (store_List t (mw_connections w)))"
    by (simp add: store_List_def scopedDescriptorsLocked_def)
  ultimately show ?thesis using assms by (auto simp: mem_store_def)
qed

interpretation mem_conn: connection_store mem_store mem_view mem_wf
proof (unfold_locales, goal_cases)
  case (1 w t c r w')
  then show ?case by (auto simp: mem_store_def store_FindConnection_def mem_view_def scopeOf_def option.map_comp comp_def)
next
  case (2 w t d cred rc w')
  then show ?case by (rule mem_create_law)
next
  case (3 w t d cred rc w')
  then show ?case by (rule mem_update_law)
next
  case (4 w t c rc w')
  then show ?case by (rule mem_delete_law)
next
  case (5 w t rl w')
  then show ?case by (rule mem_list_law)
next
  case (6 w tid c d k)
  then show ?case by (auto simp: mem_view_def mem_wf_def dest: connections_ok_lookup)
qed

interpretation mem_conn_engine: connection_engine mem_store mem_view mem_wf "mem_engine host" for host
  by unfold_locales (auto simp: mem_engine_def)

subsection \<open>The connector contracts\<close>

definition mem_remaining :: "nat \<Rightarrow> mem_world \<Rightarrow> nat" where
  "mem_remaining cur w =
     (if cur < length (mr_cursors (mw_registry w)) then rows_left (cursor_at cur w) else 0)"

interpretation mem_cursors: finite_cursors mem_registry mem_remaining
proof (unfold_locales, goal_cases)
  case (1 cur w w')
  then show ?case
    by (auto simp: mem_registry_def mem_remaining_def set_cursor_def cursor_at_def
        split: if_splits prod.splits dest: cursor_Next_rows_left)
qed

definition mem_live :: "mem_world \<Rightarrow> nat set" where
  "mem_live w = {c. c < length (mr_connectors (mw_registry w)) \<and> connector_CloseCount c (mw_registry w) = 0}"

lemma mem_live_updates [simp]:
  "mem_live (w\<lparr>mw_connections := x1\<rparr>) = mem_live w" "mem_live (w\<lparr>mw_executions := x2\<rparr>) = mem_live w"
  "mem_live (w\<lparr>mw_cache := x3\<rparr>) = mem_live w" "mem_live (w\<lparr>mw_sink := x4\<rparr>) = mem_live w"
  "mem_live (w\<lparr>mw_ctx := x5\<rparr>) = mem_live w" "mem_live (w\<lparr>mw_parents := x6\<rparr>) = mem_live w"
  "mem_live (w\<lparr>mw_clock := x7\<rparr>) = mem_live w"
  "mem_live (w\<lparr>mw_registry := (mw_registry w)\<lparr>mr_cursors := x8\<rparr>\<rparr>) = mem_live w"
  by (simp_all add: mem_live_def connector_CloseCount_def)

lemma mem_build:
  "Build mem_registry f d w = (r, w') \<Longrightarrow>
   (case r of
      Inr (Some c) \<Rightarrow> c \<notin> mem_live w \<and> mem_live w' = insert c (mem_live w)
    | _ \<Rightarrow> w' = w)"
  by (auto simp: mem_registry_def on_registry_def factory_Build_def mem_live_def connector_CloseCount_def
      Let_def nth_append less_Suc_eq split: if_splits option.splits)

lemma mem_query: "mem_live (snd (QueryStream mem_registry c request w)) = mem_live w"
proof -
  let ?r = "mw_registry w" and ?r' = "snd (connector_QueryStream c (mw_registry w))"
  have "length (mr_connectors ?r') = length (mr_connectors ?r)"
    by (simp add: connector_QueryStream_def Let_def split: option.split)
  moreover have "connector_CloseCount k ?r' = connector_CloseCount k ?r" if "k < length (mr_connectors ?r)" for k
    using that by (cases "k = c")
      (simp_all add: connector_QueryStream_def connector_CloseCount_def Let_def split: option.split)
  ultimately show ?thesis
    by (auto simp: mem_registry_def on_registry_def mem_live_def case_prod_beta)
qed

lemma mem_close: "mem_live (snd (ConnClose mem_registry c w)) = mem_live w - {c}"
proof (rule set_eqI)
  fix k
  show "k \<in> mem_live (snd (ConnClose mem_registry c w)) \<longleftrightarrow> k \<in> mem_live w - {c}"
    by (cases "k = c")
      (auto simp: mem_registry_def on_registry_def mem_live_def connector_Close_def connector_CloseCount_def Let_def)
qed

interpretation mem_lifecycle: connector_lifecycle "mem_engine host" mem_registry mem_store mem_live for host
proof (unfold_locales, goal_cases)
  case (3 f d w c w')
  from mem_build[OF this] show ?case by simp
next
  case (4 f d w r w')
  from mem_build[OF this(1)] this(2) show ?case by (auto split: sum.splits option.splits)
next
  case (5 c w)
  show ?case by (rule mem_close)
next
  case (8 c request w)
  show ?case by (rule mem_query)
qed (auto simp: mem_port_defs cache_PutSchema_def split: prod.splits option.splits list.splits)

interpretation mem_stream_lifecycle:
  stream_lifecycle "mem_engine host" mem_registry mem_store mem_live "mem_sink (mh_sha host)" for host
  by unfold_locales (auto simp: mem_sink_def on_sink_def split: prod.splits)

subsection \<open>The context and stream contracts\<close>

definition mem_cancelled :: "mem_world \<Rightarrow> bool" where
  "mem_cancelled w \<longleftrightarrow> mw_ctx w \<noteq> Active"

lemma ctx_error_iff [simp]: "ctx_error x = None \<longleftrightarrow> x = Active"
  by (simp add: ctx_error_def split: ctx_state.split)

interpretation mem_sticky:
  sticky_context "mem_engine host" mem_registry mem_store mem_cancelled "mem_sink (mh_sha host)" for host
  by unfold_locales
    (auto simp: mem_port_defs mem_cancelled_def cancel_ctx_def ctx_error_def
      split: prod.splits ctx_state.splits)

definition mem_contents :: "nat \<Rightarrow> mem_world \<Rightarrow> string" where
  "mem_contents h w = sw_buf (ws_writers (mw_sink w) ! h)"

interpretation mem_stream:
  stream_contents "mem_engine host" mem_registry mem_store "mem_contents h" "mem_sink (mh_sha host)" h for host h
  by unfold_locales
    (auto simp: mem_port_defs mem_contents_def writer_Write_def Let_def
      split: prod.splits option.splits list.splits if_splits)

end
