(* ===== verification/Engine_Rows.thy ===== *)
theory Engine_Rows
  imports Engine_Execute
begin

text \<open>
  Which rows an execution delivers. A host whose connectors serve fixed rows and whose
  cursors deliver them in order, each independent of the others, is the locale
  \<open>row_source\<close>; under it every step of both delivery paths returns exactly the rows
  of its datasource, whatever the schedule.
\<close>

definition quiet ::
  "('w \<Rightarrow> nat set) \<Rightarrow> (nat \<Rightarrow> 'w \<Rightarrow> (string \<times> row) list) \<Rightarrow> ('w \<Rightarrow> bool) \<Rightarrow> 'w \<Rightarrow> 'w \<Rightarrow> bool" where
  "quiet opened pending good w w' \<longleftrightarrow>
     (good w \<longrightarrow> good w') \<and> opened w \<subseteq> opened w' \<and> (\<forall>k \<in> opened w. pending k w' = pending k w)"

text \<open>The cursor a producer still has to close.\<close>

fun cursor_of :: "'w spc \<Rightarrow> nat option" where
  "cursor_of (Streaming p) = Some (p_cur p)"
| "cursor_of (Sending _ p _) = Some (p_cur p)"
| "cursor_of (Closing (Some (_, _, k)) _) = k"
| "cursor_of _ = None"

lemma cursor_of_simps [simp]:
  "cursor_of (Closing (held_of p) r) = Some (p_cur p)" "cursor_of (Closing None r) = None"
  "cursor_of (after_send final p) = Some (p_cur p)" "cursor_of (flushBatch final p) = Some (p_cur p)"
  by (simp_all add: held_of_def after_send_def flushBatch_def encoder_take_def)

text \<open>What a position says about the rows encoded so far (\<open>h\<close>) and those still \<open>left\<close>.\<close>

fun feeds ::
  "(string \<times> row) list \<Rightarrow> (string \<times> row) list \<Rightarrow> bool \<Rightarrow> (nat \<Rightarrow> (string \<times> row) list) \<Rightarrow> 'w spc \<Rightarrow> bool" where
  "feeds data h err left Gated \<longleftrightarrow> h = []"
| "feeds data h err left Entered \<longleftrightarrow> h = []"
| "feeds data h err left (Streaming p) \<longleftrightarrow> h @ left (p_cur p) = data"
| "feeds data h err left (Sending final p b) \<longleftrightarrow> (if final then h = data else h @ left (p_cur p) = data)"
| "feeds data h err left (Closing _ r) \<longleftrightarrow> prefix h data \<and> (\<forall>k. r = Inr k \<longrightarrow> h = data)"
| "feeds data h err left (StepReturned r) \<longleftrightarrow> prefix h data \<and> (\<forall>k. r = Inr k \<longrightarrow> h = data)"
| "feeds data h err left StepRecorded \<longleftrightarrow> prefix h data \<and> (err \<or> h = data)"
| "feeds data h err left Finished \<longleftrightarrow> prefix h data \<and> (err \<or> h = data)"

lemma feeds_prefix: "feeds data h err left pc \<Longrightarrow> prefix h data"
  by (cases pc) (auto simp: prefix_def split: if_splits)

lemma feeds_cong:
  "feeds data h err left pc \<Longrightarrow> err \<longrightarrow> err' \<Longrightarrow> (\<And>c. cursor_of pc = Some c \<Longrightarrow> left' c = left c) \<Longrightarrow>
   feeds data h err' left' pc"
  by (cases pc) auto

definition grouped :: "(string \<times> row) list \<Rightarrow> table_rows" where
  "grouped xs = foldl (\<lambda>rows (table, r). add_row table r rows) [] xs"

locale row_source = respected_calls e reg cs "quiet opened pending good"
  for e :: "'w Engine" and reg cs opened pending and good :: "'w \<Rightarrow> bool" +
  fixes sink :: "'w ResultSink" and source :: "nat \<Rightarrow> 'w \<Rightarrow> (string \<times> row) list"
    and desc :: "TenantContext \<Rightarrow> string \<Rightarrow> ConnectionDescriptor option"
    and rows :: "ConnectionDescriptor \<Rightarrow> (string \<times> row) list"
  assumes find_desc: "good w \<Longrightarrow> FindConnection cs t c w = (Inr (Some d), w') \<Longrightarrow> desc t c = Some d"
    and built_source: "good w \<Longrightarrow> Connector reg (d_Type d) w = (Some f, True) \<Longrightarrow>
      Build reg f d w = (Inr (Some k), w') \<Longrightarrow> source k w' = rows d"
    and test_source: "source k (snd (ConnTest reg k w)) = source k w"
    and guard_source: "source k (snd (ctx_Err (rt e) w)) = source k w"
    and query_cursor: "QueryStream reg k request w = (Inr cur, w') \<Longrightarrow> good w \<Longrightarrow>
      cur \<notin> opened w \<and> cur \<in> opened w' \<and> pending cur w' = source k w"
    and next_row: "CurNext reg cur w = (True, w') \<Longrightarrow> good w \<Longrightarrow> cur \<in> opened w \<Longrightarrow>
      pending cur w = CurRow reg cur w' # pending cur w'"
    and next_end: "CurNext reg cur w = (False, w') \<Longrightarrow> CurErr reg cur w' = None \<Longrightarrow> good w \<Longrightarrow>
      cur \<in> opened w \<Longrightarrow> pending cur w = []"
    and cursor_frame:
      "CurNext reg cur w = (b, w') \<Longrightarrow> (good w \<longrightarrow> good w') \<and> opened w' = opened w \<and>
         (\<forall>k. k \<noteq> cur \<longrightarrow> pending k w' = pending k w)"
      "CurClose reg cur w = (x, w') \<Longrightarrow> (good w \<longrightarrow> good w') \<and> opened w' = opened w \<and>
         (\<forall>k. k \<noteq> cur \<longrightarrow> pending k w' = pending k w)"
    and scope_frame: "quiet opened pending good w (ctx_WithCancel (rt e) w)"
      "quiet opened pending good w (ctx_Cancel (rt e) w)"
    and sink_frame: "quiet opened pending good w (snd (StreamWrite sink h bytes w))"
begin

definition data :: "TenantContext \<Rightarrow> PlanStep \<Rightarrow> (string \<times> row) list" where
  "data t step = (case desc t (st_ConfigName step) of None \<Rightarrow> [] | Some d \<Rightarrow> rows d)"

subsection \<open>Opening a step\<close>

lemma opened_source:
  assumes "openStepConnector e t cs step w = (Inr (reg', c), w')" and "good w"
  shows "reg' = reg \<and> source c w' = data t step"
proof -
  obtain r1 w1 where f0: "FindConnection cs t (st_ConfigName step) w = (r1, w1)" by fastforce
  with assms(1) obtain d where d: "r1 = Inr (Some d)"
    by (auto simp: openStepConnector_def found_or_def split: sum.splits option.splits)
  obtain r2 w2 where b0: "buildConnector e d w1 = (r2, w2)" by fastforce
  with assms(1) f0 d obtain reg2 c2 where r2: "r2 = Inr (reg2, c2)"
    by (cases r2) (auto simp: openStepConnector_def found_or_def)
  obtain r3 w3 where x0: "ConnTest reg2 c2 w2 = (r3, w3)" by fastforce
  with assms(1) f0 d b0 r2 have eqs: "r3 = None" "reg2 = reg'" "c2 = c" "w3 = w'"
    by (cases r3; simp add: openStepConnector_def found_or_def Let_def case_prod_beta)+
  from r_find[of w t "st_ConfigName step"] f0 assms(2) have g: "good w1" by (simp add: quiet_def)
  from buildConnector_Inr[OF b0[unfolded r2]] obtain fac where
    reg2: "connectorRegistry (options e) = Some reg2" and
    fac: "Connector reg2 (d_Type d) w1 = (Some fac, True)" "Build reg2 fac d w1 = (Inr (Some c2), w2)"
    by blast
  from reg2 r_registry have r: "reg2 = reg" by simp
  note fac = fac[unfolded r]
  from built_source[OF g fac] test_source[of c2 w2] x0 r eqs find_desc[OF assms(2) f0[unfolded d]]
  show ?thesis by (simp add: data_def)
qed

lemma quiet_guard: "ctx_guard e w = (x, w') \<Longrightarrow> quiet opened pending good w w' \<and> source k w' = source k w"
  using r_guard[of w] guard_source[of k w] by (auto simp: ctx_guard_def case_prod_beta)

lemma open_stream_feeds:
  assumes "open_stream e t cs step w = (pc, w')" and "good w"
  shows "feeds (data t step) [] err (\<lambda>k. pending k w') pc \<and>
    (\<forall>c. cursor_of pc = Some c \<longrightarrow> c \<notin> opened w \<and> c \<in> opened w')"
proof -
  obtain x w1 where g: "ctx_guard e w = (x, w1)" by fastforce
  show ?thesis
  proof (cases x)
    case (Some err)
    with assms g show ?thesis by (auto simp: open_stream_def)
  next
    case None
    from quiet_guard[OF g] assms(2) have g1: "good w1" "opened w \<subseteq> opened w1" by (auto simp: quiet_def)
    obtain r2 w2 where o: "openStepConnector e t cs step w1 = (r2, w2)" by fastforce
    show ?thesis
    proof (cases r2)
      case (Inl err)
      with assms(1) g None o show ?thesis by (auto simp: open_stream_def)
    next
      case (Inr rc)
      obtain reg' c where rc: "rc = (reg', c)" by (cases rc)
      from opened_source[OF o[unfolded Inr rc] g1(1)] have s: "reg' = reg" "source c w2 = data t step" by auto
      from r_open_connector[of w1 t step] o g1 have w2: "opened w \<subseteq> opened w2" "good w2"
        by (auto simp: quiet_def)
      obtain r3 w3 where q: "QueryStream reg c (extractionRequestForStep step) w2 = (r3, w3)" by fastforce
      show ?thesis
      proof (cases r3)
        case (Inl err)
        with assms(1) g None o Inr rc s q show ?thesis by (auto simp: open_stream_def case_prod_beta)
      next
        case (Inr cur)
        from query_cursor[OF q[unfolded Inr] w2(2)] s(2) w2 assms(1) g None o \<open>r2 = Inr rc\<close> rc s(1) q Inr
        show ?thesis by (auto simp: open_stream_def)
      qed
    qed
  qed
qed

subsection \<open>One turn of a producer\<close>

lemma turn_feeds:
  assumes "turn e p w = (pc, new, w')" and "p_reg p = reg" and g: "good w" and c: "p_cur p \<in> opened w"
    and h: "h @ pending (p_cur p) w = d"
  shows "feeds d (h @ new) err (\<lambda>k. pending k w') pc \<and> cursor_of pc = Some (p_cur p)"
proof -
  obtain ok w1 where n: "CurNext reg (p_cur p) w = (ok, w1)" by fastforce
  show ?thesis
  proof (cases ok)
    case True
    with n have n1: "CurNext reg (p_cur p) w = (True, w1)" by simp
    note p = next_row[OF n1 g c]
    from assms(1,2) n1 p h show ?thesis
      by (auto simp: turn_def flushBatch_def encoder_take_def Let_def split: prod.splits sum.splits if_splits)
  next
    case False
    with n have n1: "CurNext reg (p_cur p) w = (False, w1)" by simp
    note p = next_end[OF n1 _ g c]
    show ?thesis
    proof (cases "CurErr reg (p_cur p) w1")
      case (Some x)
      moreover from h have "prefix h d" by (auto simp: prefix_def)
      ultimately show ?thesis using assms(1,2) n1 by (auto simp: turn_def case_prod_beta)
    next
      case None
      with p h have "h = d" by simp
      with assms(1,2) n1 None show ?thesis
        by (auto simp: turn_def flushBatch_def encoder_take_def case_prod_beta split: option.splits if_splits)
    qed
  qed
qed

lemma turn_quiet:
  assumes "turn e p w = (pc, new, w')" and "p_reg p = reg"
  shows "(good w \<longrightarrow> good w') \<and> opened w \<subseteq> opened w' \<and>
    (\<forall>k \<in> opened w. k \<noteq> p_cur p \<longrightarrow> pending k w' = pending k w)"
proof -
  obtain ok w1 where n: "CurNext reg (p_cur p) w = (ok, w1)" by fastforce
  have "w' = w1 \<or> w' = snd (ctx_guard e w1) \<or> (\<exists>err m. w' = snd (safeConnectorError e err m w1))"
    using assms n
    by (auto simp: turn_def Let_def case_prod_beta split: sum.splits option.splits if_splits)
  then have "quiet opened pending good w1 w'" using r_refl r_guard r_safe_error by metis
  with cursor_frame(1)[OF n] show ?thesis unfolding quiet_def by auto
qed

lemma close_quiet:
  assumes "uses_registry reg (Closing h r)"
  shows "(good w \<longrightarrow> good (close_held h w)) \<and> opened w \<subseteq> opened (close_held h w) \<and>
    (\<forall>k \<in> opened w. cursor_of (Closing h r) \<noteq> Some k \<longrightarrow> pending k (close_held h w) = pending k w)"
proof (cases h)
  case None
  then show ?thesis by (simp add: close_held_def)
next
  case (Some hh)
  then obtain c k where hh: "hh = (reg, c, k)" using assms by (cases hh) auto
  show ?thesis
  proof (cases k)
    case None
    with Some hh r_close[of w c] show ?thesis by (simp add: close_held_def quiet_def)
  next
    case k: (Some cur)
    obtain x w1 where w1: "CurClose reg cur w = (x, w1)" by fastforce
    from cursor_frame(2)[OF w1] r_close[of w1 c] w1 Some hh k show ?thesis
      by (auto simp: close_held_def quiet_def)
  qed
qed

end

sublocale row_source \<subseteq> wiring: respected e reg cs "\<lambda>_ _. True"
  by unfold_locales (simp_all add: r_registry)

context row_source
begin

subsection \<open>The streaming machine\<close>

definition feed_ok :: "TenantContext \<Rightarrow> ExtractionPlan \<Rightarrow> 'w stream \<Rightarrow> bool" where
  "feed_ok t plan st \<longleftrightarrow>
     good (sworld st) \<and> length (spcs st) = length (pl_Steps plan) \<and> length (h_rows st) = length (spcs st) \<and>
     (\<forall>i < length (spcs st). \<forall>c. cursor_of (spcs st ! i) = Some c \<longrightarrow> c \<in> opened (sworld st) \<and>
        (\<forall>j < length (spcs st). j \<noteq> i \<longrightarrow> cursor_of (spcs st ! j) \<noteq> Some c)) \<and>
     (\<forall>i < length (spcs st). feeds (data t (pl_Steps plan ! i)) (h_rows st ! i) (sfirst st \<noteq> None)
        (\<lambda>k. pending k (sworld st)) (spcs st ! i))"

lemma feed_okD:
  assumes "feed_ok t plan st" and "i < length (spcs st)"
  shows "good (sworld st)"
    and "cursor_of (spcs st ! i) = Some c \<Longrightarrow> c \<in> opened (sworld st)"
    and "cursor_of (spcs st ! i) = Some c \<Longrightarrow> j < length (spcs st) \<Longrightarrow> j \<noteq> i \<Longrightarrow> cursor_of (spcs st ! j) \<noteq> Some c"
    and "feeds (data t (pl_Steps plan ! i)) (h_rows st ! i) (sfirst st \<noteq> None)
        (\<lambda>k. pending k (sworld st)) (spcs st ! i)"
  using assms unfolding feed_ok_def by blast+

text \<open>A move of producer \<open>i\<close> that disturbs at most its own cursor.\<close>

lemma feed_move:
  assumes ok: "feed_ok t plan st" and i: "i < length (spcs st)" and pcs: "spcs st' = (spcs st)[i := pc]"
    and h: "length (h_rows st') = length (h_rows st)" "h_rows st' ! i = rs"
      "\<And>j. j \<noteq> i \<Longrightarrow> h_rows st' ! j = h_rows st ! j"
    and err: "sfirst st \<noteq> None \<longrightarrow> sfirst st' \<noteq> None"
    and w: "(good (sworld st) \<longrightarrow> good (sworld st')) \<and> opened (sworld st) \<subseteq> opened (sworld st') \<and>
      (\<forall>k \<in> opened (sworld st). cursor_of (spcs st ! i) \<noteq> Some k \<longrightarrow> pending k (sworld st') = pending k (sworld st))"
    and c: "\<And>c. cursor_of pc = Some c \<Longrightarrow> cursor_of (spcs st ! i) = Some c \<or>
      c \<notin> opened (sworld st) \<and> c \<in> opened (sworld st')"
    and f: "feeds (data t (pl_Steps plan ! i)) rs (sfirst st' \<noteq> None) (\<lambda>k. pending k (sworld st')) pc"
  shows "feed_ok t plan st'"
proof -
  note D = feed_okD[OF ok]
  have len: "length (spcs st) = length (pl_Steps plan)" "length (h_rows st) = length (spcs st)"
    using ok by (simp_all add: feed_ok_def)
  have others: "feeds (data t (pl_Steps plan ! j)) (h_rows st ! j) (sfirst st' \<noteq> None)
      (\<lambda>k. pending k (sworld st')) (spcs st ! j)" if j: "j < length (spcs st)" "j \<noteq> i" for j
  proof (rule feeds_cong[OF D(4)[OF j(1)] err])
    fix k assume k: "cursor_of (spcs st ! j) = Some k"
    with D(2)[OF j(1)] D(3)[OF j(1) k i] j(2) w show "pending k (sworld st') = pending k (sworld st)"
      by auto
  qed
  have opened: "k \<in> opened (sworld st') \<and> (\<forall>l < length (spcs st). l \<noteq> j \<longrightarrow> cursor_of (spcs st' ! l) \<noteq> Some k)"
    if j: "j < length (spcs st)" and k: "cursor_of (spcs st' ! j) = Some k" for j k
  proof (cases "j = i")
    case True
    with k pcs i have "cursor_of pc = Some k" by simp
    from c[OF this] show ?thesis
    proof
      assume "cursor_of (spcs st ! i) = Some k"
      with D(2,3)[OF i this] w pcs True show ?thesis by auto
    next
      assume "k \<notin> opened (sworld st) \<and> k \<in> opened (sworld st')"
      with D(2) pcs True show ?thesis by auto
    qed
  next
    case False
    with k pcs have kj: "cursor_of (spcs st ! j) = Some k" by simp
    from D(2)[OF j kj] have k0: "k \<in> opened (sworld st)" .
    have "cursor_of pc \<noteq> Some k" using c[of k] k0 D(3)[OF j kj i] False by auto
    with D(3)[OF j kj] k0 w pcs i False show ?thesis by (auto simp: nth_list_update)
  qed
  have new: "feeds (data t (pl_Steps plan ! j)) (h_rows st' ! j) (sfirst st' \<noteq> None)
      (\<lambda>k. pending k (sworld st')) (spcs st' ! j)" if j: "j < length (spcs st)" for j
    using others[OF j] f pcs h(2) h(3)[of j] i by (cases "j = i") (simp_all del: not_None_eq)
  have lens: "length (spcs st') = length (spcs st)" "length (h_rows st') = length (h_rows st)"
    using pcs h(1) by simp_all
  from D(1)[OF i] w have "good (sworld st')" by blast
  with len lens opened new show ?thesis unfolding feed_ok_def by (simp del: not_None_eq)
qed

lemma feed_quiet:
  assumes "feed_ok t plan st" and "spcs st' = spcs st" and "h_rows st' = h_rows st" and "sfirst st' = sfirst st"
    and "quiet opened pending good (sworld st) (sworld st')"
  shows "feed_ok t plan st'"
proof -
  have "feeds (data t (pl_Steps plan ! i)) (h_rows st ! i) (sfirst st \<noteq> None) (\<lambda>k. pending k (sworld st')) (spcs st ! i)"
    if i: "i < length (spcs st)" for i
  proof (rule feeds_cong[OF feed_okD(4)[OF assms(1) i]])
    fix k assume "cursor_of (spcs st ! i) = Some k"
    with feed_okD(2)[OF assms(1) i this] assms(5) show "pending k (sworld st') = pending k (sworld st)"
      by (simp add: quiet_def)
  qed simp
  moreover have "c \<in> opened (sworld st')" if "i < length (spcs st)" "cursor_of (spcs st ! i) = Some c" for i c
    using feed_okD(2)[OF assms(1) that] assms(5) unfolding quiet_def by blast
  ultimately show ?thesis
    using assms(1,5) unfolding feed_ok_def quiet_def assms(2-4) by (simp del: not_None_eq)
qed

lemma feed_step:
  assumes ok: "feed_ok t plan st" and regs: "wiring.registries_ok st"
    and s: "stream_step e t cs sink h plan m st = Some st'"
  shows "feed_ok t plan st'"
proof -
  note D = feed_okD[OF ok] and P = feeds_prefix[OF feed_okD(4)[OF ok]] and reg_at = wiring.registries_nth[OF regs]
  have lh: "length (h_rows st) = length (spcs st)" using ok by (simp add: feed_ok_def)
  have still: "quiet opened pending good w w" for w by (rule r_refl)
  from s show ?thesis
  proof (cases rule: stream_step_cases)
    case (gate i)
    with D(4)[OF gate(1)] show ?thesis
      by (intro feed_move[OF ok gate(1), of _ Entered "h_rows st ! i"]) (simp_all add: lh)
  next
    case (gate_cancel i err w)
    with D(4)[OF gate_cancel(1)] r_ctx[of "sworld st"] show ?thesis
      by (intro feed_move[OF ok gate_cancel(1), of _ Entered "h_rows st ! i"]) (simp_all add: lh quiet_def)
  next
    case (enter i pc w)
    have "h_rows st ! i = []" using D(4)[OF enter(1)] enter(2) by simp
    with enter open_stream_feeds[OF enter(3) D(1)[OF enter(1)], of "sfirst st \<noteq> None"]
      r_open_stream[OF enter(3)]
    show ?thesis
      by (intro feed_move[OF ok enter(1), of _ pc "h_rows st ! i"])
        (auto simp: lh quiet_def simp del: not_None_eq)
  next
    case (turn i p pc new w)
    from reg_at[OF turn(1)] turn(2) have reg: "p_reg p = reg" by simp
    from D(4)[OF turn(1)] turn(2) have h: "h_rows st ! i @ pending (p_cur p) (sworld st) = data t (pl_Steps plan ! i)"
      by simp
    have c: "p_cur p \<in> opened (sworld st)" using D(2)[OF turn(1)] turn(2) by simp
    from turn turn_feeds[OF turn(3) reg D(1)[OF turn(1)] c h, of "sfirst st \<noteq> None"] turn_quiet[OF turn(3) reg] show ?thesis
      by (intro feed_move[OF ok turn(1), of _ pc "h_rows st ! i @ new"]) (auto simp: lh simp del: not_None_eq)
  next
    case (send i final p batch)
    with D(4)[OF send(1)] show ?thesis
      by (intro feed_move[OF ok send(1), of _ "after_send final p" "h_rows st ! i"])
        (auto simp: lh after_send_def split: if_splits)
  next
    case (send_cancel i final p batch err w x)
    with r_ctx[of "sworld st"] P[OF send_cancel(1)] show ?thesis
      by (intro feed_move[OF ok send_cancel(1), of _ "Closing (held_of p) (Inl x)" "h_rows st ! i"])
        (auto simp: lh quiet_def)
  next
    case (close i hd r)
    with D(4)[OF close(1)] close_quiet[of hd r "sworld st"] reg_at[OF close(1)] show ?thesis
      by (intro feed_move[OF ok close(1), of _ "StepReturned r" "h_rows st ! i"]) (simp_all add: lh)
  next
    case (failed i err)
    have q: "quiet opened pending good (sworld st) (sworld (record_stream e (Some err) st))" by (rule r_record)
    with failed P[OF failed(1)] show ?thesis
      by (intro feed_move[OF ok failed(1), of _ StepRecorded "h_rows st ! i"]) (auto simp: lh quiet_def)
  next
    case (counted i n)
    with D(4)[OF counted(1)] show ?thesis
      by (intro feed_move[OF ok counted(1), of _ StepRecorded "h_rows st ! i"]) (simp_all add: lh)
  next
    case (finish i)
    with D(4)[OF finish(1)] show ?thesis
      by (intro feed_move[OF ok finish(1), of _ Finished "h_rows st ! i"]) (simp_all add: lh del: not_None_eq)
  next
    case (panic_entered i msg)
    with P[OF panic_entered(1)] show ?thesis
      by (intro feed_move[OF ok panic_entered(1), of _ "Closing None (Inl (panicError msg))" "h_rows st ! i"])
        (simp_all add: lh)
  next
    case (panic_streaming i p msg)
    with P[OF panic_streaming(1)] show ?thesis
      by (intro feed_move[OF ok panic_streaming(1), of _ "Closing (held_of p) (Inl (panicError msg))" "h_rows st ! i"])
        (auto simp: lh)
  next
    case (over_limit k batch)
    with r_cancel show ?thesis by (intro feed_quiet[OF ok]) (simp_all add: cancelWrite_def)
  next
    case (write_failed k batch err w)
    have "quiet opened pending good (sworld st) (ctx_CancelUp (rt e) n w)" for n
      using r_trans[OF sink_frame[of "sworld st" h "b_bytes batch"] r_cancel[of _ n]] write_failed(2) by simp
    with write_failed show ?thesis by (intro feed_quiet[OF ok]) (simp_all add: cancelWrite_def)
  next
    case (written k batch w)
    with sink_frame[of "sworld st" h "b_bytes batch"] show ?thesis by (intro feed_quiet[OF ok]) simp_all
  next
    case (main err w)
    have "quiet opened pending good (sworld st) w"
      using main(5) still scope_frame(2) r_trans[OF scope_frame(2) r_guard] by metis
    with main show ?thesis by (intro feed_quiet[OF ok]) simp_all
  qed (use still in \<open>(intro feed_quiet[OF ok]; simp)+\<close>)
qed

lemma streamed_feed:
  assumes "streamed e t cs sink h plan w st" and "good w"
  shows "feed_ok t plan st"
  using assms(1)
proof (induction rule: streamed.induct)
  case start
  then show ?case using assms(2) by (simp add: feed_ok_def stream_init_def Let_def)
next
  case (move st m st')
  from feed_step[OF move(3) wiring.registries_streamed[OF move(1)] move(2)] show ?case .
qed

lemma streamed_bound:
  assumes "streamed e t cs sink h plan w st" and "good w" and "i < length (h_rows st)"
  shows "length (h_rows st ! i) \<le> length (data t (pl_Steps plan ! i))"
proof -
  note ok = streamed_feed[OF assms(1,2)]
  with assms(3) have "i < length (spcs st)" by (simp add: feed_ok_def)
  from feeds_prefix[OF feed_okD(4)[OF ok this]] show ?thesis by (rule prefix_length_le)
qed

lemma streamed_rows:
  assumes "streamed e t cs sink h plan w st" and "good w"
    and "\<forall>pc \<in> set (spcs st). pc = Finished" and "sfirst st = None"
  shows "h_rows st = map (data t) (pl_Steps plan)"
proof (rule nth_equalityI)
  note ok = streamed_feed[OF assms(1,2)]
  from ok show "length (h_rows st) = length (map (data t) (pl_Steps plan))" by (simp add: feed_ok_def)
  fix i assume "i < length (h_rows st)"
  with ok have i: "i < length (spcs st)" "i < length (pl_Steps plan)" by (simp_all add: feed_ok_def)
  with assms(3) have "spcs st ! i = Finished" by simp
  with feed_okD(4)[OF ok i(1)] assms(4) i(2) show "h_rows st ! i = map (data t) (pl_Steps plan) ! i" by simp
qed

subsection \<open>The direct path\<close>

lemma drain_rows:
  assumes "drainCursor reg cur rs n w = Some (rs', n', w')" and "cur \<in> opened w" and "good w"
  shows "\<exists>xs left. pending cur w = xs @ left \<and> rs' = foldl (\<lambda>rows (table, r). add_row table r rows) rs xs \<and>
    n' = n + length xs \<and> (CurErr reg cur w' = None \<longrightarrow> left = []) \<and> good w'"
proof -
  let ?Q = "\<lambda>cur rs n w (rs', n', w'). \<exists>xs left. pending cur w = xs @ left \<and>
    rs' = foldl (\<lambda>rows (table, r). add_row table r rows) rs xs \<and>
    n' = n + length xs \<and> (CurErr reg cur w' = None \<longrightarrow> left = []) \<and> good w'"
  let ?P = "\<lambda>reg' cur rs n w out. reg' = reg \<longrightarrow> cur \<in> opened w \<longrightarrow> good w \<longrightarrow> ?Q cur rs n w out"
  have "?P reg cur rs n w (rs', n', w')"
  proof (rule drainCursor.raw_induct[where P = ?P, OF _ assms(1)], intro impI, goal_cases)
    case (1 drain reg' cur rs n w y)
    obtain ok w1 where n: "CurNext reg cur w = (ok, w1)" by fastforce
    note frame = cursor_frame(1)[OF n]
    show ?case
    proof (cases ok)
      case False
      with 1 n have y: "y = (rs, n, w1)" by simp
      with next_end[of cur w w1] n False 1(4,5) frame show ?thesis
        by (intro exI[of _ "[]"] exI[of _ "pending cur w"] case_prodI2) auto
    next
      case True
      obtain table r where row: "CurRow reg cur w1 = (table, r)" by fastforce
      with 1 n True have "drain reg' cur (add_row table r rs) (Suc n) w1 = Some y" by simp
      obtain rs2 n2 w2 where y: "y = (rs2, n2, w2)" by (cases y)
      from 1(1)[OF \<open>drain reg' cur (add_row table r rs) (Suc n) w1 = Some y\<close>] 1(3,4,5) frame
      have "?Q cur (add_row table r rs) (Suc n) w1 (rs2, n2, w2)" by (simp add: y)
      then obtain xs left where "pending cur w1 = xs @ left"
        "rs2 = foldl (\<lambda>rows (table, r). add_row table r rows) (add_row table r rs) xs"
        "n2 = Suc n + length xs" "CurErr reg cur w2 = None \<longrightarrow> left = []" "good w2"
        by auto
      with next_row[of cur w w1] n True 1(4,5) row frame y show ?thesis
        by (intro exI[of _ "(table, r) # xs"] exI[of _ left] case_prodI2) simp
    qed
  qed
  with assms(2,3) show ?thesis by simp
qed

lemma query_rows:
  assumes "queryStep e step reg c w = Some (r, w')" and "good w"
  shows "good w' \<and> (\<forall>out. r = Inr out \<longrightarrow> out = (grouped (source c w), length (source c w)))"
proof -
  obtain x w1 where g: "ctx_guard e w = (x, w1)" by fastforce
  from quiet_guard[OF g, of c] assms(2) have g1: "good w1" "source c w1 = source c w" by (auto simp: quiet_def)
  show ?thesis
  proof (cases x)
    case (Some err)
    with assms(1) g g1 show ?thesis by (auto simp: queryStep_def)
  next
    case None
    obtain r2 w2 where q: "QueryStream reg c (extractionRequestForStep step) w1 = (r2, w2)" by fastforce
    from r_query[of w1 c "extractionRequestForStep step"] q g1 have g2: "good w2" by (simp add: quiet_def)
    have safe: "good (snd (safeConnectorError e err m v))" "good (snd (ctx_guard e v))" if "good v" for err m v
      using that r_safe_error[of v err m] r_guard[of v] by (simp_all add: quiet_def)
    have closed: "good (snd (CurClose reg cur v))" if "good v" for cur v
      using that cursor_frame(2)[of cur v] by (cases "CurClose reg cur v") simp
    show ?thesis
    proof (cases r2)
      case (Inl err)
      with assms(1) g None q g2 show ?thesis
        using safe(1)[OF g2] by (auto simp: queryStep_def case_prod_beta)
    next
      case (Inr cur)
      note fresh = query_cursor[OF q[unfolded Inr] g1(1)]
      from assms(1) g None q Inr obtain d where "drainCursor reg cur [] 0 w2 = Some d"
        by (auto simp: queryStep_def split: option.splits)
      then obtain rs n w3 where d: "drainCursor reg cur [] 0 w2 = Some (rs, n, w3)" by (cases d) auto
      from drain_rows[OF d _ g2] fresh obtain xs left where xs: "source c w = xs @ left" "rs = grouped xs" "n = length xs"
        "CurErr reg cur w3 = None \<longrightarrow> left = []" and g3: "good w3"
        using g1(2) by (auto simp: grouped_def)
      show ?thesis
      proof (cases "CurErr reg cur w3")
        case (Some err)
        with assms(1) g None q Inr d have "(r, w') =
            (Inl (fst (safeConnectorError e err ''failed to query datasource'' w3)),
             snd (CurClose reg cur (snd (safeConnectorError e err ''failed to query datasource'' w3))))"
          by (simp add: queryStep_def case_prod_beta)
        with closed[OF safe(1)[OF g3]] show ?thesis by auto
      next
        case none: None
        with assms(1) g None q Inr d have "(r, w') =
            (case fst (ctx_guard e w3) of None \<Rightarrow> Inr (rs, n) | Some y \<Rightarrow> Inl y,
             snd (CurClose reg cur (snd (ctx_guard e w3))))"
          by (simp add: queryStep_def case_prod_beta split: option.splits)
        with closed[OF safe(2)[OF g3]] xs none show ?thesis by (auto split: option.splits)
      qed
    qed
  qed
qed

lemma execute_rows:
  assumes "executeStep e t cs step w = Some (r, w')" and "good w"
  shows "good w' \<and> (\<forall>out. r = Inr out \<longrightarrow> out = (grouped (data t step), length (data t step)))"
proof -
  obtain x w1 where g: "ctx_guard e w = (x, w1)" by fastforce
  from quiet_guard[OF g] assms(2) have g1: "good w1" by (auto simp: quiet_def)
  obtain r2 w2 where o: "openStepConnector e t cs step w1 = (r2, w2)" by fastforce
  from r_open_connector[of w1 t step] o g1 have g2: "good w2" by (simp add: quiet_def)
  show ?thesis
  proof (cases "x = None \<and> (\<exists>rc. r2 = Inr rc)")
    case False
    with assms(1) g o g1 g2 show ?thesis by (auto simp: executeStep_def split: option.splits sum.splits)
  next
    case True
    then obtain reg' c where x: "x = None" "r2 = Inr (reg', c)" by auto
    from opened_source[OF o[unfolded x(2)] g1] have s: "reg' = reg" "source c w2 = data t step" by auto
    from assms(1) g o x s(1) obtain w3 where q: "queryStep e step reg c w2 = Some (r, w3)"
      and w': "w' = snd (ConnClose reg c w3)"
      by (auto simp: executeStep_def)
    from query_rows[OF q g2] s(2) r_close[of w3 c] w' show ?thesis by (simp add: quiet_def)
  qed
qed

lemma reachable_good:
  assumes "reachable e t cs plan w st" and "good w"
  shows "good (world st)"
  using assms(1)
proof (induction rule: reachable.induct)
  case start
  then show ?case using assms(2) by (simp add: pool_init_def)
next
  case (move st m st')
  obtain i b where m: "m = (i, b)" by (cases m)
  from move(2)[unfolded m] show ?case
  proof (cases rule: pool_step_cases)
    case (skip err v)
    with r_ctx[of "world st"] move(3) show ?thesis by (simp add: quiet_def)
  next
    case (run s r v)
    with execute_rows[OF run(3) move(3)] show ?thesis by simp
  next
    case (recorded s err)
    with r_cancel[of "world st" 0] move(3) show ?thesis by (simp add: record_error_def quiet_def)
  qed (use move(3) in simp_all)
qed

definition step_rows :: "TenantContext \<Rightarrow> ExtractionPlan \<Rightarrow> nat \<Rightarrow> table_rows \<times> nat" where
  "step_rows t plan i = (grouped (data t (pl_Steps plan ! i)), length (data t (pl_Steps plan ! i)))"

lemma yields_rows: "yields good e t cs (pl_Steps plan ! i) out \<Longrightarrow> out = step_rows t plan i"
  unfolding yields_def step_rows_def using execute_rows by blast

lemma parallel_rows:
  assumes "runStepsParallel sched e t cs plan w = Some (Inr rs, w')" and "good w"
  shows "rs = direct_rows plan (step_rows t plan)"
proof -
  have "good (ctx_WithCancel (rt e) w)" using scope_frame(1)[of w] assms(2) by (simp add: quiet_def)
  from results_determined[where P = good, OF assms(1) yields_rows reachable_good[OF _ this]]
  show ?thesis by (simp add: direct_rows_def)
qed

lemma size_error_rows:
  assumes "pool_run e t cs plan sched (pool_init plan w) = Some st" and "first st = Some sizeLimitError"
    and "good w" and no: "\<And>i w w'. executeStep e t cs (pl_Steps plan ! i) w \<noteq> Some (Inl sizeLimitError, w')"
  shows "MaxResultBytes (pl_Limits plan) <
    int (sum_list (map (step_size \<circ> step_rows t plan) [0..<length (pl_Steps plan)]))"
  using size_error_sound[where P = good, OF assms(1,2) yields_rows reachable_good[OF _ assms(3)] no] by simp

end

end
