(* ===== verification/Memory_Rows.thy ===== *)
theory Memory_Rows
  imports Memory_Harness Engine_Rows
begin

text \<open>
  The rows behind the in-memory connectors: the harness is a \<open>row_source\<close>. The
  world at the start of a run (\<open>w0\<close>) fixes the connections and the factories; a run
  opens its own cursors after those.
\<close>

definition factory_config :: "MemoryRegistry \<Rightarrow> (string, nat) gomap \<times> ConnectorFactory list" where
  "factory_config r = (mr_factories r, map (\<lambda>f. f\<lparr>cf_built := []\<rparr>) (mr_factory_list r))"

definition factory_behavior :: "ConnectorFactory \<Rightarrow> ConnectorBehavior" where
  "factory_behavior factory = (case cf_template factory of None \<Rightarrow> zero_behavior | Some b \<Rightarrow> b)"

definition behavior_rows :: "ConnectorBehavior \<Rightarrow> (string \<times> row) list" where
  "behavior_rows b = flatten (copy_map (cb_Rows b))"

text \<open>A cursor that ended without an error has delivered all its rows.\<close>

definition cursor_fine :: "memory_cursor \<Rightarrow> bool" where
  "cursor_fine c \<longleftrightarrow>
     (exhausted (inner_cursor c) \<longrightarrow>
        cur_err (inner_cursor c) \<noteq> None \<or> length (pairs (inner_cursor c)) \<le> pos (inner_cursor c))"

definition mem_opened :: "mem_world \<Rightarrow> mem_world \<Rightarrow> nat set" where
  "mem_opened w0 w = {k. length (mr_cursors (mw_registry w0)) \<le> k \<and> k < length (mr_cursors (mw_registry w))}"

definition mem_pending :: "nat \<Rightarrow> mem_world \<Rightarrow> (string \<times> row) list" where
  "mem_pending k w = drop (pos (inner_cursor (cursor_at k w))) (pairs (inner_cursor (cursor_at k w)))"

definition mem_steady :: "mem_world \<Rightarrow> mem_world \<Rightarrow> bool" where
  "mem_steady w0 w \<longleftrightarrow>
     mw_connections w = mw_connections w0 \<and>
     factory_config (mw_registry w) = factory_config (mw_registry w0) \<and>
     length (mr_cursors (mw_registry w0)) \<le> length (mr_cursors (mw_registry w)) \<and>
     (\<forall>k \<in> mem_opened w0 w. cursor_fine (cursor_at k w))"

definition mem_source :: "nat \<Rightarrow> mem_world \<Rightarrow> (string \<times> row) list" where
  "mem_source c w = behavior_rows (mc_behavior (mr_connectors (mw_registry w) ! c))"

definition mem_desc :: "mem_world \<Rightarrow> TenantContext \<Rightarrow> string \<Rightarrow> ConnectionDescriptor option" where
  "mem_desc w0 t c = store_FindConnection t c (mw_connections w0)"

definition mem_rows :: "mem_world \<Rightarrow> ConnectionDescriptor \<Rightarrow> (string \<times> row) list" where
  "mem_rows w0 d =
     (case map_of (mr_factories (mw_registry w0)) (d_Type d) of
        None \<Rightarrow> []
      | Some f \<Rightarrow> if f < length (mr_factory_list (mw_registry w0))
                  then behavior_rows (factory_behavior (mr_factory_list (mw_registry w0) ! f)) else [])"

abbreviation mem_quiet :: "mem_world \<Rightarrow> mem_world \<Rightarrow> mem_world \<Rightarrow> bool" where
  "mem_quiet w0 \<equiv> quiet (mem_opened w0) mem_pending (mem_steady w0)"

subsection \<open>Calls that touch no cursor\<close>

lemma mem_quiet_frame:
  assumes "mr_cursors (mw_registry w') = mr_cursors (mw_registry w)"
    and "mw_connections w' = mw_connections w"
    and "factory_config (mw_registry w') = factory_config (mw_registry w)"
  shows "mem_quiet w0 w w'"
  using assms by (simp add: quiet_def mem_steady_def mem_opened_def mem_pending_def cursor_at_def)

lemma build_config:
  "factory_config (snd (factory_Build f r)) = factory_config r \<and>
   mr_cursors (snd (factory_Build f r)) = mr_cursors r"
proof (cases "f < length (mr_factory_list r)")
  case True
  have "map (\<lambda>f. f\<lparr>cf_built := []\<rparr>) ((mr_factory_list r)[f := (mr_factory_list r ! f)\<lparr>cf_built := x\<rparr>]) =
      map (\<lambda>f. f\<lparr>cf_built := []\<rparr>) (mr_factory_list r)" for x
    using True by (simp add: map_update) (metis list_update_id map_update)
  then show ?thesis
    by (simp add: factory_Build_def factory_config_def Let_def split: option.split)
qed (simp add: factory_Build_def)

lemma build_behavior:
  assumes "factory_Build f r = (Inr (Some c), r')"
  shows "f < length (mr_factory_list r) \<and> c < length (mr_connectors r') \<and>
    mc_behavior (mr_connectors r' ! c) = factory_behavior (mr_factory_list r ! f)"
  using assms by (auto simp: factory_Build_def factory_behavior_def Let_def split: if_splits option.splits)

lemma config_behavior:
  assumes "factory_config r = factory_config r'" and "f < length (mr_factory_list r)"
  shows "f < length (mr_factory_list r') \<and>
    factory_behavior (mr_factory_list r ! f) = factory_behavior (mr_factory_list r' ! f)"
proof -
  let ?g = "\<lambda>f. f\<lparr>cf_built := []\<rparr>"
  from assms(1) have m: "map ?g (mr_factory_list r) = map ?g (mr_factory_list r')"
    by (simp add: factory_config_def)
  then have len: "length (mr_factory_list r) = length (mr_factory_list r')" by (rule map_eq_imp_length_eq)
  from arg_cong[OF m, of "\<lambda>xs. cf_template (xs ! f)"] assms(2) len
  have "cf_template (mr_factory_list r ! f) = cf_template (mr_factory_list r' ! f)" by simp
  with assms(2) len show ?thesis by (simp add: factory_behavior_def)
qed

subsection \<open>Calls on cursors\<close>

lemma query_effect:
  "mw_connections (snd (QueryStream mem_registry c request w)) = mw_connections w \<and>
   factory_config (mw_registry (snd (QueryStream mem_registry c request w))) = factory_config (mw_registry w) \<and>
   (\<exists>new. mr_cursors (mw_registry (snd (QueryStream mem_registry c request w))) = mr_cursors (mw_registry w) @ new \<and>
      (\<forall>x \<in> set new. cursor_fine x))"
  by (auto simp: mem_registry_def on_registry_def connector_QueryStream_def factory_config_def Let_def
      cursor_fine_def inner_cursor_def NewEagerCursor_def case_prod_beta split: option.split)

lemma mem_quiet_query: "mem_quiet w0 w (snd (QueryStream mem_registry c request w))"
proof -
  let ?w' = "snd (QueryStream mem_registry c request w)"
  from query_effect[of c request w] obtain new where
    n: "mr_cursors (mw_registry ?w') = mr_cursors (mw_registry w) @ new" "\<forall>x \<in> set new. cursor_fine x" and
    s: "mw_connections ?w' = mw_connections w" "factory_config (mw_registry ?w') = factory_config (mw_registry w)"
    by blast
  have at: "cursor_at k ?w' = (if k < length (mr_cursors (mw_registry w)) then cursor_at k w
      else new ! (k - length (mr_cursors (mw_registry w))))" for k
    by (simp add: cursor_at_def n(1) nth_append)
  show ?thesis
    using n s by (auto simp: quiet_def mem_steady_def mem_opened_def mem_pending_def at)
qed

lemma set_cursor_frame:
  assumes "mem_steady w0 w \<Longrightarrow> cur \<in> mem_opened w0 w \<Longrightarrow> cursor_fine c"
  shows "(mem_steady w0 w \<longrightarrow> mem_steady w0 (set_cursor cur c w)) \<and>
    mem_opened w0 (set_cursor cur c w) = mem_opened w0 w \<and>
    (\<forall>k. k \<noteq> cur \<longrightarrow> mem_pending k (set_cursor cur c w) = mem_pending k w)"
  using assms
  by (auto simp: mem_steady_def mem_opened_def mem_pending_def set_cursor_def cursor_at_def factory_config_def)
    (metis nth_list_update_eq nth_list_update_neq)

lemma cursor_Next_fine: "cursor_Next x c = (b, c') \<Longrightarrow> cursor_fine c \<Longrightarrow> cursor_fine c'"
  by (cases c) (auto simp: cursor_Next_def erroring_Next_def eager_Next_def cursor_fine_def inner_cursor_def
      split: prod.splits if_splits)

lemma cursor_Close_fine: "cursor_fine (cursor_Close c)"
  by (cases c) (simp_all add: cursor_Close_def cursor_fine_def inner_cursor_def eager_Close_def)

lemma cursor_Next_row:
  "cursor_Next x c = (True, c') \<Longrightarrow> cursor_fine c \<Longrightarrow>
   drop (pos (inner_cursor c)) (pairs (inner_cursor c)) =
     cursor_Row c' # drop (pos (inner_cursor c')) (pairs (inner_cursor c'))"
  by (cases c) (auto simp: cursor_Next_def erroring_Next_def eager_Next_def cursor_fine_def inner_cursor_def
      cursor_Row_def eager_Row_def Cons_nth_drop_Suc split: prod.splits if_splits)

lemma cursor_Next_end:
  "cursor_Next x c = (False, c') \<Longrightarrow> cursor_Err c' = None \<Longrightarrow>
   drop (pos (inner_cursor c)) (pairs (inner_cursor c)) = []"
  by (cases c) (auto simp: cursor_Next_def erroring_Next_def eager_Next_def inner_cursor_def
      cursor_Err_def erroring_Err_def eager_Err_def split: prod.splits if_splits)

subsection \<open>The interpretation\<close>

lemma mem_next:
  "CurNext mem_registry cur w = (b, w') \<Longrightarrow>
   (if cur < length (mr_cursors (mw_registry w))
    then (\<exists>c. cursor_Next (ctx_error (mw_ctx w)) (cursor_at cur w) = (b, c) \<and> w' = set_cursor cur c w)
    else \<not> b \<and> w' = w)"
  by (auto simp: mem_registry_def split: if_splits prod.splits)

lemma cursor_at_set [simp]:
  "cur < length (mr_cursors (mw_registry w)) \<Longrightarrow> cursor_at cur (set_cursor cur c w) = c"
  by (simp add: cursor_at_def set_cursor_def)

lemma mem_next_frame:
  assumes "CurNext mem_registry cur w = (b, w')"
  shows "(mem_steady w0 w \<longrightarrow> mem_steady w0 w') \<and> mem_opened w0 w' = mem_opened w0 w \<and>
    (\<forall>k. k \<noteq> cur \<longrightarrow> mem_pending k w' = mem_pending k w)"
proof (cases "cur < length (mr_cursors (mw_registry w))")
  case True
  with mem_next[OF assms] obtain c where
    c: "cursor_Next (ctx_error (mw_ctx w)) (cursor_at cur w) = (b, c)" "w' = set_cursor cur c w"
    by auto
  show ?thesis unfolding c(2)
  proof (rule set_cursor_frame)
    assume "mem_steady w0 w" "cur \<in> mem_opened w0 w"
    then show "cursor_fine c" using cursor_Next_fine[OF c(1)] by (simp add: mem_steady_def)
  qed
next
  case False
  with mem_next[OF assms] show ?thesis by simp
qed

lemma mem_close_frame:
  assumes "CurClose mem_registry cur w = (x, w')"
  shows "(mem_steady w0 w \<longrightarrow> mem_steady w0 w') \<and> mem_opened w0 w' = mem_opened w0 w \<and>
    (\<forall>k. k \<noteq> cur \<longrightarrow> mem_pending k w' = mem_pending k w)"
proof -
  from assms have w': "w' = set_cursor cur (cursor_Close (cursor_at cur w)) w" by (simp add: mem_registry_def)
  show ?thesis unfolding w' by (rule set_cursor_frame) (simp add: cursor_Close_fine)
qed

lemma mem_query_cursor:
  assumes "QueryStream mem_registry c request w = (Inr cur, w')" and "mem_steady w0 w"
  shows "cur \<notin> mem_opened w0 w \<and> cur \<in> mem_opened w0 w' \<and> mem_pending cur w' = mem_source c w"
  using assms
  by (auto simp: mem_registry_def on_registry_def connector_QueryStream_def Let_def mem_opened_def mem_pending_def
      mem_source_def behavior_rows_def cursor_at_def inner_cursor_def NewEagerCursor_def mem_steady_def
      split: option.splits)

lemma mem_next_row:
  assumes "CurNext mem_registry cur w = (True, w')" and "mem_steady w0 w" and "cur \<in> mem_opened w0 w"
  shows "mem_pending cur w = CurRow mem_registry cur w' # mem_pending cur w'"
proof -
  from assms(3) have cur: "cur < length (mr_cursors (mw_registry w))" by (simp add: mem_opened_def)
  with mem_next[OF assms(1)] obtain c where
    c: "cursor_Next (ctx_error (mw_ctx w)) (cursor_at cur w) = (True, c)" "w' = set_cursor cur c w"
    by auto
  from cursor_Next_row[OF c(1)] assms(2,3) cur c(2) show ?thesis
    by (simp add: mem_pending_def mem_registry_def mem_steady_def)
qed

lemma mem_next_end:
  assumes "CurNext mem_registry cur w = (False, w')" and "CurErr mem_registry cur w' = None"
    and "cur \<in> mem_opened w0 w"
  shows "mem_pending cur w = []"
proof -
  from assms(3) have cur: "cur < length (mr_cursors (mw_registry w))" by (simp add: mem_opened_def)
  with mem_next[OF assms(1)] obtain c where
    c: "cursor_Next (ctx_error (mw_ctx w)) (cursor_at cur w) = (False, c)" "w' = set_cursor cur c w"
    by auto
  from assms(2) c(2) cur have "cursor_Err c = None" by (simp add: mem_registry_def)
  from cursor_Next_end[OF c(1) this] show ?thesis by (simp add: mem_pending_def)
qed

lemma mem_built_source:
  assumes "mem_steady w0 w" and "Connector mem_registry (d_Type d) w = (Some f, True)"
    and "Build mem_registry f d w = (Inr (Some k), w')"
  shows "mem_source k w' = mem_rows w0 d"
proof -
  from assms(3) have b: "factory_Build f (mw_registry w) = (Inr (Some k), mw_registry w')"
    by (auto simp: mem_registry_def on_registry_def split: prod.splits)
  from assms(1) have c: "factory_config (mw_registry w) = factory_config (mw_registry w0)" by (simp add: mem_steady_def)
  then have "mr_factories (mw_registry w0) = mr_factories (mw_registry w)" by (simp add: factory_config_def)
  with assms(2) have "map_of (mr_factories (mw_registry w0)) (d_Type d) = Some f"
    by (simp add: mem_registry_def registry_Connector_def)
  with build_behavior[OF b] config_behavior[OF c] show ?thesis
    by (simp add: mem_source_def mem_rows_def)
qed

lemma mem_quiet_calls:
  "mem_quiet w0 w w" "mem_quiet w0 w (snd (ConnClose mem_registry c w))"
  "mem_quiet w0 w (snd (ConnTest mem_registry c w))" "mem_quiet w0 w (snd (FindConnection mem_store t cfg w))"
  "mem_quiet w0 w (snd (ctx_Err (mem_runtime sha) w))" "mem_quiet w0 w (ctx_CancelUp (mem_runtime sha) n w)"
  "mem_quiet w0 w (ctx_WithCancel (mem_runtime sha) w)" "mem_quiet w0 w (ctx_Cancel (mem_runtime sha) w)"
  "mem_quiet w0 w (snd (StreamWrite (mem_sink sha) h bytes w))"
  by (rule mem_quiet_frame; simp add: mem_port_defs connector_Close_def factory_config_def Let_def case_prod_beta
      split: list.split)+

lemma mem_source_frame:
  "mem_source k (snd (ConnTest mem_registry c w)) = mem_source k w"
  "mem_source k (snd (ctx_Err (mem_runtime sha) w)) = mem_source k w"
  by (simp_all add: mem_port_defs)

lemma mem_find_desc:
  "mem_steady w0 w \<Longrightarrow> FindConnection mem_store t c w = (Inr (Some d), w') \<Longrightarrow> mem_desc w0 t c = Some d"
  by (simp add: mem_store_def mem_desc_def mem_steady_def)

interpretation mem_feed: row_source "mem_engine host" mem_registry mem_store "mem_opened w0" mem_pending
  "mem_steady w0" "mem_sink (mh_sha host)" mem_source "mem_desc w0" "mem_rows w0" for host w0
proof (unfold_locales, goal_cases)
  case (2 w w' w'')
  then show ?case unfolding quiet_def by (metis subset_eq)
next
  case (4 w f d)
  show ?case by (rule mem_quiet_frame) (simp_all add: mem_registry_def on_registry_def case_prod_beta build_config)
next
  case (7 w c request)
  show ?case by (rule mem_quiet_query)
qed (rule mem_quiet_calls mem_source_frame | erule (1) mem_find_desc mem_query_cursor |
    erule (2) mem_built_source mem_next_row mem_next_end | erule mem_next_frame mem_close_frame | simp)+

text \<open>The rows a step delivers, read off the world the run starts in.\<close>

definition source_rows :: "mem_world \<Rightarrow> TenantContext \<Rightarrow> PlanStep \<Rightarrow> (string \<times> row) list" where
  "source_rows w t step =
     (case mem_desc w t (st_ConfigName step) of None \<Rightarrow> [] | Some d \<Rightarrow> mem_rows w d)"

lemma mem_data: "mem_feed.data w0 = source_rows w0"
  by (intro ext) (simp add: mem_feed.data_def source_rows_def)

lemma mem_steady_refl [simp]: "mem_steady w0 w0"
  by (auto simp: mem_steady_def mem_opened_def)

text \<open>What decides a run's rows: the connections and the factories.\<close>

lemma source_rows_cong:
  assumes "mw_connections w' = mw_connections w" and "mw_registry w' = mw_registry w"
  shows "source_rows w' = source_rows w"
  using assms by (intro ext) (simp add: source_rows_def mem_desc_def mem_rows_def split: option.split)

end
