(* ===== verification/Memory_Example.thy ===== *)
theory Memory_Example
  imports Memory_Harness
begin

text \<open>
  A concrete host used by the witnesses: two tenants, two datasources of tenant
  \<open>a\<close> (one with two rows, one with one), in direct or store mode.
\<close>

definition ex_limits :: Limits where
  "ex_limits =
     \<lparr>MaxDatasources = 10, MaxTablesPerDatasource = 10, MaxFieldsPerTable = 10, MaxConcurrency = 1,
      Timeout = 5, MaxResultBytes = 1000, ConnectorHardLimits = []\<rparr>"

definition ex_descriptor :: "string \<Rightarrow> ConnectionDescriptor" where
  "ex_descriptor c =
     \<lparr>d_ID = c, d_ConfigName = c, d_Type = c, d_Host = ''h'', d_Port = 1, d_DatabaseName = ''d'',
      d_Schema = [], d_Username = ''u'', d_SSLMode = [], d_KeyVersion = 0, d_HostAttributes = None\<rparr>"

definition ex_snapshot :: "string \<Rightarrow> SchemaSnapshot" where
  "ex_snapshot c =
     \<lparr>sn_ConfigName = c, sn_Tables = [\<lparr>tb_Name = ''t'', tb_Fields = [''x'']\<rparr>], sn_CapturedAt = 0\<rparr>"

definition ex_rows :: "string \<Rightarrow> table_rows" where
  "ex_rows c = [(''t'', if c = ''p'' then [[(''x'', AInt 1)], [(''x'', AInt 2)]] else [[(''x'', AInt 3)]])]"

definition ex_factory :: "string \<Rightarrow> ConnectorFactory" where
  "ex_factory c =
     \<lparr>cf_template = Some (zero_behavior\<lparr>cb_Rows := ex_rows c, cb_Schema := ex_snapshot c\<rparr>),
      cf_built = [], cf_BuildErr = None, cf_NilConnector = False\<rparr>"

definition ex_sink :: MemoryResultSink where
  "ex_sink =
     \<lparr>ws_results = [], ws_seq = 0, ws_putCount = 0, ws_openCount = 0, ws_writeSizes = [],
      ws_PutErr = None, ws_OpenErr = None, ws_WriteErr = None, ws_CloseErr = None,
      ws_ProtectionResult = None, ws_OmitIntegrity = True, ws_OmitSizeBytes = True, ws_writers = []\<rparr>"

definition ex_registry :: MemoryRegistry where
  "ex_registry =
     \<lparr>mr_factories = [(''p'', 0), (''q'', 1)], mr_factory_list = [ex_factory ''p'', ex_factory ''q''],
      mr_connectors = [], mr_cursors = []\<rparr>"

definition ex_world :: mem_world where
  "ex_world =
     \<lparr>mw_connections =
        [((''a'', ''p''), \<lparr>sc_descriptor = ex_descriptor ''p'', sc_credential = Some \<lparr>Ciphertext = ''k'', KeyVersion = 1\<rparr>\<rparr>),
         ((''a'', ''q''), \<lparr>sc_descriptor = ex_descriptor ''q'', sc_credential = None\<rparr>),
         ((''b'', ''p''), \<lparr>sc_descriptor = ex_descriptor ''p'', sc_credential = None\<rparr>)],
      mw_executions = [], mw_cache = \<lparr>snapshots = [], GetErr = None, PutErr = None\<rparr>,
      mw_sink = ex_sink, mw_registry = ex_registry, mw_ctx = Active, mw_parents = [], mw_clock = 7\<rparr>"

definition ex_host :: "bool \<Rightarrow> mem_host" where
  "ex_host store_mode =
     \<lparr>mh_protect = (\<lambda>t s. Inr (rev s, 1)), mh_active = (\<lambda>t c. Inr False), mh_encrypted = True,
      mh_store_mode = store_mode, mh_limits = ex_limits, mh_sha = (\<lambda>s. itoa (int (length s)))\<rparr>"

abbreviation ex_engine :: "bool \<Rightarrow> mem_world Engine" where
  "ex_engine store_mode \<equiv> mem_engine (ex_host store_mode)"

definition ex_tenant :: TenantContext where
  "ex_tenant = \<lparr>TenantID = ''a'', RequestID = ''r''\<rparr>"

definition ex_request :: ExtractionRequest where
  "ex_request =
     \<lparr>MappedFields = [(''q'', [(''t'', [''x''])]), (''p'', [(''t'', [''x''])])],
      Filters = [], Metadata = [], Overrides = None\<rparr>"

definition ex_step :: "nat \<Rightarrow> string \<Rightarrow> PlanStep" where
  "ex_step i c =
     \<lparr>st_Ordinal = i, st_ConfigName = c, st_Tables = [''t''], st_Fields = [(''t'', [''x''])], st_Filters = []\<rparr>"

definition ex_plan :: ExtractionPlan where
  "ex_plan =
     \<lparr>pl_TenantID = ''a'', pl_RequestID = ''r'', pl_Steps = [ex_step 0 ''p'', ex_step 1 ''q''],
      pl_Metadata = [], pl_Limits = ex_limits, pl_Mode = []\<rparr>"

definition ex_schedule :: schedule where
  "ex_schedule =
     \<lparr>pool_sched = replicate 5 (1, True) @ replicate 5 (0, True),
      stream_sched = replicate 9 (Producer 0 True) @ replicate 8 (Producer 1 True) @ [Main] @ replicate 7 Writer\<rparr>"

subsection \<open>The example evaluated\<close>

abbreviation ex_validation :: SchemaValidationRequest where
  "ex_validation \<equiv> schemaValidationRequestFromExtraction ex_request"

lemma ex_scoped: "isValidTenantID (TenantID ex_tenant)"
  by code_simp

lemma ex_selections: "requireNonEmptySelections ex_request = None"
  by code_simp

lemma ex_effective: "Effective ex_limits (Overrides ex_request) = Inr ex_limits"
  by code_simp

lemma ex_visible:
  "CHR ''p'' \<notin> set (concat space_encodings)" "CHR ''q'' \<notin> set (concat space_encodings)"
  "CHR ''t'' \<notin> set (concat space_encodings)" "CHR ''x'' \<notin> set (concat space_encodings)"
  by code_simp+

lemma ex_not_blank: "\<not> isBlank ''p''" "\<not> isBlank ''q''" "\<not> isBlank ''t''" "\<not> isBlank ''x''"
  by (rule not_blank[OF _ ex_visible(1)] not_blank[OF _ ex_visible(2)] not_blank[OF _ ex_visible(3)]
      not_blank[OF _ ex_visible(4)], simp)+

lemma ex_validation_eq:
  "ex_validation =
     \<lparr>Datasources =
        [\<lparr>dm_ConfigName = ''p'', dm_Tables = [\<lparr>tm_Name = ''t'', tm_Fields = [''x''], tm_FilterFields = []\<rparr>]\<rparr>,
         \<lparr>dm_ConfigName = ''q'', dm_Tables = [\<lparr>tm_Name = ''t'', tm_Fields = [''x''], tm_FilterFields = []\<rparr>]\<rparr>]\<rparr>"
  by code_simp

lemma ex_names: "validateRequestNames ex_validation = None"
  by (simp add: ex_validation_eq validateRequestNames_def blankDatasourceName_def blankTableName_def
      blankNameError_def ex_not_blank)

lemma ex_within_limits: "limitFailures ex_validation ex_limits = []"
  by code_simp

lemma ex_datasources_Nil: "Datasources ex_validation \<noteq> []" "MappedFields ex_request \<noteq> []"
  by code_simp+

lemma ex_built: "buildExtractionPlan ex_tenant ex_request ex_limits = ex_plan"
  by code_simp

lemma ex_timeout: "Timeout ex_limits = 5"
  by code_simp

lemmas ex_stages =
  ex_scoped ex_selections ex_effective ex_names ex_within_limits ex_datasources_Nil ex_built ex_timeout

lemma ex_probes: "requireScopedConnections ex_tenant mem_store ex_request ex_limits ex_world = (None, ex_world)"
  by code_simp

lemma ex_datasources:
  "fst (validateDatasources (ex_engine b) ex_tenant mem_store (Datasources ex_validation)
     (ctx_WithTimeout (mem_runtime (mh_sha (ex_host b))) 5 ex_world)) = Inr []"
  by code_simp

lemma ex_planned: "fst (PlanExtraction (ex_engine b) ex_tenant ex_request ex_world) = Inr ex_plan"
  using ex_datasources[of b]
  by (simp add: PlanExtraction_def with_span_def scoped_ok ex_stages planStages_def ex_probes ex_host_def
      validateSchemaWithLimits_def validateStages_def with_timeout_def validateUnderLimits_def case_prod_beta
      newValidationReport_def split: sum.split)

definition delivered :: "(ExtractionResult res \<times> 'w) option \<Rightarrow> bool" where
  "delivered out = (case out of Some (Inr _, _) \<Rightarrow> True | _ \<Rightarrow> False)"

lemma delivered_iff: "delivered out \<longleftrightarrow> (\<exists>r w. out = Some (Inr r, w))"
  by (auto simp: delivered_def split: option.splits sum.splits)

lemma ex_direct_delivered: "delivered (ExecuteExtraction ex_schedule (ex_engine False) ex_plan ex_world)"
  by code_simp

lemma ex_store_delivered: "delivered (ExecuteExtraction ex_schedule (ex_engine True) ex_plan ex_world)"
  by code_simp

end
