(* ===== verification/Memory_Runs.thy ===== *)
theory Memory_Runs
  imports Memory_Rows Memory_Example
begin

text \<open>
  Whole executions on the in-memory collaborators: what a run leaves in the sink, in
  the execution store and in the registry, for every schedule. The lemmas combine the
  machine invariants with the interpretations of the port contracts.
\<close>

subsection \<open>Frames\<close>

lemma mem_ctx_frame [simp]:
  "mw_sink (snd (ctx_guard (mem_engine host) w)) = mw_sink w"
  "mw_executions (snd (ctx_guard (mem_engine host) w)) = mw_executions w"
  "mw_registry (snd (ctx_guard (mem_engine host) w)) = mw_registry w"
  "mw_connections (snd (ctx_guard (mem_engine host) w)) = mw_connections w"
  by (simp_all add: ctx_guard_def mem_runtime_def case_prod_beta)

lemma mem_scope_frame [simp]:
  "mw_sink (ctx_Cancel (mem_runtime sha) w) = mw_sink w"
  "mw_sink (ctx_WithCancel (mem_runtime sha) w) = mw_sink w"
  "mw_sink (ctx_WithTimeout (mem_runtime sha) n w) = mw_sink w"
  "mw_registry (ctx_Cancel (mem_runtime sha) w) = mw_registry w"
  "mw_registry (ctx_WithCancel (mem_runtime sha) w) = mw_registry w"
  "mw_registry (ctx_WithTimeout (mem_runtime sha) n w) = mw_registry w"
  "mw_connections (ctx_WithCancel (mem_runtime sha) w) = mw_connections w"
  "mw_connections (ctx_WithTimeout (mem_runtime sha) n w) = mw_connections w"
  "mw_executions (ctx_Cancel (mem_runtime sha) w) = mw_executions w"
  by (simp_all add: mem_runtime_def split: list.split)

lemma mem_record_frame [simp]:
  "mw_sink (recordExecutionStatus (mem_engine host) t j s m w) = mw_sink w"
  "mw_registry (recordExecutionStatus (mem_engine host) t j s m w) = mw_registry w"
  "mw_connections (recordExecutionStatus (mem_engine host) t j s m w) = mw_connections w"
  by (simp_all add: recordExecutionStatus_def mem_executions_def mem_runtime_def Let_def)

lemma mem_failure_frame [simp]:
  "mw_registry (recordTerminalFailure (mem_engine host) t j err w) = mw_registry w"
  by (simp add: recordTerminalFailure_def split: option.split)

lemma mem_recorded:
  "\<exists>s. store_FindExecution t j (mw_executions (recordExecutionStatus (mem_engine host) t j status m w)) = Some s \<and>
     es_Status s = status"
  by (simp add: recordExecutionStatus_def mem_executions_def mem_runtime_def Let_def store_SaveExecution_def
      store_FindExecution_def)

subsection \<open>The store path\<close>

lemma mem_stream_success:
  assumes "streamPlanToSink sched (mem_engine host) t mem_store (mem_sink (mh_sha host)) plan h w = Some (Inr r, w')"
  defines "text \<equiv> artefact plan (map (source_rows w t) (pl_Steps plan))"
  obtains w2 where
    "mem_contents h w2 = mem_contents h w @ text"
    "MaxResultBytes (pl_Limits plan) > 0 \<longrightarrow> int (length text) \<le> MaxResultBytes (pl_Limits plan)"
    "buildStoreReference (mem_engine host) plan (mem_sink (mh_sha host)) h
       \<lparr>wo_digest = mh_sha host text,
        wo_rowCount = sum_list (map (length \<circ> source_rows w t) (pl_Steps plan)), wo_size = length text\<rparr>
       (sumRowCounts plan (map (length \<circ> source_rows w t) (pl_Steps plan))) w2 = (Inr r, w')"
proof -
  let ?e = "mem_engine host" and ?sink = "mem_sink (mh_sha host)"
  define w1 where "w1 = (let w0 = ctx_WithCancel (rt ?e) w in
      if pl_Steps plan = [] then w0 else ctx_WithCancel (rt ?e) w0)"
  from assms(1) obtain st out w2 where
    run: "stream_run ?e t mem_store ?sink h plan sched (stream_init plan w1) = Some st" and
    err: "runErr st = Some None" and wr: "writer st = WDone (Inr out)" and
    w2: "w2 = snd (ctx_guard ?e (ctx_Cancel (rt ?e) (sworld st)))" and
    ref: "buildStoreReference ?e plan ?sink h out (sumRowCounts plan (rowCounts st)) w2 = (Inr r, w')"
    unfolding streamPlanToSink_def Let_def w1_def
    by (auto split: option.splits prod.splits wpc.splits sum.splits)
  have s: "streamed ?e t mem_store ?sink h plan w1 st" using stream_run_streamed[OF streamed.start run] .
  from streamed_main[OF s] err have fin: "\<forall>pc \<in> set (spcs st). pc = Finished" and f: "sfirst st = None"
    by (auto simp: main_ok_def)
  have same: "mw_connections w1 = mw_connections w" "mw_registry w1 = mw_registry w" "mw_sink w1 = mw_sink w"
    by (simp_all add: w1_def Let_def)
  have rows: "h_rows st = map (source_rows w t) (pl_Steps plan)"
    using mem_feed.streamed_rows[OF s mem_steady_refl fin f] source_rows_cong[OF same(1,2)] by (simp add: mem_data)
  note c = complete_run[OF s err wr f fin, unfolded rows]
  have "mem_contents h (sworld st) = mem_contents h w @ hashed st"
    using mem_stream.streamed_contents[OF s] wr same(3) by (simp add: mem_contents_def)
  then have "mem_contents h w2 = mem_contents h w @ text" using c by (simp add: w2 mem_contents_def text_def)
  moreover have "hashed st = text" using c by (simp add: text_def)
  ultimately show thesis using c ref by (intro that) (auto simp: comp_def mem_runtime_def)
qed

lemma mem_reference:
  assumes "buildStoreReference (mem_engine host) plan (mem_sink (mh_sha host)) h out counts w = (Inr r, w')"
  shows "\<exists>ref. er_Reference r = Some ref \<and> er_Direct r = None \<and> er_RowCounts r = counts \<and>
    sink_Get (rr_Path ref) (mw_sink w') = Some (mem_contents h w) \<and> rr_RowCount ref = wo_rowCount out \<and>
    rr_SizeBytes ref = (if ws_OmitSizeBytes (mw_sink w) \<or> mem_contents h w = [] then wo_size out
                        else length (mem_contents h w)) \<and>
    map_option ri_Digest (rr_Integrity ref) = Some (if ws_OmitIntegrity (mw_sink w) then wo_digest out
                        else mh_sha host (mem_contents h w)) \<and>
    es_Status (er_State r) = StatusCompleted"
  using assms
  by (auto simp: buildStoreReference_def mem_sink_def on_sink_def writer_Close_def finalize_def Let_def
      mem_contents_def sink_Get_def mem_runtime_def split: option.splits if_splits prod.splits sum.splits)

lemma mem_store_result:
  assumes "runStoreExtraction sched (mem_engine host) t mem_store (mem_sink (mh_sha host)) plan w = Some (Inr r, w')"
  defines "text \<equiv> artefact plan (map (source_rows w t) (pl_Steps plan))"
  shows "\<exists>ref. er_Reference r = Some ref \<and> er_Direct r = None \<and>
    er_RowCounts r = sumRowCounts plan (map (length \<circ> source_rows w t) (pl_Steps plan)) \<and>
    sink_Get (rr_Path ref) (mw_sink w') = Some text \<and>
    rr_RowCount ref = sum_list (map (length \<circ> source_rows w t) (pl_Steps plan)) \<and>
    rr_SizeBytes ref = length text \<and> map_option ri_Digest (rr_Integrity ref) = Some (mh_sha host text) \<and>
    (MaxResultBytes (pl_Limits plan) > 0 \<longrightarrow> int (length text) \<le> MaxResultBytes (pl_Limits plan))"
proof -
  let ?e = "mem_engine host" and ?sink = "mem_sink (mh_sha host)"
  define w1 where "w1 = snd (ctx_guard ?e w)"
  from assms(1) obtain h w2 w3 where
    o: "OpenResultStream ?sink t w1 = (Inr h, w2)" and
    s: "streamPlanToSink sched ?e t mem_store ?sink plan h w2 = Some (Inr r, w3)" and
    w': "w' = recordExecutionStatus ?e t (pl_RequestID plan) StatusCompleted [] w3"
    by (auto simp: runStoreExtraction_def w1_def split: option.splits prod.splits sum.splits)
  from o have o': "mem_contents h w2 = []" "mw_connections w2 = mw_connections w1" "mw_registry w2 = mw_registry w1"
    by (auto simp: mem_sink_def on_sink_def sink_OpenResultStream_def Let_def mem_contents_def
        split: if_splits prod.splits)
  have rows: "source_rows w2 t = source_rows w t"
    by (rule fun_cong[OF source_rows_cong]) (simp_all add: o' w1_def)
  from s obtain w4 where
    stored: "mem_contents h w4 = text" and
    limit: "MaxResultBytes (pl_Limits plan) > 0 \<longrightarrow> int (length text) \<le> MaxResultBytes (pl_Limits plan)" and
    ref: "buildStoreReference ?e plan ?sink h \<lparr>wo_digest = mh_sha host text,
        wo_rowCount = sum_list (map (length \<circ> source_rows w t) (pl_Steps plan)), wo_size = length text\<rparr>
        (sumRowCounts plan (map (length \<circ> source_rows w t) (pl_Steps plan))) w4 = (Inr r, w3)"
    by (rule mem_stream_success) (simp add: o' rows text_def)
  from mem_reference[OF ref] stored limit w' show ?thesis by auto
qed

subsection \<open>The direct path\<close>

definition mem_direct :: "mem_world \<Rightarrow> TenantContext \<Rightarrow> ExtractionPlan \<Rightarrow> stepResult list" where
  "mem_direct w t plan =
     direct_rows plan (\<lambda>i. (grouped (source_rows w t (pl_Steps plan ! i)), length (source_rows w t (pl_Steps plan ! i))))"

lemma mem_direct_result:
  assumes "runDirectExtraction sched (mem_engine host) t mem_store plan w = Some (Inr oc, w')"
  shows "MarshalIndent (AMap (aggregate (mem_direct w t plan))) = Some (oc_payload oc)"
    and "oc_rowCount oc = sum_list (map (length \<circ> source_rows w t) (pl_Steps plan))"
    and "oc_rowCounts oc = row_counts (mem_direct w t plan)"
    and "MaxResultBytes (pl_Limits plan) > 0 \<Longrightarrow> int (length (oc_payload oc)) \<le> MaxResultBytes (pl_Limits plan)"
proof -
  from assms obtain rs w1 w2 where
    run: "runStepsParallel sched (mem_engine host) t mem_store plan w1 = Some (Inr rs, w2)" and
    w1: "w1 = snd (ctx_guard (mem_engine host) w)" and
    oc: "MarshalIndent (AMap (aggregate rs)) = Some (oc_payload oc)" "oc_rowCount oc = sum_list (map sr_count rs)"
      "oc_rowCounts oc = row_counts rs"
      "MaxResultBytes (pl_Limits plan) > 0 \<Longrightarrow> int (length (oc_payload oc)) \<le> MaxResultBytes (pl_Limits plan)"
    by (rule direct_success) blast
  have "source_rows w1 = source_rows w" by (rule source_rows_cong) (simp_all add: w1)
  then have rs: "rs = mem_direct w t plan"
    using mem_feed.parallel_rows[OF run mem_steady_refl]
    by (simp add: mem_direct_def mem_data mem_feed.step_rows_def[abs_def])
  have "map sr_count rs = map (length \<circ> source_rows w t) (pl_Steps plan)"
    by (rule nth_equalityI) (simp_all add: rs mem_direct_def direct_rows_def step_result_def)
  with oc rs show "MarshalIndent (AMap (aggregate (mem_direct w t plan))) = Some (oc_payload oc)"
    "oc_rowCount oc = sum_list (map (length \<circ> source_rows w t) (pl_Steps plan))"
    "oc_rowCounts oc = row_counts (mem_direct w t plan)"
    "MaxResultBytes (pl_Limits plan) > 0 \<Longrightarrow> int (length (oc_payload oc)) \<le> MaxResultBytes (pl_Limits plan)"
    by simp_all
qed

subsection \<open>Terminal status\<close>

definition failure_status :: "goerror \<Rightarrow> ExecutionStatus" where
  "failure_status err =
     (case asEngineError err of
        Some engErr \<Rightarrow> if Category engErr = CategoryCanceled then StatusCanceled else StatusFailed
      | None \<Rightarrow> StatusFailed)"

definition terminal_status :: "'a res \<Rightarrow> ExecutionStatus" where
  "terminal_status r = (case r of Inr _ \<Rightarrow> StatusCompleted | Inl err \<Rightarrow> failure_status err)"

definition recorded_status :: "mem_world \<Rightarrow> TenantContext \<Rightarrow> string \<Rightarrow> ExecutionStatus option" where
  "recorded_status w t j = map_option es_Status (store_FindExecution t j (mw_executions w))"

lemma mem_recorded_status [simp]:
  "recorded_status (recordExecutionStatus (mem_engine host) t j status m w) t j = Some status"
  using mem_recorded[of t j host status m w] by (auto simp: recorded_status_def)

lemma mem_failure_status [simp]:
  "recorded_status (recordTerminalFailure (mem_engine host) t j err w) t j = Some (failure_status err)"
  by (simp add: recordTerminalFailure_def failure_status_def split: option.split)

lemma failure_status_simps [simp]:
  "failure_status (NewEngineError c m) = (if c = CategoryCanceled then StatusCanceled else StatusFailed)"
  by (simp add: failure_status_def)

lemma mem_store_status:
  assumes "runStoreExtraction sched (mem_engine host) t mem_store sink plan w = Some (r, w')"
  shows "recorded_status w' t (pl_RequestID plan) = Some (terminal_status r)"
  using assms
  by (auto simp: runStoreExtraction_def terminal_status_def split: option.splits prod.splits sum.splits)

lemma mem_deliver_status:
  assumes "deliver sched (mem_engine host) mode plan mem_store w = Some (r, w')"
  shows "recorded_status w' (plan_tenant plan) (pl_RequestID plan) = Some (terminal_status r)"
proof (cases "mode = ModeStore \<and> mh_store_mode host")
  case True
  with assms show ?thesis by (simp add: deliver_def Let_def mem_store_status)
next
  case False
  with assms show ?thesis
    by (auto simp: deliver_def completeDirectMode_def Let_def terminal_status_def
        split: option.splits prod.splits sum.splits bool.splits if_splits)
qed

subsection \<open>Connectors\<close>

lemma mem_live_registry: "mw_registry w' = mw_registry w \<Longrightarrow> mem_live w' = mem_live w"
  by (simp add: mem_live_def)

lemma mem_reference_frame:
  "mw_registry (snd (buildStoreReference (mem_engine host) plan (mem_sink sha) h out counts w)) = mw_registry w"
  by (simp add: buildStoreReference_def mem_sink_def on_sink_def mem_runtime_def case_prod_beta
      split: sum.split option.split)

lemma mem_stream_closes:
  assumes "streamPlanToSink sched (mem_engine host) t mem_store (mem_sink (mh_sha host)) plan h w = Some (r, w')"
  shows "mem_live w' = mem_live w"
proof -
  let ?e = "mem_engine host" and ?sink = "mem_sink (mh_sha host)"
  define w1 where "w1 = (let w0 = ctx_WithCancel (rt ?e) w in
      if pl_Steps plan = [] then w0 else ctx_WithCancel (rt ?e) w0)"
  from assms show ?thesis
  proof (rule stream_result, goal_cases)
    case (1 st err outcome)
    have run: "stream_run ?e t mem_store ?sink h plan sched (stream_init plan w1) = Some st"
      using 1(1) by (simp add: w1_def)
    have s: "streamed ?e t mem_store ?sink h plan w1 st" using stream_run_streamed[OF streamed.start run] .
    from streamed_main[OF s] 1(2) have fin: "\<forall>pc \<in> set (spcs st). pc = Finished" by (auto simp: main_ok_def)
    from mem_stream_lifecycle.finished_connectors[OF s fin] have l: "mem_live (sworld st) = mem_live w1" .
    have "w' = snd (case outcome of
       Inl werr \<Rightarrow> (Inl werr, ctx_Cancel (rt ?e) (sworld st))
     | Inr out \<Rightarrow>
         (case err of
            Some x \<Rightarrow> (Inl x, ctx_Cancel (rt ?e) (sworld st))
          | None \<Rightarrow>
              (case ctx_guard ?e (ctx_Cancel (rt ?e) (sworld st)) of
                 (Some engErr, w2) \<Rightarrow> (Inl engErr, w2)
               | (None, w2) \<Rightarrow> buildStoreReference ?e plan ?sink h out (sumRowCounts plan (rowCounts st)) w2)))"
      using arg_cong[OF 1(4), of snd] by simp
    then have "mw_registry w' = mw_registry (sworld st)"
      by (simp add: case_prod_beta mem_reference_frame split: sum.split option.split)
    from mem_live_registry[OF this] have "mem_live w' = mem_live (sworld st)" .
    moreover have "mem_live w1 = mem_live w" by (rule mem_live_registry) (simp add: w1_def Let_def)
    ultimately show ?case using l by simp
  qed
qed

lemma mem_store_closes:
  assumes "runStoreExtraction sched (mem_engine host) t mem_store (mem_sink (mh_sha host)) plan w = Some (r, w')"
  shows "mem_live w' = mem_live w"
proof -
  let ?e = "mem_engine host" and ?sink = "mem_sink (mh_sha host)"
  obtain x w1 where g: "ctx_guard ?e w = (x, w1)" by fastforce
  with mem_ctx_frame(3)[of host w] have w1: "mw_registry w1 = mw_registry w" by simp
  obtain y w2 where o: "OpenResultStream ?sink t w1 = (y, w2)" by fastforce
  with w1 have w2: "mw_registry w2 = mw_registry w" by (auto simp: mem_sink_def on_sink_def split: prod.splits)
  show ?thesis
  proof (cases "x = None \<and> (\<exists>h. y = Inr h)")
    case False
    with assms g o w1 w2 have "mw_registry w' = mw_registry w"
      by (auto simp: runStoreExtraction_def split: option.splits sum.splits)
    then show ?thesis by (rule mem_live_registry)
  next
    case True
    then obtain h where h: "x = None" "y = Inr h" by auto
    from assms g o h obtain r3 w3 where
      s: "streamPlanToSink sched ?e t mem_store ?sink plan h w2 = Some (r3, w3)" and
      w': "mw_registry w' = mw_registry w3"
      by (auto simp: runStoreExtraction_def split: option.splits sum.splits)
    from mem_live_registry[OF w'] mem_stream_closes[OF s] mem_live_registry[OF w2] show ?thesis by simp
  qed
qed

lemma mem_direct_closes:
  assumes "runDirectExtraction sched (mem_engine host) t mem_store plan w = Some (r, w')"
  shows "mem_live w' = mem_live w"
proof -
  let ?e = "mem_engine host"
  obtain x w1 where g: "ctx_guard ?e w = (x, w1)" by fastforce
  with mem_ctx_frame(3)[of host w] have w1: "mw_registry w1 = mw_registry w" by simp
  show ?thesis
  proof (cases x)
    case (Some err)
    with assms g w1 have "mw_registry w' = mw_registry w" by (simp add: runDirectExtraction_def)
    then show ?thesis by (rule mem_live_registry)
  next
    case None
    with assms g obtain rs w2 where p: "runStepsParallel sched ?e t mem_store plan w1 = Some (rs, w2)"
      by (auto simp: runDirectExtraction_def split: option.splits)
    obtain y w3 where g2: "ctx_guard ?e w2 = (y, w3)" by fastforce
    with mem_ctx_frame(3)[of host w2] have w3: "mw_registry w3 = mw_registry w2" by simp
    have "mw_registry w' = mw_registry w2"
      using assms g None p g2 w3
      by (auto simp: runDirectExtraction_def mem_runtime_def[of "mh_sha host"] split: option.splits prod.splits sum.splits if_splits)
    from mem_live_registry[OF this] mem_lifecycle.run_parallel_closes[OF p] mem_live_registry[OF w1]
    show ?thesis by simp
  qed
qed

lemma mem_deliver_closes:
  assumes "deliver sched (mem_engine host) mode plan mem_store w = Some (r, w')"
  shows "mem_live w' = mem_live w"
proof -
  let ?e = "mem_engine host" and ?t = "plan_tenant plan" and ?j = "pl_RequestID plan"
  define w1 where "w1 = recordExecutionStatus ?e ?t ?j StatusRunning [] w"
  have w1: "mem_live w1 = mem_live w" by (rule mem_live_registry) (simp add: w1_def)
  show ?thesis
  proof (cases "mode = ModeStore \<and> mh_store_mode host")
    case True
    with assms mem_store_closes w1 show ?thesis by (simp add: deliver_def Let_def w1_def[symmetric])
  next
    case False
    with assms obtain r2 w2 where
      d: "runDirectExtraction (pool_sched sched) ?e ?t mem_store plan w1 = Some (r2, w2)" and
      w': "mw_registry w' = mw_registry w2"
      by (auto simp: deliver_def completeDirectMode_def Let_def w1_def[symmetric]
          split: option.splits prod.splits sum.splits bool.splits if_splits)
    from mem_live_registry[OF w'] mem_direct_closes[OF d] w1 show ?thesis by simp
  qed
qed

subsection \<open>Whole executions\<close>

lemma mem_execute_cases:
  assumes "ExecuteExtraction sched (mem_engine host) plan w = Some (r, w')"
  obtains (refused) err where "execute_guards (mem_engine host) plan = Inl err" "r = Inl err" "w' = w"
  | (ran) w1 w2 where "execute_guards (mem_engine host) plan = Inr mem_store"
      "deliver sched (mem_engine host) (resolveExecutionMode (mem_engine host) (pl_Mode plan)) plan mem_store w1 = Some (r, w2)"
      "mw_registry w1 = mw_registry w" "mw_connections w1 = mw_connections w" "mw_sink w1 = mw_sink w"
      "mw_registry w' = mw_registry w2" "mw_executions w' = mw_executions w2" "mw_sink w' = mw_sink w2"
proof (cases "execute_guards (mem_engine host) plan")
  case (Inl err)
  with assms refused show thesis by (simp add: ExecuteExtraction_def Let_def)
next
  case (Inr store)
  then have store: "store = mem_store"
    by (auto simp: execute_guards_def requireConnectionStore_def split: option.splits if_splits)
  let ?w1 = "if Timeout (pl_Limits plan) > 0 then ctx_WithTimeout (rt (mem_engine host)) (Timeout (pl_Limits plan)) w else w"
  from assms Inr store obtain w2 where
    "deliver sched (mem_engine host) (resolveExecutionMode (mem_engine host) (pl_Mode plan)) plan mem_store ?w1 = Some (r, w2)"
    "w' = (if Timeout (pl_Limits plan) > 0 then ctx_Cancel (rt (mem_engine host)) w2 else w2)"
    by (auto simp: ExecuteExtraction_def Let_def)
  with Inr store show thesis by (intro ran[of ?w1 w2]) simp_all
qed

lemma execute_guards_mode:
  "execute_guards (mem_engine host) plan = Inr store \<Longrightarrow>
   resolveExecutionMode (mem_engine host) (pl_Mode plan) = ModeStore \<Longrightarrow> mh_store_mode host"
  by (auto simp: execute_guards_def requireConnectionStore_def split: option.splits if_splits)

subsection \<open>Bounds\<close>

lemma mem_stream_rows_bound:
  assumes "streamed (mem_engine host) t mem_store (mem_sink (mh_sha host)) h plan w st" and "i < length (h_rows st)"
    and "\<And>step. step \<in> set (pl_Steps plan) \<Longrightarrow> length (source_rows w t step) \<le> B"
  shows "length (h_rows st ! i) \<le> B"
proof -
  from streamed_shape[OF assms(1)] assms(2) have "pl_Steps plan ! i \<in> set (pl_Steps plan)"
    by (simp add: shape_ok_def Let_def)
  from mem_feed.streamed_bound[OF assms(1) mem_steady_refl assms(2)] assms(3)[OF this] show ?thesis
    by (simp add: mem_data)
qed

lemma mem_execute_returns: "executeStep (mem_engine host) t mem_store step w \<noteq> None"
  by (rule mem_cursors.execute_returns) simp

subsection \<open>A size-limit error comes from the size accounting only\<close>

lemma safe_not_size: "fst (safeConnectorError e err m w) \<noteq> sizeLimitError"
  by (auto simp: safeConnectorError_def ctx_guard_def NewEngineError_def case_prod_beta dest: contextError_category
     split: option.splits)
lemma guard_not_size: "ctx_guard e w = (Some x, w') \<Longrightarrow> x \<noteq> sizeLimitError"
  by (auto simp: ctx_guard_def NewEngineError_def case_prod_beta dest: contextError_category split: prod.splits)

lemma safe_error_not_size: "safeConnectorError e err m w = (x, w') \<Longrightarrow> x \<noteq> sizeLimitError"
  using safe_not_size[of e err m w] by simp

lemma open_not_size:
  assumes "openStepConnector (mem_engine host) t mem_store step w = (Inl err, w')"
  shows "err \<noteq> sizeLimitError"
proof -
  let ?d = "store_FindConnection t (st_ConfigName step) (mw_connections w)"
  show ?thesis
  proof (cases ?d)
    case None
    with assms show ?thesis by (auto simp: openStepConnector_def found_or_def mem_store_def)
  next
    case (Some d)
    obtain r w1 where b: "buildConnector (mem_engine host) d w = (r, w1)" by fastforce
    show ?thesis
    proof (cases r)
      case (Inl x)
      then have "x \<noteq> sizeLimitError"
        using b by (auto simp: buildConnector_def requireConnectorFactory_def UnknownConnectorTypeError_def
            split: prod.splits sum.splits option.splits bool.splits)
      with assms Some b Inl show ?thesis by (auto simp: openStepConnector_def found_or_def mem_store_def)
    next
      case (Inr rc)
      obtain reg c where "rc = (reg, c)" by (cases rc)
      with assms Some b Inr show ?thesis
        by (auto simp: openStepConnector_def found_or_def mem_store_def Let_def safe_not_size case_prod_beta
            split: option.splits)
    qed
  qed
qed

lemma query_not_size:
  assumes "queryStep e step reg c w = Some (Inl err, w')"
  shows "err \<noteq> sizeLimitError"
  using assms
  by (auto simp: queryStep_def split: prod.splits option.splits sum.splits
      dest: guard_not_size safe_error_not_size)

lemma mem_execute_not_size: "executeStep (mem_engine host) t mem_store step w \<noteq> Some (Inl sizeLimitError, w')"
  by (auto simp: executeStep_def split: prod.splits option.splits sum.splits
      dest: guard_not_size open_not_size query_not_size)

subsection \<open>What a failed store run leaves in the sink\<close>

definition same_results :: "mem_world \<Rightarrow> mem_world \<Rightarrow> bool" where
  "same_results w w' \<longleftrightarrow> ws_results (mw_sink w') = ws_results (mw_sink w) \<and>
     ws_ProtectionResult (mw_sink w') = ws_ProtectionResult (mw_sink w)"

interpretation mem_publish: respected "mem_engine host" mem_registry mem_store same_results for host
  by unfold_locales (auto simp: same_results_def mem_port_defs split: prod.splits if_splits)

lemma same_results_trans: "same_results a b \<Longrightarrow> same_results b c \<Longrightarrow> same_results a c"
  by (simp add: same_results_def)

lemma mem_scope_same: "same_results w (ctx_Cancel (mem_runtime sha) w)" "same_results w (snd (ctx_guard (mem_engine host) w))"
  "same_results w (ctx_CancelUp (mem_runtime sha) k w)"
  by (simp_all add: same_results_def mem_runtime_def split: list.split)

lemma write_same: "StreamWrite (mem_sink sha) h b w = (x, w') \<Longrightarrow> same_results w w'"
  by (auto simp: mem_sink_def on_sink_def writer_Write_def same_results_def Let_def split: prod.splits option.splits if_splits)

lemma streamed_same:
  assumes "streamed (mem_engine host) t mem_store (mem_sink (mh_sha host)) h plan w st"
  shows "same_results w (sworld st)"
  using assms
proof (induction rule: streamed.induct)
  case start
  show ?case by (simp add: stream_init_def Let_def same_results_def)
next
  case (move st m st')
  have "same_results (sworld st) (sworld st')"
  proof (cases "m = Writer \<or> m = Main")
    case False
    with mem_publish.r_producer_move[OF mem_publish.registries_streamed[OF move(1)] move(2)] show ?thesis by simp
  next
    case True
    have still: "same_results (sworld st) (sworld st)" by (simp add: same_results_def)
    from move(2) True show ?thesis
    proof (elim disjE)
      assume "m = Writer"
      with move(2) still show ?thesis
        by (auto simp: stream_step_def writer_step_def cancelWrite_def Let_def mem_scope_same
            split: wpc.splits if_splits list.splits prod.splits option.splits
            dest: write_same intro: same_results_trans[OF write_same mem_scope_same(3)])
    next
      assume "m = Main"
      with move(2) still show ?thesis
        by (auto simp: stream_step_def main_step_def Let_def mem_scope_same
            split: if_splits option.splits prod.splits intro: same_results_trans)
          (metis mem_scope_same(1,2) same_results_trans snd_conv)
    qed
  qed
  with move(3) show ?case by (rule same_results_trans)
qed
definition sink_protection_ok :: "MemoryResultSink \<Rightarrow> bool" where
  "sink_protection_ok s = (case ws_ProtectionResult s of None \<Rightarrow> True | Some p \<Rightarrow> applier_IsValid (rp_AppliedBy p))"

lemma reference_same:
  assumes "buildStoreReference (mem_engine host) plan (mem_sink sha) h out counts w = (Inl err, w')"
    and "sink_protection_ok (mw_sink w)"
  shows "same_results w w'"
  using assms
  by (auto simp: buildStoreReference_def mem_sink_def on_sink_def writer_Close_def finalize_def Let_def
      sink_protection_ok_def same_results_def case_prod_beta split: option.splits if_splits)

lemma stream_same:
  assumes "streamPlanToSink sched (mem_engine host) t mem_store (mem_sink (mh_sha host)) plan h w = Some (Inl err, w')"
    and ok: "sink_protection_ok (mw_sink w)"
  shows "same_results w w'"
  using assms(1)
proof (rule stream_result, goal_cases)
  case (1 st e outcome)
  let ?e = "mem_engine host"
  let ?w1 = "let w0 = ctx_WithCancel (rt ?e) w in if pl_Steps plan = [] then w0 else ctx_WithCancel (rt ?e) w0"
  have "same_results w ?w1" by (simp add: same_results_def Let_def)
  moreover have "same_results ?w1 (sworld st)"
    by (rule streamed_same[OF stream_run_streamed[OF streamed.start 1(1)]])
  ultimately have st: "same_results w (sworld st)" by (rule same_results_trans)
  have c: "same_results w (ctx_Cancel (rt ?e) (sworld st))"
    using same_results_trans[OF st mem_scope_same(1)] by simp
  obtain x w2 where g: "ctx_guard ?e (ctx_Cancel (rt ?e) (sworld st)) = (x, w2)" by fastforce
  have w2: "same_results w w2" using same_results_trans[OF c mem_scope_same(2)[of _ host]] g by simp
  then have "sink_protection_ok (mw_sink w2)" using ok by (simp add: same_results_def sink_protection_ok_def)
  then show ?case
    using 1(4) c w2 g
    by (auto split: sum.splits option.splits intro: same_results_trans[OF w2 reference_same] dest!: sym[of "(Inl err, w')"])
qed

lemma record_same:
  "same_results w (recordExecutionStatus (mem_engine host) t j s m w)"
  "same_results w (recordTerminalFailure (mem_engine host) t j err w)"
  by (simp_all add: same_results_def recordTerminalFailure_def split: option.split)

lemma store_same:
  assumes "runStoreExtraction sched (mem_engine host) t mem_store (mem_sink (mh_sha host)) plan w = Some (Inl err, w')"
    and ok: "sink_protection_ok (mw_sink w)"
  shows "same_results w w'"
proof -
  let ?e = "mem_engine host" and ?sink = "mem_sink (mh_sha host)"
  obtain x w1 where g: "ctx_guard ?e w = (x, w1)" by fastforce
  with mem_scope_same(2)[of w host] have w1: "same_results w w1" by simp
  obtain y w2 where o: "OpenResultStream ?sink t w1 = (y, w2)" by fastforce
  then have "same_results w1 w2"
    by (auto simp: mem_sink_def on_sink_def sink_OpenResultStream_def same_results_def Let_def split: prod.splits if_splits)
  with w1 have w2: "same_results w w2" by (rule same_results_trans)
  show ?thesis
  proof (cases "x = None \<and> (\<exists>h. y = Inr h)")
    case False
    with assms(1) g o w1 w2 show ?thesis
      by (auto simp: runStoreExtraction_def split: option.splits sum.splits
          intro: same_results_trans[OF _ record_same(1)] same_results_trans[OF _ record_same(2)])
  next
    case True
    then obtain h where h: "x = None" "y = Inr h" by auto
    from assms(1) g o h obtain w3 where
      s: "streamPlanToSink sched ?e t mem_store ?sink plan h w2 = Some (Inl err, w3)" and
      w': "w' = recordTerminalFailure ?e t (pl_RequestID plan) err w3"
      by (auto simp: runStoreExtraction_def split: option.splits sum.splits)
    have "sink_protection_ok (mw_sink w2)" using w2 ok by (simp add: same_results_def sink_protection_ok_def)
    from stream_same[OF s this] w2 w' show ?thesis
      by (auto intro: same_results_trans record_same)
  qed
qed

end
