(* ===== verification/Memory_Schema.thy ===== *)
theory Memory_Schema
  imports Memory_Rows
begin

text \<open>
  Schema discovery and planning on the in-memory collaborators: \<open>mem_schema\<close> is the
  schema of a tenant's datasource (the cached snapshot, else the one its factory's
  connectors report), which discovery returns and never changes.
\<close>

definition template_schema :: "mem_world \<Rightarrow> ConnectionDescriptor \<Rightarrow> SchemaSnapshot option" where
  "template_schema w d =
     (case map_of (mr_factories (mw_registry w)) (d_Type d) of
        None \<Rightarrow> None
      | Some f \<Rightarrow>
          if f < length (mr_factory_list (mw_registry w))
          then Some ((cb_Schema (factory_behavior (mr_factory_list (mw_registry w) ! f)))\<lparr>sn_ConfigName := d_ConfigName d\<rparr>)
          else None)"

definition mem_schema :: "mem_world \<Rightarrow> TenantContext \<Rightarrow> string \<Rightarrow> SchemaSnapshot option" where
  "mem_schema w t c =
     (case cache_GetSchema t c (mw_cache w) of
        Inr (Some s) \<Rightarrow> Some s
      | _ \<Rightarrow> Option.bind (mem_desc w t c) (template_schema w))"

lemma template_schema_config:
  assumes "factory_config (mw_registry w') = factory_config (mw_registry w)"
  shows "template_schema w' = template_schema w"
proof (rule ext)
  fix d
  from assms have "mr_factories (mw_registry w') = mr_factories (mw_registry w)" by (simp add: factory_config_def)
  moreover have "length (mr_factory_list (mw_registry w')) = length (mr_factory_list (mw_registry w))"
    using assms by (auto simp: factory_config_def dest: map_eq_imp_length_eq)
  ultimately show "template_schema w' d = template_schema w d"
    using config_behavior[OF assms] by (simp add: template_schema_def split: option.split)
qed

lemma mem_build_effect:
  assumes "buildConnector (mem_engine host) d w = (r, w')"
  shows "mw_connections w' = mw_connections w \<and> mw_cache w' = mw_cache w \<and>
    factory_config (mw_registry w') = factory_config (mw_registry w)"
proof (cases "requireConnectorFactory (mem_engine host) (d_Type d) w")
  case (Inl err)
  with assms show ?thesis by (simp add: buildConnector_def)
next
  case (Inr rf)
  then obtain f where rf: "rf = (mem_registry, f)" by (cases rf) (auto dest: requireConnectorFactory_Inr)
  have "w' = snd (Build mem_registry f d w)"
    using assms Inr rf by (auto simp: buildConnector_def case_prod_beta split: sum.splits option.splits)
  then show ?thesis by (simp add: mem_registry_def on_registry_def case_prod_beta build_config)
qed

lemma mem_build_schema:
  assumes "buildConnector (mem_engine host) d w = (Inr (reg, c), w')"
  shows "reg = mem_registry \<and>
    template_schema w d = Some ((connector_DiscoverSchema c (mw_registry w'))\<lparr>sn_ConfigName := d_ConfigName d\<rparr>)"
proof -
  from buildConnector_Inr[OF assms] obtain f where
    reg: "reg = mem_registry" and f: "Connector reg (d_Type d) w = (Some f, True)" "Build reg f d w = (Inr (Some c), w')"
    by auto
  from f(2) reg have "factory_Build f (mw_registry w) = (Inr (Some c), mw_registry w')"
    by (auto simp: mem_registry_def on_registry_def split: prod.splits)
  note b = build_behavior[OF this]
  from f(1) reg have "map_of (mr_factories (mw_registry w)) (d_Type d) = Some f"
    by (simp add: mem_registry_def registry_Connector_def)
  with b reg show ?thesis by (simp add: template_schema_def connector_DiscoverSchema_def)
qed

lemma mem_desc_scope: "TenantID t' = TenantID t \<Longrightarrow> mem_desc w t' = mem_desc w t"
  by (intro ext) (simp add: mem_desc_def store_FindConnection_def scopeOf_def)

lemma cache_GetSchema_scope: "TenantID t' = TenantID t \<Longrightarrow> cache_GetSchema t' = cache_GetSchema t"
  by (intro ext) (simp add: cache_GetSchema_def scopeOf_def split: option.split)

lemma mem_schema_frame:
  assumes "mw_connections w' = mw_connections w" and "mw_cache w' = mw_cache w"
    and "factory_config (mw_registry w') = factory_config (mw_registry w)"
  shows "mem_desc w' = mem_desc w \<and> mem_schema w' = mem_schema w"
proof -
  have "mem_desc w' = mem_desc w" using assms(1) by (intro ext) (simp add: mem_desc_def)
  then show ?thesis
    using assms(2) template_schema_config[OF assms(3)] by (intro conjI ext) (simp_all add: mem_schema_def split: sum.split option.split)
qed

lemma mem_schema_put:
  assumes d: "mem_desc w t c = Some d" "template_schema w d = Some s" "sn_ConfigName s = c"
    and miss: "\<nexists>x. cache_GetSchema t c (mw_cache w) = Inr (Some x)"
  shows "mem_schema (w\<lparr>mw_cache := snd (cache_PutSchema t s (mw_cache w))\<rparr>) = mem_schema w"
proof (intro ext)
  fix t' c'
  let ?w' = "w\<lparr>mw_cache := snd (cache_PutSchema t s (mw_cache w))\<rparr>"
  have same: "mem_desc ?w' = mem_desc w" "template_schema ?w' = template_schema w"
    by (intro ext, simp add: mem_desc_def) (rule template_schema_config, simp)
  show "mem_schema ?w' t' c' = mem_schema w t' c'"
  proof (cases "TenantID t' = TenantID t \<and> c' = c")
    case False
    then have "cache_GetSchema t' c' (mw_cache ?w') = cache_GetSchema t' c' (mw_cache w)"
      using d(3) by (auto simp: cache_GetSchema_def cache_PutSchema_def scopeOf_def split: option.splits)
    then show ?thesis by (simp add: mem_schema_def same split: sum.split option.split)
  next
    case True
    then have t: "mem_desc w t' c' = Some d" "cache_GetSchema t' c' = cache_GetSchema t c"
      using mem_desc_scope[of t' t w] cache_GetSchema_scope[of t' t] d(1) by simp_all
    from miss t have "mem_schema w t' c' = Some s"
      using d by (auto simp: mem_schema_def split: sum.splits option.splits)
    moreover have "mem_schema ?w' t' c' = Some s"
      using miss t d same
      by (auto simp: mem_schema_def cache_GetSchema_def cache_PutSchema_def scopeOf_def split: sum.splits option.splits)
    ultimately show ?thesis by simp
  qed
qed

lemma mem_close_effect:
  "mw_connections (snd (ConnClose mem_registry k w)) = mw_connections w"
  "mw_cache (snd (ConnClose mem_registry k w)) = mw_cache w"
  "factory_config (mw_registry (snd (ConnClose mem_registry k w))) = factory_config (mw_registry w)"
  by (simp_all add: mem_registry_def on_registry_def connector_Close_def factory_config_def Let_def)

text \<open>Resolving a schema returns the tenant's schema and does not change any.\<close>

lemma mem_discover:
  assumes "discoverLive (mem_engine host) t d False w = (r, w')" and d: "mem_desc w t c = Some d" "d_ConfigName d = c"
    and miss: "\<nexists>x. cache_GetSchema t c (mw_cache w) = Inr (Some x)"
  shows "mem_desc w' = mem_desc w \<and> mem_schema w' = mem_schema w \<and> (\<forall>s. r = Inr s \<longrightarrow> mem_schema w t c = Some s)"
proof -
  obtain r1 w1 where b: "buildConnector (mem_engine host) d w = (r1, w1)" by fastforce
  from mem_schema_frame[of w1 w] mem_build_effect[OF b] have f: "mem_desc w1 = mem_desc w" "mem_schema w1 = mem_schema w"
    by auto
  show ?thesis
  proof (cases r1)
    case (Inl err)
    with assms(1) b f show ?thesis by (auto simp: discoverLive_def)
  next
    case (Inr rc)
    obtain reg k where rc: "rc = (reg, k)" by (cases rc)
    define s where "s = (connector_DiscoverSchema k (mw_registry w1))\<lparr>sn_ConfigName := d_ConfigName d\<rparr>"
    from mem_build_schema[OF b[unfolded Inr rc]] have reg: "reg = mem_registry" and ts: "template_schema w d = Some s"
      by (auto simp: s_def)
    define w3 where "w3 = w1\<lparr>mw_cache := snd (cache_PutSchema t s (mw_cache w1))\<rparr>"
    from mem_build_effect[OF b] have e: "mw_cache w1 = mw_cache w" "template_schema w1 = template_schema w"
      by (auto intro: template_schema_config)
    have "r = Inr s \<and> w' = snd (ConnClose mem_registry k w3)"
      using assms(1) b Inr rc reg
      by (simp add: discoverLive_def s_def w3_def Let_def cacheSchema_def mem_registry_def[of] mem_cache_def case_prod_beta)
    moreover have "mem_desc w3 = mem_desc w \<and> mem_schema w3 = mem_schema w"
    proof -
      have "mem_schema w3 = mem_schema w1" unfolding w3_def
        by (rule mem_schema_put[where d = d and c = c]) (use d ts e f miss in \<open>simp_all add: s_def\<close>)
      moreover have "mem_desc w3 = mem_desc w1" by (simp add: w3_def mem_desc_def fun_eq_iff)
      ultimately show ?thesis using f by simp
    qed
    moreover have "mem_schema w t c = Some s"
      using miss d ts by (auto simp: mem_schema_def split: sum.splits option.splits)
    ultimately show ?thesis using mem_schema_frame[OF mem_close_effect, of k w3] by auto
  qed
qed

lemma mem_resolve:
  assumes "resolveSchema (mem_engine host) t d False w = (r, w')" and "mem_desc w t c = Some d" and "d_ConfigName d = c"
  shows "mem_desc w' = mem_desc w \<and> mem_schema w' = mem_schema w \<and> (\<forall>s. r = Inr s \<longrightarrow> mem_schema w t c = Some s)"
proof (cases "\<exists>x. cache_GetSchema t c (mw_cache w) = Inr (Some x)")
  case True
  with assms show ?thesis
    by (auto simp: resolveSchema_def cachedSchema_def mem_cache_def mem_schema_def)
next
  case False
  then have "cachedSchema (mem_engine host) t c w = (None, w)"
    by (auto simp: cachedSchema_def mem_cache_def split: sum.splits option.splits)
  with assms have "discoverLive (mem_engine host) t d False w = (r, w')" by (simp add: resolveSchema_def)
  from mem_discover[OF this assms(2,3) False] show ?thesis .
qed

lemma mem_validated:
  assumes "validateDatasources (mem_engine host) t mem_store dss w = (Inr [], w')"
    and named: "\<And>c d. mem_desc w t c = Some d \<Longrightarrow> d_ConfigName d = c" and "ds \<in> set dss"
  shows "\<exists>s. mem_schema w t (dm_ConfigName ds) = Some s \<and> (\<forall>table \<in> set (dm_Tables ds). table_valid s table)"
  using assms
proof (induction dss arbitrary: w)
  case (Cons x dss)
  obtain r1 w1 where v: "validateDatasource (mem_engine host) t mem_store x w = (r1, w1)" by fastforce
  with Cons.prems(1) have r1: "r1 = Inr []" and rest: "validateDatasources (mem_engine host) t mem_store dss w1 = (Inr [], w')"
    by (auto split: sum.splits prod.splits)
  from v r1 obtain d where d: "mem_desc w t (dm_ConfigName x) = Some d"
    by (auto simp: validateDatasource_def mem_store_def mem_desc_def split: option.splits)
  then obtain s where s: "resolveSchema (mem_engine host) t d False w = (Inr s, w1)"
    "validateMappingAgainstSnapshot x s = []"
    using v r1 by (auto simp: validateDatasource_def mem_store_def mem_desc_def split: prod.splits sum.splits)
  note res = mem_resolve[OF s(1) d Cons.prems(2)[OF d]]
  show ?case
  proof (cases "ds = x")
    case True
    with res s(2) show ?thesis by (auto simp: validateMapping_Nil_iff)
  next
    case False
    with Cons.prems(3) have "ds \<in> set dss" by simp
    from Cons.IH[OF rest _ this] Cons.prems(2) res show ?thesis by simp
  qed
qed simp

lemma mem_resolve_cached:
  assumes "resolveSchema (mem_engine host) t d False w = (Inr s, w')" and "d_ConfigName d = c"
    and "GetErr (mw_cache w) = None" and "PutErr (mw_cache w) = None"
  shows "cache_GetSchema t c (mw_cache w') = Inr (Some s)"
proof (cases "\<exists>x. cache_GetSchema t c (mw_cache w) = Inr (Some x)")
  case True
  with assms show ?thesis by (auto simp: resolveSchema_def cachedSchema_def mem_cache_def)
next
  case False
  then have "cachedSchema (mem_engine host) t c w = (None, w)"
    by (auto simp: cachedSchema_def mem_cache_def split: sum.splits option.splits)
  with assms have "discoverLive (mem_engine host) t d False w = (Inr s, w')" by (simp add: resolveSchema_def)
  note live = this
  obtain r1 w1 where b0: "buildConnector (mem_engine host) d w = (r1, w1)" by fastforce
  with live obtain reg k where r1: "r1 = Inr (reg, k)" by (cases r1) (auto simp: discoverLive_def)
  note b = b0[unfolded r1]
  have reg: "reg = mem_registry" using mem_build_schema[OF b] by simp
  from live b reg assms(2) have
    s: "s = (connector_DiscoverSchema k (mw_registry w1))\<lparr>sn_ConfigName := c\<rparr>" and
    w': "w' = snd (ConnClose mem_registry k (w1\<lparr>mw_cache := snd (cache_PutSchema t s (mw_cache w1))\<rparr>))"
    by (auto simp: discoverLive_def cacheSchema_def mem_cache_def mem_registry_def[of] Let_def case_prod_beta)
  from mem_build_effect[OF b] assms(3,4) s w' show ?thesis
    by (simp add: mem_close_effect cache_GetSchema_def cache_PutSchema_def scopeOf_def)
qed

end
