(* ===== verification/Memory_Connections.thy ===== *)
theory Memory_Connections
  imports Memory_Harness
begin

text \<open>
  The connection lifecycle on the in-memory store: what each Engine operation does to
  the tenant's records, and that it touches no other tenant's.
\<close>

lemma mem_span [simp]: "with_span (mem_engine host) op body w = body w"
  by (simp add: with_span_def case_prod_beta)

lemma mem_scoped:
  "scoped (mem_engine host) t body w =
     (if isValidTenantID (TenantID t) then body mem_store w
      else (Inl (NewEngineError CategoryValidation ''tenant scope is required''), w))"
  by (simp add: scoped_def requireConnectionStore_def validateTenantScope_def)

lemma mem_find:
  "FindConnection mem_store t c w = (Inr (map_option fst (mem_view w (TenantID t) c)), w)"
  by (simp add: mem_store_def store_FindConnection_def mem_view_def scopeOf_def option.map_comp comp_def)

lemma mem_protect:
  "protectDescriptor (mem_engine host) t secret d w =
     (case (mh_encrypted host, secret) of
        (True, Some password) \<Rightarrow>
          (case mh_protect host t password of
             Inl _ \<Rightarrow> Inl (NewEngineError CategoryUnavailable ''failed to protect connection credential'')
           | Inr (ct, kv) \<Rightarrow> Inr (d\<lparr>d_KeyVersion := kv\<rparr>, Some \<lparr>Ciphertext = ct, KeyVersion = kv\<rparr>))
      | _ \<Rightarrow> Inr (d, None), w)"
  by (simp add: protectDescriptor_def protectSecret_def requireCredentialProtector_def mem_engine_def
      split: bool.split option.split sum.split prod.split)

lemma mem_active:
  "guardActiveExecutions (mem_engine host) t c w =
     (case mh_active host t c of
        Inl _ \<Rightarrow> Some (NewEngineError CategoryUnavailable ''failed to check for active executions'')
      | Inr True \<Rightarrow> Some (NewEngineError CategoryConflict ''connection has active executions'')
      | Inr False \<Rightarrow> None, w)"
  by (simp add: guardActiveExecutions_def mem_engine_def split: sum.split bool.split)

lemma mem_get:
  "isValidTenantID (TenantID t) \<Longrightarrow>
   GetConnection (mem_engine host) t c w =
     (case mem_view w (TenantID t) c of
        None \<Rightarrow> Inl (NewEngineError CategoryNotFound ''connection not found'') | Some (d, _) \<Rightarrow> Inr d, w)"
  by (simp add: GetConnection_def mem_scoped found_or_def mem_find split: option.split)

lemma mem_created:
  assumes "CreateConnection (mem_engine host) t input w = (Inr d, w')"
  obtains cred where "isValidTenantID (TenantID t)"
    "protectDescriptor (mem_engine host) t (if HasPassword input then Some (Password input) else None)
       (DescriptorFromInput input) w = (Inr (d, cred), w)"
    "Create mem_store t d cred w = (None, w')"
proof -
  let ?p = "protectDescriptor (mem_engine host) t (if HasPassword input then Some (Password input) else None)
       (DescriptorFromInput input)"
  have frame: "snd (?p w) = w" by (simp add: mem_protect)
  from assms have v: "isValidTenantID (TenantID t)" by (auto simp: CreateConnection_def mem_scoped split: if_splits)
  obtain r where r: "?p w = (r, w)" using frame by (cases "?p w") auto
  with assms v obtain d' cred where dc: "r = Inr (d', cred)"
    by (cases r) (auto simp: CreateConnection_def mem_scoped mem_find Let_def split: option.splits)
  with assms v r have "d' = d" "Create mem_store t d cred w = (None, w')"
    by (auto simp: CreateConnection_def mem_scoped mem_find Let_def split: option.splits prod.splits)
  with v r dc that show thesis by simp
qed

subsection \<open>Tenants\<close>

definition others_kept :: "string \<Rightarrow> mem_world \<Rightarrow> mem_world \<Rightarrow> bool" where
  "others_kept tid w w' \<longleftrightarrow> (\<forall>tid'. tid' \<noteq> tid \<longrightarrow> mem_view w' tid' = mem_view w tid')"

lemma store_others:
  assumes "tid' \<noteq> TenantID t"
  shows "map_of (snd (store_Create t d cred m)) (tid', c') = map_of m (tid', c')"
    and "map_of (snd (store_Update t d cred m)) (tid', c') = map_of m (tid', c')"
    and "map_of (snd (store_Delete t c m)) (tid', c') = map_of m (tid', c')"
    and "map_of (snd (store_UpdateByID t i d cred m)) (tid', c') = map_of m (tid', c')"
    and "map_of (snd (store_DeleteByID t i m)) (tid', c') = map_of m (tid', c')"
proof -
  have key: "fst k = TenantID t" if "findByIDLocked (scopeOf t) i m = Some (k, s)" for k s
    using that by (auto simp: findByIDLocked_def scopeOf_def find_Some_iff split: if_splits)
  show "map_of (snd (store_Create t d cred m)) (tid', c') = map_of m (tid', c')"
    "map_of (snd (store_Update t d cred m)) (tid', c') = map_of m (tid', c')"
    "map_of (snd (store_Delete t c m)) (tid', c') = map_of m (tid', c')"
    using assms by (simp_all add: store_Create_def store_Update_def store_Delete_def scopeOf_def Let_def
        update_conv' delete_conv' split: option.split)
  show "map_of (snd (store_UpdateByID t i d cred m)) (tid', c') = map_of m (tid', c')"
    "map_of (snd (store_DeleteByID t i m)) (tid', c') = map_of m (tid', c')"
    using assms key by (fastforce simp: store_UpdateByID_def store_DeleteByID_def Let_def update_conv' delete_conv'
        split: option.split)+
qed

lemma mem_store_others:
  "others_kept (TenantID t) w (snd (Create mem_store t d cred w))"
  "others_kept (TenantID t) w (snd (Update mem_store t d cred w))"
  "others_kept (TenantID t) w (snd (Delete mem_store t c w))"
  "others_kept (TenantID t) w (snd (UpdateByID mem_store t i d cred w))"
  "others_kept (TenantID t) w (snd (DeleteByID mem_store t i w))"
  by (simp_all add: others_kept_def mem_view_def fun_eq_iff mem_store_def on_connections_def case_prod_beta store_others)

lemma others_kept_refl [simp]: "others_kept tid w w"
  by (simp add: others_kept_def)

text \<open>The writing operations end in the store call or leave the world alone.\<close>

lemma mem_writes:
  "snd (CreateConnection (mem_engine host) t input w) \<in>
     insert w (range (\<lambda>(d, cred). snd (Create mem_store t d cred w)))"
  "snd (UpdateConnection (mem_engine host) t c patch w) \<in>
     insert w (range (\<lambda>(d, cred). snd (Update mem_store t d cred w)))"
  "snd (DeleteConnection (mem_engine host) t c w) \<in> {w, snd (Delete mem_store t c w)}"
  "snd (UpdateConnectionByID (mem_engine host) t i d patch w) \<in>
     insert w (range (\<lambda>(d, cred). snd (UpdateByID mem_store t i d cred w)))"
  "snd (DeleteConnectionByID (mem_engine host) t i w) \<in> {w, snd (DeleteByID mem_store t i w)}"
  by (auto simp: CreateConnection_def UpdateConnection_def DeleteConnection_def UpdateConnectionByID_def
      DeleteConnectionByID_def mem_scoped mem_find mem_protect mem_active found_or_def unit_res_def Let_def
      case_prod_beta image_iff split: option.split sum.split bool.split)

end
