(* ===== verification/Memory_Scenarios.thy ===== *)
theory Memory_Scenarios
  imports Memory_Runs Memory_Schema Memory_Connections
begin

text \<open>
  The example host of \<open>Memory_Example\<close> evaluated: runs, plans and connection
  operations whose results the concrete instances of the theorems refer to.
\<close>

lemma ex_artefact:
  "artefact ex_plan (map (source_rows ex_world (plan_tenant ex_plan)) (pl_Steps ex_plan)) =
   ''{\"config\":\"p\",\"table\":\"t\",\"row\":{\"x\":1}}'' @ [CHR 0x0A] @
   ''{\"config\":\"p\",\"table\":\"t\",\"row\":{\"x\":2}}'' @ [CHR 0x0A] @
   ''{\"config\":\"q\",\"table\":\"t\",\"row\":{\"x\":3}}'' @ [CHR 0x0A]"
  by code_simp

lemma ex_modes: "resolveExecutionMode (ex_engine True) (pl_Mode ex_plan) = ModeStore"
  "resolveExecutionMode (ex_engine False) (pl_Mode ex_plan) = ModeDirect"
  by (simp_all add: resolveExecutionMode_def ex_host_def ex_plan_def)

lemma ex_wf: "mem_wf ex_world"
  unfolding mem_wf_def connections_ok_def map_ok_def by code_simp

lemma ex_guards: "execute_guards (ex_engine b) ex_plan = Inr mem_store"
  by (simp add: execute_guards_def requireConnectionStore_def plan_tenant_def ex_plan_def ex_host_def
      resolveExecutionMode_def validateTenantScope_def isTenantIDAlnum_def less_eq_char_def Option.is_none_def)

lemma ex_row_counts: "map (length \<circ> source_rows ex_world (plan_tenant ex_plan)) (pl_Steps ex_plan) = [2, 1]"
  by code_simp

definition ex_small_plan :: ExtractionPlan where
  "ex_small_plan = ex_plan\<lparr>pl_Limits := ex_limits\<lparr>MaxResultBytes := 12\<rparr>\<rparr>"

definition over_size :: "('a res \<times> 'w) option \<Rightarrow> bool" where
  "over_size out = (case out of Some (Inl err, _) \<Rightarrow> err = sizeLimitError | _ \<Rightarrow> False)"

lemma over_size_iff: "over_size out \<longleftrightarrow> (\<exists>w. out = Some (Inl sizeLimitError, w))"
  by (auto simp: over_size_def split: option.splits sum.splits)

lemma ex_over_size:
  "over_size (runDirectExtraction (pool_sched ex_schedule) (ex_engine False) ex_tenant mem_store ex_small_plan ex_world)"
  by code_simp

lemma ex_small_payload: "MarshalIndent (AMap (aggregate (mem_direct ex_world ex_tenant ex_small_plan))) \<noteq> None"
  unfolding Option.is_none_def[symmetric] by code_simp

definition ex_input :: ConnectionInput where
  "ex_input = \<lparr>in_ConfigName = ''n'', in_Type = ''p'', in_Host = ''h'', in_Port = 1, in_DatabaseName = ''d'',
     in_Schema = [], in_Username = ''u'', in_SSLMode = [], in_hostAttributes = None, in_password = ''pw''\<rparr>"

definition created :: "'a res \<times> 'w \<Rightarrow> bool" where
  "created out = (case out of (Inr _, _) \<Rightarrow> True | _ \<Rightarrow> False)"

lemma created_iff: "created out \<longleftrightarrow> (\<exists>x w. out = (Inr x, w))"
  by (auto simp: created_def split: prod.splits sum.splits)

lemma ex_created: "created (CreateConnection (ex_engine b) ex_tenant ex_input ex_world)"
  by code_simp

definition ex_patch :: ConnectionPatch where
  "ex_patch = \<lparr>cp_Type = None, cp_Host = Some ''x'', cp_Port = None, cp_DatabaseName = None, cp_Schema = None,
     cp_Username = None, cp_SSLMode = None, cp_HostAttributes = None, cp_password = None, cp_hasPassword = False\<rparr>"

lemma ex_updated: "created (UpdateConnection (ex_engine b) ex_tenant ''p'' ex_patch ex_world)"
  by code_simp

lemma ex_deleted: "created (DeleteConnection (ex_engine b) ex_tenant ''p'' ex_world)"
  by code_simp

lemma ex_listed: "created (ListConnections (ex_engine b) ex_tenant ex_world)"
  by code_simp

lemma ex_discovered: "created (DiscoverSchema (ex_engine b) ex_tenant ''p'' ex_world)"
  by code_simp

lemma ex_source_bound: "\<forall>step \<in> set (pl_Steps ex_plan). length (source_rows ex_world ex_tenant step) \<le> 2"
  by code_simp

text \<open>The request with its datasources in the other iteration order.\<close>

definition ex_request_swapped :: ExtractionRequest where
  "ex_request_swapped = ex_request\<lparr>MappedFields := rev (MappedFields ex_request)\<rparr>"

lemma ex_same_request: "same_request ex_request ex_request_swapped"
  by (auto simp: same_request_def ex_request_swapped_def ex_request_def map_rel_def map_ok_def keys_def
      same_map_def)

text \<open>A store run that goes over the size limit at the first batch.\<close>

definition ex_small_schedule :: schedule where
  "ex_small_schedule =
     \<lparr>pool_sched = [],
      stream_sched = replicate 6 (Producer 0 True) @ [Writer, Writer] @ replicate 3 (Producer 0 True) @
        replicate 5 (Producer 1 True) @ [Main]\<rparr>"

lemma ex_store_over_size:
  "over_size (ExecuteExtraction ex_small_schedule (ex_engine True) ex_small_plan ex_world)"
  by code_simp

lemma ex_small_mode: "resolveExecutionMode (ex_engine True) (pl_Mode ex_small_plan) = ModeStore"
  by (simp add: resolveExecutionMode_def ex_host_def ex_small_plan_def ex_plan_def)

lemma ex_sink_protection: "sink_protection_ok (mw_sink ex_world)"
  by (simp add: sink_protection_ok_def ex_world_def ex_sink_def)

text \<open>Renaming a connection by its ID onto another one's name removes that other connection.\<close>

lemma rename_drops_namesake:
  "case UpdateConnectionByID (ex_engine True) ex_tenant ''p'' ((ex_descriptor ''p'')\<lparr>d_ConfigName := ''q''\<rparr>)
          ex_patch ex_world of
     (Inr _, w') \<Rightarrow> findByIDLocked ''a'' ''q'' (mw_connections ex_world) \<noteq> None \<and>
                     findByIDLocked ''a'' ''q'' (mw_connections w') = None
   | _ \<Rightarrow> False"
  by code_simp

text \<open>An invalid applier is reported only after the sink has finalized the result.\<close>

definition ex_bad_sink_world :: mem_world where
  "ex_bad_sink_world = ex_world\<lparr>mw_sink := ex_sink\<lparr>ws_ProtectionResult :=
     Some \<lparr>rp_Encrypted = True, rp_KeyVersion = 1, rp_Mode = [], rp_AppliedBy = ''nobody''\<rparr>\<rparr>\<rparr>"

lemma invalid_protection_published:
  "case ExecuteExtraction ex_schedule (ex_engine True) ex_plan ex_bad_sink_world of
     Some (Inl err, w') \<Rightarrow> Message err = ''result protection appliedBy is invalid'' \<and>
       sink_StoredCount (mw_sink w') = 1
   | _ \<Rightarrow> False"
  by code_simp

end
