(* ===== verification/Service_Errors.thy ===== *)
theory Service_Errors
  imports Engine_Errors Go_Json
begin

text \<open>
  The errors of the services around the Engine: the typed errors of
  \<^verbatim>\<open>pkg/errors.go\<close>, the errors of the standard library and of the tenant library
  they inspect, and the Worker's classification of a failed message
  (\<^verbatim>\<open>components/worker/internal/bootstrap/retry_guard.go\<close>, \<^verbatim>\<open>consumer.go\<close>).
  \<^verbatim>\<open>fmt.Errorf\<close> with \<^verbatim>\<open>%w\<close> is \<open>Wrapped\<close> with the formatted text,
  \<^verbatim>\<open>errors.Join\<close> is \<open>Joined\<close>. The texts of errors made by other packages are
  carried by their constructors. Lower-casing is written out for ASCII.
\<close>

datatype ErrKind =
    ValidationKind | UnauthorizedKind | ForbiddenKind | UnprocessableKind | HTTPKind
  | FailedPreconditionKind | InternalServerKind

datatype serror =
    TypedError ErrKind (se_EntityType: string) (se_Title: string) (se_Message: string) (se_Code: string)
      "serror option"
  | KnownFieldsError (se_EntityType: string) (se_Code: string) (se_Title: string) (se_Message: string)
      "(string, string) gomap"
  | UnknownFieldsError (se_EntityType: string) (se_Code: string) (se_Title: string) (se_Message: string)
      "(string, any) gomap"
  | StatusError nat (se_Code: string) (se_Title: string) (se_Message: string)
  | JsonSyntaxError string
  | JsonTypeError string
  | ContextCanceled
  | ContextDeadline
  | TenantSuspended string
  | TenantNotFound string
  | ServiceNotConfigured string
  | EngineFailure goerror
  | Plain string
  | Wrapped string serror
  | Joined "serror list"

text \<open>The text of an error that comes out of the Engine.\<close>

fun goerror_text :: "goerror \<Rightarrow> string" where
  "goerror_text (EngineError c m e) = engine_Error (EngineError c m e)"
| "goerror_text DeadlineExceeded = ''context deadline exceeded''"
| "goerror_text Canceled = ''context canceled''"
| "goerror_text (HostError s) = s"
| "goerror_text (WrappedError s _) = s"

text \<open>\<^verbatim>\<open>Error()\<close>; a \<^verbatim>\<open>ValidationError\<close> puts a nonblank code in front.\<close>

fun join_lines :: "string list \<Rightarrow> string" where
  "join_lines [] = []"
| "join_lines [x] = x"
| "join_lines (x # y # ys) = x @ CHR 0x0A # join_lines (y # ys)"

fun error_text :: "serror \<Rightarrow> string" where
  "error_text (TypedError kind _ _ message code _) =
     (if kind = ValidationKind \<and> \<not> isBlank code then code @ '' - '' @ message else message)"
| "error_text (KnownFieldsError _ _ _ message _) = message"
| "error_text (UnknownFieldsError _ _ _ message _) = message"
| "error_text (StatusError _ _ _ message) = message"
| "error_text (JsonSyntaxError s) = s"
| "error_text (JsonTypeError s) = s"
| "error_text ContextCanceled = ''context canceled''"
| "error_text ContextDeadline = ''context deadline exceeded''"
| "error_text (TenantSuspended s) = s"
| "error_text (TenantNotFound s) = s"
| "error_text (ServiceNotConfigured s) = s"
| "error_text (EngineFailure e) = goerror_text e"
| "error_text (Plain s) = s"
| "error_text (Wrapped s _) = s"
| "error_text (Joined es) = join_lines (map error_text es)"

definition wrap :: "string \<Rightarrow> serror \<Rightarrow> serror" where
  "wrap text err = Wrapped (text @ '': '' @ error_text err) err"

text \<open>The errors \<^verbatim>\<open>errors.Is\<close> and \<^verbatim>\<open>errors.As\<close> visit, depth first.\<close>

fun causes :: "serror \<Rightarrow> serror list" where
  "causes (TypedError k et t m c (Some e)) = TypedError k et t m c (Some e) # causes e"
| "causes (Wrapped s e) = Wrapped s e # causes e"
| "causes (Joined es) = Joined es # concat (map causes es)"
| "causes e = [e]"

subsection \<open>Retry classification\<close>

definition isPermanentTenantError :: "serror \<Rightarrow> bool" where
  "isPermanentTenantError err \<longleftrightarrow>
     (\<exists>e \<in> set (causes err). (case e of
        TenantSuspended _ \<Rightarrow> True | TenantNotFound _ \<Rightarrow> True | ServiceNotConfigured _ \<Rightarrow> True | _ \<Rightarrow> False))"

definition domain_kind :: "ErrKind \<Rightarrow> bool" where
  "domain_kind k \<longleftrightarrow> k \<in> {ValidationKind, ForbiddenKind, UnauthorizedKind, UnprocessableKind, FailedPreconditionKind}"

definition isNonRetryableDomainError :: "serror \<Rightarrow> bool" where
  "isNonRetryableDomainError err \<longleftrightarrow>
     (\<exists>e \<in> set (causes err). (case e of
        TypedError k _ _ _ _ _ \<Rightarrow> domain_kind k | KnownFieldsError _ _ _ _ _ \<Rightarrow> True
      | UnknownFieldsError _ _ _ _ _ \<Rightarrow> True | _ \<Rightarrow> False))"

definition lower_byte :: "char \<Rightarrow> char" where
  "lower_byte c = (let n = of_char c :: nat in if 65 \<le> n \<and> n \<le> 90 then char_of (n + 32) else c)"

definition ToLower :: "string \<Rightarrow> string" where
  "ToLower s = map lower_byte s"

definition permanentPatterns :: "string list" where
  "permanentPatterns =
     [''key not configured'', ''client is not configured'', ''payload is null'', ''has no tables'',
      ''does not support crm queries'', ''connection not found for database'',
      ''no collections found matching prefix'', ''unsupported database type'',
      ''unexpected schema result type'', ''unexpected query result type'',
      ''is unavailable (initialization failed)'', ''failed to initialize cipher'', ''no job data found'']"

definition isPermanentErrorByPattern :: "string \<Rightarrow> bool" where
  "isPermanentErrorByPattern errMsg \<longleftrightarrow> (\<exists>p \<in> set permanentPatterns. sublist p (ToLower errMsg))"

definition is_json_error :: "serror \<Rightarrow> bool" where
  "is_json_error e = (case e of JsonSyntaxError _ \<Rightarrow> True | JsonTypeError _ \<Rightarrow> True | _ \<Rightarrow> False)"

definition is_canceled :: "serror \<Rightarrow> bool" where
  "is_canceled e = (case e of ContextCanceled \<Rightarrow> True | EngineFailure g \<Rightarrow> errors_Is g Canceled | _ \<Rightarrow> False)"

definition isNonRetryableHandlerError :: "serror option \<Rightarrow> bool" where
  "isNonRetryableHandlerError err =
     (case err of
        None \<Rightarrow> False
      | Some e \<Rightarrow>
          if \<exists>x \<in> set (causes e). is_canceled x then True
          else if \<exists>x \<in> set (causes e). is_json_error x then True
          else if isPermanentTenantError e then True
          else if isNonRetryableDomainError e then True
          else if sublist ''FET-'' (error_text e) then True
          else isPermanentErrorByPattern (error_text e))"

subsection \<open>Wrapping keeps the classification\<close>

lemma causes_wrap [simp]: "causes (wrap s e) = wrap s e # causes e"
  by (simp add: wrap_def)

lemma ToLower_append [simp]: "ToLower (s @ t) = ToLower s @ ToLower t"
  by (simp add: ToLower_def)

lemma sublist_appendI: "sublist p t \<Longrightarrow> sublist p (s @ t)"
  by (auto simp: sublist_def) (metis append.assoc)

lemma wrap_permanent:
  assumes "isNonRetryableHandlerError (Some e)"
  shows "isNonRetryableHandlerError (Some (wrap s e))"
proof -
  have out: "error_text (wrap s e) = (s @ '': '') @ error_text e" by (simp add: wrap_def)
  have "sublist p (ToLower (error_text (wrap s e)))" if "sublist p (ToLower (error_text e))" for p
    using that unfolding out ToLower_append by (intro sublist_appendI)
  then have "isPermanentErrorByPattern (error_text (wrap s e))" if "isPermanentErrorByPattern (error_text e)"
    using that by (auto simp: isPermanentErrorByPattern_def)
  moreover have "sublist p (error_text (wrap s e))" if "sublist p (error_text e)" for p
    using that unfolding out by (rule sublist_appendI)
  ultimately show ?thesis
    using assms by (auto simp: isNonRetryableHandlerError_def isPermanentTenantError_def isNonRetryableDomainError_def
        split: if_splits)
qed

text \<open>A deadline is transient as long as no wrapper names a code or a permanent pattern.\<close>

lemma deadline_transient: "\<not> isNonRetryableHandlerError (Some ContextDeadline)"
  by code_simp

text \<open>The Engine reports a cancellation without its cause, so it is classified as transient.\<close>

lemma engine_cancel_transient:
  "\<not> isNonRetryableHandlerError
      (Some (wrap ''engine extraction'' (EngineFailure (NewEngineError CategoryCanceled ''execution canceled''))))"
  by code_simp

end
