(* ===== verification/Connection_Model.thy ===== *)
theory Connection_Model
  imports Service_Errors Go_Json
begin

text \<open>
  The connection of the services (\<^verbatim>\<open>pkg/model/connection.go\<close>): the record, its
  datasource types, and the names of its tables (\<^verbatim>\<open>pkg/schemautil\<close>,
  \<^verbatim>\<open>pkg/enginecompat/tablenorm\<close>, \<^verbatim>\<open>pkg/model/datasource\<close>). Case folding is
  written out for ASCII.
\<close>

type_synonym DBType = string

abbreviation TypeOracle :: DBType where
  "TypeOracle \<equiv> ''ORACLE''"
abbreviation TypeSQLServer :: DBType where
  "TypeSQLServer \<equiv> ''SQL_SERVER''"
abbreviation TypePostgreSQL :: DBType where
  "TypePostgreSQL \<equiv> ''POSTGRESQL''"
abbreviation TypeMongoDB :: DBType where
  "TypeMongoDB \<equiv> ''MONGODB''"
abbreviation TypeMySQL :: DBType where
  "TypeMySQL \<equiv> ''MYSQL''"

definition validTypes :: "DBType list" where
  "validTypes = [TypeOracle, TypeSQLServer, TypePostgreSQL, TypeMongoDB, TypeMySQL]"

definition dbType_IsValid :: "DBType \<Rightarrow> bool" where
  "dbType_IsValid t \<longleftrightarrow> t \<in> set validTypes"

record SSLConfig =
  ssl_Mode :: string
  ssl_CA :: string
  ssl_Cert :: string
  ssl_Key :: string

record Connection =
  cn_ID :: string
  cn_ProductName :: string
  cn_ConfigName :: string
  cn_Type :: DBType
  cn_Host :: string
  cn_Port :: int
  cn_DatabaseName :: string
  cn_Schema :: "string option"
  cn_Username :: string
  cn_PasswordEncrypted :: string
  cn_EncryptionKeyVersion :: string
  cn_SSL :: "SSLConfig option"
  cn_Metadata :: "(string, any) gomap option"
  cn_CreatedAt :: int
  cn_UpdatedAt :: int
  cn_DeletedAt :: "int option"
  cn_password :: string

definition upper_byte :: "char \<Rightarrow> char" where
  "upper_byte c = (let n = of_char c :: nat in if 97 \<le> n \<and> n \<le> 122 then char_of (n - 32) else c)"

definition ToUpper :: "string \<Rightarrow> string" where
  "ToUpper s = map upper_byte s"

definition EqualFold :: "string \<Rightarrow> string \<Rightarrow> bool" where
  "EqualFold s t \<longleftrightarrow> ToLower s = ToLower t"

definition NewTypeFromString :: "string \<Rightarrow> (serror, DBType) result" where
  "NewTypeFromString s =
     (let typ = ToUpper (TrimSpace s)
      in if dbType_IsValid typ then Inr typ else Inl (Plain ''invalid connection type''))"

subsection \<open>Table names\<close>

definition DefaultSchemaPostgreSQL :: string where
  "DefaultSchemaPostgreSQL = ''public''"

definition DefaultSchemaSQLServer :: string where
  "DefaultSchemaSQLServer = ''dbo''"

text \<open>\<^verbatim>\<open>strings.Split(s, ".")\<close>\<close>

fun split_dots :: "string \<Rightarrow> string list" where
  "split_dots [] = [[]]"
| "split_dots (c # s) =
     (if c = CHR ''.'' then [] # split_dots s
      else (case split_dots s of p # ps \<Rightarrow> (c # p) # ps | [] \<Rightarrow> [[c]]))"

definition ParseQualifiedTableName :: "string \<Rightarrow> string \<Rightarrow> (serror, string \<times> string) result" where
  "ParseQualifiedTableName qualifiedName defaultSchema =
     (let trimmed = TrimSpace qualifiedName
      in if trimmed = [] then Inl (Plain ''table name cannot be empty'')
         else (case split_dots trimmed of
                 [t] \<Rightarrow> Inr (defaultSchema, t)
               | [s, t] \<Rightarrow> Inr (s, t)
               | [_, s, t] \<Rightarrow> Inr (s, t)
               | _ \<Rightarrow> Inl (Plain ''invalid table name format'')))"

definition NormalizeTableNameForLookup :: "string \<Rightarrow> string \<Rightarrow> string" where
  "NormalizeTableNameForLookup tableName defaultSchema =
     (case ParseQualifiedTableName tableName defaultSchema of
        Inl _ \<Rightarrow> tableName
      | Inr (schemaName, simpleTable) \<Rightarrow>
          if schemaName = [] then simpleTable
          else if defaultSchema \<noteq> [] \<and> EqualFold schemaName defaultSchema then simpleTable
          else schemaName @ ''.'' @ simpleTable)"

definition QualifyTableName :: "string \<Rightarrow> string \<Rightarrow> string \<Rightarrow> string" where
  "QualifyTableName schema table defaultSchema =
     (if schema = defaultSchema \<or> schema = [] then table else schema @ ''.'' @ table)"

definition DefaultSchemaForType :: "DBType \<Rightarrow> string" where
  "DefaultSchemaForType dbType =
     (if dbType = TypePostgreSQL then DefaultSchemaPostgreSQL
      else if dbType = TypeSQLServer then DefaultSchemaSQLServer else [])"

definition FoldsFieldCase :: "DBType \<Rightarrow> bool" where
  "FoldsFieldCase dbType \<longleftrightarrow> dbType = TypeOracle"

definition NormalizeTable :: "DBType \<Rightarrow> string \<Rightarrow> string" where
  "NormalizeTable dbType tableName =
     (let normalized = NormalizeTableNameForLookup tableName (DefaultSchemaForType dbType)
      in if FoldsFieldCase dbType then ToUpper normalized else normalized)"

definition NormalizeField :: "DBType \<Rightarrow> string \<Rightarrow> string" where
  "NormalizeField dbType fieldName = (if FoldsFieldCase dbType then ToUpper fieldName else fieldName)"

definition before_dot :: "string \<Rightarrow> string option" where
  "before_dot s = (if CHR ''.'' \<in> set s then Some (takeWhile (\<lambda>c. c \<noteq> CHR ''.'') s) else None)"

text \<open>The schemas in the order the table map is visited; Go leaves the order open.\<close>

definition GetUniqueSchemas :: "(string, string list) gomap \<Rightarrow> string list" where
  "GetUniqueSchemas tables =
     remdups (filter (\<lambda>s. s \<noteq> [])
       (map TrimSpace (List.map_filter (\<lambda>(v, _). before_dot (TrimSpace v)) tables)))"

definition hasUnqualifiedTable :: "(string, string list) gomap \<Rightarrow> bool" where
  "hasUnqualifiedTable tables \<longleftrightarrow> (\<exists>(tableName, _) \<in> set tables. CHR ''.'' \<notin> set tableName)"

definition SchemaScopeForTables :: "DBType \<Rightarrow> (string, string list) gomap \<Rightarrow> string list" where
  "SchemaScopeForTables dbType tables =
     (let schemas = GetUniqueSchemas tables; defaultSchema = DefaultSchemaForType dbType
      in if defaultSchema = [] then schemas
         else if \<not> hasUnqualifiedTable tables \<or> defaultSchema \<in> set schemas then schemas
         else schemas @ [defaultSchema])"

end
