(* ===== verification/Job_Model.thy ===== *)
theory Job_Model
  imports Service_Errors Go_Json
begin

text \<open>
  The job of the services (\<^verbatim>\<open>pkg/model/job.go\<close>, \<^verbatim>\<open>pkg/model/job/job_queue.go\<close>):
  statuses, the job record, the request and its idempotency hash. A UUID is its canonical text,
  a time is a number. \<^verbatim>\<open>uuid.NewV7\<close> and SHA-256 are parameters. A nil slice is identified
  with an empty one, and a nil map too where the code never tells them apart.
\<close>

type_synonym uuid = string

definition uuid_Nil :: uuid where
  "uuid_Nil = ''00000000-0000-0000-0000-000000000000''"

type_synonym mapped_fields = "(string, (string, string list) gomap) gomap"

record FilterCondition =
  fc_Equals :: "any list"
  fc_GreaterThan :: "any list"
  fc_GreaterOrEqual :: "any list"
  fc_LessThan :: "any list"
  fc_LessOrEqual :: "any list"
  fc_Between :: "any list"
  fc_In :: "any list"
  fc_NotIn :: "any list"
  fc_NotEquals :: "any list"
  fc_Like :: "any list"

type_synonym NestedFilters = "(string, (string, (string, FilterCondition) gomap) gomap) gomap"

subsection \<open>Statuses\<close>

type_synonym JobStatus = string

abbreviation JobStatusPending :: JobStatus where
  "JobStatusPending \<equiv> ''pending''"
abbreviation JobStatusProcessing :: JobStatus where
  "JobStatusProcessing \<equiv> ''processing''"
abbreviation JobStatusCompleted :: JobStatus where
  "JobStatusCompleted \<equiv> ''completed''"
abbreviation JobStatusFailed :: JobStatus where
  "JobStatusFailed \<equiv> ''failed''"

definition validJobStatuses :: "JobStatus list" where
  "validJobStatuses = [JobStatusPending, JobStatusProcessing, JobStatusCompleted, JobStatusFailed]"

definition jobStatus_IsValid :: "JobStatus \<Rightarrow> bool" where
  "jobStatus_IsValid js \<longleftrightarrow> js \<in> set validJobStatuses"

definition NewJobStatusFromString :: "string \<Rightarrow> (serror, JobStatus) result" where
  "NewJobStatusFromString status =
     (let normalized = ToLower (TrimSpace status)
      in if \<not> jobStatus_IsValid normalized then Inl (Plain ''invalid job status'') else Inr normalized)"

subsection \<open>Jobs\<close>

record Job =
  jb_ID :: uuid
  jb_Metadata :: "(string, any) gomap"
  jb_MappedFields :: "mapped_fields option"
  jb_Filters :: NestedFilters
  jb_Status :: JobStatus
  jb_ResultPath :: string
  jb_ResultHMAC :: string
  jb_RequestHash :: string
  jb_CreatedAt :: int
  jb_CompletedAt :: "int option"

definition NewJob ::
  "(serror, uuid) result \<Rightarrow> (string, any) gomap \<Rightarrow> mapped_fields option \<Rightarrow> NestedFilters \<Rightarrow> JobStatus \<Rightarrow> string \<Rightarrow>
   string \<Rightarrow> int \<Rightarrow> int option \<Rightarrow> (serror, Job) result" where
  "NewJob fresh metadata mappedFields filters status resultPath requestHash createdAt completedAt =
     (case fresh of
        Inl err \<Rightarrow> Inl err
      | Inr i \<Rightarrow>
          Inr \<lparr>jb_ID = i, jb_Metadata = metadata, jb_MappedFields = mappedFields, jb_Filters = filters,
               jb_Status = status, jb_ResultPath = resultPath, jb_ResultHMAC = [], jb_RequestHash = requestHash,
               jb_CreatedAt = createdAt, jb_CompletedAt = completedAt\<rparr>)"

fun join_semicolons :: "string list \<Rightarrow> string" where
  "join_semicolons [] = []"
| "join_semicolons [x] = x"
| "join_semicolons (x # y # ys) = x @ ''; '' @ join_semicolons (y # ys)"

definition ValidateFilterReferences :: "NestedFilters \<Rightarrow> mapped_fields \<Rightarrow> serror option" where
  "ValidateFilterReferences filters mappedFields =
     (let validationErrors =
        map (\<lambda>(datasourceName, _).
               ''filter references unknown datasource '' @ [CHR 0x27] @ datasourceName @ [CHR 0x27] @
               '' not found in mappedFields'')
          (filter (\<lambda>(datasourceName, _). map_of mappedFields datasourceName = None) filters)
      in if validationErrors = [] then None else Some (Plain (join_semicolons validationErrors)))"

definition MaxDatasourcesPerJob :: nat where
  "MaxDatasourcesPerJob = 10"

definition invalidDataRequest :: "string \<Rightarrow> serror option \<Rightarrow> serror" where
  "invalidDataRequest message inner =
     TypedError ValidationKind ''fetcher'' ''Invalid Data Request'' message ''FET-0401'' inner"

definition GetDatasourceNames :: "Job \<Rightarrow> string list" where
  "GetDatasourceNames r = (case jb_MappedFields r of None \<Rightarrow> [] | Some m \<Rightarrow> sortedKeys m)"

definition job_IsValid :: "Job \<Rightarrow> serror option" where
  "job_IsValid r =
     (case jb_MappedFields r of
        None \<Rightarrow>
          Some (invalidDataRequest ''mappedFields is required'' (Some (Plain ''mappedFields is required'')))
      | Some m \<Rightarrow>
          if m = []
          then Some (invalidDataRequest ''mappedFields cannot be empty'' (Some (Plain ''mappedFields cannot be empty'')))
          else if \<exists>(_, tables) \<in> set m. \<forall>(_, fields) \<in> set tables. fields = []
          then Some (invalidDataRequest ''datasource must have at least one table with fields''
                 (Some (Plain ''datasource must have at least one table with fields'')))
          else
            (let datasourceNames = GetDatasourceNames r
             in if datasourceNames = []
                then Some (invalidDataRequest ''mappedFields must contain at least one datasource'' None)
                else if length datasourceNames > MaxDatasourcesPerJob
                then Some (invalidDataRequest
                       (''Maximum '' @ itoa (int MaxDatasourcesPerJob) @ '' datasources allowed per job, got '' @
                        itoa (int (length datasourceNames))) None)
                else None))"

definition ToMappedFieldsMap :: "Job \<Rightarrow> (string, any) gomap" where
  "ToMappedFieldsMap r =
     (case jb_MappedFields r of
        None \<Rightarrow> []
      | Some m \<Rightarrow> map (\<lambda>(datasource, tables).
          (datasource, AMap (map (\<lambda>(table, fields). (table, ASlice (map AString fields))) tables))) m)"

definition SetFailedStatus :: "int \<Rightarrow> string \<Rightarrow> Job \<Rightarrow> Job" where
  "SetFailedStatus now failedMsg r =
     r\<lparr>jb_Status := JobStatusFailed, jb_CompletedAt := Some now,
       jb_Metadata := AList.update ''error'' (AString failedMsg) (jb_Metadata r)\<rparr>"

subsection \<open>The request and its hash\<close>

record DataRequest =
  dq_MappedFields :: "mapped_fields option"
  dq_Filters :: NestedFilters

record FetcherRequest =
  fr_DataRequest :: DataRequest
  fr_Metadata :: "(string, any) gomap option"

text \<open>A \<^verbatim>\<open>FilterCondition\<close> prints its nonempty lists in declaration order.\<close>

definition list_member :: "string \<Rightarrow> any list \<Rightarrow> (string \<times> any list) list" where
  "list_member name vs = (if vs = [] then [] else [(name, vs)])"

definition condition_members :: "FilterCondition \<Rightarrow> (string \<times> any list) list" where
  "condition_members c =
     list_member ''eq'' (fc_Equals c) @ list_member ''gt'' (fc_GreaterThan c) @
     list_member ''gte'' (fc_GreaterOrEqual c) @ list_member ''lt'' (fc_LessThan c) @
     list_member ''lte'' (fc_LessOrEqual c) @ list_member ''between'' (fc_Between c) @
     list_member ''in'' (fc_In c) @ list_member ''nin'' (fc_NotIn c) @ list_member ''ne'' (fc_NotEquals c) @
     list_member ''like'' (fc_Like c)"

text \<open>A struct is an object in declaration order, a map one in key order.\<close>

definition json_struct :: "(string \<times> json option) list \<Rightarrow> json option" where
  "json_struct ms = map_option JObj (those (map (\<lambda>(k, r). map_option (Pair (json_quote k)) r) ms))"

definition json_map :: "('a \<Rightarrow> json option) \<Rightarrow> (string, 'a) gomap \<Rightarrow> json option" where
  "json_map f m = json_struct (map (map_prod id f) (in_key_order m))"

definition json_condition :: "FilterCondition \<Rightarrow> json option" where
  "json_condition c = json_struct (map (\<lambda>(k, vs). (k, encode (ASlice vs))) (condition_members c))"

definition json_fields :: "mapped_fields \<Rightarrow> json option" where
  "json_fields = json_map (json_map (\<lambda>fields. encode (ASlice (map AString fields))))"

definition json_filters :: "NestedFilters \<Rightarrow> json option" where
  "json_filters = json_map (json_map (json_map json_condition))"

definition json_request :: "FetcherRequest \<Rightarrow> json option" where
  "json_request r =
     (let d = fr_DataRequest r;
          fields = (case dq_MappedFields d of None \<Rightarrow> Some (JAtom ''null'') | Some m \<Rightarrow> json_fields m);
          filters = (if dq_Filters d = [] then [] else [(''filters'', json_filters (dq_Filters d))]);
          metadata = (case fr_Metadata r of
            None \<Rightarrow> [] | Some m \<Rightarrow> if m = [] then [] else [(''metadata'', json_map encode m)])
      in json_struct ([(''dataRequest'', json_struct ((''mappedFields'', fields) # filters))] @ metadata))"

definition ComputeRequestHash :: "(string \<Rightarrow> string) \<Rightarrow> FetcherRequest \<Rightarrow> (serror, string) result" where
  "ComputeRequestHash sha r =
     (case json_request r of
        None \<Rightarrow> Inl (Plain ''json: unsupported value'')
      | Some j \<Rightarrow> Inr (sha (compact j)))"

subsection \<open>The response\<close>

record JobResponse =
  jo_ID :: uuid
  jo_Metadata :: "(string, any) gomap"
  jo_MappedFields :: "mapped_fields option"
  jo_Filters :: NestedFilters
  jo_Status :: string
  jo_ResultPath :: string
  jo_ResultHmac :: string
  jo_RequestHash :: string
  jo_CreatedAt :: int
  jo_CompletedAt :: "int option"

definition internal_key :: "string \<Rightarrow> bool" where
  "internal_key key \<longleftrightarrow> key \<in> {''terminalEventPending'', ''terminalEventStatus'', ''terminalEventPayload''}"

definition publicJobMetadata :: "(string, any) gomap \<Rightarrow> (string, any) gomap" where
  "publicJobMetadata metadata = filter (\<lambda>(key, _). \<not> internal_key key) metadata"

definition NewJobResponseFrom :: "Job \<Rightarrow> JobResponse" where
  "NewJobResponseFrom j =
     \<lparr>jo_ID = jb_ID j, jo_Metadata = publicJobMetadata (jb_Metadata j), jo_MappedFields = jb_MappedFields j,
      jo_Filters = jb_Filters j, jo_Status = jb_Status j, jo_ResultPath = jb_ResultPath j,
      jo_ResultHmac = jb_ResultHMAC j, jo_RequestHash = jb_RequestHash j, jo_CreatedAt = jb_CreatedAt j,
      jo_CompletedAt = jb_CompletedAt j\<rparr>"

subsection \<open>The hash does not depend on map order\<close>

lemma sort_key_map_fst: "sort_key fst (map (map_prod id f) m) = map (map_prod id f) (sort_key fst m)"
proof -
  have ins: "insort_key fst (a, f b) (map (map_prod id f) xs) = map (map_prod id f) (insort_key fst (a, b) xs)" for a b xs
    by (induction xs) auto
  show ?thesis by (induction m) (auto simp: ins[unfolded id_def] id_def)
qed

lemma those_Some_iff: "those xs \<noteq> None \<longleftrightarrow> None \<notin> set xs"
  by (induction xs) (auto split: option.splits)

lemma json_struct_Some: "json_struct ms \<noteq> None \<longleftrightarrow> (\<forall>(_, r) \<in> set ms. r \<noteq> None)"
proof -
  have "json_struct ms \<noteq> None \<longleftrightarrow> None \<notin> (\<lambda>(k, r). map_option (Pair (json_quote k)) r) ` set ms"
    using those_Some_iff[of "map (\<lambda>(k, r). map_option (Pair (json_quote k)) r) ms"] by (simp add: json_struct_def)
  also have "\<dots> \<longleftrightarrow> (\<forall>(_, r) \<in> set ms. r \<noteq> None)" by (force simp: image_iff)
  finally show ?thesis .
qed

lemma json_map_Some_iff: "json_map f m \<noteq> None \<longleftrightarrow> (\<forall>(_, v) \<in> set m. f v \<noteq> None)"
  unfolding json_map_def json_struct_Some by (force simp: in_key_order_def)

lemma json_map_cong:
  assumes "map_rel R m m'" and "\<And>v v'. R v v' \<Longrightarrow> f v = f' v'"
  shows "json_map f m = json_map f' m'"
proof -
  have "map_option f (map_of m k) = map_option f' (map_of m' k)" for k
  proof -
    have "rel_option R (map_of m k) (map_of m' k)" using assms(1) by (simp add: map_rel_def)
    then show ?thesis using assms(2) by (cases rule: option.rel_cases) auto
  qed
  then have "map_of (map (map_prod id f) m) = map_of (map (map_prod id f') m')"
    by (auto simp: map_prod_def map_of_map fun_eq_iff)
  then have "same_map (map (map_prod id f) m) (map (map_prod id f') m')"
    using assms(1) by (simp add: same_map_def map_rel_def map_prod_def)
  from in_key_order_same_map[OF this] show ?thesis
    by (simp add: json_map_def in_key_order_def sort_key_map_fst)
qed

text \<open>Two requests whose Go maps are equal, at every level.\<close>

definition same_fetcher_request :: "FetcherRequest \<Rightarrow> FetcherRequest \<Rightarrow> bool" where
  "same_fetcher_request r r' \<longleftrightarrow>
     rel_option (map_rel same_map) (dq_MappedFields (fr_DataRequest r)) (dq_MappedFields (fr_DataRequest r')) \<and>
     map_rel (map_rel same_map) (dq_Filters (fr_DataRequest r)) (dq_Filters (fr_DataRequest r')) \<and>
     rel_option same_map (fr_Metadata r) (fr_Metadata r')"

lemma same_map_rel: "same_map m m' \<Longrightarrow> map_rel (=) m m'"
  by (simp add: map_rel_def same_map_def option.rel_eq)

lemma map_rel_Nil: "map_rel R m m' \<Longrightarrow> m = [] \<longleftrightarrow> m' = []"
proof -
  assume "map_rel R m m'"
  then have "map_of m k = None \<longleftrightarrow> map_of m' k = None" for k
    by (metis (no_types) map_rel_def option.rel_distinct option.exhaust)
  then have "fst ` set m = fst ` set m'" by (metis (no_types, lifting) map_of_eq_None_iff set_eqI)
  then show ?thesis by auto
qed

lemma json_request_same:
  assumes "same_fetcher_request r r'"
  shows "json_request r = json_request r'"
proof -
  have fields: "json_fields m = json_fields m'" if "map_rel same_map m m'" for m m'
    unfolding json_fields_def by (rule json_map_cong[OF that]) (auto intro: json_map_cong same_map_rel)
  have filters: "json_filters m = json_filters m'" if "map_rel (map_rel same_map) m m'" for m m'
    unfolding json_filters_def by (rule json_map_cong[OF that]) (auto intro!: json_map_cong same_map_rel)
  have "rel_option same_map (fr_Metadata r) (fr_Metadata r')" using assms by (simp add: same_fetcher_request_def)
  then have md: "(case fr_Metadata r of None \<Rightarrow> [] | Some m \<Rightarrow> if m = [] then [] else [(''metadata'', json_map encode m)]) =
      (case fr_Metadata r' of None \<Rightarrow> [] | Some m \<Rightarrow> if m = [] then [] else [(''metadata'', json_map encode m)])"
    by (cases rule: option.rel_cases) (auto dest: map_rel_Nil[OF same_map_rel] intro: json_map_cong same_map_rel)
  have "(case dq_MappedFields (fr_DataRequest r) of None \<Rightarrow> Some (JAtom ''null'') | Some m \<Rightarrow> json_fields m) =
      (case dq_MappedFields (fr_DataRequest r') of None \<Rightarrow> Some (JAtom ''null'') | Some m \<Rightarrow> json_fields m)"
    using assms fields by (auto simp: same_fetcher_request_def elim: option.rel_cases)
  moreover have "dq_Filters (fr_DataRequest r) = [] \<longleftrightarrow> dq_Filters (fr_DataRequest r') = []"
    using assms map_rel_Nil by (auto simp: same_fetcher_request_def)
  moreover have "json_filters (dq_Filters (fr_DataRequest r)) = json_filters (dq_Filters (fr_DataRequest r'))"
    using assms filters by (simp add: same_fetcher_request_def)
  ultimately show ?thesis using md by (simp add: json_request_def Let_def)
qed

end
