(* ===== verification/Worker_Request.thy ===== *)
theory Worker_Request
  imports Connection_Model Job_Model Engine_Types
begin

text \<open>
  From a queued job to an Engine request (\<^verbatim>\<open>worker/internal/services/extract_engine.go\<close>):
  the split of the CRM part, the canonical table and field names, the filters. A \<^verbatim>\<open>range\<close> over
  a Go map is a fold over the association list, whose order is the one the runtime happens to take.
\<close>

record ExtractExternalDataMessage =
  em_JobID :: uuid
  em_MappedFields :: mapped_fields
  em_Filters :: NestedFilters
  em_Metadata :: "(string, any) gomap"

definition plugincrm_ConfigName :: string where
  "plugincrm_ConfigName = ''plugin_crm''"

definition IsPluginCRM :: "string \<Rightarrow> bool" where
  "IsPluginCRM configName \<longleftrightarrow> configName = plugincrm_ConfigName"

definition mongoConfigsByName :: "Connection list \<Rightarrow> string \<Rightarrow> bool" where
  "mongoConfigsByName connections name \<longleftrightarrow>
     (\<exists>conn \<in> set connections. cn_Type conn = TypeMongoDB \<and> cn_ConfigName conn = name)"

definition subMessage :: "ExtractExternalDataMessage \<Rightarrow> mapped_fields \<Rightarrow> ExtractExternalDataMessage" where
  "subMessage message chosen =
     message\<lparr>em_MappedFields := chosen,
       em_Filters := List.map_filter
         (\<lambda>(configName, _). map_option (Pair configName) (map_of (em_Filters message) configName)) chosen\<rparr>"

definition splitCRMCompatibility ::
  "ExtractExternalDataMessage \<Rightarrow> Connection list \<Rightarrow>
   ExtractExternalDataMessage option \<times> ExtractExternalDataMessage option" where
  "splitCRMCompatibility message connections =
     (let crm = (\<lambda>(configName, _). IsPluginCRM configName \<and> mongoConfigsByName connections configName);
          crmFields = filter crm (em_MappedFields message);
          genericFields = filter (\<lambda>x. \<not> crm x) (em_MappedFields message)
      in (if crmFields \<noteq> [] then Some (subMessage message crmFields) else None,
          if genericFields \<noteq> [] then Some (subMessage message genericFields) else None))"

text \<open>The first connection of a name decides its type; an unknown name has the empty type.\<close>

definition datasourceTypesByConfig :: "Connection list \<Rightarrow> string \<Rightarrow> DBType" where
  "datasourceTypesByConfig connections name =
     (case find (\<lambda>conn. cn_ConfigName conn = name) connections of None \<Rightarrow> [] | Some conn \<Rightarrow> cn_Type conn)"

fun append_unseen :: "string list \<Rightarrow> string list \<Rightarrow> string list" where
  "append_unseen out [] = out"
| "append_unseen out (f # fs) = append_unseen (if f \<in> set out then out else out @ [f]) fs"

definition appendUniqueFields :: "string list \<Rightarrow> string list \<Rightarrow> string list" where
  "appendUniqueFields base extra = append_unseen base extra"

definition normalizeFieldsForType :: "DBType \<Rightarrow> string list \<Rightarrow> string list" where
  "normalizeFieldsForType dbType names =
     (if \<not> FoldsFieldCase dbType then names else map (NormalizeField dbType) names)"

definition mapTables :: "DBType \<Rightarrow> (string, string list) gomap \<Rightarrow> FieldSelection" where
  "mapTables dbType tables =
     foldl (\<lambda>selection (table, fields).
       let normTable = NormalizeTable dbType table; normFields = normalizeFieldsForType dbType fields
       in AList.update normTable
            (case map_of selection normTable of
               Some existing \<Rightarrow> appendUniqueFields existing normFields
             | None \<Rightarrow> normFields) selection) [] tables"

definition mapMappedFields :: "mapped_fields \<Rightarrow> (string \<Rightarrow> DBType) \<Rightarrow> (string, FieldSelection) gomap" where
  "mapMappedFields mappedFields typesByConfig =
     map (\<lambda>(configName, tables). (configName, mapTables (typesByConfig configName) tables)) mappedFields"

text \<open>A filter condition travels through the Engine as an opaque value of its own type: its nonempty operators.\<close>

definition condition_type :: string where
  "condition_type = ''job.FilterCondition''"

definition condition_any :: "FilterCondition \<Rightarrow> any" where
  "condition_any c = ATyped condition_type (AMap (map (\<lambda>(k, vs). (k, ASlice vs)) (condition_members c)))"

definition mapConditions :: "DBType \<Rightarrow> (string, FilterCondition) gomap \<Rightarrow> (string, any) gomap" where
  "mapConditions dbType conditions =
     foldl (\<lambda>fieldMap (field, condition). AList.update (NormalizeField dbType field) (condition_any condition) fieldMap)
       [] conditions"

definition merge_missing :: "(string, any) gomap \<Rightarrow> (string, any) gomap \<Rightarrow> (string, any) gomap" where
  "merge_missing merged fieldMap =
     foldl (\<lambda>m k. case (map_of m k, map_of fieldMap k) of
         (None, Some v) \<Rightarrow> AList.update k v m
       | _ \<Rightarrow> m) merged (sortedKeys fieldMap)"

definition mapTableFilters ::
  "DBType \<Rightarrow> (string, (string, FilterCondition) gomap) gomap \<Rightarrow> (string, (string, any) gomap) gomap" where
  "mapTableFilters dbType tables =
     foldl (\<lambda>tableMap (table, conditions).
       let fieldMap = mapConditions dbType conditions; normTable = NormalizeTable dbType table
       in AList.update normTable
            (case map_of tableMap normTable of
               Some existing \<Rightarrow> merge_missing existing fieldMap
             | None \<Rightarrow> fieldMap) tableMap) [] tables"

definition mapFilters :: "NestedFilters \<Rightarrow> (string \<Rightarrow> DBType) \<Rightarrow> (string, any) gomap" where
  "mapFilters filters typesByConfig =
     map (\<lambda>(configName, tables).
       (configName, AMap (map (\<lambda>(table, fields). (table, AMap fields))
          (mapTableFilters (typesByConfig configName) tables)))) filters"

definition mapJobToExtractionRequest :: "ExtractExternalDataMessage \<Rightarrow> Connection list \<Rightarrow> ExtractionRequest" where
  "mapJobToExtractionRequest message connections =
     (let typesByConfig = datasourceTypesByConfig connections
      in \<lparr>MappedFields = mapMappedFields (em_MappedFields message) typesByConfig,
          Filters = mapFilters (em_Filters message) typesByConfig,
          Metadata = em_Metadata message, Overrides = None\<rparr>)"

definition validateDirectResult :: "ExtractionResult \<Rightarrow> (serror, DirectResult) result" where
  "validateDirectResult res =
     (case (er_Direct res, er_Reference res) of
        (None, Some _) \<Rightarrow> Inl (Plain ''engine returned a store-mode reference result; worker expects direct mode'')
      | (Some _, Some _) \<Rightarrow> Inl (Plain ''engine returned both direct and reference results; expected exactly one'')
      | (None, None) \<Rightarrow> Inl (Plain ''engine returned no direct result payload'')
      | (Some d, None) \<Rightarrow> Inr d)"

subsection \<open>No requested column is lost\<close>

lemma set_append_unseen [simp]: "set (append_unseen out fs) = set out \<union> set fs"
  by (induction out fs rule: append_unseen.induct) auto

lemma set_normalizeFields [simp]: "set (normalizeFieldsForType t fs) = NormalizeField t ` set fs"
  by (auto simp: normalizeFieldsForType_def NormalizeField_def)

definition requested :: "DBType \<Rightarrow> (string, string list) gomap \<Rightarrow> string \<Rightarrow> string set" where
  "requested t tables table =
     {NormalizeField t f |f fs name. (name, fs) \<in> set tables \<and> f \<in> set fs \<and> NormalizeTable t name = table}"

lemma mapTables_snoc:
  "mapTables t (tables @ [(name, fs)]) =
     AList.update (NormalizeTable t name)
       (case map_of (mapTables t tables) (NormalizeTable t name) of
          Some existing \<Rightarrow> appendUniqueFields existing (normalizeFieldsForType t fs)
        | None \<Rightarrow> normalizeFieldsForType t fs) (mapTables t tables)"
  by (simp add: mapTables_def Let_def)

lemma map_ok_mapTables [simp]: "map_ok (mapTables t tables)"
  by (induction tables rule: rev_induct) (auto simp: mapTables_snoc simp: mapTables_def[of t "[]"])

lemma dom_mapTables: "dom (map_of (mapTables t tables)) = NormalizeTable t ` fst ` set tables"
proof (induction tables rule: rev_induct)
  case Nil
  then show ?case by (simp add: mapTables_def)
next
  case (snoc x tables)
  then show ?case by (cases x) (auto simp: mapTables_snoc dom_if)
qed

lemma set_mapTables: "set (slice_at (mapTables t tables) table) = requested t tables table"
proof (induction tables rule: rev_induct)
  case Nil
  then show ?case by (simp add: mapTables_def slice_at_def requested_def)
next
  case (snoc x tables)
  obtain name fs where x: "x = (name, fs)" by (cases x)
  have split: "requested t (tables @ [x]) table =
      requested t tables table \<union> (if NormalizeTable t name = table then NormalizeField t ` set fs else {})"
    by (auto simp: requested_def x)
  show ?case
    using snoc unfolding split
    by (auto simp: x mapTables_snoc slice_at_def appendUniqueFields_def split: option.splits)
qed

text \<open>The columns the Engine is asked for do not depend on the iteration order of the job's maps.\<close>

lemma requested_same: "same_map tables tables' \<Longrightarrow> requested t tables = requested t tables'"
  by (rule ext) (simp add: requested_def same_map_set)

end
