(* ===== verification/Job_Repository.thy ===== *)
theory Job_Repository
  imports Job_Model
begin

text \<open>
  The job repository over MongoDB (\<^verbatim>\<open>pkg/mongodb/job/job.go\<close>,
  \<^verbatim>\<open>job.mongodb.go\<close>). A stored document is the record \<open>JobMongoDBModel\<close>; a filter is the
  list of conditions of the \<^verbatim>\<open>bson.M\<close> the code builds, an update its
  \<^verbatim>\<open>$set\<close> and \<^verbatim>\<open>$unset\<close> entries. The driver's collection is a parameter: a record
  of functions on the world. The database of the tenant is resolved before each call.
\<close>

record JobMongoDBModel =
  jm_ID :: uuid
  jm_Metadata :: "(string, any) gomap"
  jm_MappedFields :: "mapped_fields option"
  jm_Filters :: NestedFilters
  jm_Status :: string
  jm_DedupActive :: bool
  jm_ResultPath :: string
  jm_ResultHMAC :: string
  jm_RequestHash :: string
  jm_CreatedAt :: int
  jm_CompletedAt :: "int option"

definition isDedupActive :: "JobStatus \<Rightarrow> bool" where
  "isDedupActive status \<longleftrightarrow> status = JobStatusPending \<or> status = JobStatusProcessing"

definition ToEntity :: "JobMongoDBModel \<Rightarrow> (serror, Job) result" where
  "ToEntity jm =
     (case NewJobStatusFromString (jm_Status jm) of
        Inl err \<Rightarrow> Inl err
      | Inr jobStatus \<Rightarrow>
          Inr \<lparr>jb_ID = jm_ID jm, jb_Metadata = jm_Metadata jm, jb_MappedFields = jm_MappedFields jm,
               jb_Filters = jm_Filters jm, jb_Status = jobStatus, jb_ResultPath = jm_ResultPath jm,
               jb_ResultHMAC = jm_ResultHMAC jm, jb_RequestHash = jm_RequestHash jm,
               jb_CreatedAt = jm_CreatedAt jm, jb_CompletedAt = jm_CompletedAt jm\<rparr>)"

definition FromEntity :: "Job \<Rightarrow> JobMongoDBModel" where
  "FromEntity job =
     \<lparr>jm_ID = jb_ID job, jm_Metadata = jb_Metadata job, jm_MappedFields = jb_MappedFields job,
      jm_Filters = jb_Filters job, jm_Status = jb_Status job, jm_DedupActive = isDedupActive (jb_Status job),
      jm_ResultPath = jb_ResultPath job, jm_ResultHMAC = jb_ResultHMAC job, jm_RequestHash = jb_RequestHash job,
      jm_CreatedAt = jb_CreatedAt job, jm_CompletedAt = jb_CompletedAt job\<rparr>"

subsection \<open>The driver's vocabulary\<close>

datatype cond =
    IdIs uuid
  | HashIs string
  | StatusIs string
  | StatusIn "string list"
  | CreatedFrom int
  | CreatedTo int
  | CompletedFrom int
  | CompletedTo int
  | MetadataIs string any
  | MappedExists string

datatype assignment =
    SetStatus string
  | SetDedupActive bool
  | SetCompletedAt "int option"
  | SetResultPath string
  | SetResultHMAC string
  | SetMetadataKey string any
  | SetMetadata "(string, any) gomap"
  | SetMappedFields "mapped_fields option"
  | SetFilters NestedFilters

datatype removal = UnsetCompletedAt | UnsetMetadataKey string

type_synonym update = "assignment list \<times> removal list"

datatype sort_key = ByCreated bool | ByCompleted bool

record 'w JobCollection =
  ResolveDatabase :: "'w \<Rightarrow> serror option \<times> 'w"
  InsertOne :: "JobMongoDBModel \<Rightarrow> 'w \<Rightarrow> serror option \<times> 'w"
  UpdateOne :: "cond list \<Rightarrow> update \<Rightarrow> 'w \<Rightarrow> (serror, nat) result \<times> 'w"
  FindOneAndUpdate :: "cond list \<Rightarrow> update \<Rightarrow> 'w \<Rightarrow> (serror, JobMongoDBModel) result \<times> 'w"
  FindOne :: "cond list \<Rightarrow> sort_key list \<Rightarrow> 'w \<Rightarrow> (serror, JobMongoDBModel option) result \<times> 'w"
  Find :: "cond list \<Rightarrow> sort_key list \<Rightarrow> int \<Rightarrow> int \<Rightarrow> 'w \<Rightarrow> (serror, JobMongoDBModel list) result \<times> 'w"
  CountDocuments :: "cond list \<Rightarrow> int \<Rightarrow> 'w \<Rightarrow> (serror, int) result \<times> 'w"
  now_UTC :: "'w \<Rightarrow> int \<times> 'w"

definition with_database ::
  "'w JobCollection \<Rightarrow> ('w \<Rightarrow> (serror, 'a) result \<times> 'w) \<Rightarrow> 'w \<Rightarrow> (serror, 'a) result \<times> 'w" where
  "with_database coll body w =
     (case ResolveDatabase coll w of
        (Some err, w1) \<Rightarrow> (Inl (wrap ''failed to get database connection'' err), w1)
      | (None, w1) \<Rightarrow> body w1)"

text \<open>\<^verbatim>\<open>pkg.ValidateInternalError\<close> on an error that is none of its sentinels.\<close>

definition internalError :: "serror \<Rightarrow> serror" where
  "internalError err =
     TypedError InternalServerKind ''job'' ''Internal Server Error''
       ''The server encountered an unexpected error. Please try again later or contact support.'' ''FET-0002'' (Some err)"

definition entity :: "JobMongoDBModel \<Rightarrow> (serror, Job) result" where
  "entity jm = (case ToEntity jm of Inl err \<Rightarrow> Inl (internalError err) | Inr j \<Rightarrow> Inr j)"

subsection \<open>Writes\<close>

definition repo_Create :: "'w JobCollection \<Rightarrow> Job \<Rightarrow> 'w \<Rightarrow> (serror, Job) result \<times> 'w" where
  "repo_Create coll job =
     with_database coll (\<lambda>w.
       let jm = FromEntity job
       in case InsertOne coll jm w of
            (Some err, w1) \<Rightarrow> (Inl (wrap ''failed to insert job'' err), w1)
          | (None, w1) \<Rightarrow> (entity jm, w1))"

definition repo_Update :: "'w JobCollection \<Rightarrow> Job \<Rightarrow> 'w \<Rightarrow> (serror, Job) result \<times> 'w" where
  "repo_Update coll job =
     with_database coll (\<lambda>w.
       case FindOneAndUpdate coll [IdIs (jb_ID job)]
              ([SetMetadata (jb_Metadata job), SetMappedFields (jb_MappedFields job), SetFilters (jb_Filters job),
                SetStatus (jb_Status job), SetDedupActive (isDedupActive (jb_Status job)),
                SetResultPath (jb_ResultPath job), SetResultHMAC (jb_ResultHMAC job),
                SetCompletedAt (jb_CompletedAt job)], []) w of
         (Inl err, w1) \<Rightarrow> (Inl (wrap ''failed to update job'' err), w1)
       | (Inr jm, w1) \<Rightarrow> (entity jm, w1))"

definition bad_metadata_key :: "string \<Rightarrow> bool" where
  "bad_metadata_key k \<longleftrightarrow> CHR ''.'' \<in> set k \<or> prefix ''$'' k"

text \<open>The \<^verbatim>\<open>%q\<close> form of a key is written for printable ASCII without quotes or backslashes.\<close>

definition badKeyError :: "string \<Rightarrow> serror" where
  "badKeyError k =
     Plain (''invalid metadata key '' @ [CHR 0x22] @ k @ [CHR 0x22] @ '': must not contain '' @ [CHR 0x27] @ ''.'' @
       [CHR 0x27] @ '' or start with '' @ [CHR 0x27] @ ''$'' @ [CHR 0x27])"

definition jobNotFound :: serror where
  "jobNotFound = Plain ''job not found''"

text \<open>The update document of \<open>UpdateStatus\<close>.\<close>

definition status_update :: "JobStatus \<Rightarrow> string \<Rightarrow> string \<Rightarrow> (string, any) gomap \<Rightarrow> int \<Rightarrow> update" where
  "status_update status resultPath resultHMAC metadata now =
     ([SetStatus status, SetDedupActive (isDedupActive status)] @
      (if status = JobStatusCompleted \<or> status = JobStatusFailed then [SetCompletedAt (Some now)] else []) @
      (if resultPath \<noteq> [] then [SetResultPath resultPath] else []) @
      (if resultHMAC \<noteq> [] then [SetResultHMAC resultHMAC] else []) @
      map (\<lambda>(k, v). SetMetadataKey k v) metadata,
      if status = JobStatusCompleted \<or> status = JobStatusFailed then [] else [UnsetCompletedAt])"

definition matched_one :: "string \<Rightarrow> (serror, nat) result \<times> 'w \<Rightarrow> serror option \<times> 'w" where
  "matched_one message out =
     (case out of
        (Inl err, w) \<Rightarrow> (Some (wrap message err), w)
      | (Inr n, w) \<Rightarrow> (if n = 0 then Some jobNotFound else None, w))"

definition repo_UpdateStatus ::
  "'w JobCollection \<Rightarrow> uuid \<Rightarrow> JobStatus \<Rightarrow> string \<Rightarrow> string \<Rightarrow> (string, any) gomap \<Rightarrow> 'w \<Rightarrow> serror option \<times> 'w" where
  "repo_UpdateStatus coll i status resultPath resultHMAC metadata w =
     (if \<not> jobStatus_IsValid status then (Some (Plain ''invalid job status''), w)
      else
        (case ResolveDatabase coll w of
           (Some err, w1) \<Rightarrow> (Some (wrap ''failed to get database connection'' err), w1)
         | (None, w1) \<Rightarrow>
            (case (if status = JobStatusCompleted \<or> status = JobStatusFailed then now_UTC coll w1 else (0, w1)) of
               (now, w2) \<Rightarrow>
                 (case filter (\<lambda>(k, _). bad_metadata_key k) metadata of
                    (k, _) # _ \<Rightarrow>
                      (Some (badKeyError k), w2)
                  | [] \<Rightarrow>
                      matched_one ''failed to update job status''
                        (UpdateOne coll [IdIs i] (status_update status resultPath resultHMAC metadata now) w2)))))"

definition terminal_event_keys :: "string list" where
  "terminal_event_keys = [''terminalEventPending'', ''terminalEventStatus'', ''terminalEventPayload'']"

definition repo_ClearTerminalEventMetadata :: "'w JobCollection \<Rightarrow> uuid \<Rightarrow> 'w \<Rightarrow> serror option \<times> 'w" where
  "repo_ClearTerminalEventMetadata coll i w =
     (case ResolveDatabase coll w of
        (Some err, w1) \<Rightarrow> (Some (wrap ''failed to get database connection'' err), w1)
      | (None, w1) \<Rightarrow>
          matched_one ''failed to clear terminal event metadata''
            (UpdateOne coll [IdIs i] ([], map UnsetMetadataKey terminal_event_keys) w1))"

subsection \<open>Reads\<close>

definition defaultJobPageLimit :: int where
  "defaultJobPageLimit = 10"

definition maxJobPageLimit :: int where
  "maxJobPageLimit = 50"

text \<open>\<^verbatim>\<open>scanJobs\<close> stops at the first document that is no entity.\<close>

fun scanJobs :: "JobMongoDBModel list \<Rightarrow> (serror, Job list) result" where
  "scanJobs [] = Inr []"
| "scanJobs (jm # jms) =
     (case entity jm of
        Inl err \<Rightarrow> Inl err
      | Inr j \<Rightarrow> (case scanJobs jms of Inl err \<Rightarrow> Inl err | Inr js \<Rightarrow> Inr (j # js)))"

definition scanned :: "string \<Rightarrow> (serror, JobMongoDBModel list) result \<times> 'w \<Rightarrow> (serror, Job list) result \<times> 'w" where
  "scanned message out =
     (case out of (Inl err, w) \<Rightarrow> (Inl (wrap message err), w) | (Inr jms, w) \<Rightarrow> (scanJobs jms, w))"

definition found_entity ::
  "string \<Rightarrow> (serror, JobMongoDBModel option) result \<times> 'w \<Rightarrow> (serror, Job option) result \<times> 'w" where
  "found_entity message out =
     (case out of
        (Inl err, w) \<Rightarrow> (Inl (wrap message err), w)
      | (Inr None, w) \<Rightarrow> (Inr None, w)
      | (Inr (Some jm), w) \<Rightarrow> (case entity jm of Inl err \<Rightarrow> (Inl err, w) | Inr j \<Rightarrow> (Inr (Some j), w)))"

definition repo_ListPendingTerminalEvents :: "'w JobCollection \<Rightarrow> int \<Rightarrow> 'w \<Rightarrow> (serror, Job list) result \<times> 'w" where
  "repo_ListPendingTerminalEvents coll limit =
     (let limit' = (if limit \<le> 0 \<or> limit > maxJobPageLimit then defaultJobPageLimit else limit)
      in with_database coll (\<lambda>w.
           scanned ''failed to list pending terminal events''
             (Find coll [StatusIn [JobStatusCompleted, JobStatusFailed],
                         MetadataIs ''terminalEventPending'' (ABool True)]
                [ByCompleted True, ByCreated True] 0 limit' w)))"

definition repo_FindByID :: "'w JobCollection \<Rightarrow> uuid \<Rightarrow> 'w \<Rightarrow> (serror, Job option) result \<times> 'w" where
  "repo_FindByID coll i =
     with_database coll (\<lambda>w. found_entity ''failed to find job by id'' (FindOne coll [IdIs i] [] w))"

definition repo_FindByRequestHashWithinWindow ::
  "'w JobCollection \<Rightarrow> string \<Rightarrow> int \<Rightarrow> 'w \<Rightarrow> (serror, Job option) result \<times> 'w" where
  "repo_FindByRequestHashWithinWindow coll requestHash windowMinutes w0 =
     (if requestHash = [] then (Inr None, w0)
      else with_database coll (\<lambda>w.
        case now_UTC coll w of
          (now, w1) \<Rightarrow>
            found_entity ''failed to find job by request hash''
              (FindOne coll [HashIs requestHash, CreatedFrom (now - windowMinutes * 60000000000)] [ByCreated False] w1)) w0)"

definition repo_FindActiveByRequestHash ::
  "'w JobCollection \<Rightarrow> string \<Rightarrow> 'w \<Rightarrow> (serror, Job option) result \<times> 'w" where
  "repo_FindActiveByRequestHash coll requestHash w0 =
     (if requestHash = [] then (Inr None, w0)
      else with_database coll (\<lambda>w.
        found_entity ''failed to find active job by request hash''
          (FindOne coll [HashIs requestHash, StatusIn [JobStatusPending, JobStatusProcessing]] [ByCreated False] w)) w0)"

definition config_name_byte :: "char \<Rightarrow> bool" where
  "config_name_byte c \<longleftrightarrow>
     (let n = of_char c :: nat in (65 \<le> n \<and> n \<le> 90) \<or> (97 \<le> n \<and> n \<le> 122) \<or> (48 \<le> n \<and> n \<le> 57)) \<or>
     c = CHR ''_'' \<or> c = CHR ''-''"

definition repo_ExistsRunningByMappedFieldKey ::
  "'w JobCollection \<Rightarrow> string \<Rightarrow> 'w \<Rightarrow> (serror, bool) result \<times> 'w" where
  "repo_ExistsRunningByMappedFieldKey coll keyPattern w =
     (case ResolveDatabase coll w of
        (Some err, w1) \<Rightarrow> (Inl (internalError err), w1)
      | (None, w1) \<Rightarrow>
          if keyPattern = [] \<or> (\<exists>c \<in> set keyPattern. \<not> config_name_byte c)
          then (Inl (internalError (Plain ''invalid key pattern format'')), w1)
          else
            (case CountDocuments coll
                    [StatusIn [JobStatusPending, JobStatusProcessing], MappedExists keyPattern] 1 w1 of
               (Inl err, w2) \<Rightarrow> (Inl (internalError err), w2)
             | (Inr count, w2) \<Rightarrow> (Inr (count > 0), w2)))"

record ListFilter =
  lf_Status :: JobStatus
  lf_Statuses :: "JobStatus list"
  lf_CreatedFrom :: "int option"
  lf_CreatedTo :: "int option"
  lf_CompletedFrom :: "int option"
  lf_CompletedTo :: "int option"
  lf_Limit :: int
  lf_Page :: int
  lf_SortOrder :: string

definition opt_cond :: "(int \<Rightarrow> cond) \<Rightarrow> int option \<Rightarrow> cond list" where
  "opt_cond c t = (case t of None \<Rightarrow> [] | Some x \<Rightarrow> [c x])"

definition addStatusFilter :: "ListFilter \<Rightarrow> cond list" where
  "addStatusFilter filters =
     (if lf_Statuses filters \<noteq> [] then [StatusIn (lf_Statuses filters)]
      else if lf_Status filters \<noteq> [] then [StatusIs (lf_Status filters)] else [])"

definition addDateRangeFilter :: "ListFilter \<Rightarrow> cond list" where
  "addDateRangeFilter filters =
     opt_cond CreatedFrom (lf_CreatedFrom filters) @ opt_cond CreatedTo (lf_CreatedTo filters) @
     opt_cond CompletedFrom (lf_CompletedFrom filters) @ opt_cond CompletedTo (lf_CompletedTo filters)"

definition buildQueryFilter :: "ListFilter \<Rightarrow> cond list" where
  "buildQueryFilter filters = addStatusFilter filters @ addDateRangeFilter filters"

definition calculateLimit :: "int \<Rightarrow> int" where
  "calculateLimit limit =
     (if limit \<le> 0 then defaultJobPageLimit else if limit > maxJobPageLimit then maxJobPageLimit else limit)"

definition calculatePage :: "int \<Rightarrow> int" where
  "calculatePage page = (if page \<le> 0 then 1 else page)"

definition sort_ascending :: "string \<Rightarrow> bool" where
  "sort_ascending sortOrder \<longleftrightarrow> ToLower sortOrder = ''asc''"

definition repo_List :: "'w JobCollection \<Rightarrow> ListFilter \<Rightarrow> 'w \<Rightarrow> (serror, Job list) result \<times> 'w" where
  "repo_List coll filters =
     with_database coll (\<lambda>w.
       let limit = calculateLimit (lf_Limit filters); page = calculatePage (lf_Page filters)
       in scanned ''failed to list jobs''
            (Find coll (buildQueryFilter filters) [ByCreated (sort_ascending (lf_SortOrder filters))]
               ((page - 1) * limit) limit w))"

end
