(* ===== verification/Worker_Jobs.thy ===== *)
theory Worker_Jobs
  imports Worker_Request Job_Repository
begin

text \<open>
  The Worker's message handler and its terminal-event outbox
  (\<^verbatim>\<open>worker/internal/services\<close>: \<^verbatim>\<open>extract_data.go\<close>, \<^verbatim>\<open>extract_engine.go\<close>,
  \<^verbatim>\<open>job_notification.go\<close>, \<^verbatim>\<open>terminal_event_repairer.go\<close>; the queue handler of
  \<^verbatim>\<open>bootstrap/consumer.go\<close>). The use case's collaborators are functions on the world. What the
  handler takes from other code is a field of \<open>UseCase\<close>: JSON decoding of a message
  (\<open>uc_decode\<close>, \<open>uc_partialID\<close>), the redaction of error texts (\<open>uc_sanitize\<close>),
  encryption, storage, the CRM extraction, the Engine runner and the event emitter.
\<close>

type_synonym result_map = "(string, (string, row list) gomap) gomap"

record EmitRequest =
  eq_DefinitionKey :: string
  eq_EventID :: string
  eq_TenantID :: string
  eq_Subject :: string
  eq_Payload :: string

record directReuse =
  re_plaintext :: string
  re_rowCount :: nat
  re_integrity :: "ResultIntegrity option"

record JobResultData =
  rd_Path :: string
  rd_SizeBytes :: nat
  rd_RowCount :: nat
  rd_Format :: string
  rd_HMAC :: string
  rd_Integrity :: "ResultIntegrity option"
  rd_Protection :: "ResultProtection option"

record JobNotificationOptions =
  no_Result :: "JobResultData option"
  no_ExecutionTimeMs :: int
  no_CompletedAt :: "int option"

record 'w JobRepository =
  jr_FindByID :: "uuid \<Rightarrow> 'w \<Rightarrow> (serror, Job option) result \<times> 'w"
  jr_UpdateStatus :: "uuid \<Rightarrow> JobStatus \<Rightarrow> string \<Rightarrow> string \<Rightarrow> (string, any) gomap \<Rightarrow> 'w \<Rightarrow> serror option \<times> 'w"
  jr_Clear :: "uuid \<Rightarrow> 'w \<Rightarrow> serror option \<times> 'w"
  jr_ListPending :: "int \<Rightarrow> 'w \<Rightarrow> (serror, Job list) result \<times> 'w"

definition mongo_repository :: "'w JobCollection \<Rightarrow> 'w JobRepository" where
  "mongo_repository coll =
     \<lparr>jr_FindByID = repo_FindByID coll, jr_UpdateStatus = repo_UpdateStatus coll,
      jr_Clear = repo_ClearTerminalEventMetadata coll, jr_ListPending = repo_ListPendingTerminalEvents coll\<rparr>"

record 'w UseCase =
  uc_jobs :: "'w JobRepository"
  uc_connections :: "string list \<Rightarrow> 'w \<Rightarrow> (serror, Connection list) result \<times> 'w"
  uc_queryCRM :: "ExtractExternalDataMessage \<Rightarrow> Connection list \<Rightarrow> result_map \<Rightarrow> 'w \<Rightarrow> (serror, result_map) result \<times> 'w"
  uc_runEngine ::
    "Connection list \<Rightarrow> (string, string list) gomap \<Rightarrow> TenantContext \<Rightarrow> string \<Rightarrow> ExtractionRequest \<Rightarrow> 'w \<Rightarrow>
     (serror, ExtractionResult) result \<times> 'w"
  uc_decodeResult :: "string \<Rightarrow> (serror, result_map) result"
  uc_signer :: "(string \<Rightarrow> (serror, string) result) option"
  uc_encrypt :: "string \<Rightarrow> 'w \<Rightarrow> (serror, string) result \<times> 'w"
  uc_put :: "string \<Rightarrow> string \<Rightarrow> 'w \<Rightarrow> serror option \<times> 'w"
  uc_storageKey :: "string \<Rightarrow> (serror, string) result"
  uc_streaming :: bool
  uc_emitter :: "(EmitRequest \<Rightarrow> 'w \<Rightarrow> serror option \<times> 'w) option"
  uc_isCallerError :: "serror \<Rightarrow> bool"
  uc_outboxContext :: "string \<Rightarrow> serror option"
  uc_tenantID :: string
  uc_requestID :: string
  uc_now :: "'w \<Rightarrow> int \<times> 'w"
  uc_formatTime :: "int \<Rightarrow> string"
  uc_decode :: "string \<Rightarrow> (serror, ExtractExternalDataMessage option) result"
  uc_partialID :: "string \<Rightarrow> uuid"
  uc_parseUUID :: "string \<Rightarrow> uuid option"
  uc_sanitize :: "string \<Rightarrow> string"
  uc_sha256 :: "string \<Rightarrow> string"

subsection \<open>Notifications\<close>

definition omit_text :: "string \<Rightarrow> string \<Rightarrow> (string \<times> json option) list" where
  "omit_text name v = (if v = [] then [] else [(name, Some (JAtom (json_quote v)))])"

definition omit_number :: "string \<Rightarrow> int \<Rightarrow> (string \<times> json option) list" where
  "omit_number name v = (if v = 0 then [] else [(name, Some (JAtom (itoa v)))])"

definition json_integrity :: "ResultIntegrity \<Rightarrow> json option" where
  "json_integrity i =
     json_struct (omit_text ''algorithm'' (ri_Algorithm i) @ omit_text ''digest'' (ri_Digest i) @
       omit_text ''signature'' (ri_Signature i))"

definition json_protection :: "ResultProtection \<Rightarrow> json option" where
  "json_protection p =
     json_struct ([(''encrypted'', encode (ABool (rp_Encrypted p)))] @ omit_number ''keyVersion'' (rp_KeyVersion p) @
       omit_text ''mode'' (rp_Mode p) @ omit_text ''appliedBy'' (rp_AppliedBy p))"

definition json_result :: "JobResultData \<Rightarrow> json option" where
  "json_result r =
     json_struct (omit_text ''path'' (rd_Path r) @ omit_number ''sizeBytes'' (int (rd_SizeBytes r)) @
       omit_number ''rowCount'' (int (rd_RowCount r)) @ omit_text ''format'' (rd_Format r) @
       omit_text ''hmac'' (rd_HMAC r) @
       (case rd_Integrity r of None \<Rightarrow> [] | Some i \<Rightarrow> [(''integrity'', json_integrity i)]) @
       (case rd_Protection r of None \<Rightarrow> [] | Some p \<Rightarrow> [(''protection'', json_protection p)]))"

definition notification_metadata ::
  "ExtractExternalDataMessage \<Rightarrow> string \<Rightarrow> (string, any) gomap option \<Rightarrow> (string, any) gomap" where
  "notification_metadata message status errorMetadata =
     (case errorMetadata of
        Some em \<Rightarrow> if status = ''failed'' then AList.update ''error'' (AMap em) (em_Metadata message) else em_Metadata message
      | None \<Rightarrow> em_Metadata message)"

definition buildJobNotificationPayload ::
  "'w UseCase \<Rightarrow> ExtractExternalDataMessage \<Rightarrow> string \<Rightarrow> (string, any) gomap option \<Rightarrow> JobNotificationOptions option \<Rightarrow>
   (serror, string) result" where
  "buildJobNotificationPayload uc message status errorMetadata opts =
     (let extra = (case opts of
            None \<Rightarrow> []
          | Some o' \<Rightarrow>
              (case no_Result o' of None \<Rightarrow> [] | Some r \<Rightarrow> [(''result'', json_result r)]) @
              omit_number ''executionTimeMs'' (no_ExecutionTimeMs o') @
              (case no_CompletedAt o' of
                 None \<Rightarrow> [] | Some t \<Rightarrow> [(''completedAt'', Some (JAtom (json_quote (uc_formatTime uc t))))]))
      in case json_struct ([(''jobId'', Some (JAtom (json_quote (em_JobID message)))),
                            (''metadata'', json_map encode (notification_metadata message status errorMetadata)),
                            (''status'', Some (JAtom (json_quote status)))] @ extra) of
           None \<Rightarrow> Inl (wrap ''marshalling job notification'' (Plain ''json: unsupported value''))
         | Some j \<Rightarrow> Inr (compact j))"

definition deterministicJobEventID :: "string \<Rightarrow> string \<Rightarrow> string" where
  "deterministicJobEventID status jobID = ''fetcher.job.'' @ status @ ''.'' @ jobID"

definition event_tenant :: "'w UseCase \<Rightarrow> string" where
  "event_tenant uc = (if uc_tenantID uc = [] then ''single-tenant'' else uc_tenantID uc)"

definition event_request :: "'w UseCase \<Rightarrow> string \<Rightarrow> string \<Rightarrow> string \<Rightarrow> EmitRequest" where
  "event_request uc status subject payload =
     \<lparr>eq_DefinitionKey = ''job.'' @ status, eq_EventID = deterministicJobEventID status subject,
      eq_TenantID = event_tenant uc, eq_Subject = subject, eq_Payload = payload\<rparr>"

definition emitJobNotificationEvent ::
  "'w UseCase \<Rightarrow> string \<Rightarrow> string \<Rightarrow> string \<Rightarrow> 'w \<Rightarrow> serror option \<times> 'w" where
  "emitJobNotificationEvent uc status subject payload w =
     (case uc_emitter uc of
        None \<Rightarrow> (Some (Plain ''mandatory lib-streaming job event emitter is not configured''), w)
      | Some emit \<Rightarrow>
         (case uc_outboxContext uc (event_tenant uc) of
            Some err \<Rightarrow> (Some err, w)
          | None \<Rightarrow>
             (case emit (event_request uc status subject payload) w of
                (None, w1) \<Rightarrow> (None, w1)
              | (Some err, w1) \<Rightarrow>
                  (Some (if uc_isCallerError uc err
                         then TypedError FailedPreconditionKind [] ''Job Event Configuration Error''
                                (''non-retryable lib-streaming job event configuration error: '' @ error_text err)
                                ''FET-0060'' (Some err)
                         else err), w1))))"

definition publishJobNotificationPayload ::
  "'w UseCase \<Rightarrow> string \<Rightarrow> string \<Rightarrow> string \<Rightarrow> 'w \<Rightarrow> serror option \<times> 'w" where
  "publishJobNotificationPayload uc status jobID payload w =
     (if \<not> uc_streaming uc then (Some (Plain ''mandatory lib-streaming job event emission is disabled''), w)
      else
        (case emitJobNotificationEvent uc status jobID payload w of
           (Some err, w1) \<Rightarrow> (Some (wrap ''emitting job notification event'' err), w1)
         | (None, w1) \<Rightarrow> (None, w1)))"

subsection \<open>Terminal events\<close>

abbreviation terminalEventPendingMetadataKey :: string where
  "terminalEventPendingMetadataKey \<equiv> ''terminalEventPending''"
abbreviation terminalEventStatusMetadataKey :: string where
  "terminalEventStatusMetadataKey \<equiv> ''terminalEventStatus''"
abbreviation terminalEventPayloadMetadataKey :: string where
  "terminalEventPayloadMetadataKey \<equiv> ''terminalEventPayload''"

definition terminalEventPendingMetadata :: "string \<Rightarrow> string \<Rightarrow> (string, any) gomap" where
  "terminalEventPendingMetadata status payload =
     [(terminalEventPendingMetadataKey, ABool True), (terminalEventStatusMetadataKey, AString status),
      (terminalEventPayloadMetadataKey, AString payload)]"

definition hasPendingTerminalEvent :: "(string, any) gomap \<Rightarrow> bool" where
  "hasPendingTerminalEvent metadata \<longleftrightarrow> map_of metadata terminalEventPendingMetadataKey = Some (ABool True)"

definition text_at :: "(string, any) gomap \<Rightarrow> string \<Rightarrow> string" where
  "text_at m k = (case map_of m k of Some (AString s) \<Rightarrow> s | _ \<Rightarrow> [])"

definition pendingTerminalEvent :: "Job \<Rightarrow> (serror, string \<times> string) result" where
  "pendingTerminalEvent job =
     (let status = text_at (jb_Metadata job) terminalEventStatusMetadataKey;
          payload = text_at (jb_Metadata job) terminalEventPayloadMetadataKey
      in if status = [] then Inl (Plain (''job '' @ jb_ID job @ '' missing terminal event status metadata''))
         else if payload = [] then Inl (Plain (''job '' @ jb_ID job @ '' missing terminal event payload metadata''))
         else Inr (status, payload))"

definition isTerminalStatus :: "JobStatus \<Rightarrow> bool" where
  "isTerminalStatus status \<longleftrightarrow> status = JobStatusCompleted \<or> status = JobStatusFailed"

definition terminalStatusForEvent :: "string \<Rightarrow> JobStatus" where
  "terminalStatusForEvent status =
     (if status = ''completed'' then JobStatusCompleted else if status = ''failed'' then JobStatusFailed else [])"

definition clearPendingTerminalEvent :: "'w UseCase \<Rightarrow> uuid \<Rightarrow> 'w \<Rightarrow> 'w" where
  "clearPendingTerminalEvent uc jobID w = snd (jr_Clear (uc_jobs uc) jobID w)"

text \<open>The \<^verbatim>\<open>bool\<close> result of the code is always true and is left out.\<close>

definition retryPendingTerminalEventForJob :: "'w UseCase \<Rightarrow> Job \<Rightarrow> 'w \<Rightarrow> serror option \<times> 'w" where
  "retryPendingTerminalEventForJob uc job w =
     (case pendingTerminalEvent job of
        Inl err \<Rightarrow> (Some err, w)
      | Inr (status, payload) \<Rightarrow>
          if \<not> isTerminalStatus (jb_Status job)
          then (Some (Plain (''job '' @ jb_ID job @ '' has pending terminal event '' @ [CHR 0x22] @ status @ [CHR 0x22] @
                  '' but non-terminal status '' @ [CHR 0x22] @ jb_Status job @ [CHR 0x22])), w)
          else if terminalStatusForEvent status \<noteq> jb_Status job
          then (Some (Plain (''job '' @ jb_ID job @ '' terminal event '' @ [CHR 0x22] @ status @ [CHR 0x22] @
                  '' does not match committed status '' @ [CHR 0x22] @ jb_Status job @ [CHR 0x22])), w)
          else
            (case publishJobNotificationPayload uc status (jb_ID job) payload w of
               (Some err, w1) \<Rightarrow> (Some (wrap (''publish required job '' @ status @ '' notification'') err), w1)
             | (None, w1) \<Rightarrow> (None, clearPendingTerminalEvent uc (jb_ID job) w1)))"

definition handleErrorWithUpdate ::
  "'w UseCase \<Rightarrow> uuid \<Rightarrow> ExtractExternalDataMessage \<Rightarrow> string \<Rightarrow> serror option \<Rightarrow> 'w \<Rightarrow> serror option \<times> 'w" where
  "handleErrorWithUpdate uc jobID message errorMsg err0 w =
     (let err = (case err0 of None \<Rightarrow> Plain (''operation failed: '' @ errorMsg) | Some e \<Rightarrow> e);
          safe = uc_sanitize uc (error_text err)
      in case buildJobNotificationPayload uc (message\<lparr>em_JobID := jobID\<rparr>) ''failed''
                (Some [(''message'', AString safe)]) None of
           Inl payloadErr \<Rightarrow> (Some (wrap ''build required job failure notification'' payloadErr), w)
         | Inr payload \<Rightarrow>
             (case jr_UpdateStatus (uc_jobs uc) jobID JobStatusFailed [] []
                     (AList.update ''error'' (AString safe) (terminalEventPendingMetadata ''failed'' payload)) w of
                (Some errUpdate, w1) \<Rightarrow> (Some (wrap ''failed to update job status'' errUpdate), w1)
              | (None, w1) \<Rightarrow>
                  (case publishJobNotificationPayload uc ''failed'' jobID payload w1 of
                     (Some errNotify, w2) \<Rightarrow> (Some (wrap ''publish required job failure notification'' errNotify), w2)
                   | (None, w2) \<Rightarrow> (Some err, clearPendingTerminalEvent uc jobID w2))))"

subsection \<open>Messages\<close>

definition invalidMessage :: "string \<Rightarrow> string \<Rightarrow> serror" where
  "invalidMessage code message = TypedError ValidationKind [] ''Invalid Message'' message code None"

definition validateExtractExternalDataMessage :: "ExtractExternalDataMessage \<Rightarrow> serror option" where
  "validateExtractExternalDataMessage message =
     (if em_JobID message = uuid_Nil then Some (invalidMessage ''FET-0051'' ''jobId is required'')
      else if em_MappedFields message = [] then Some (invalidMessage ''FET-0052'' ''mappedFields is required'')
      else (case filter (\<lambda>(_, tables). tables = []) (em_MappedFields message) of
              (db, _) # _ \<Rightarrow>
                Some (invalidMessage ''FET-0053''
                  (''mappedFields['' @ [CHR 0x22] @ db @ [CHR 0x22] @ ''] has no tables''))
            | [] \<Rightarrow> None))"

definition parseMessage :: "'w UseCase \<Rightarrow> string \<Rightarrow> (serror, ExtractExternalDataMessage) result" where
  "parseMessage uc body =
     (case uc_decode uc body of
        Inl err \<Rightarrow> Inl (wrap ''failed to parse message'' err)
      | Inr None \<Rightarrow> Inl (wrap ''failed to parse message'' (Plain ''empty message payload''))
      | Inr (Some message) \<Rightarrow>
          (case validateExtractExternalDataMessage message of
             Some err \<Rightarrow> Inl (wrap ''invalid message payload'' err)
           | None \<Rightarrow> Inr message))"

definition HeaderJobID :: string where
  "HeaderJobID = ''jobId''"

definition extractJobIDFromMultipleSources :: "'w UseCase \<Rightarrow> string \<Rightarrow> (string, any) gomap \<Rightarrow> uuid" where
  "extractJobIDFromMultipleSources uc body headers =
     (case map_of headers HeaderJobID of
        Some (AString s) \<Rightarrow> (case uc_parseUUID uc s of Some i \<Rightarrow> i | None \<Rightarrow> uc_partialID uc body)
      | _ \<Rightarrow> uc_partialID uc body)"

definition getJobForStatusCheck :: "'w UseCase \<Rightarrow> uuid \<Rightarrow> 'w \<Rightarrow> (serror, Job) result \<times> 'w" where
  "getJobForStatusCheck uc jobID w =
     (case jr_FindByID (uc_jobs uc) jobID w of
        (Inl err, w1) \<Rightarrow> (Inl (wrap ''failed to check job status'' err), w1)
      | (Inr None, w1) \<Rightarrow>
          (Inl (TypedError ValidationKind [] ''Job Not Found'' (''no job data found for '' @ jobID) ''FET-0067'' None), w1)
      | (Inr (Some job), w1) \<Rightarrow> (Inr job, w1))"

text \<open>\<open>None\<close>: go on; \<open>Some r\<close>: stop and return \<open>r\<close>.\<close>

definition shouldSkipProcessing :: "'w UseCase \<Rightarrow> uuid \<Rightarrow> 'w \<Rightarrow> serror option option \<times> 'w" where
  "shouldSkipProcessing uc jobID w =
     (case getJobForStatusCheck uc jobID w of
        (Inl _, w1) \<Rightarrow> (None, w1)
      | (Inr jobData, w1) \<Rightarrow>
          if hasPendingTerminalEvent (jb_Metadata jobData)
          then (case retryPendingTerminalEventForJob uc jobData w1 of (r, w2) \<Rightarrow> (Some r, w2))
          else if jb_Status jobData = JobStatusCompleted then (Some None, w1)
          else if jb_Status jobData = JobStatusProcessing then (Some None, w1)
          else (None, w1))"

subsection \<open>Extraction\<close>

definition reusableFromDirect :: "DirectResult \<Rightarrow> directReuse option" where
  "reusableFromDirect direct =
     (if dr_Data direct = [] then None
      else Some \<lparr>re_plaintext = dr_Data direct, re_rowCount = dr_RowCount direct, re_integrity = dr_Integrity direct\<rparr>)"

definition verifyIntegrity :: "'w UseCase \<Rightarrow> directReuse \<Rightarrow> serror option" where
  "verifyIntegrity uc r =
     (case re_integrity r of
        None \<Rightarrow> None
      | Some i \<Rightarrow>
          if ri_Algorithm i \<noteq> ''SHA-256'' \<or> ri_Digest i = [] then None
          else if uc_sha256 uc (re_plaintext r) \<noteq> ri_Digest i
          then Some (Plain ''engine direct result integrity mismatch: recomputed digest does not match engine SHA-256'')
          else None)"

definition merge_tables :: "result_map \<Rightarrow> result_map \<Rightarrow> result_map" where
  "merge_tables decoded result =
     foldl (\<lambda>out (db, tables).
       AList.update db
         (foldl (\<lambda>ts (tbl, rows). AList.update tbl rows ts)
            (case map_of out db of Some ts \<Rightarrow> ts | None \<Rightarrow> []) tables) out) result decoded"

definition decodeDirectResult :: "'w UseCase \<Rightarrow> DirectResult \<Rightarrow> result_map \<Rightarrow> (serror, result_map) result" where
  "decodeDirectResult uc direct result =
     (if dr_Data direct = [] then Inr result
      else (case uc_decodeResult uc (dr_Data direct) of
              Inl err \<Rightarrow> Inl (wrap ''decode direct engine result'' err)
            | Inr decoded \<Rightarrow> Inr (merge_tables decoded result)))"

definition seedSchemaScope :: "ExtractExternalDataMessage \<Rightarrow> Connection list \<Rightarrow> (string, string list) gomap" where
  "seedSchemaScope message connections =
     filter (\<lambda>(_, scope). scope \<noteq> [])
       (map (\<lambda>(configName, tables).
          (configName, SchemaScopeForTables (datasourceTypesByConfig connections configName) tables))
        (em_MappedFields message))"

definition SingleTenantID :: string where
  "SingleTenantID = ''default''"

definition TenantContextFromRequest :: "'w UseCase \<Rightarrow> (serror, TenantContext) result" where
  "TenantContextFromRequest uc =
     (case NewTenantContext (if uc_tenantID uc = [] then SingleTenantID else uc_tenantID uc) of
        Inl err \<Rightarrow> Inl (EngineFailure err)
      | Inr tenant \<Rightarrow> Inr (if uc_requestID uc = [] then tenant else WithRequestID tenant (uc_requestID uc)))"

definition extractViaEngine ::
  "'w UseCase \<Rightarrow> ExtractExternalDataMessage \<Rightarrow> Connection list \<Rightarrow> result_map \<Rightarrow> bool \<Rightarrow> 'w \<Rightarrow>
   (serror, DirectResult \<times> result_map) result \<times> 'w" where
  "extractViaEngine uc message connections result mergeIntoResult w =
     (case TenantContextFromRequest uc of
        Inl err \<Rightarrow> (Inl (wrap ''bridge tenant context'' err), w)
      | Inr tenant \<Rightarrow>
         (case uc_runEngine uc connections (seedSchemaScope message connections) tenant (em_JobID message)
                 (mapJobToExtractionRequest message connections) w of
            (Inl err, w1) \<Rightarrow> (Inl (wrap ''engine extraction'' err), w1)
          | (Inr extractionResult, w1) \<Rightarrow>
             (case validateDirectResult extractionResult of
                Inl err \<Rightarrow> (Inl err, w1)
              | Inr direct \<Rightarrow>
                  if \<not> mergeIntoResult then (Inr (direct, result), w1)
                  else (case decodeDirectResult uc direct result of
                          Inl err \<Rightarrow> (Inl err, w1)
                        | Inr result' \<Rightarrow> (Inr (direct, result'), w1)))))"

definition extractInto ::
  "'w UseCase \<Rightarrow> ExtractExternalDataMessage \<Rightarrow> Connection list \<Rightarrow> result_map \<Rightarrow> 'w \<Rightarrow>
   (serror, directReuse option \<times> result_map) result \<times> 'w" where
  "extractInto uc message connections result w =
     (case splitCRMCompatibility message connections of
        (crm, generic) \<Rightarrow>
          (case (case crm of None \<Rightarrow> (Inr result, w) | Some m \<Rightarrow> uc_queryCRM uc m connections result w) of
             (Inl err, w1) \<Rightarrow> (Inl err, w1)
           | (Inr result1, w1) \<Rightarrow>
              (case generic of
                 None \<Rightarrow> (Inr (None, result1), w1)
               | Some m \<Rightarrow>
                  (case extractViaEngine uc m connections result1 (crm \<noteq> None) w1 of
                     (Inl err, w2) \<Rightarrow> (Inl err, w2)
                   | (Inr (direct, result2), w2) \<Rightarrow>
                       (Inr (if crm \<noteq> None then None else reusableFromDirect direct, result2), w2)))))"

subsection \<open>Saving\<close>

definition result_any :: "result_map \<Rightarrow> any" where
  "result_any result =
     AMap (map (\<lambda>(db, tables). (db, AMap (map (\<lambda>(tbl, rows). (tbl, ASlice (map AMap rows))) tables))) result)"

definition countTotalRows :: "result_map \<Rightarrow> nat" where
  "countTotalRows result = sum_list (map (\<lambda>(_, tables). sum_list (map (\<lambda>(_, rows). length rows) tables)) result)"

definition preconditionError :: "string \<Rightarrow> string \<Rightarrow> string \<Rightarrow> serror \<Rightarrow> serror" where
  "preconditionError code title message err = TypedError FailedPreconditionKind [] title message code (Some err)"

definition resultPlaintext ::
  "'w UseCase \<Rightarrow> result_map \<Rightarrow> directReuse option \<Rightarrow> (serror, string \<times> nat) result" where
  "resultPlaintext uc result reuse =
     (case reuse of
        Some r \<Rightarrow>
          (case verifyIntegrity uc r of
             Some err \<Rightarrow> Inl (preconditionError ''FET-0068'' ''Result Integrity Mismatch'' (error_text err) err)
           | None \<Rightarrow> Inr (re_plaintext r, re_rowCount r))
      | None \<Rightarrow>
          (case MarshalIndent (result_any result) of
             None \<Rightarrow>
               (let err = Plain ''json: unsupported value''
                in Inl (preconditionError ''FET-0060'' ''Data Serialization Failed''
                     (''marshalling result to JSON: '' @ error_text err) err))
           | Some jsonData \<Rightarrow> Inr (jsonData, countTotalRows result)))"

definition resultIntegrity :: "string \<Rightarrow> ResultIntegrity option" where
  "resultIntegrity documentHMAC =
     (if documentHMAC = [] then None
      else Some \<lparr>ri_Algorithm = ''HMAC-SHA256'', ri_Digest = [], ri_Signature = documentHMAC\<rparr>)"

definition resultProtection :: ResultProtection where
  "resultProtection =
     \<lparr>rp_Encrypted = True, rp_KeyVersion = 0, rp_Mode = ''adapter-managed'', rp_AppliedBy = ProtectionAppliedByAdapter\<rparr>"

definition result_object :: "uuid \<Rightarrow> string" where
  "result_object jobID = ''external-data/'' @ jobID @ ''.json''"

definition saveExternalData ::
  "'w UseCase \<Rightarrow> ExtractExternalDataMessage \<Rightarrow> result_map \<Rightarrow> directReuse option \<Rightarrow> 'w \<Rightarrow>
   (serror, JobResultData) result \<times> 'w" where
  "saveExternalData uc message result reuse w =
     (case resultPlaintext uc result reuse of
        Inl err \<Rightarrow> (Inl err, w)
      | Inr (jsonData, rowCount) \<Rightarrow>
         (case (case uc_signer uc of None \<Rightarrow> Inr [] | Some sign \<Rightarrow> sign jsonData) of
            Inl err \<Rightarrow>
              (Inl (preconditionError ''FET-0061'' ''HMAC Computation Failed''
                 (''computing document HMAC: '' @ error_text err) err), w)
          | Inr documentHMAC \<Rightarrow>
             (case uc_encrypt uc jsonData w of
                (Inl err, w1) \<Rightarrow> (Inl (wrap ''encrypting data for storage'' err), w1)
              | (Inr encryptedData, w1) \<Rightarrow>
                 (case uc_put uc (result_object (em_JobID message)) encryptedData w1 of
                    (Some err, w2) \<Rightarrow> (Inl (wrap ''saving external data to storage'' err), w2)
                  | (None, w2) \<Rightarrow>
                     (case uc_storageKey uc (result_object (em_JobID message)) of
                        Inl err \<Rightarrow>
                          (Inl (preconditionError ''FET-0066'' ''Tenant Path Resolution Failed''
                             (''resolving tenant storage path: '' @ error_text err) err), w2)
                      | Inr path \<Rightarrow>
                          (Inr \<lparr>rd_Path = path, rd_SizeBytes = length jsonData, rd_RowCount = rowCount,
                                rd_Format = ''json'', rd_HMAC = documentHMAC,
                                rd_Integrity = resultIntegrity documentHMAC,
                                rd_Protection = Some resultProtection\<rparr>, w2))))))"

definition completeJob ::
  "'w UseCase \<Rightarrow> ExtractExternalDataMessage \<Rightarrow> JobResultData \<Rightarrow> int \<Rightarrow> 'w \<Rightarrow> serror option \<times> 'w" where
  "completeJob uc message resultData startTime w =
     (case uc_now uc w of
        (completedAt, w1) \<Rightarrow>
         (case buildJobNotificationPayload uc message ''completed'' None
                 (Some \<lparr>no_Result = Some resultData, no_ExecutionTimeMs = (completedAt - startTime) div 1000000,
                        no_CompletedAt = Some completedAt\<rparr>) of
            Inl err \<Rightarrow> (Some (wrap ''build required job completion notification'' err), w1)
          | Inr payload \<Rightarrow>
             (case jr_UpdateStatus (uc_jobs uc) (em_JobID message) JobStatusCompleted (rd_Path resultData)
                     (rd_HMAC resultData) (terminalEventPendingMetadata ''completed'' payload) w1 of
                (Some err, w2) \<Rightarrow>
                  handleErrorWithUpdate uc (em_JobID message) message ''Error updating job status to completed'' (Some err) w2
              | (None, w2) \<Rightarrow>
                 (case publishJobNotificationPayload uc ''completed'' (em_JobID message) payload w2 of
                    (Some err, w3) \<Rightarrow> (Some (wrap ''publish required job completion notification'' err), w3)
                  | (None, w3) \<Rightarrow> (None, clearPendingTerminalEvent uc (em_JobID message) w3)))))"

subsection \<open>The handler\<close>

definition fail_job ::
  "'w UseCase \<Rightarrow> ExtractExternalDataMessage \<Rightarrow> string \<Rightarrow> serror option \<Rightarrow> 'w \<Rightarrow> serror option \<times> 'w" where
  "fail_job uc message errorMsg err w = handleErrorWithUpdate uc (em_JobID message) message errorMsg err w"

definition runJob :: "'w UseCase \<Rightarrow> ExtractExternalDataMessage \<Rightarrow> int \<Rightarrow> 'w \<Rightarrow> serror option \<times> 'w" where
  "runJob uc message startTime w =
     (case uc_connections uc (keys (em_MappedFields message)) w of
        (Inl err, w1) \<Rightarrow> fail_job uc message ''Error finding connections by config names'' (Some err) w1
      | (Inr connections, w1) \<Rightarrow>
          if connections = [] then fail_job uc message ''No connections found for config names'' None w1
          else
            (case extractInto uc message connections [] w1 of
               (Inl err, w2) \<Rightarrow> fail_job uc message ''Error querying external data'' (Some err) w2
             | (Inr (reuse, result), w2) \<Rightarrow>
                (case saveExternalData uc message result reuse w2 of
                   (Inl err, w3) \<Rightarrow> fail_job uc message ''Error saving external data to storage'' (Some err) w3
                 | (Inr resultData, w3) \<Rightarrow> completeJob uc message resultData startTime w3)))"

definition processJob :: "'w UseCase \<Rightarrow> ExtractExternalDataMessage \<Rightarrow> int \<Rightarrow> 'w \<Rightarrow> serror option \<times> 'w" where
  "processJob uc message startTime w =
     (case jr_FindByID (uc_jobs uc) (em_JobID message) w of
        (Inl err, w1) \<Rightarrow> fail_job uc message ''Error finding job by ID in database'' (Some err) w1
      | (Inr None, w1) \<Rightarrow> fail_job uc message ''Job not found in database'' None w1
      | (Inr (Some job), w1) \<Rightarrow>
          if jb_Status job \<noteq> JobStatusPending then (None, w1)
          else
            (case jr_UpdateStatus (uc_jobs uc) (em_JobID message) JobStatusProcessing [] [] [] w1 of
               (Some err, w2) \<Rightarrow> fail_job uc message ''Error updating job status to processing'' (Some err) w2
             | (None, w2) \<Rightarrow> runJob uc message startTime w2))"

definition invalidMessageHandling ::
  "'w UseCase \<Rightarrow> string \<Rightarrow> (string, any) gomap \<Rightarrow> serror \<Rightarrow> 'w \<Rightarrow> serror option \<times> 'w" where
  "invalidMessageHandling uc body headers err w =
     (let jobID = extractJobIDFromMultipleSources uc body headers
      in if jobID = uuid_Nil then (Some err, w)
         else
           (case handleErrorWithUpdate uc jobID
                   \<lparr>em_JobID = jobID, em_MappedFields = [], em_Filters = [], em_Metadata = []\<rparr>
                   ''Invalid extraction message'' (Some err) w of
              (Some terminalErr, w1) \<Rightarrow> (Some terminalErr, w1)
            | (None, w1) \<Rightarrow> (Some err, w1)))"

definition ExtractExternalData ::
  "'w UseCase \<Rightarrow> string \<Rightarrow> (string, any) gomap \<Rightarrow> 'w \<Rightarrow> serror option \<times> 'w" where
  "ExtractExternalData uc body headers w0 =
     (case uc_now uc w0 of
        (startTime, w) \<Rightarrow>
         (case parseMessage uc body of
            Inl err \<Rightarrow> invalidMessageHandling uc body headers err w
          | Inr message \<Rightarrow>
             (case shouldSkipProcessing uc (em_JobID message) w of
                (Some r, w1) \<Rightarrow> (r, w1)
              | (None, w1) \<Rightarrow> processJob uc message startTime w1)))"

subsection \<open>The queue handler\<close>

text \<open>\<open>None\<close> acknowledges the message, \<open>Some err\<close> is a negative acknowledgement.\<close>

definition acknowledge :: "serror option \<Rightarrow> serror option" where
  "acknowledge r =
     (case r of
        None \<Rightarrow> None
      | Some err \<Rightarrow>
          if isNonRetryableHandlerError (Some err) then None else Some (wrap ''failed to generate report'' err))"

definition handle_message ::
  "'w UseCase \<Rightarrow> string \<Rightarrow> (string, any) gomap \<Rightarrow> 'w \<Rightarrow> serror option \<times> 'w" where
  "handle_message uc body headers w =
     (case ExtractExternalData uc body headers w of (r, w1) \<Rightarrow> (acknowledge r, w1))"

subsection \<open>The repairer\<close>

definition errors_Join :: "serror list \<Rightarrow> serror option" where
  "errors_Join errs = (if errs = [] then None else Some (Joined errs))"

fun repair_jobs :: "'w UseCase \<Rightarrow> Job list \<Rightarrow> 'w \<Rightarrow> serror list \<times> 'w" where
  "repair_jobs uc [] w = ([], w)"
| "repair_jobs uc (job # jobs) w =
     (case retryPendingTerminalEventForJob uc job w of
        (r, w1) \<Rightarrow>
          (case repair_jobs uc jobs w1 of
             (errs, w2) \<Rightarrow>
               ((case r of
                   None \<Rightarrow> errs
                 | Some err \<Rightarrow> wrap (''repair pending terminal event for job '' @ jb_ID job) err # errs), w2)))"

definition repairOnceInContext :: "'w UseCase \<Rightarrow> int \<Rightarrow> 'w \<Rightarrow> serror option \<times> 'w" where
  "repairOnceInContext uc batch w =
     (case jr_ListPending (uc_jobs uc) batch w of
        (Inl err, w1) \<Rightarrow> (Some (wrap ''list pending terminal events'' err), w1)
      | (Inr jobs, w1) \<Rightarrow>
          (case repair_jobs uc jobs w1 of (errs, w2) \<Rightarrow> (errors_Join errs, w2)))"

record 'w TerminalEventRepairer =
  tr_useCase :: "string \<Rightarrow> 'w UseCase"
  tr_batch :: int
  tr_requireTenant :: bool
  tr_tenantService :: string
  tr_tenantLister :: "(string \<Rightarrow> 'w \<Rightarrow> (serror, string list) result \<times> 'w) option"
  tr_mongoResolver :: "(string \<Rightarrow> 'w \<Rightarrow> serror option \<times> 'w) option"

fun repair_tenants ::
  "'w TerminalEventRepairer \<Rightarrow> (string \<Rightarrow> 'w \<Rightarrow> serror option \<times> 'w) \<Rightarrow> string list \<Rightarrow> 'w \<Rightarrow> serror list \<times> 'w" where
  "repair_tenants r resolve [] w = ([], w)"
| "repair_tenants r resolve (tenant # tenants) w =
     (if tenant = [] then repair_tenants r resolve tenants w
      else
        (case resolve tenant w of
           (Some err, w1) \<Rightarrow>
             (case repair_tenants r resolve tenants w1 of
                (errs, w2) \<Rightarrow>
                  (wrap (''resolve tenant mongo for terminal event repair tenant '' @ tenant) err # errs, w2))
         | (None, w1) \<Rightarrow>
             (case repairOnceInContext (tr_useCase r tenant) (tr_batch r) w1 of
                (e, w2) \<Rightarrow>
                  (case repair_tenants r resolve tenants w2 of
                     (errs, w3) \<Rightarrow>
                       ((case e of
                           None \<Rightarrow> errs
                         | Some err \<Rightarrow> wrap (''repair pending terminal events for tenant '' @ tenant) err # errs), w3)))))"

definition RepairOnce :: "'w TerminalEventRepairer \<Rightarrow> 'w \<Rightarrow> serror option \<times> 'w" where
  "RepairOnce r w =
     (if \<not> tr_requireTenant r then repairOnceInContext (tr_useCase r []) (tr_batch r) w
      else
        (case (tr_tenantLister r, tr_mongoResolver r, tr_tenantService r) of
           (Some lister, Some resolve, _ # _) \<Rightarrow>
             (case lister (tr_tenantService r) w of
                (Inl err, w1) \<Rightarrow> (Some (wrap ''list active tenants for terminal event repair'' err), w1)
              | (Inr tenants, w1) \<Rightarrow>
                  (case repair_tenants r resolve tenants w1 of (errs, w2) \<Rightarrow> (errors_Join errs, w2)))
         | _ \<Rightarrow>
             (Some (Plain ''multi-tenant terminal event repairer requires tenant lister, mongo resolver, and service name''), w)))"

end
