(* ===== verification/Worker_Outbox.thy ===== *)
theory Worker_Outbox
  imports Worker_Jobs
begin

text \<open>
  The terminal-event outbox of the Worker. The contract of the job repository and the emitter lets
  every call fail, before or after it took effect: a crash is a suffix of calls that fail without
  effect. Under it the handler and the repairer, one call after the other, keep the outbox invariant of every
  job that satisfies it: a committed terminal status has its event sent, or the job carries the marker from
  which the repairer sends it.
\<close>

definition unmoved ::
  "('w \<Rightarrow> bool) \<Rightarrow> ('w \<Rightarrow> uuid \<Rightarrow> Job option) \<Rightarrow> ('w \<Rightarrow> EmitRequest list) \<Rightarrow> 'w \<Rightarrow> 'w \<Rightarrow> bool" where
  "unmoved good jobs events w w' \<longleftrightarrow> good w' \<and> jobs w' = jobs w \<and> events w' = events w"

definition rewritten ::
  "('w \<Rightarrow> bool) \<Rightarrow> ('w \<Rightarrow> uuid \<Rightarrow> Job option) \<Rightarrow> ('w \<Rightarrow> EmitRequest list) \<Rightarrow> (Job \<Rightarrow> Job \<Rightarrow> bool) \<Rightarrow> uuid \<Rightarrow>
   'w \<Rightarrow> 'w \<Rightarrow> bool" where
  "rewritten good jobs events R i w w' \<longleftrightarrow>
     good w' \<and> events w' = events w \<and> (\<forall>k. k \<noteq> i \<longrightarrow> jobs w' k = jobs w k) \<and>
     (\<exists>j j'. jobs w i = Some j \<and> jobs w' i = Some j' \<and> R j j')"

definition status_written :: "JobStatus \<Rightarrow> (string, any) gomap \<Rightarrow> Job \<Rightarrow> Job \<Rightarrow> bool" where
  "status_written status md j j' \<longleftrightarrow>
     jb_ID j' = jb_ID j \<and> jb_Status j' = status \<and> map_of (jb_Metadata j') = map_of (jb_Metadata j) ++ map_of md"

definition marker_cleared :: "Job \<Rightarrow> Job \<Rightarrow> bool" where
  "marker_cleared j j' \<longleftrightarrow>
     jb_ID j' = jb_ID j \<and> jb_Status j' = jb_Status j \<and>
     map_of (jb_Metadata j') = (map_of (jb_Metadata j)) |` (- set terminal_event_keys)"

text \<open>The collaborators of the handler, and what each call may do to jobs and sent events.\<close>

locale outbox_host =
  fixes uc :: "'w UseCase"
    and good :: "'w \<Rightarrow> bool"
    and jobs :: "'w \<Rightarrow> uuid \<Rightarrow> Job option"
    and events :: "'w \<Rightarrow> EmitRequest list"
  assumes lookup: "good w \<Longrightarrow> jr_FindByID (uc_jobs uc) i w = (found, w') \<Longrightarrow>
      unmoved good jobs events w w' \<and> (\<forall>x. found = Inr x \<longrightarrow> x = jobs w i)"
    and update: "good w \<Longrightarrow> map_ok md \<Longrightarrow> jr_UpdateStatus (uc_jobs uc) i status path hmac md w = (r, w') \<Longrightarrow>
      r \<noteq> None \<and> unmoved good jobs events w w' \<or> rewritten good jobs events (status_written status md) i w w'"
    and clear: "good w \<Longrightarrow> jr_Clear (uc_jobs uc) i w = (r, w') \<Longrightarrow>
      r \<noteq> None \<and> unmoved good jobs events w w' \<or> rewritten good jobs events marker_cleared i w w'"
    and pending: "good w \<Longrightarrow> jr_ListPending (uc_jobs uc) n w = (listed, w') \<Longrightarrow>
      unmoved good jobs events w w' \<and>
      (\<forall>js. listed = Inr js \<longrightarrow> distinct (map jb_ID js) \<and> (\<forall>j \<in> set js. jobs w (jb_ID j) = Some j))"
    and emit: "good w \<Longrightarrow> uc_emitter uc = Some send \<Longrightarrow> send request w = (r, w') \<Longrightarrow>
      good w' \<and> jobs w' = jobs w \<and> (events w' = events w @ [request] \<or> r \<noteq> None \<and> events w' = events w)"
    and connections: "good w \<Longrightarrow> unmoved good jobs events w (snd (uc_connections uc names w))"
    and crm: "good w \<Longrightarrow> unmoved good jobs events w (snd (uc_queryCRM uc m cs res w))"
    and engine: "good w \<Longrightarrow> unmoved good jobs events w (snd (uc_runEngine uc cs scope tenant i request' w))"
    and encrypt: "good w \<Longrightarrow> unmoved good jobs events w (snd (uc_encrypt uc s w))"
    and put: "good w \<Longrightarrow> unmoved good jobs events w (snd (uc_put uc name s w))"
    and now: "good w \<Longrightarrow> unmoved good jobs events w (snd (uc_now uc w))"
    and ids: "good w \<Longrightarrow> jobs w i = Some j \<Longrightarrow> jb_ID j = i"

definition event_sent :: "'w UseCase \<Rightarrow> EmitRequest list \<Rightarrow> JobStatus \<Rightarrow> uuid \<Rightarrow> bool" where
  "event_sent uc es status i \<longleftrightarrow> (\<exists>payload. event_request uc status i payload \<in> set es)"

definition outbox_ok :: "'w UseCase \<Rightarrow> EmitRequest list \<Rightarrow> Job \<Rightarrow> bool" where
  "outbox_ok uc es j \<longleftrightarrow>
     (hasPendingTerminalEvent (jb_Metadata j) \<longrightarrow>
        isTerminalStatus (jb_Status j) \<and> text_at (jb_Metadata j) terminalEventStatusMetadataKey = jb_Status j \<and>
        text_at (jb_Metadata j) terminalEventPayloadMetadataKey \<noteq> []) \<and>
     (isTerminalStatus (jb_Status j) \<longrightarrow>
        hasPendingTerminalEvent (jb_Metadata j) \<or> event_sent uc es (jb_Status j) (jb_ID j))"

subsection \<open>Markers\<close>

lemma pendingMetadata_ok [simp]:
  "map_ok (terminalEventPendingMetadata status payload)"
  "map_ok (AList.update ''error'' v (terminalEventPendingMetadata status payload))"
  by (simp_all add: terminalEventPendingMetadata_def)

definition marks :: "(string, any) gomap \<Rightarrow> string \<Rightarrow> string \<Rightarrow> bool" where
  "marks md status payload \<longleftrightarrow>
     map_of md terminalEventPendingMetadataKey = Some (ABool True) \<and>
     map_of md terminalEventStatusMetadataKey = Some (AString status) \<and>
     map_of md terminalEventPayloadMetadataKey = Some (AString payload)"

lemma marks_pending [simp]:
  "marks (terminalEventPendingMetadata status payload) status payload"
  "marks (AList.update ''error'' v (terminalEventPendingMetadata status payload)) status payload"
  by (simp_all add: marks_def terminalEventPendingMetadata_def)

lemma marked_outbox_ok:
  assumes "status_written status md j j'" and "marks md status payload" and "isTerminalStatus status"
    and "payload \<noteq> []"
  shows "outbox_ok uc es j'"
  using assms
  by (auto simp: status_written_def marks_def outbox_ok_def hasPendingTerminalEvent_def text_at_def map_add_def)

lemma event_sent_snoc:
  "event_sent uc (es @ [event_request uc st i payload]) st' i' \<longleftrightarrow> event_sent uc es st' i' \<or> st' = st \<and> i' = i"
  by (auto simp: event_sent_def event_request_def)

lemma event_sent_mono: "event_sent uc es status i \<Longrightarrow> event_sent uc (es @ es') status i"
  by (auto simp: event_sent_def)

lemma outbox_ok_mono: "outbox_ok uc es j \<Longrightarrow> outbox_ok uc (es @ es') j"
  by (auto simp: outbox_ok_def event_sent_mono)

lemma cleared_unmarked: "marker_cleared j j' \<Longrightarrow> \<not> hasPendingTerminalEvent (jb_Metadata j')"
  by (simp add: marker_cleared_def hasPendingTerminalEvent_def terminal_event_keys_def)

lemma cleared_outbox_ok:
  assumes "marker_cleared j j'" and "event_sent uc es (jb_Status j) (jb_ID j)"
  shows "outbox_ok uc es j'"
  using assms by (auto simp: marker_cleared_def outbox_ok_def hasPendingTerminalEvent_def terminal_event_keys_def)

lemma pendingTerminalEvent_ok:
  assumes "pendingTerminalEvent j = Inr (status, payload)" and "terminalStatusForEvent status = jb_Status j"
    and "isTerminalStatus (jb_Status j)"
  shows "status = jb_Status j"
  using assms by (auto simp: terminalStatusForEvent_def isTerminalStatus_def split: if_splits)

lemma payload_nonempty: "buildJobNotificationPayload uc m status em opts = Inr payload \<Longrightarrow> payload \<noteq> []"
  by (auto simp: buildJobNotificationPayload_def json_struct_def Let_def split: option.splits)

lemma terminal_statuses [simp]: "isTerminalStatus ''failed''" "isTerminalStatus ''completed''"
  "\<not> isTerminalStatus ''processing''" "\<not> isTerminalStatus ''pending''"
  by (simp_all add: isTerminalStatus_def)

subsection \<open>The invariant\<close>

text \<open>The invariant of the jobs in a set, so that jobs somebody else failed need not satisfy it.\<close>

context outbox_host
begin

definition inv :: "uuid set \<Rightarrow> 'w \<Rightarrow> bool" where
  "inv S w \<longleftrightarrow> good w \<and> (\<forall>i \<in> S. \<forall>j. jobs w i = Some j \<longrightarrow> outbox_ok uc (events w) j)"

lemma inv_good: "inv S w \<Longrightarrow> good w"
  by (simp add: inv_def)

lemma inv_unmoved: "inv S w \<Longrightarrow> unmoved good jobs events w w' \<Longrightarrow> inv S w'"
  by (simp add: inv_def unmoved_def)

lemma inv_sent: "inv S w \<Longrightarrow> good w' \<Longrightarrow> jobs w' = jobs w \<Longrightarrow> events w' = events w @ es \<Longrightarrow> inv S w'"
  by (auto simp: inv_def outbox_ok_mono)

lemma inv_rewritten:
  assumes "inv S w" and "rewritten good jobs events R i w w'"
    and "\<And>j j'. i \<in> S \<Longrightarrow> jobs w i = Some j \<Longrightarrow> R j j' \<Longrightarrow> outbox_ok uc (events w) j'"
  shows "inv S w'"
  using assms unfolding inv_def rewritten_def by (metis option.inject)

lemma publish_cases:
  assumes "good w" and "publishJobNotificationPayload uc status i payload w = (r, w')"
  obtains (sent) "good w'" "jobs w' = jobs w" "events w' = events w @ [event_request uc status i payload]"
  | (lost) "good w'" "jobs w' = jobs w" "events w' = events w" "r \<noteq> None"
proof -
  have "good w' \<and> jobs w' = jobs w \<and>
      (events w' = events w @ [event_request uc status i payload] \<or> r \<noteq> None \<and> events w' = events w)"
    using assms
    by (auto simp: publishJobNotificationPayload_def emitJobNotificationEvent_def dest: emit
        split: if_splits option.splits prod.splits)
  with that show ?thesis by blast
qed

lemma inv_publish:
  assumes "inv S w" and "publishJobNotificationPayload uc status i payload w = (r, w')"
  shows "inv S w' \<and> jobs w' = jobs w \<and> (r = None \<longrightarrow> event_sent uc (events w') status i)"
  using inv_good[OF assms(1)] assms(2)
proof (cases rule: publish_cases)
  case sent
  with assms(1) show ?thesis by (auto simp: event_sent_def intro: inv_sent)
next
  case lost
  with assms(1) show ?thesis using inv_sent[of S w w' "[]"] by auto
qed

lemma inv_clear:
  assumes "inv S w" and "\<And>j. jobs w i = Some j \<Longrightarrow> event_sent uc (events w) (jb_Status j) i"
  shows "inv S (clearPendingTerminalEvent uc i w) \<and> (\<forall>k. k \<noteq> i \<longrightarrow> jobs (clearPendingTerminalEvent uc i w) k = jobs w k)"
proof -
  obtain r w' where c: "jr_Clear (uc_jobs uc) i w = (r, w')" by fastforce
  have w': "clearPendingTerminalEvent uc i w = w'" by (simp add: clearPendingTerminalEvent_def c)
  from clear[OF inv_good[OF assms(1)] c] show ?thesis
  proof
    assume "r \<noteq> None \<and> unmoved good jobs events w w'"
    with assms(1) show ?thesis unfolding w' by (auto intro: inv_unmoved simp: unmoved_def)
  next
    assume rw: "rewritten good jobs events marker_cleared i w w'"
    have "inv S w'"
      using assms(1) rw
    proof (rule inv_rewritten)
      fix j j' assume "jobs w i = Some j" "marker_cleared j j'"
      with assms(2) ids[OF inv_good[OF assms(1)]] show "outbox_ok uc (events w) j'"
        by (metis cleared_outbox_ok)
    qed
    with rw show ?thesis unfolding w' by (simp add: rewritten_def)
  qed
qed

lemma inv_retry:
  assumes "inv S w" and "jobs w (jb_ID j) = Some j" and "retryPendingTerminalEventForJob uc j w = (r, w')"
  shows "inv S w' \<and> (\<forall>k. k \<noteq> jb_ID j \<longrightarrow> jobs w' k = jobs w k)"
proof (cases "\<exists>status payload. pendingTerminalEvent j = Inr (status, payload) \<and> isTerminalStatus (jb_Status j) \<and>
    terminalStatusForEvent status = jb_Status j")
  case False
  then have "w' = w"
    using assms(3) by (auto simp: retryPendingTerminalEventForJob_def split: sum.splits if_splits)
  with assms(1) show ?thesis by simp
next
  case True
  then obtain status payload where e: "pendingTerminalEvent j = Inr (status, payload)" "isTerminalStatus (jb_Status j)"
    "terminalStatusForEvent status = jb_Status j" by blast
  have status: "status = jb_Status j" using pendingTerminalEvent_ok[OF e(1,3,2)] .
  obtain x w1 where p: "publishJobNotificationPayload uc status (jb_ID j) payload w = (x, w1)" by fastforce
  note sent = inv_publish[OF assms(1) p]
  show ?thesis
  proof (cases x)
    case (Some err)
    with assms(3) e p sent show ?thesis by (auto simp: retryPendingTerminalEventForJob_def)
  next
    case None
    with assms(3) e p have w': "w' = clearPendingTerminalEvent uc (jb_ID j) w1"
      by (auto simp: retryPendingTerminalEventForJob_def)
    from sent None assms(2) have "inv S w1" "\<And>j'. jobs w1 (jb_ID j) = Some j' \<Longrightarrow> event_sent uc (events w1) (jb_Status j') (jb_ID j)"
      by (auto simp: status)
    from inv_clear[OF this] sent show ?thesis by (auto simp: w')
  qed
qed

lemma inv_marked:
  assumes "inv S w" and "jr_UpdateStatus (uc_jobs uc) i status path hmac md w = (r, w')"
    and "map_ok md" and "marks md status payload" and "payload \<noteq> []" and "isTerminalStatus status"
  shows "inv S w' \<and> (r = None \<longrightarrow> (\<forall>j. jobs w' i = Some j \<longrightarrow> jb_Status j = status))"
  using update[OF inv_good[OF assms(1)] assms(3,2)]
proof
  assume "r \<noteq> None \<and> unmoved good jobs events w w'"
  with assms(1) show ?thesis by (auto intro: inv_unmoved)
next
  assume rw: "rewritten good jobs events (status_written status md) i w w'"
  have "inv S w'"
    using assms(1) rw by (rule inv_rewritten) (use assms(4-6) in \<open>blast intro: marked_outbox_ok\<close>)
  with rw show ?thesis by (auto simp: rewritten_def status_written_def)
qed

lemma inv_announce:
  assumes "inv S w" and "\<And>j. jobs w i = Some j \<Longrightarrow> jb_Status j = status"
    and "publishJobNotificationPayload uc status i payload w = (None, w')"
  shows "inv S (clearPendingTerminalEvent uc i w')"
  using inv_publish[OF assms(1,3)] assms(2) inv_clear[of S w' i] by auto

lemma inv_handleError:
  assumes "inv S w"
  shows "inv S (snd (handleErrorWithUpdate uc i message errorMsg err w))"
proof -
  let ?e = "case err of None \<Rightarrow> Plain (''operation failed: '' @ errorMsg) | Some e \<Rightarrow> e"
  let ?safe = "uc_sanitize uc (error_text ?e)"
  show ?thesis
  proof (cases "buildJobNotificationPayload uc (message\<lparr>em_JobID := i\<rparr>) ''failed''
      (Some [(''message'', AString ?safe)]) None")
    case (Inl x)
    with assms show ?thesis by (simp add: handleErrorWithUpdate_def Let_def)
  next
    case (Inr payload)
    obtain r w1 where u: "jr_UpdateStatus (uc_jobs uc) i JobStatusFailed [] []
        (AList.update ''error'' (AString ?safe) (terminalEventPendingMetadata ''failed'' payload)) w = (r, w1)"
      by fastforce
    note marked = inv_marked[OF assms u _ _ payload_nonempty[OF Inr], simplified]
    obtain x w2 where p: "publishJobNotificationPayload uc ''failed'' i payload w1 = (x, w2)" by fastforce
    show ?thesis
      using Inr u p marked inv_publish[of S w1 "''failed''" i payload x w2] inv_announce[of S w1 i "''failed''" payload w2]
      by (auto simp: handleErrorWithUpdate_def Let_def split: option.splits)
  qed
qed

lemma fail_job_inv: "inv S w \<Longrightarrow> inv S (snd (fail_job uc message errorMsg err w))"
  by (simp add: fail_job_def inv_handleError)

text \<open>Sequences of calls that move nothing.\<close>

lemma unmoved_refl: "good w \<Longrightarrow> unmoved good jobs events w w"
  by (simp add: unmoved_def)

lemma unmoved_bind:
  assumes "unmoved good jobs events w (snd p)"
    and "\<And>r w1. p = (r, w1) \<Longrightarrow> good w1 \<Longrightarrow> unmoved good jobs events w1 (snd (k r w1))"
  shows "unmoved good jobs events w (snd (case p of (r, w1) \<Rightarrow> k r w1))"
proof (cases p)
  case (Pair r w1)
  with assms(1) assms(2)[OF Pair] show ?thesis by (simp add: unmoved_def)
qed

lemma extractViaEngine_unmoved:
  "good w \<Longrightarrow> unmoved good jobs events w (snd (extractViaEngine uc message cs res b w))"
  unfolding extractViaEngine_def
  by (auto intro!: unmoved_bind engine unmoved_refl split: sum.split)

lemma extractInto_unmoved:
  assumes "good w"
  shows "unmoved good jobs events w (snd (extractInto uc message cs res w))"
proof (cases "splitCRMCompatibility message cs")
  case (Pair crm generic)
  with assms show ?thesis
    by (auto simp: extractInto_def intro!: unmoved_bind crm extractViaEngine_unmoved unmoved_refl
        split: option.split sum.split)
qed

lemma saveExternalData_unmoved:
  "good w \<Longrightarrow> unmoved good jobs events w (snd (saveExternalData uc message res reuse w))"
  unfolding saveExternalData_def
  by (auto intro!: unmoved_bind encrypt put unmoved_refl split: option.split sum.split)

text \<open>What a job's run keeps, from what its two ends keep.\<close>

lemma keep_bind:
  assumes "P w" and "\<And>w. P w \<Longrightarrow> good w" and "\<And>w w'. P w \<Longrightarrow> unmoved good jobs events w w' \<Longrightarrow> P w'"
    and "\<And>w. good w \<Longrightarrow> unmoved good jobs events w (snd (f w))"
    and "\<And>r w1. P w1 \<Longrightarrow> Q (snd (k r w1))"
  shows "Q (snd (case f w of (r, w1) \<Rightarrow> k r w1))"
proof -
  obtain r w1 where f: "f w = (r, w1)" by fastforce
  have "P w1" using assms(3)[OF assms(1) assms(4)[OF assms(2)[OF assms(1)]]] by (simp add: f)
  with assms(5) f show ?thesis by simp
qed

lemma runJob_keeps:
  assumes "P w" and P: "\<And>w. P w \<Longrightarrow> good w" "\<And>w w'. P w \<Longrightarrow> unmoved good jobs events w w' \<Longrightarrow> P w'"
    and fails: "\<And>s e w. P w \<Longrightarrow> Q (snd (fail_job uc message s e w))"
    and completes: "\<And>d w. P w \<Longrightarrow> Q (snd (completeJob uc message d t w))"
  shows "Q (snd (runJob uc message t w))"
proof -
  have saved: "Q (snd (case saveExternalData uc message res reuse v of (r, v1) \<Rightarrow>
      (case r of Inl err \<Rightarrow> fail_job uc message s (Some err) v1 | Inr d \<Rightarrow> completeJob uc message d t v1)))"
    if "P v" for res reuse v s
    using that P saveExternalData_unmoved
    by (rule keep_bind) (auto intro: fails completes split: sum.split)
  have extracted: "Q (snd (case extractInto uc message cs [] v of (r, v1) \<Rightarrow>
      (case r of Inl err \<Rightarrow> fail_job uc message s (Some err) v1
       | Inr (reuse, res) \<Rightarrow> (case saveExternalData uc message res reuse v1 of (r, v1) \<Rightarrow>
           (case r of Inl err \<Rightarrow> fail_job uc message s' (Some err) v1 | Inr d \<Rightarrow> completeJob uc message d t v1)))))"
    if "P v" for cs v s s'
    using that P extractInto_unmoved
    by (rule keep_bind) (auto intro: fails saved split: sum.split)
  show ?thesis
    unfolding runJob_def using assms(1) P connections
    by (rule keep_bind) (auto intro: fails extracted split: sum.split)
qed

lemma inv_completeJob:
  assumes "inv S w"
  shows "inv S (snd (completeJob uc message d t w))"
proof -
  obtain at w1 where n: "uc_now uc w = (at, w1)" by fastforce
  have w1: "inv S w1" using now[OF inv_good[OF assms]] inv_unmoved[OF assms] by (simp add: n)
  let ?b = "buildJobNotificationPayload uc message ''completed'' None
      (Some \<lparr>no_Result = Some d, no_ExecutionTimeMs = (at - t) div 1000000, no_CompletedAt = Some at\<rparr>)"
  show ?thesis
  proof (cases ?b)
    case (Inl x)
    with w1 n show ?thesis by (simp add: completeJob_def)
  next
    case (Inr payload)
    obtain r w2 where u: "jr_UpdateStatus (uc_jobs uc) (em_JobID message) JobStatusCompleted (rd_Path d) (rd_HMAC d)
        (terminalEventPendingMetadata ''completed'' payload) w1 = (r, w2)"
      by fastforce
    note marked = inv_marked[OF w1 u _ _ payload_nonempty[OF Inr], simplified]
    obtain x w3 where p: "publishJobNotificationPayload uc ''completed'' (em_JobID message) payload w2 = (x, w3)"
      by fastforce
    show ?thesis
      using n Inr u p marked inv_publish[of S w2 "''completed''" "em_JobID message" payload x w3]
        inv_announce[of S w2 "em_JobID message" "''completed''" payload w3]
      by (auto simp: completeJob_def inv_handleError split: option.splits)
  qed
qed

lemma inv_runJob:
  assumes "inv S w"
  shows "inv S (snd (runJob uc message t w))"
  using assms inv_good inv_unmoved fail_job_inv inv_completeJob by (rule runJob_keeps)

lemma inv_lookup:
  assumes "inv S w" and "jr_FindByID (uc_jobs uc) i w = (found, w')"
  shows "inv S w' \<and> jobs w' = jobs w \<and> events w' = events w \<and> (\<forall>x. found = Inr x \<longrightarrow> x = jobs w i)"
  using lookup[OF inv_good[OF assms(1)] assms(2)] assms(1) inv_unmoved[of S w w'] by (auto simp: unmoved_def)

text \<open>Taking a pending job into processing.\<close>

lemma inv_claim:
  assumes "inv S w" and "jobs w i = Some j" and "jb_Status j = JobStatusPending"
    and "jr_UpdateStatus (uc_jobs uc) i JobStatusProcessing [] [] [] w = (r, w')"
  shows "inv S w'"
  using update[OF inv_good[OF assms(1)] map_ok_Nil assms(4)]
proof
  assume "rewritten good jobs events (status_written JobStatusProcessing []) i w w'"
  with assms(1) show ?thesis
  proof (rule inv_rewritten)
    fix k k' assume i: "i \<in> S" and k: "jobs w i = Some k" "status_written JobStatusProcessing [] k k'"
    have "outbox_ok uc (events w) j" using assms(1,2) i by (simp add: inv_def)
    then have "\<not> hasPendingTerminalEvent (jb_Metadata j)"
      unfolding outbox_ok_def using assms(3) by (metis terminal_statuses(4))
    with k assms(2) show "outbox_ok uc (events w) k'"
      by (auto simp: status_written_def outbox_ok_def hasPendingTerminalEvent_def)
  qed
qed (use assms(1) inv_unmoved in blast)

lemma inv_processJob:
  assumes "inv S w"
  shows "inv S (snd (processJob uc message t w))"
proof -
  obtain found w1 where f: "jr_FindByID (uc_jobs uc) (em_JobID message) w = (found, w1)" by fastforce
  note l = inv_lookup[OF assms f]
  obtain r w2 where u: "jr_UpdateStatus (uc_jobs uc) (em_JobID message) JobStatusProcessing [] [] [] w1 = (r, w2)"
    by fastforce
  show ?thesis
    using f l u inv_claim[OF _ _ _ u]
    by (auto simp: processJob_def fail_job_inv inv_runJob split: sum.splits option.splits)
qed

lemma inv_skip:
  assumes "inv S w" and "shouldSkipProcessing uc i w = (r, w')"
  shows "inv S w'"
proof -
  obtain found w1 where f: "jr_FindByID (uc_jobs uc) i w = (found, w1)" by fastforce
  note l = inv_lookup[OF assms(1) f]
  have retry: "inv S v" if "found = Inr (Some j)" "retryPendingTerminalEventForJob uc j w1 = (x, v)" for j x v
  proof -
    have "jobs w1 (jb_ID j) = Some j" using l that(1) ids[OF inv_good[OF assms(1)], of i j] by auto
    with inv_retry[OF _ this that(2)] l show ?thesis by blast
  qed
  show ?thesis
    using assms(2) f l retry
    by (auto simp: shouldSkipProcessing_def getJobForStatusCheck_def split: sum.splits option.splits if_splits prod.splits)
qed

lemma inv_extract:
  assumes "inv S w"
  shows "inv S (snd (ExtractExternalData uc body headers w))"
proof -
  obtain t w1 where n: "uc_now uc w = (t, w1)" by fastforce
  have w1: "inv S w1" using now[OF inv_good[OF assms]] inv_unmoved[OF assms] by (simp add: n)
  have bad: "inv S (snd (invalidMessageHandling uc body headers err w1))" for err
    using inv_handleError[OF w1] w1
    by (auto simp: invalidMessageHandling_def Let_def case_prod_beta split: option.splits)
  show ?thesis
    using n w1 bad
    by (auto simp: ExtractExternalData_def inv_processJob split: sum.splits option.splits prod.splits dest: inv_skip)
qed

lemma inv_repair_jobs:
  assumes "inv S w" and "distinct (map jb_ID js)" and "\<forall>j \<in> set js. jobs w (jb_ID j) = Some j"
  shows "inv S (snd (repair_jobs uc js w))"
  using assms
proof (induction js arbitrary: w)
  case (Cons j js)
  obtain r w1 where r: "retryPendingTerminalEventForJob uc j w = (r, w1)" by fastforce
  have "inv S w1 \<and> (\<forall>k. k \<noteq> jb_ID j \<longrightarrow> jobs w1 k = jobs w k)" using Cons.prems r by (intro inv_retry) auto
  moreover have "\<forall>ja \<in> set js. jb_ID ja \<noteq> jb_ID j" using Cons.prems(2) by (auto simp: image_iff)
  ultimately have "inv S (snd (repair_jobs uc js w1))" using Cons.prems by (intro Cons.IH) auto
  with r show ?case by (auto simp: case_prod_beta)
qed simp

lemma inv_repair:
  assumes "inv S w"
  shows "inv S (snd (repairOnceInContext uc n w))"
proof -
  obtain listed w1 where p: "jr_ListPending (uc_jobs uc) n w = (listed, w1)" by fastforce
  note l = pending[OF inv_good[OF assms] p]
  have w1: "inv S w1" using l assms inv_unmoved by blast
  show ?thesis
    using p l w1 inv_repair_jobs[OF w1]
    by (auto simp: repairOnceInContext_def unmoved_def case_prod_beta split: sum.splits)
qed

subsection \<open>No contradicting events\<close>

text \<open>Every event ever sent announces the status its job has now.\<close>

definition con :: "uuid set \<Rightarrow> 'w \<Rightarrow> bool" where
  "con T w \<longleftrightarrow> good w \<and> (\<forall>i \<in> T. \<forall>st. event_sent uc (events w) st i \<longrightarrow>
     isTerminalStatus st \<and> (\<exists>j. jobs w i = Some j \<and> jb_Status j = st))"

definition fresh :: "uuid set \<Rightarrow> uuid \<Rightarrow> 'w \<Rightarrow> bool" where
  "fresh T i w \<longleftrightarrow> con T w \<and> (i \<in> T \<longrightarrow> (\<forall>st. \<not> event_sent uc (events w) st i))"

lemma con_good: "con T w \<Longrightarrow> good w"
  by (simp add: con_def)

lemma con_unmoved: "con T w \<Longrightarrow> unmoved good jobs events w w' \<Longrightarrow> con T w'"
  by (simp add: con_def unmoved_def)

lemma fresh_good: "fresh T i w \<Longrightarrow> good w"
  unfolding fresh_def using con_good by blast

lemma fresh_unmoved: "fresh T i w \<Longrightarrow> unmoved good jobs events w w' \<Longrightarrow> fresh T i w'"
  using con_unmoved[of T w w'] by (simp add: fresh_def unmoved_def)

lemma fresh_rewritten: "fresh T i w \<Longrightarrow> rewritten good jobs events R i w w' \<Longrightarrow> fresh T i w'"
  by (simp add: fresh_def con_def rewritten_def) metis

lemma con_fresh: "con T w \<Longrightarrow> (\<And>j. jobs w i = Some j \<Longrightarrow> \<not> isTerminalStatus (jb_Status j)) \<Longrightarrow> fresh T i w"
  by (auto simp: con_def fresh_def)

lemma con_rewritten:
  assumes "con T w" and "rewritten good jobs events R i w w'" and "\<And>j j'. R j j' \<Longrightarrow> jb_Status j' = jb_Status j"
  shows "con T w'"
  using assms unfolding con_def rewritten_def by (metis option.inject)

lemma con_publish:
  assumes "con T w" and "jobs w i = Some j" and "isTerminalStatus (jb_Status j)"
    and "publishJobNotificationPayload uc (jb_Status j) i payload w = (r, w')"
  shows "con T w' \<and> jobs w' = jobs w"
  using con_good[OF assms(1)] assms(4)
proof (cases rule: publish_cases)
  case sent
  with assms(1-3) show ?thesis by (auto simp: con_def event_sent_snoc)
next
  case lost
  with assms(1) show ?thesis by (simp add: con_def)
qed

lemma con_clear:
  assumes "con T w"
  shows "con T (clearPendingTerminalEvent uc i w)"
proof -
  obtain r w' where c: "jr_Clear (uc_jobs uc) i w = (r, w')" by fastforce
  from clear[OF con_good[OF assms] c] have "con T w'"
  proof
    assume "rewritten good jobs events marker_cleared i w w'"
    then show ?thesis by (rule con_rewritten[OF assms]) (simp add: marker_cleared_def)
  qed (use assms con_unmoved in blast)
  then show ?thesis by (simp add: clearPendingTerminalEvent_def c)
qed

lemma con_retry:
  assumes "con T w" and "jobs w (jb_ID j) = Some j" and "retryPendingTerminalEventForJob uc j w = (r, w')"
  shows "con T w'"
proof (cases "\<exists>status payload. pendingTerminalEvent j = Inr (status, payload) \<and> isTerminalStatus (jb_Status j) \<and>
    terminalStatusForEvent status = jb_Status j")
  case False
  then have "w' = w"
    using assms(3) by (auto simp: retryPendingTerminalEventForJob_def split: sum.splits if_splits)
  with assms(1) show ?thesis by simp
next
  case True
  then obtain status payload where e: "pendingTerminalEvent j = Inr (status, payload)" "isTerminalStatus (jb_Status j)"
    "terminalStatusForEvent status = jb_Status j" by blast
  have status: "status = jb_Status j" using pendingTerminalEvent_ok[OF e(1,3,2)] .
  obtain x w1 where p: "publishJobNotificationPayload uc (jb_Status j) (jb_ID j) payload w = (x, w1)" by fastforce
  show ?thesis
    using assms(3) e p con_publish[OF assms(1,2) e(2) p] con_clear[of T w1]
    by (auto simp: retryPendingTerminalEventForJob_def status split: option.splits)
qed

text \<open>A first terminal status, written and announced.\<close>

lemma con_announce:
  assumes "fresh T i w" and "jr_UpdateStatus (uc_jobs uc) i status path hmac md w = (None, w')" and "map_ok md"
    and "isTerminalStatus status" and "publishJobNotificationPayload uc status i payload w' = (r, w'')"
  shows "con T w''"
proof -
  from update[OF fresh_good[OF assms(1)] assms(3,2)]
  have rw: "rewritten good jobs events (status_written status md) i w w'" by auto
  then obtain j where j: "jobs w' i = Some j" "jb_Status j = status" by (auto simp: rewritten_def status_written_def)
  have "con T w'" using fresh_rewritten[OF assms(1) rw] by (simp add: fresh_def)
  with j assms(4,5) con_publish show ?thesis by blast
qed

lemma fresh_update:
  assumes "fresh T i w" and "jr_UpdateStatus (uc_jobs uc) i status path hmac md w = (r, w')" and "map_ok md"
  shows "fresh T i w'"
  using update[OF fresh_good[OF assms(1)] assms(3,2)] fresh_unmoved[OF assms(1)] fresh_rewritten[OF assms(1)] by blast

lemma con_handleError:
  assumes "fresh T i w"
  shows "con T (snd (handleErrorWithUpdate uc i message errorMsg err w))"
proof -
  let ?e = "case err of None \<Rightarrow> Plain (''operation failed: '' @ errorMsg) | Some e \<Rightarrow> e"
  let ?safe = "uc_sanitize uc (error_text ?e)"
  show ?thesis
  proof (cases "buildJobNotificationPayload uc (message\<lparr>em_JobID := i\<rparr>) ''failed''
      (Some [(''message'', AString ?safe)]) None")
    case (Inl x)
    with assms show ?thesis by (simp add: handleErrorWithUpdate_def Let_def fresh_def)
  next
    case (Inr payload)
    obtain r w1 where u: "jr_UpdateStatus (uc_jobs uc) i JobStatusFailed [] []
        (AList.update ''error'' (AString ?safe) (terminalEventPendingMetadata ''failed'' payload)) w = (r, w1)"
      by fastforce
    have w1: "con T w1" using fresh_update[OF assms u] by (simp add: fresh_def)
    obtain x w2 where p: "publishJobNotificationPayload uc ''failed'' i payload w1 = (x, w2)" by fastforce
    have "con T w2" if "r = None"
      using con_announce[OF assms u[unfolded that] _ _ p] by simp
    with Inr u p w1 con_clear[of T w2] show ?thesis
      by (auto simp: handleErrorWithUpdate_def Let_def split: option.splits)
  qed
qed

lemma con_fail_job: "fresh T (em_JobID message) w \<Longrightarrow> con T (snd (fail_job uc message errorMsg err w))"
  by (simp add: fail_job_def con_handleError)

lemma con_completeJob:
  assumes "fresh T (em_JobID message) w"
  shows "con T (snd (completeJob uc message d t w))"
proof -
  obtain at w1 where n: "uc_now uc w = (at, w1)" by fastforce
  have w1: "fresh T (em_JobID message) w1" using now[OF fresh_good[OF assms]] fresh_unmoved[OF assms] by (simp add: n)
  let ?b = "buildJobNotificationPayload uc message ''completed'' None
      (Some \<lparr>no_Result = Some d, no_ExecutionTimeMs = (at - t) div 1000000, no_CompletedAt = Some at\<rparr>)"
  show ?thesis
  proof (cases ?b)
    case (Inl x)
    with w1 n show ?thesis by (simp add: completeJob_def fresh_def)
  next
    case (Inr payload)
    obtain r w2 where u: "jr_UpdateStatus (uc_jobs uc) (em_JobID message) JobStatusCompleted (rd_Path d) (rd_HMAC d)
        (terminalEventPendingMetadata ''completed'' payload) w1 = (r, w2)"
      by fastforce
    have w2: "fresh T (em_JobID message) w2" using fresh_update[OF w1 u] by simp
    obtain x w3 where p: "publishJobNotificationPayload uc ''completed'' (em_JobID message) payload w2 = (x, w3)"
      by fastforce
    have "con T w3" if "r = None"
      using con_announce[OF w1 u[unfolded that] _ _ p] by simp
    with n Inr u p con_handleError[OF w2] con_clear[of T w3] show ?thesis
      by (auto simp: completeJob_def split: option.splits)
  qed
qed

lemma con_runJob:
  assumes "fresh T (em_JobID message) w"
  shows "con T (snd (runJob uc message t w))"
  using assms fresh_good fresh_unmoved con_fail_job con_completeJob by (rule runJob_keeps)

end

subsection \<open>Runs of the Worker\<close>

datatype wstep = Deliver string "(string, any) gomap" | Repair int

definition worker_step :: "'w UseCase \<Rightarrow> wstep \<Rightarrow> 'w \<Rightarrow> 'w" where
  "worker_step uc s w =
     (case s of Deliver body headers \<Rightarrow> snd (handle_message uc body headers w)
      | Repair n \<Rightarrow> snd (repairOnceInContext uc n w))"

definition worker_run :: "'w UseCase \<Rightarrow> wstep list \<Rightarrow> 'w \<Rightarrow> 'w" where
  "worker_run uc steps w = fold (worker_step uc) steps w"

text \<open>A delivery whose body is a valid message, or that names no job at all.\<close>

fun well_delivered :: "'w UseCase \<Rightarrow> wstep \<Rightarrow> bool" where
  "well_delivered uc (Deliver body headers) \<longleftrightarrow>
     (case parseMessage uc body of
        Inr _ \<Rightarrow> True
      | Inl _ \<Rightarrow> extractJobIDFromMultipleSources uc body headers = uuid_Nil)"
| "well_delivered uc (Repair n) \<longleftrightarrow> True"

lemma handler_world: "snd (handle_message uc body headers w) = snd (ExtractExternalData uc body headers w)"
  by (simp add: handle_message_def case_prod_beta)

context outbox_host
begin

lemma inv_step: "inv S w \<Longrightarrow> inv S (worker_step uc s w)"
  by (cases s) (simp_all add: worker_step_def handler_world inv_extract inv_repair)

lemma inv_run: "inv S w \<Longrightarrow> inv S (worker_run uc steps w)"
  unfolding worker_run_def by (induction steps arbitrary: w) (auto simp: inv_step)

end

text \<open>Reads that do not fail.\<close>

locale outbox_reads = outbox_host +
  assumes reads: "good w \<Longrightarrow> jr_FindByID (uc_jobs uc) i w = (found, w') \<Longrightarrow> \<not> isl found"
begin

lemma found_job:
  assumes "con T w" and "jr_FindByID (uc_jobs uc) i w = (found, w')"
  shows "con T w' \<and> found = Inr (jobs w i) \<and> jobs w' = jobs w"
  using lookup[OF con_good[OF assms(1)] assms(2)] reads[OF con_good[OF assms(1)] assms(2)] con_unmoved[OF assms(1)]
  by (cases found) (auto simp: unmoved_def)

text \<open>The handler's clock read and its two reads of the job.\<close>

lemma two_lookups:
  assumes "good w" and "jobs w i = Some j"
  shows "\<exists>t w1 w2 w3. uc_now uc w = (t, w1) \<and> jr_FindByID (uc_jobs uc) i w1 = (Inr (Some j), w2) \<and>
    jr_FindByID (uc_jobs uc) i w2 = (Inr (Some j), w3) \<and> unmoved good jobs events w w2 \<and> unmoved good jobs events w w3"
proof -
  have look: "\<exists>v'. jr_FindByID (uc_jobs uc) i v = (Inr (Some j), v') \<and> unmoved good jobs events w v'"
    if v: "unmoved good jobs events w v" for v
  proof -
    obtain found v' where f: "jr_FindByID (uc_jobs uc) i v = (found, v')" by fastforce
    have "good v" using v by (simp add: unmoved_def)
    from lookup[OF this f] reads[OF this f] v assms(2) show ?thesis by (cases found) (simp_all add: f unmoved_def)
  qed
  obtain t w1 where n: "uc_now uc w = (t, w1)" by fastforce
  have "unmoved good jobs events w w1" using now[OF assms(1)] by (simp add: n)
  from look[OF this] obtain w2 where w2: "jr_FindByID (uc_jobs uc) i w1 = (Inr (Some j), w2)"
    "unmoved good jobs events w w2" by blast
  from look[OF w2(2)] obtain w3 where w3: "jr_FindByID (uc_jobs uc) i w2 = (Inr (Some j), w3)"
    "unmoved good jobs events w w3" by blast
  show ?thesis using n w2 w3 by blast
qed

text \<open>A delivery for a job that has left the pending state and waits for no event changes nothing, and consults
  neither the datasources nor the storage.\<close>

lemma redelivery:
  assumes "good w" and "parseMessage uc body = Inr message" and "jobs w (em_JobID message) = Some j"
    and "jb_Status j \<noteq> JobStatusPending" and "\<not> hasPendingTerminalEvent (jb_Metadata j)"
  shows "\<exists>w'. (\<forall>c q r e p. handle_message (uc\<lparr>uc_connections := c, uc_queryCRM := q, uc_runEngine := r, uc_encrypt := e,
      uc_put := p\<rparr>) body headers w = (None, w')) \<and> unmoved good jobs events w w'"
proof -
  from two_lookups[OF assms(1,3)] obtain t w1 w2 w3 where n: "uc_now uc w = (t, w1)"
    and w2: "jr_FindByID (uc_jobs uc) (em_JobID message) w1 = (Inr (Some j), w2)" "unmoved good jobs events w w2"
    and w3: "jr_FindByID (uc_jobs uc) (em_JobID message) w2 = (Inr (Some j), w3)" "unmoved good jobs events w w3"
    by blast
  have parse: "parseMessage (uc\<lparr>uc_connections := c, uc_queryCRM := q, uc_runEngine := r, uc_encrypt := e, uc_put := p\<rparr>) body =
      Inr message" for c q r e p
    using assms(2) by (simp add: parseMessage_def)
  show ?thesis
    using assms(4,5) n w2 w3
    by (simp add: handle_message_def ExtractExternalData_def shouldSkipProcessing_def getJobForStatusCheck_def
        processJob_def acknowledge_def parse)
qed

lemma redelivered:
  assumes "good w" and "parseMessage uc body = Inr message" and "jobs w (em_JobID message) = Some j"
    and "jb_Status j \<noteq> JobStatusPending" and "\<not> hasPendingTerminalEvent (jb_Metadata j)"
  shows "\<exists>w'. handle_message uc body headers w = (None, w') \<and> unmoved good jobs events w w'"
proof -
  have "uc\<lparr>uc_connections := uc_connections uc, uc_queryCRM := uc_queryCRM uc, uc_runEngine := uc_runEngine uc,
      uc_encrypt := uc_encrypt uc, uc_put := uc_put uc\<rparr> = uc" by simp
  with redelivery[OF assms, of headers] show ?thesis by metis
qed

lemma con_processJob:
  assumes "con T w"
  shows "con T (snd (processJob uc message t w))"
proof -
  obtain found w1 where f: "jr_FindByID (uc_jobs uc) (em_JobID message) w = (found, w1)" by fastforce
  note l = found_job[OF assms f]
  obtain r w2 where u: "jr_UpdateStatus (uc_jobs uc) (em_JobID message) JobStatusProcessing [] [] [] w1 = (r, w2)"
    by fastforce
  show ?thesis
  proof (cases "jobs w (em_JobID message)")
    case None
    with l have "fresh T (em_JobID message) w1" by (intro con_fresh) auto
    with f l None show ?thesis by (simp add: processJob_def con_fail_job)
  next
    case (Some job)
    show ?thesis
    proof (cases "jb_Status job = JobStatusPending")
      case True
      with l Some have "fresh T (em_JobID message) w1" by (intro con_fresh) auto
      then have "fresh T (em_JobID message) w2" using fresh_update[OF _ u] by simp
      with f l u Some True show ?thesis by (simp add: processJob_def con_fail_job con_runJob split: option.split)
    qed (use f l Some in \<open>simp add: processJob_def\<close>)
  qed
qed

lemma con_skip:
  assumes "con T w" and "shouldSkipProcessing uc i w = (r, w')"
  shows "con T w'"
proof -
  obtain found w1 where f: "jr_FindByID (uc_jobs uc) i w = (found, w1)" by fastforce
  note l = found_job[OF assms(1) f]
  have retry: "con T v" if "jobs w i = Some j" "retryPendingTerminalEventForJob uc j w1 = (x, v)" for j x v
  proof -
    have "jobs w1 (jb_ID j) = Some j" using l that(1) ids[OF con_good[OF assms(1)], of i j] by auto
    with con_retry[OF _ this that(2)] l show ?thesis by blast
  qed
  show ?thesis
    using assms(2) f l retry
    by (auto simp: shouldSkipProcessing_def getJobForStatusCheck_def split: option.splits if_splits prod.splits)
qed

lemma con_step:
  assumes "inv S w" and "con T w" and "well_delivered uc s"
  shows "con T (worker_step uc s w)"
proof (cases s)
  case (Deliver body headers)
  obtain t w1 where n: "uc_now uc w = (t, w1)" by fastforce
  have w1: "con T w1" using now[OF con_good[OF assms(2)]] con_unmoved[OF assms(2)] by (simp add: n)
  show ?thesis
    using n w1 assms(3) Deliver con_processJob
    by (auto simp: worker_step_def handler_world ExtractExternalData_def invalidMessageHandling_def
        split: sum.splits option.splits prod.splits dest: con_skip)
next
  case (Repair n)
  obtain listed w1 where p: "jr_ListPending (uc_jobs uc) n w = (listed, w1)" by fastforce
  note l = pending[OF inv_good[OF assms(1)] p]
  have w1: "inv S w1 \<and> con T w1" using l assms(1,2) inv_unmoved con_unmoved by blast
  have "con T (snd (repair_jobs uc js v))"
    if "inv S v \<and> con T v" "distinct (map jb_ID js)" "\<forall>j \<in> set js. jobs v (jb_ID j) = Some j" for js v
    using that
  proof (induction js arbitrary: v)
    case (Cons j js)
    obtain r v1 where r: "retryPendingTerminalEventForJob uc j v = (r, v1)" by fastforce
    have "inv S v1 \<and> (\<forall>k. k \<noteq> jb_ID j \<longrightarrow> jobs v1 k = jobs v k)" using Cons.prems r by (intro inv_retry) auto
    moreover have "con T v1" using Cons.prems r con_retry by auto
    moreover have "\<forall>ja \<in> set js. jb_ID ja \<noteq> jb_ID j" using Cons.prems(2) by (auto simp: image_iff)
    ultimately have "con T (snd (repair_jobs uc js v1))" using Cons.prems by (intro Cons.IH) auto
    with r show ?case by (auto simp: case_prod_beta)
  qed simp
  with p l w1 Repair show ?thesis
    by (auto simp: worker_step_def repairOnceInContext_def unmoved_def case_prod_beta split: sum.splits)
qed

lemma con_run:
  "inv S w \<Longrightarrow> con T w \<Longrightarrow> \<forall>s \<in> set steps. well_delivered uc s \<Longrightarrow> con T (worker_run uc steps w)"
  unfolding worker_run_def by (induction steps arbitrary: w) (auto simp: inv_step con_step)

end

subsection \<open>The repairer drains the outbox\<close>

definition page_of :: "int \<Rightarrow> nat" where
  "page_of n = nat (if n \<le> 0 \<or> n > maxJobPageLimit then defaultJobPageLimit else n)"

definition waiting :: "('w \<Rightarrow> uuid \<Rightarrow> Job option) \<Rightarrow> 'w \<Rightarrow> uuid set" where
  "waiting jobs w =
     {i. \<exists>j. jobs w i = Some j \<and> isTerminalStatus (jb_Status j) \<and> hasPendingTerminalEvent (jb_Metadata j)}"

text \<open>Collaborators that answer: a clear of a stored job succeeds, the emitter takes the event, a listing
  is a full page of waiting jobs.\<close>

locale outbox_live = outbox_reads +
  assumes stored_status: "good w \<Longrightarrow> jobs w i = Some j \<Longrightarrow> jobStatus_IsValid status \<Longrightarrow> map_ok md \<Longrightarrow>
      \<forall>(k, _) \<in> set md. \<not> bad_metadata_key k \<Longrightarrow> fst (jr_UpdateStatus (uc_jobs uc) i status path hmac md w) = None"
    and cleared: "good w \<Longrightarrow> jobs w i = Some j \<Longrightarrow> fst (jr_Clear (uc_jobs uc) i w) = None"
    and emitted: "good w \<Longrightarrow> fst (publishJobNotificationPayload uc status i payload w) = None"
    and page: "good w \<Longrightarrow> jr_ListPending (uc_jobs uc) n w = (listed, w') \<Longrightarrow>
      finite (waiting jobs w) \<and>
      (\<exists>js. listed = Inr js \<and> jb_ID ` set js \<subseteq> waiting jobs w \<and> length js = min (page_of n) (card (waiting jobs w)))"
begin

lemma retry_live:
  assumes "inv S w" and "jobs w (jb_ID j) = Some j" and "jb_ID j \<in> waiting jobs w"
    and "waiting jobs w \<subseteq> S"
  shows "\<exists>w'. retryPendingTerminalEventForJob uc j w = (None, w') \<and> inv S w' \<and>
    (\<forall>k. k \<noteq> jb_ID j \<longrightarrow> jobs w' k = jobs w k) \<and> waiting jobs w' = waiting jobs w - {jb_ID j}"
proof -
  from assms have ok: "outbox_ok uc (events w) j" "isTerminalStatus (jb_Status j)" "hasPendingTerminalEvent (jb_Metadata j)"
    by (auto simp: inv_def waiting_def)
  then obtain payload where e: "pendingTerminalEvent j = Inr (jb_Status j, payload)"
    by (auto simp: outbox_ok_def pendingTerminalEvent_def isTerminalStatus_def Let_def)
  have t: "terminalStatusForEvent (jb_Status j) = jb_Status j"
    using ok(2) by (auto simp: isTerminalStatus_def terminalStatusForEvent_def)
  obtain x w1 where p: "publishJobNotificationPayload uc (jb_Status j) (jb_ID j) payload w = (x, w1)" by fastforce
  have x: "x = None" using emitted[OF inv_good[OF assms(1)]] p by (metis fst_conv)
  note sent = inv_publish[OF assms(1) p]
  obtain r w' where c: "jr_Clear (uc_jobs uc) (jb_ID j) w1 = (r, w')" by fastforce
  have g1: "good w1" using sent inv_good by blast
  have r: "r = None" using cleared[OF g1, of "jb_ID j" j] sent assms(2) c by simp
  have w': "retryPendingTerminalEventForJob uc j w = (None, w')"
    using ok(2) by (simp add: retryPendingTerminalEventForJob_def e t p x clearPendingTerminalEvent_def c)
  have rw: "rewritten good jobs events marker_cleared (jb_ID j) w1 w'"
    using clear[OF g1 c] r by simp
  then obtain j1 j' where j': "jobs w' (jb_ID j) = Some j'" "marker_cleared j1 j'"
    unfolding rewritten_def by blast
  then have gone: "jb_ID j \<notin> waiting jobs w'" by (simp add: waiting_def cleared_unmarked)
  have others: "i \<in> waiting jobs w' \<longleftrightarrow> i \<in> waiting jobs w" if "i \<noteq> jb_ID j" for i
  proof -
    have "jobs w' i = jobs w i" using rw sent that by (simp add: rewritten_def)
    then show ?thesis by (simp add: waiting_def)
  qed
  have "waiting jobs w' = waiting jobs w - {jb_ID j}"
  proof (rule set_eqI)
    fix i show "i \<in> waiting jobs w' \<longleftrightarrow> i \<in> waiting jobs w - {jb_ID j}"
      using gone others[of i] by (cases "i = jb_ID j") simp_all
  qed
  with w' inv_retry[OF assms(1,2) w'] show ?thesis by (intro exI[of _ w'] conjI) simp_all
qed

lemma repair_jobs_live:
  assumes "inv S w" and "distinct (map jb_ID js)" and "\<forall>j \<in> set js. jobs w (jb_ID j) = Some j"
    and "jb_ID ` set js \<subseteq> waiting jobs w" and "waiting jobs w \<subseteq> S"
  shows "\<exists>w'. repair_jobs uc js w = ([], w') \<and> waiting jobs w' = waiting jobs w - jb_ID ` set js"
  using assms
proof (induction js arbitrary: w)
  case (Cons j js)
  then obtain w1 where w1: "retryPendingTerminalEventForJob uc j w = (None, w1)" "inv S w1"
    "\<forall>k. k \<noteq> jb_ID j \<longrightarrow> jobs w1 k = jobs w k" "waiting jobs w1 = waiting jobs w - {jb_ID j}"
    using retry_live[of S w j] by auto
  have other: "\<forall>ja \<in> set js. jb_ID ja \<noteq> jb_ID j" using Cons.prems(2) by (auto simp: image_iff)
  have "jb_ID ` set js \<subseteq> waiting jobs w1" using Cons.prems(4) other w1(4) by auto
  then obtain w' where "repair_jobs uc js w1 = ([], w')" "waiting jobs w' = waiting jobs w1 - jb_ID ` set js"
    using Cons.IH[OF w1(2)] Cons.prems w1(3,4) other by auto
  with w1 show ?case by auto
qed simp

lemma repair_live:
  assumes "inv S w" and "waiting jobs w \<subseteq> S"
  shows "\<exists>w'. repairOnceInContext uc n w = (None, w') \<and> inv S w' \<and> finite (waiting jobs w') \<and>
    waiting jobs w' \<subseteq> waiting jobs w \<and> card (waiting jobs w') = card (waiting jobs w) - page_of n"
proof -
  obtain listed w1 where p: "jr_ListPending (uc_jobs uc) n w = (listed, w1)" by fastforce
  note l = pending[OF inv_good[OF assms(1)] p]
  from page[OF inv_good[OF assms(1)] p] obtain js where js: "listed = Inr js" "jb_ID ` set js \<subseteq> waiting jobs w"
    "length js = min (page_of n) (card (waiting jobs w))" and fin: "finite (waiting jobs w)" by blast
  have w1: "inv S w1" "jobs w1 = jobs w" using l assms(1) inv_unmoved by (auto simp: unmoved_def)
  then have wait: "waiting jobs w1 = waiting jobs w" by (simp add: waiting_def)
  obtain w' where w': "repair_jobs uc js w1 = ([], w')" "waiting jobs w' = waiting jobs w - jb_ID ` set js"
    using repair_jobs_live[OF w1(1), of js] l js w1(2) wait assms(2) by auto
  have rep: "repairOnceInContext uc n w = (None, w')"
    by (simp add: repairOnceInContext_def p js(1) w'(1) errors_Join_def)
  have "distinct (map jb_ID js)" using l js(1) by blast
  then have "card (jb_ID ` set js) = length js" by (metis distinct_card length_map set_map)
  with js fin w'(2) have "card (waiting jobs w') = card (waiting jobs w) - page_of n"
    by (simp add: card_Diff_subset finite_subset)
  moreover have "inv S w'" using inv_repair[OF assms(1), of n] rep by simp
  ultimately show ?thesis using rep fin w'(2) by auto
qed

lemma repair_rounds:
  assumes "inv S w" and "card (waiting jobs w) \<le> k * page_of n" and "k > 0" and "waiting jobs w \<subseteq> S"
  shows "waiting jobs (worker_run uc (replicate k (Repair n)) w) = {}"
  using assms
proof (induction k arbitrary: w)
  case (Suc k)
  obtain w' where w': "repairOnceInContext uc n w = (None, w')" "inv S w'" "finite (waiting jobs w')"
    "waiting jobs w' \<subseteq> waiting jobs w"
    "card (waiting jobs w') = card (waiting jobs w) - page_of n" using repair_live[OF Suc.prems(1,4)] by blast
  have run: "worker_run uc (replicate (Suc k) (Repair n)) w = worker_run uc (replicate k (Repair n)) w'"
    by (simp add: worker_run_def worker_step_def w'(1))
  show ?case
  proof (cases k)
    case 0
    with w' Suc.prems(2) run show ?thesis by (simp add: worker_run_def)
  next
    case (Suc m)
    with Suc.IH[OF w'(2)] w'(4,5) Suc.prems(2,4) run show ?thesis by (simp add: le_diff_conv)
  qed
qed simp

subsection \<open>One delivery, settled\<close>

definition settled :: "uuid \<Rightarrow> JobStatus \<Rightarrow> 'a \<Rightarrow> bool" where
  "settled i status w \<longleftrightarrow>
     good w \<and> event_sent uc (events w) status i \<and>
     (\<exists>j. jobs w i = Some j \<and> jb_Status j = status \<and> \<not> hasPendingTerminalEvent (jb_Metadata j))"

lemma settle:
  assumes "good w" and "jobs w i = Some j" and "jobStatus_IsValid status" and "map_ok md"
    and "\<forall>(k, _) \<in> set md. \<not> bad_metadata_key k"
  shows "\<exists>w1 w2. jr_UpdateStatus (uc_jobs uc) i status path hmac md w = (None, w1) \<and>
    publishJobNotificationPayload uc status i payload w1 = (None, w2) \<and>
    settled i status (clearPendingTerminalEvent uc i w2)"
proof -
  obtain r w1 where u: "jr_UpdateStatus (uc_jobs uc) i status path hmac md w = (r, w1)" by fastforce
  have r: "r = None" using stored_status[OF assms, of path hmac] by (simp add: u)
  have rw: "rewritten good jobs events (status_written status md) i w w1" using update[OF assms(1,4) u] r by auto
  then obtain j1 where j1: "jobs w1 i = Some j1" "jb_Status j1 = status" and g1: "good w1"
    by (auto simp: rewritten_def status_written_def)
  obtain x w2 where p: "publishJobNotificationPayload uc status i payload w1 = (x, w2)" by fastforce
  have x: "x = None" using emitted[OF g1] p by (metis fst_conv)
  from g1 p have w2: "good w2 \<and> jobs w2 = jobs w1 \<and> event_sent uc (events w2) status i"
    by (cases rule: publish_cases) (auto simp: x event_sent_snoc)
  obtain y w3 where c: "jr_Clear (uc_jobs uc) i w2 = (y, w3)" by fastforce
  have "y = None" using cleared[of w2 i j1] w2 j1 c by simp
  then have rw3: "rewritten good jobs events marker_cleared i w2 w3" using clear[of w2 i y w3] w2 c by auto
  then obtain j3 where "jobs w3 i = Some j3" "marker_cleared j1 j3"
    using w2 j1 by (auto simp: rewritten_def)
  moreover have "good w3 \<and> events w3 = events w2" using rw3 by (simp add: rewritten_def)
  ultimately have "settled i status w3"
    using w2 j1 cleared_unmarked by (auto simp: settled_def marker_cleared_def)
  with u r p x show ?thesis by (auto simp: clearPendingTerminalEvent_def c)
qed

lemma pendingMetadata_keys:
  "\<forall>(k, _) \<in> set (terminalEventPendingMetadata status payload). \<not> bad_metadata_key k"
  "\<forall>(k, _) \<in> set (AList.update ''error'' v (terminalEventPendingMetadata status payload)). \<not> bad_metadata_key k"
  by (simp_all add: terminalEventPendingMetadata_def bad_metadata_key_def)

lemma valid_terminal: "jobStatus_IsValid JobStatusFailed" "jobStatus_IsValid JobStatusCompleted"
  by (simp_all add: jobStatus_IsValid_def validJobStatuses_def)

lemma handleError_live:
  assumes "good w" and "jobs w i = Some j" and "em_JobID message = i"
    and "buildJobNotificationPayload uc message ''failed'' (Some [(''message'', AString (uc_sanitize uc (error_text e)))])
      None = Inr payload"
  shows "\<exists>w'. handleErrorWithUpdate uc i message s (Some e) w = (Some e, w') \<and> settled i JobStatusFailed w'"
proof -
  let ?md = "AList.update ''error'' (AString (uc_sanitize uc (error_text e))) (terminalEventPendingMetadata ''failed'' payload)"
  from settle[OF assms(1,2) valid_terminal(1) pendingMetadata_ok(2) pendingMetadata_keys(2)]
  obtain w1 w2 where "jr_UpdateStatus (uc_jobs uc) i JobStatusFailed [] [] ?md w = (None, w1)"
    "publishJobNotificationPayload uc JobStatusFailed i payload w1 = (None, w2)"
    "settled i JobStatusFailed (clearPendingTerminalEvent uc i w2)" by blast
  moreover have "message\<lparr>em_JobID := i\<rparr> = message" using assms(3) by simp
  ultimately show ?thesis using assms(4) by (simp add: handleErrorWithUpdate_def Let_def)
qed

lemma completeJob_live:
  assumes "good w" and "jobs w (em_JobID message) = Some j"
    and "\<And>opts. \<exists>payload. buildJobNotificationPayload uc message ''completed'' None (Some opts) = Inr payload"
  shows "\<exists>w'. completeJob uc message d t w = (None, w') \<and> settled (em_JobID message) JobStatusCompleted w'"
proof -
  obtain at w1 where n: "uc_now uc w = (at, w1)" by fastforce
  have w1: "good w1" "jobs w1 (em_JobID message) = Some j" using now[OF assms(1)] assms(2) by (simp_all add: n unmoved_def)
  obtain payload where b: "buildJobNotificationPayload uc message ''completed'' None
      (Some \<lparr>no_Result = Some d, no_ExecutionTimeMs = (at - t) div 1000000, no_CompletedAt = Some at\<rparr>) = Inr payload"
    using assms(3) by blast
  from settle[OF w1 valid_terminal(2) pendingMetadata_ok(1) pendingMetadata_keys(1)]
  obtain w2 w3 where "jr_UpdateStatus (uc_jobs uc) (em_JobID message) JobStatusCompleted (rd_Path d) (rd_HMAC d)
      (terminalEventPendingMetadata ''completed'' payload) w1 = (None, w2)"
    "publishJobNotificationPayload uc JobStatusCompleted (em_JobID message) payload w2 = (None, w3)"
    "settled (em_JobID message) JobStatusCompleted (clearPendingTerminalEvent uc (em_JobID message) w3)" by blast
  with n b show ?thesis by (simp add: completeJob_def)
qed

text \<open>The delivery of a pending job reaches the run of the job.\<close>

lemma delivery_runs:
  assumes "good w" and "parseMessage uc body = Inr message" and "jobs w (em_JobID message) = Some j"
    and "jb_Status j = JobStatusPending" and "\<not> hasPendingTerminalEvent (jb_Metadata j)"
  shows "\<exists>t w1 j1. good w1 \<and> jobs w1 (em_JobID message) = Some j1 \<and>
    ExtractExternalData uc body headers w = runJob uc message t w1"
proof -
  from two_lookups[OF assms(1,3)] obtain t w1 w2 w3 where n: "uc_now uc w = (t, w1)"
    and w2: "jr_FindByID (uc_jobs uc) (em_JobID message) w1 = (Inr (Some j), w2)" "unmoved good jobs events w w2"
    and w3: "jr_FindByID (uc_jobs uc) (em_JobID message) w2 = (Inr (Some j), w3)" "unmoved good jobs events w w3"
    by blast
  then have g3: "good w3" "jobs w3 (em_JobID message) = Some j" using assms(3) by (simp_all add: unmoved_def)
  obtain r w4 where u: "jr_UpdateStatus (uc_jobs uc) (em_JobID message) JobStatusProcessing [] [] [] w3 = (r, w4)"
    by fastforce
  have r: "r = None"
    using stored_status[OF g3, of JobStatusProcessing "[]" "[]" "[]"] by (simp add: u jobStatus_IsValid_def validJobStatuses_def)
  from update[OF g3(1) _ u] r obtain j1 where j1: "jobs w4 (em_JobID message) = Some j1" "good w4"
    by (auto simp: rewritten_def)
  have "ExtractExternalData uc body headers w = runJob uc message t w4"
    using assms(2,4,5) n w2 w3 u r
    by (simp add: ExtractExternalData_def shouldSkipProcessing_def getJobForStatusCheck_def processJob_def)
  with j1 show ?thesis by blast
qed

lemma unmoved_answer:
  assumes "good w" and "\<And>w. good w \<Longrightarrow> unmoved good jobs events w (snd (f w))" and "\<And>w. good w \<Longrightarrow> fst (f w) = x"
  shows "\<exists>w'. f w = (x, w') \<and> good w' \<and> jobs w' = jobs w"
  using assms(2,3)[OF assms(1)] by (cases "f w") (auto simp: unmoved_def)

text \<open>An extraction that fails: the job fails for good, whatever the error.\<close>

lemma failed_delivery:
  assumes "good w" and "parseMessage uc body = Inr message" and "jobs w (em_JobID message) = Some j"
    and "jb_Status j = JobStatusPending" and "\<not> hasPendingTerminalEvent (jb_Metadata j)"
    and con: "\<And>w. good w \<Longrightarrow> fst (uc_connections uc (keys (em_MappedFields message)) w) = Inr cs" and "cs \<noteq> []"
    and ext: "\<And>w. good w \<Longrightarrow> fst (extractInto uc message cs [] w) = Inl e"
    and "buildJobNotificationPayload uc message ''failed'' (Some [(''message'', AString (uc_sanitize uc (error_text e)))])
      None = Inr payload"
  shows "\<exists>w'. handle_message uc body headers w = (acknowledge (Some e), w') \<and>
    settled (em_JobID message) JobStatusFailed w'"
proof -
  obtain t w1 j1 where w1: "good w1" "jobs w1 (em_JobID message) = Some j1"
    "ExtractExternalData uc body headers w = runJob uc message t w1" using delivery_runs[OF assms(1-5)] by blast
  obtain w2 where w2: "uc_connections uc (keys (em_MappedFields message)) w1 = (Inr cs, w2)" "good w2" "jobs w2 = jobs w1"
    using unmoved_answer[OF w1(1) connections con] by blast
  obtain w3 where w3: "extractInto uc message cs [] w2 = (Inl e, w3)" "good w3" "jobs w3 = jobs w2"
    using unmoved_answer[where f = "extractInto uc message cs []", OF w2(2) extractInto_unmoved ext] by blast
  have "jobs w3 (em_JobID message) = Some j1" using w1(2) w2(3) w3(3) by simp
  from handleError_live[OF w3(2) this refl assms(9), of "''Error querying external data''"] obtain w' where
    "handleErrorWithUpdate uc (em_JobID message) message ''Error querying external data'' (Some e) w3 = (Some e, w')"
    "settled (em_JobID message) JobStatusFailed w'" by blast
  with w1(3) w2(1) w3(1) assms(7) show ?thesis by (simp add: handle_message_def runJob_def fail_job_def)
qed

text \<open>An extraction that succeeds.\<close>

lemma completed_delivery:
  assumes "good w" and "parseMessage uc body = Inr message" and "jobs w (em_JobID message) = Some j"
    and "jb_Status j = JobStatusPending" and "\<not> hasPendingTerminalEvent (jb_Metadata j)"
    and con: "\<And>w. good w \<Longrightarrow> fst (uc_connections uc (keys (em_MappedFields message)) w) = Inr cs" and "cs \<noteq> []"
    and ext: "\<And>w. good w \<Longrightarrow> fst (extractInto uc message cs [] w) = Inr (reuse, res)"
    and sav: "\<And>w. good w \<Longrightarrow> fst (saveExternalData uc message res reuse w) = Inr d"
    and "\<And>opts. \<exists>payload. buildJobNotificationPayload uc message ''completed'' None (Some opts) = Inr payload"
  shows "\<exists>w'. handle_message uc body headers w = (None, w') \<and> settled (em_JobID message) JobStatusCompleted w'"
proof -
  obtain t w1 j1 where w1: "good w1" "jobs w1 (em_JobID message) = Some j1"
    "ExtractExternalData uc body headers w = runJob uc message t w1" using delivery_runs[OF assms(1-5)] by blast
  obtain w2 where w2: "uc_connections uc (keys (em_MappedFields message)) w1 = (Inr cs, w2)" "good w2" "jobs w2 = jobs w1"
    using unmoved_answer[OF w1(1) connections con] by blast
  obtain w3 where w3: "extractInto uc message cs [] w2 = (Inr (reuse, res), w3)" "good w3" "jobs w3 = jobs w2"
    using unmoved_answer[where f = "extractInto uc message cs []", OF w2(2) extractInto_unmoved ext] by blast
  obtain w4 where w4: "saveExternalData uc message res reuse w3 = (Inr d, w4)" "good w4" "jobs w4 = jobs w3"
    using unmoved_answer[where f = "saveExternalData uc message res reuse", OF w3(2) saveExternalData_unmoved sav] by blast
  have "jobs w4 (em_JobID message) = Some j1" using w1(2) w2(3) w3(3) w4(3) by simp
  from completeJob_live[OF w4(2) this assms(10), of d t] obtain w' where
    "completeJob uc message d t w4 = (None, w')" "settled (em_JobID message) JobStatusCompleted w'" by blast
  with w1(3) w2(1) w3(1) w4(1) assms(7) show ?thesis by (simp add: handle_message_def runJob_def acknowledge_def)
qed

end

end
