(* ===== verification/Job_Store.thy ===== *)
theory Job_Store
  imports Job_Repository
begin

text \<open>
  What the job repository relies on of the MongoDB driver, and what it promises in turn. The
  vocabulary of \<open>Job_Repository\<close> gets its documented meaning (\<open>holds\<close>, \<open>apply_update\<close>); the locale
  \<open>job_driver\<close> states the driver's contract: an update of one document is atomic and may fail before or
  after it took effect, reads return stored documents or fail. Its lemmas are the contracts of the
  repository's operations.
\<close>

fun holds :: "cond \<Rightarrow> JobMongoDBModel \<Rightarrow> bool" where
  "holds (IdIs i) d \<longleftrightarrow> jm_ID d = i"
| "holds (HashIs h) d \<longleftrightarrow> jm_RequestHash d = h"
| "holds (StatusIs s) d \<longleftrightarrow> jm_Status d = s"
| "holds (StatusIn ss) d \<longleftrightarrow> jm_Status d \<in> set ss"
| "holds (CreatedFrom t) d \<longleftrightarrow> t \<le> jm_CreatedAt d"
| "holds (CreatedTo t) d \<longleftrightarrow> jm_CreatedAt d \<le> t"
| "holds (CompletedFrom t) d \<longleftrightarrow> (case jm_CompletedAt d of None \<Rightarrow> False | Some c \<Rightarrow> t \<le> c)"
| "holds (CompletedTo t) d \<longleftrightarrow> (case jm_CompletedAt d of None \<Rightarrow> False | Some c \<Rightarrow> c \<le> t)"
| "holds (MetadataIs k v) d \<longleftrightarrow> map_of (jm_Metadata d) k = Some v"
| "holds (MappedExists k) d \<longleftrightarrow> (case jm_MappedFields d of None \<Rightarrow> False | Some m \<Rightarrow> map_of m k \<noteq> None)"

definition matches :: "cond list \<Rightarrow> JobMongoDBModel \<Rightarrow> bool" where
  "matches cs d \<longleftrightarrow> (\<forall>c \<in> set cs. holds c d)"

fun assign :: "assignment \<Rightarrow> JobMongoDBModel \<Rightarrow> JobMongoDBModel" where
  "assign (SetStatus s) d = d\<lparr>jm_Status := s\<rparr>"
| "assign (SetDedupActive b) d = d\<lparr>jm_DedupActive := b\<rparr>"
| "assign (SetCompletedAt t) d = d\<lparr>jm_CompletedAt := t\<rparr>"
| "assign (SetResultPath s) d = d\<lparr>jm_ResultPath := s\<rparr>"
| "assign (SetResultHMAC s) d = d\<lparr>jm_ResultHMAC := s\<rparr>"
| "assign (SetMetadataKey k v) d = d\<lparr>jm_Metadata := AList.update k v (jm_Metadata d)\<rparr>"
| "assign (SetMetadata m) d = d\<lparr>jm_Metadata := m\<rparr>"
| "assign (SetMappedFields m) d = d\<lparr>jm_MappedFields := m\<rparr>"
| "assign (SetFilters f) d = d\<lparr>jm_Filters := f\<rparr>"

fun remove :: "removal \<Rightarrow> JobMongoDBModel \<Rightarrow> JobMongoDBModel" where
  "remove UnsetCompletedAt d = d\<lparr>jm_CompletedAt := None\<rparr>"
| "remove (UnsetMetadataKey k) d = d\<lparr>jm_Metadata := AList.delete k (jm_Metadata d)\<rparr>"

definition apply_update :: "update \<Rightarrow> JobMongoDBModel \<Rightarrow> JobMongoDBModel" where
  "apply_update u d = fold remove (snd u) (fold assign (fst u) d)"

text \<open>A stored document has a status the services write, and its \<^verbatim>\<open>dedup_active\<close> flag, over which
  the unique index is built, agrees with the status.\<close>

definition doc_ok :: "uuid \<Rightarrow> JobMongoDBModel \<Rightarrow> bool" where
  "doc_ok i d \<longleftrightarrow> jm_ID d = i \<and> jobStatus_IsValid (jm_Status d) \<and> jm_DedupActive d = isDedupActive (jm_Status d)"

definition job_of :: "JobMongoDBModel \<Rightarrow> Job" where
  "job_of d =
     \<lparr>jb_ID = jm_ID d, jb_Metadata = jm_Metadata d, jb_MappedFields = jm_MappedFields d,
      jb_Filters = jm_Filters d, jb_Status = jm_Status d, jb_ResultPath = jm_ResultPath d,
      jb_ResultHMAC = jm_ResultHMAC d, jb_RequestHash = jm_RequestHash d,
      jb_CreatedAt = jm_CreatedAt d, jb_CompletedAt = jm_CompletedAt d\<rparr>"

lemma job_of_simps [simp]:
  "jb_ID (job_of d) = jm_ID d" "jb_Metadata (job_of d) = jm_Metadata d" "jb_Status (job_of d) = jm_Status d"
  by (simp_all add: job_of_def)

lemma status_words:
  "filter (\<lambda>c. c \<in> set (concat space_encodings)) (concat validJobStatuses) = []"
  "filter (\<lambda>s. ToLower s \<noteq> s) validJobStatuses = []"
  by code_simp+

lemma NewJobStatus_valid:
  assumes "jobStatus_IsValid s"
  shows "NewJobStatusFromString s = Inr s"
proof -
  have "ToLower s = s" using assms status_words(2) by (auto simp: jobStatus_IsValid_def filter_empty_conv)
  moreover have "TrimSpace s = s"
    using assms status_words(1) by (intro TrimSpace_plain) (auto simp: jobStatus_IsValid_def filter_empty_conv)
  ultimately show ?thesis using assms by (simp add: NewJobStatusFromString_def)
qed

lemma entity_ok: "doc_ok i d \<Longrightarrow> entity d = Inr (job_of d)"
  by (simp add: entity_def ToEntity_def NewJobStatus_valid doc_ok_def job_of_def)

lemma entity_roundtrip: "jobStatus_IsValid (jb_Status j) \<Longrightarrow> entity (FromEntity j) = Inr j"
  by (simp add: entity_def ToEntity_def FromEntity_def NewJobStatus_valid)

subsection \<open>The effect of the repository's updates\<close>

lemma fold_assign_metadata:
  "fold assign (map (\<lambda>(k, v). SetMetadataKey k v) md) d =
     d\<lparr>jm_Metadata := fold (\<lambda>(k, v). AList.update k v) md (jm_Metadata d)\<rparr>"
  by (induction md arbitrary: d) auto

lemma map_of_fold_update:
  "map_ok md \<Longrightarrow> map_of (fold (\<lambda>(k, v). AList.update k v) md m) = map_of m ++ map_of md"
proof (induction md arbitrary: m)
  case (Cons kv md)
  then show ?case by (cases kv) (auto simp: update_conv' map_add_def fun_eq_iff split: option.split)
qed simp

lemma map_of_fold_delete:
  "map_of (jm_Metadata (fold remove (map UnsetMetadataKey ks) d)) = (map_of (jm_Metadata d)) |` (- set ks)"
  by (induction ks arbitrary: d) (auto simp: delete_conv' restrict_map_def fun_eq_iff)

lemma fold_remove_kept [simp]:
  "jm_ID (fold remove rs d) = jm_ID d" "jm_Status (fold remove rs d) = jm_Status d"
  "jm_DedupActive (fold remove rs d) = jm_DedupActive d"
proof -
  have one: "jm_ID (remove r d) = jm_ID d" "jm_Status (remove r d) = jm_Status d"
    "jm_DedupActive (remove r d) = jm_DedupActive d" for r d by (cases r; simp)+
  show "jm_ID (fold remove rs d) = jm_ID d" by (induction rs arbitrary: d) (auto simp: one)
  show "jm_Status (fold remove rs d) = jm_Status d" by (induction rs arbitrary: d) (auto simp: one)
  show "jm_DedupActive (fold remove rs d) = jm_DedupActive d" by (induction rs arbitrary: d) (auto simp: one)
qed

lemma status_update_effect:
  assumes "map_ok md"
  shows "jm_ID (apply_update (status_update status path hmac md now) d) = jm_ID d"
    and "jm_Status (apply_update (status_update status path hmac md now) d) = status"
    and "map_of (jm_Metadata (apply_update (status_update status path hmac md now) d)) =
      map_of (jm_Metadata d) ++ map_of md"
    and "jm_DedupActive (apply_update (status_update status path hmac md now) d) = isDedupActive status"
  using assms by (simp_all add: apply_update_def status_update_def fold_assign_metadata map_of_fold_update)

subsection \<open>The driver's contract\<close>

text \<open>\<open>docs\<close> reads the collection; \<open>still\<close> holds of two worlds with the same collection and the same other
  observations.\<close>

definition still :: "('w \<Rightarrow> bool) \<Rightarrow> ('w \<Rightarrow> uuid \<Rightarrow> JobMongoDBModel option) \<Rightarrow> ('w \<Rightarrow> 'o) \<Rightarrow> 'w \<Rightarrow> 'w \<Rightarrow> bool" where
  "still good docs obs w w' \<longleftrightarrow> good w' \<and> docs w' = docs w \<and> obs w' = obs w"

definition jobs_of :: "('w \<Rightarrow> uuid \<Rightarrow> JobMongoDBModel option) \<Rightarrow> 'w \<Rightarrow> uuid \<Rightarrow> Job option" where
  "jobs_of docs w i = map_option job_of (docs w i)"

locale job_driver =
  fixes coll :: "'w JobCollection"
    and good :: "'w \<Rightarrow> bool"
    and docs :: "'w \<Rightarrow> uuid \<Rightarrow> JobMongoDBModel option"
    and obs :: "'w \<Rightarrow> 'o"
  assumes stored: "good w \<Longrightarrow> docs w i = Some d \<Longrightarrow> doc_ok i d"
    and resolved: "good w \<Longrightarrow> still good docs obs w (snd (ResolveDatabase coll w))"
    and timed: "good w \<Longrightarrow> still good docs obs w (snd (now_UTC coll w))"
    and updated: "good w \<Longrightarrow> UpdateOne coll [IdIs i] u w = (r, w') \<Longrightarrow>
      (\<And>d. docs w i = Some d \<Longrightarrow> doc_ok i (apply_update u d)) \<Longrightarrow>
      still good docs obs w w' \<and> (isl r \<or> docs w i = None \<and> r = Inr 0) \<or>
      (\<exists>d. docs w i = Some d \<and> good w' \<and> docs w' = (docs w)(i \<mapsto> apply_update u d) \<and> obs w' = obs w \<and>
           (isl r \<or> r = Inr 1))"
    and one: "good w \<Longrightarrow> FindOne coll [IdIs i] [] w = (found, w') \<Longrightarrow>
      still good docs obs w w' \<and> (\<forall>x. found = Inr x \<longrightarrow> x = docs w i)"
    and many: "good w \<Longrightarrow> Find coll cs ks skip limit w = (listed, w') \<Longrightarrow>
      still good docs obs w w' \<and>
      (\<forall>ds. listed = Inr ds \<longrightarrow> distinct (map jm_ID ds) \<and> (\<forall>d \<in> set ds. docs w (jm_ID d) = Some d \<and> matches cs d))"
begin

lemma scan_ok: "\<forall>d \<in> set ds. doc_ok (jm_ID d) d \<Longrightarrow> scanJobs ds = Inr (map job_of ds)"
  by (induction ds) (auto simp: entity_ok)

lemma repo_FindByID_contract:
  assumes "good w" and "repo_FindByID coll i w = (r, w')"
  shows "still good docs obs w w' \<and> (\<forall>x. r = Inr x \<longrightarrow> x = jobs_of docs w i)"
proof -
  obtain e w1 where d: "ResolveDatabase coll w = (e, w1)" by fastforce
  have s1: "still good docs obs w w1" using resolved[OF assms(1)] by (simp add: d)
  then have g1: "good w1" by (simp add: still_def)
  obtain x w2 where f: "FindOne coll [IdIs i] [] w1 = (x, w2)" by fastforce
  note o = one[OF g1 f]
  show ?thesis
    using assms(2) s1 o entity_ok[OF stored[OF g1]]
    by (auto simp: repo_FindByID_def with_database_def found_entity_def d f still_def jobs_of_def
        split: option.splits sum.splits)
qed

lemma repo_ListPending_contract:
  assumes "good w" and "repo_ListPendingTerminalEvents coll n w = (r, w')"
  shows "still good docs obs w w' \<and>
    (\<forall>js. r = Inr js \<longrightarrow> distinct (map jb_ID js) \<and> (\<forall>j \<in> set js. jobs_of docs w (jb_ID j) = Some j))"
proof -
  obtain e w1 where d: "ResolveDatabase coll w = (e, w1)" by fastforce
  have s1: "still good docs obs w w1" using resolved[OF assms(1)] by (simp add: d)
  then have g1: "good w1" by (simp add: still_def)
  let ?n = "if n \<le> 0 \<or> n > maxJobPageLimit then defaultJobPageLimit else n"
  obtain x w2 where f: "Find coll [StatusIn [JobStatusCompleted, JobStatusFailed],
      MetadataIs ''terminalEventPending'' (ABool True)] [ByCompleted True, ByCreated True] 0 ?n w1 = (x, w2)" by fastforce
  note m = many[OF g1 f]
  have "scanJobs ds = Inr (map job_of ds)" if "x = Inr ds" for ds
    using m stored[OF g1] that by (intro scan_ok) (auto simp: doc_ok_def)
  then show ?thesis
    using assms(2) s1 m f
    by (auto simp: repo_ListPendingTerminalEvents_def with_database_def scanned_def d still_def jobs_of_def comp_def
        simp del: if_split split: option.splits sum.splits)
qed

text \<open>One update of the job \<open>i\<close> that went through, or none.\<close>

definition moved :: "(Job \<Rightarrow> Job \<Rightarrow> bool) \<Rightarrow> uuid \<Rightarrow> 'w \<Rightarrow> 'w \<Rightarrow> bool" where
  "moved R i w w' \<longleftrightarrow>
     good w' \<and> obs w' = obs w \<and> (\<forall>k. k \<noteq> i \<longrightarrow> docs w' k = docs w k) \<and>
     (\<exists>d d'. docs w i = Some d \<and> docs w' i = Some d' \<and> R (job_of d) (job_of d'))"

lemma updated_contract:
  assumes "still good docs obs w w1" and "UpdateOne coll [IdIs i] u w1 = (x, w')"
    and "\<And>d. doc_ok i d \<Longrightarrow> doc_ok i (apply_update u d)"
    and "\<And>d. R (job_of d) (job_of (apply_update u d))"
    and "matched_one message (x, w') = (r, w'')"
  shows "r \<noteq> None \<and> still good docs obs w w'' \<or> moved R i w w''"
proof -
  have g1: "good w1" using assms(1) by (simp add: still_def)
  have ok: "\<And>d. docs w1 i = Some d \<Longrightarrow> doc_ok i (apply_update u d)"
    using stored[OF g1] assms(3) by blast
  from updated[OF g1 assms(2) ok] assms(1,4,5) show ?thesis
    by (auto simp: matched_one_def still_def moved_def split: sum.splits if_splits)
qed

lemma repo_UpdateStatus_contract:
  assumes "good w" and "repo_UpdateStatus coll i status path hmac md w = (r, w')" and "map_ok md"
    and "\<And>j j'. jb_ID j' = jb_ID j \<Longrightarrow> jb_Status j' = status \<Longrightarrow>
      map_of (jb_Metadata j') = map_of (jb_Metadata j) ++ map_of md \<Longrightarrow> R j j'"
  shows "r \<noteq> None \<and> still good docs obs w w' \<or> moved R i w w'"
proof (cases "jobStatus_IsValid status")
  case True
  obtain e w1 where d: "ResolveDatabase coll w = (e, w1)" by fastforce
  have s1: "still good docs obs w w1" using resolved[OF assms(1)] by (simp add: d)
  let ?t = "if status = JobStatusCompleted \<or> status = JobStatusFailed then now_UTC coll w1 else (0, w1)"
  obtain now w2 where t: "?t = (now, w2)" by fastforce
  have s2: "still good docs obs w w2"
    using s1 timed[of w1] t by (auto simp: still_def split: if_splits)
  obtain x w3 where u: "UpdateOne coll [IdIs i] (status_update status path hmac md now) w2 = (x, w3)" by fastforce
  note c = updated_contract[OF s2 u, of R "''failed to update job status''" r w']
  show ?thesis
  proof (cases "e = None \<and> filter (\<lambda>(k, _). bad_metadata_key k) md = []")
    case ok: True
    then have "matched_one ''failed to update job status'' (x, w3) = (r, w')"
      using assms(2) True by (simp add: repo_UpdateStatus_def d t u)
    then show ?thesis using c True assms(4) by (simp add: doc_ok_def status_update_effect[OF assms(3)])
  next
    case False
    then have "r \<noteq> None \<and> (w' = w1 \<or> w' = w2)"
      using assms(2) True by (auto simp: repo_UpdateStatus_def d t split: option.splits list.splits)
    with s1 s2 show ?thesis by auto
  qed
qed (use assms(1,2) in \<open>auto simp: repo_UpdateStatus_def still_def\<close>)

lemma repo_Clear_contract:
  assumes "good w" and "repo_ClearTerminalEventMetadata coll i w = (r, w')"
    and "\<And>j j'. jb_ID j' = jb_ID j \<Longrightarrow> jb_Status j' = jb_Status j \<Longrightarrow>
      map_of (jb_Metadata j') = (map_of (jb_Metadata j)) |` (- set terminal_event_keys) \<Longrightarrow> R j j'"
  shows "r \<noteq> None \<and> still good docs obs w w' \<or> moved R i w w'"
proof -
  obtain e w1 where d: "ResolveDatabase coll w = (e, w1)" by fastforce
  have s1: "still good docs obs w w1" using resolved[OF assms(1)] by (simp add: d)
  let ?u = "([], map UnsetMetadataKey terminal_event_keys)"
  obtain x w2 where u: "UpdateOne coll [IdIs i] ?u w1 = (x, w2)" by fastforce
  note c = updated_contract[OF s1 u, of R "''failed to clear terminal event metadata''" r w']
  show ?thesis
    using assms(2) s1 c assms(3)
    by (cases e) (auto simp: repo_ClearTerminalEventMetadata_def d u doc_ok_def apply_update_def map_of_fold_delete)
qed

end

end
