(* ===== verification/Worker_World.thy ===== *)
theory Worker_World
  imports Worker_Outbox Job_Store
begin

text \<open>
  The outbox contracts over the job repository. The locales state what the Worker relies on of the
  MongoDB driver and of its other collaborators; the repository's code gives the contracts of
  \<open>Worker_Outbox\<close>. An in-memory collection with injected faults shows that the contracts
  can hold: a read can fail, a write or a publication can fail before or after its effect.
\<close>

locale worker_store = job_driver coll good docs events
  for coll :: "'w JobCollection" and good :: "'w \<Rightarrow> bool" and docs :: "'w \<Rightarrow> uuid \<Rightarrow> JobMongoDBModel option"
    and events :: "'w \<Rightarrow> EmitRequest list" +
  fixes uc :: "'w UseCase"
  assumes repository: "uc_jobs uc = mongo_repository coll"
    and emitter: "good w \<Longrightarrow> uc_emitter uc = Some send \<Longrightarrow> send request w = (sent, w') \<Longrightarrow>
      good w' \<and> docs w' = docs w \<and> (events w' = events w @ [request] \<or> sent \<noteq> None \<and> events w' = events w)"
    and connections': "good w \<Longrightarrow> still good docs events w (snd (uc_connections uc names w))"
    and crm': "good w \<Longrightarrow> still good docs events w (snd (uc_queryCRM uc m cs res w))"
    and engine': "good w \<Longrightarrow> still good docs events w (snd (uc_runEngine uc cs scope tenant i request' w))"
    and encrypt': "good w \<Longrightarrow> still good docs events w (snd (uc_encrypt uc s w))"
    and put': "good w \<Longrightarrow> still good docs events w (snd (uc_put uc name s w))"
    and now': "good w \<Longrightarrow> still good docs events w (snd (uc_now uc w))"
begin

lemma still_unmoved: "still good docs events w w' \<Longrightarrow> unmoved good (jobs_of docs) events w w'"
  by (auto simp: still_def unmoved_def jobs_of_def)

lemma moved_rewritten: "moved R i w w' \<Longrightarrow> rewritten good (jobs_of docs) events R i w w'"
  by (auto simp: moved_def rewritten_def jobs_of_def)

end

sublocale worker_store \<subseteq> outbox_host uc good "jobs_of docs" events
proof (unfold_locales, goal_cases)
  case (1 w i found w')
  then show ?case using repo_FindByID_contract[of w i found w'] still_unmoved by (simp add: repository mongo_repository_def)
next
  case (2 w md i status path hmac r w')
  then show ?case
    using repo_UpdateStatus_contract[of w i status path hmac md r w' "status_written status md"]
      still_unmoved[of w w'] moved_rewritten[of _ i w w']
    by (auto simp: repository mongo_repository_def status_written_def)
next
  case (3 w i r w')
  then show ?case
    using repo_Clear_contract[of w i r w' marker_cleared] still_unmoved[of w w'] moved_rewritten[of _ i w w']
    by (auto simp: repository mongo_repository_def marker_cleared_def)
next
  case (4 w n listed w')
  then show ?case using repo_ListPending_contract[of w n listed w'] still_unmoved by (simp add: repository mongo_repository_def)
next
  case (5 w send request r w')
  then show ?case using emitter[of w send request r w'] by (auto simp: jobs_of_def)
next
  case (12 w i j)
  then show ?case using stored by (auto simp: jobs_of_def doc_ok_def)
qed (use still_unmoved connections' crm' engine' encrypt' put' now' in blast)+

text \<open>Reads of the database that do not fail.\<close>

locale worker_reads = worker_store +
  assumes resolves: "good w \<Longrightarrow> fst (ResolveDatabase coll w) = None"
    and finds: "good w \<Longrightarrow> \<not> isl (fst (FindOne coll [IdIs i] [] w))"

sublocale worker_reads \<subseteq> outbox_reads uc good "jobs_of docs" events
proof (unfold_locales, goal_cases)
  case (1 w i found w')
  obtain w1 where d: "ResolveDatabase coll w = (None, w1)" using resolves[OF 1(1)] by (metis eq_fst_iff)
  have g1: "good w1" using resolved[OF 1(1)] by (simp add: d still_def)
  obtain x w2 where f: "FindOne coll [IdIs i] [] w1 = (Inr x, w2)"
    using finds[OF g1, of i] by (cases "FindOne coll [IdIs i] [] w1"; cases "fst (FindOne coll [IdIs i] [] w1)") auto
  have "entity d = Inr (job_of d)" if "x = Some d" for d
    using one[OF g1 f] stored[OF g1, of i d] that entity_ok by auto
  with 1(2) d f show ?case
    by (auto simp: repository mongo_repository_def repo_FindByID_def with_database_def found_entity_def split: option.splits)
qed

text \<open>Collaborators that answer every call, and listings that are full pages of what matches.\<close>

definition matching :: "('w \<Rightarrow> uuid \<Rightarrow> JobMongoDBModel option) \<Rightarrow> cond list \<Rightarrow> 'w \<Rightarrow> uuid set" where
  "matching docs cs w = {i. \<exists>d. docs w i = Some d \<and> matches cs d}"

locale worker_live = worker_reads +
  assumes writes: "good w \<Longrightarrow> \<not> isl (fst (UpdateOne coll [IdIs i] u w))"
    and emits: "uc_streaming uc" "uc_outboxContext uc (event_tenant uc) = None"
      "\<exists>send. uc_emitter uc = Some send \<and> (\<forall>w request. good w \<longrightarrow> fst (send request w) = None)"
    and pages: "good w \<Longrightarrow> 0 \<le> limit \<Longrightarrow> Find coll cs ks 0 limit w = (listed, w') \<Longrightarrow>
      finite (matching docs cs w) \<and> (\<exists>ds. listed = Inr ds \<and> length ds = min (nat limit) (card (matching docs cs w)))"

lemma waiting_matching:
  "waiting (jobs_of docs) w =
     matching docs [StatusIn [JobStatusCompleted, JobStatusFailed], MetadataIs ''terminalEventPending'' (ABool True)] w"
  by (auto simp: waiting_def matching_def jobs_of_def matches_def isTerminalStatus_def hasPendingTerminalEvent_def)

sublocale worker_live \<subseteq> outbox_live uc good "jobs_of docs" events
proof (unfold_locales, goal_cases)
  case (1 w i j status md path hmac)
  obtain w1 where d: "ResolveDatabase coll w = (None, w1)" using resolves[OF 1(1)] by (metis eq_fst_iff)
  have s1: "still good docs events w w1" using resolved[OF 1(1)] by (simp add: d)
  let ?t = "if status = JobStatusCompleted \<or> status = JobStatusFailed then now_UTC coll w1 else (0, w1)"
  obtain now w2 where t: "?t = (now, w2)" by fastforce
  have s2: "still good docs events w w2" using s1 timed[of w1] t by (auto simp: still_def split: if_splits)
  then have g2: "good w2" by (simp add: still_def)
  let ?u = "status_update status path hmac md now"
  obtain x w3 where u: "UpdateOne coll [IdIs i] ?u w2 = (x, w3)" by fastforce
  have ok: "\<And>dd. docs w2 i = Some dd \<Longrightarrow> doc_ok i (apply_update ?u dd)"
    using stored[OF g2] 1(3) by (simp add: doc_ok_def status_update_effect[OF 1(4)])
  have "\<not> isl x" using writes[OF g2, of i ?u] by (simp add: u)
  moreover have "docs w2 i \<noteq> None" using s2 1(2) by (auto simp: still_def jobs_of_def)
  ultimately have x: "x = Inr 1" using updated[OF g2 u ok] by auto
  have "filter (\<lambda>(k, _). bad_metadata_key k) md = []" using 1(5) by (auto simp: filter_empty_conv)
  with 1(3) show ?case
    by (simp add: repository mongo_repository_def repo_UpdateStatus_def d t u x matched_one_def)
next
  case (2 w i j)
  obtain w1 where d: "ResolveDatabase coll w = (None, w1)" using resolves[OF 2(1)] by (metis eq_fst_iff)
  have s1: "still good docs events w w1" using resolved[OF 2(1)] by (simp add: d)
  then have g1: "good w1" by (simp add: still_def)
  let ?u = "([], map UnsetMetadataKey terminal_event_keys)"
  obtain x w2 where u: "UpdateOne coll [IdIs i] ?u w1 = (x, w2)" by fastforce
  have ok: "\<And>dd. docs w1 i = Some dd \<Longrightarrow> doc_ok i (apply_update ?u dd)"
    using stored[OF g1] by (simp add: doc_ok_def apply_update_def)
  have "\<not> isl x" using writes[OF g1, of i ?u] by (simp add: u)
  moreover have "docs w1 i \<noteq> None" using s1 2(2) by (auto simp: still_def jobs_of_def)
  ultimately have "x = Inr 1" using updated[OF g1 u ok] by auto
  then show ?case
    by (simp add: repository mongo_repository_def repo_ClearTerminalEventMetadata_def d u matched_one_def)
next
  case (3 w status i payload)
  obtain send where send: "uc_emitter uc = Some send" "\<And>request. fst (send request w) = None"
    using emits(3) 3 by blast
  obtain w1 where "send (event_request uc status i payload) w = (None, w1)" using send(2) by (metis eq_fst_iff)
  with emits(1,2) send(1) show ?case by (simp add: publishJobNotificationPayload_def emitJobNotificationEvent_def)
next
  case (4 w n listed w')
  obtain w1 where d: "ResolveDatabase coll w = (None, w1)" using resolves[OF 4(1)] by (metis eq_fst_iff)
  have s1: "still good docs events w w1" using resolved[OF 4(1)] by (simp add: d)
  then have g1: "good w1" by (simp add: still_def)
  let ?n = "if n \<le> 0 \<or> n > maxJobPageLimit then defaultJobPageLimit else n"
  let ?cs = "[StatusIn [JobStatusCompleted, JobStatusFailed], MetadataIs ''terminalEventPending'' (ABool True)]"
  obtain x w2 where f: "Find coll ?cs [ByCompleted True, ByCreated True] 0 ?n w1 = (x, w2)" by fastforce
  have "0 \<le> ?n" by (simp add: defaultJobPageLimit_def)
  from pages[OF g1 this f] obtain ds where ds: "x = Inr ds" "length ds = min (nat ?n) (card (matching docs ?cs w1))"
    and fin: "finite (matching docs ?cs w1)" by blast
  have m: "\<forall>d \<in> set ds. docs w1 (jm_ID d) = Some d \<and> matches ?cs d" using many[OF g1 f] ds(1) by blast
  have same: "matching docs ?cs w1 = waiting (jobs_of docs) w"
    using s1 unfolding waiting_matching by (simp add: still_def matching_def)
  have "scanJobs ds = Inr (map job_of ds)"
    using m stored[OF g1] by (intro scan_ok) (auto simp: doc_ok_def)
  with 4(2) d f ds(1) have "listed = Inr (map job_of ds)"
    by (simp add: repository mongo_repository_def repo_ListPendingTerminalEvents_def with_database_def scanned_def Let_def
        del: if_split)
  moreover have "jm_ID ` set ds \<subseteq> waiting (jobs_of docs) w"
    using m unfolding same[symmetric] matching_def by blast
  ultimately show ?case
    using fin ds(2) unfolding same page_of_def by (intro conjI exI[of _ "map job_of ds"]) (auto simp: image_image)
qed

subsection \<open>An in-memory collection with faults\<close>

datatype fault = Works | FailsBefore | FailsAfter

record world =
  wd_docs :: "JobMongoDBModel list"
  wd_events :: "EmitRequest list"
  wd_objects :: "(string, string) gomap"
  wd_clock :: int
  wd_reads :: "bool list"
  wd_writes :: "fault list"
  wd_emits :: "fault list"
  wd_queue :: "(string \<times> string \<times> string \<times> (string, any) gomap) list"
  wd_sends :: "fault list"

definition fault_of :: "fault list \<Rightarrow> fault" where
  "fault_of fs = (case fs of [] \<Rightarrow> Works | f # _ \<Rightarrow> f)"

definition read_fails :: "world \<Rightarrow> bool" where
  "read_fails w \<longleftrightarrow> wd_reads w \<noteq> [] \<and> hd (wd_reads w)"

definition after_read :: "world \<Rightarrow> world" where
  "after_read w = w\<lparr>wd_reads := tl (wd_reads w)\<rparr>"

definition unavailable :: serror where
  "unavailable = Plain ''server selection error''"

definition duplicate_key :: serror where
  "duplicate_key = Plain ''E11000 duplicate key error''"

definition sort_value :: "sort_key list \<Rightarrow> JobMongoDBModel \<Rightarrow> int list" where
  "sort_value ks d =
     concat (map (\<lambda>k. case k of
         ByCreated up \<Rightarrow> [if up then jm_CreatedAt d else - jm_CreatedAt d]
       | ByCompleted up \<Rightarrow>
           map (\<lambda>x. if up then x else - x) (case jm_CompletedAt d of None \<Rightarrow> [0, 0] | Some t \<Rightarrow> [1, t])) ks)"

definition selected :: "cond list \<Rightarrow> sort_key list \<Rightarrow> world \<Rightarrow> JobMongoDBModel list" where
  "selected cs ks w = sort_key (sort_value ks) (filter (matches cs) (wd_docs w))"

definition mem_docs :: "world \<Rightarrow> uuid \<Rightarrow> JobMongoDBModel option" where
  "mem_docs w i = find (\<lambda>d. jm_ID d = i) (wd_docs w)"

definition mem_good :: "world \<Rightarrow> bool" where
  "mem_good w \<longleftrightarrow>
     distinct (map jm_ID (wd_docs w)) \<and> list_all (\<lambda>d. doc_ok (jm_ID d) d) (wd_docs w)"

text \<open>Which calls are known to answer: reads, and writes together with publications.\<close>

definition mem_ok :: "bool \<Rightarrow> bool \<Rightarrow> world \<Rightarrow> bool" where
  "mem_ok rd wr w \<longleftrightarrow>
     mem_good w \<and> (rd \<longrightarrow> True \<notin> set (wd_reads w)) \<and>
     (wr \<longrightarrow> set (wd_writes w) \<subseteq> {Works} \<and> set (wd_emits w) \<subseteq> {Works})"

text \<open>The first document that matches is replaced.\<close>

fun replace_first :: "('a \<Rightarrow> bool) \<Rightarrow> ('a \<Rightarrow> 'a) \<Rightarrow> 'a list \<Rightarrow> 'a list" where
  "replace_first p f [] = []"
| "replace_first p f (x # xs) = (if p x then f x # xs else x # replace_first p f xs)"

definition mem_update :: "cond list \<Rightarrow> update \<Rightarrow> world \<Rightarrow> (serror, nat) result \<times> world" where
  "mem_update cs u w =
     (let w1 = w\<lparr>wd_writes := tl (wd_writes w)\<rparr>;
          w2 = w1\<lparr>wd_docs := replace_first (matches cs) (apply_update u) (wd_docs w)\<rparr>;
          n = (if find (matches cs) (wd_docs w) = None then 0 else 1)
      in case fault_of (wd_writes w) of
           Works \<Rightarrow> (Inr n, w2) | FailsBefore \<Rightarrow> (Inl unavailable, w1) | FailsAfter \<Rightarrow> (Inl unavailable, w2))"

text \<open>The unique keys of the collection: the id, and the request hash of the active jobs.\<close>

definition conflicts :: "JobMongoDBModel \<Rightarrow> JobMongoDBModel \<Rightarrow> bool" where
  "conflicts d x \<longleftrightarrow>
     jm_ID x = jm_ID d \<or> jm_DedupActive d \<and> jm_DedupActive x \<and> jm_RequestHash x = jm_RequestHash d"

definition mem_insert :: "JobMongoDBModel \<Rightarrow> world \<Rightarrow> serror option \<times> world" where
  "mem_insert d w =
     (let w1 = w\<lparr>wd_writes := tl (wd_writes w)\<rparr>; w2 = w1\<lparr>wd_docs := wd_docs w @ [d]\<rparr>
      in case fault_of (wd_writes w) of
           FailsBefore \<Rightarrow> (Some unavailable, w1)
         | f \<Rightarrow>
             if find (conflicts d) (wd_docs w) \<noteq> None then (Some duplicate_key, w1)
             else (if f = Works then None else Some unavailable, w2))"

definition mem_collection :: "world JobCollection" where
  "mem_collection =
     \<lparr>ResolveDatabase = (\<lambda>w. (None, w)),
      InsertOne = mem_insert,
      UpdateOne = mem_update,
      FindOneAndUpdate = (\<lambda>cs u w.
        case find (matches cs) (wd_docs w) of
          None \<Rightarrow> (Inl (Plain ''mongo: no documents in result''), w)
        | Some d \<Rightarrow> (case mem_update cs u w of (Inl e, w1) \<Rightarrow> (Inl e, w1) | (Inr _, w1) \<Rightarrow> (Inr (apply_update u d), w1))),
      FindOne = (\<lambda>cs ks w.
        (if read_fails w then Inl unavailable
         else Inr (case selected cs ks w of [] \<Rightarrow> None | d # _ \<Rightarrow> Some d), after_read w)),
      Find = (\<lambda>cs ks skip limit w.
        (if read_fails w then Inl unavailable
         else Inr (take (nat limit) (drop (nat skip) (selected cs ks w))), after_read w)),
      CountDocuments = (\<lambda>cs limit w.
        (if read_fails w then Inl unavailable
         else Inr (min limit (int (length (filter (matches cs) (wd_docs w))))), after_read w)),
      now_UTC = (\<lambda>w. (wd_clock w, w\<lparr>wd_clock := wd_clock w + 1\<rparr>))\<rparr>"

definition mem_emit :: "EmitRequest \<Rightarrow> world \<Rightarrow> serror option \<times> world" where
  "mem_emit request w =
     (let w1 = w\<lparr>wd_emits := tl (wd_emits w)\<rparr>; w2 = w1\<lparr>wd_events := wd_events w @ [request]\<rparr>
      in case fault_of (wd_emits w) of
           Works \<Rightarrow> (None, w2) | FailsBefore \<Rightarrow> (Some unavailable, w1) | FailsAfter \<Rightarrow> (Some unavailable, w2))"

text \<open>The other collaborators of the use case, as functions of their arguments.\<close>

record wconfig =
  su_connections :: "string list \<Rightarrow> (serror, Connection list) result"
  su_queryCRM :: "ExtractExternalDataMessage \<Rightarrow> Connection list \<Rightarrow> result_map \<Rightarrow> (serror, result_map) result"
  su_runEngine :: "ExtractionRequest \<Rightarrow> (serror, ExtractionResult) result"
  su_decodeResult :: "string \<Rightarrow> (serror, result_map) result"
  su_sign :: "string \<Rightarrow> (serror, string) result"
  su_encrypt :: "string \<Rightarrow> (serror, string) result"
  su_decode :: "string \<Rightarrow> (serror, ExtractExternalDataMessage option) result"
  su_partialID :: "string \<Rightarrow> uuid"
  su_parseUUID :: "string \<Rightarrow> uuid option"
  su_sha256 :: "string \<Rightarrow> string"

definition mem_uc :: "wconfig \<Rightarrow> world UseCase" where
  "mem_uc c =
     \<lparr>uc_jobs = mongo_repository mem_collection,
      uc_connections = (\<lambda>names w. (su_connections c names, w)),
      uc_queryCRM = (\<lambda>m cs res w. (su_queryCRM c m cs res, w)),
      uc_runEngine = (\<lambda>cs scope tenant i request w. (su_runEngine c request, w)),
      uc_decodeResult = su_decodeResult c,
      uc_signer = Some (su_sign c),
      uc_encrypt = (\<lambda>s w. (su_encrypt c s, w)),
      uc_put = (\<lambda>name s w. (None, w\<lparr>wd_objects := AList.update name s (wd_objects w)\<rparr>)),
      uc_storageKey = Inr,
      uc_streaming = True,
      uc_emitter = Some mem_emit,
      uc_isCallerError = (\<lambda>_. False),
      uc_outboxContext = (\<lambda>_. None),
      uc_tenantID = [],
      uc_requestID = [],
      uc_now = (\<lambda>w. (wd_clock w, w\<lparr>wd_clock := wd_clock w + 1\<rparr>)),
      uc_formatTime = itoa,
      uc_decode = su_decode c,
      uc_partialID = su_partialID c,
      uc_parseUUID = su_parseUUID c,
      uc_sanitize = id,
      uc_sha256 = su_sha256 c\<rparr>"

lemma matches_id [simp]: "matches [IdIs i] d \<longleftrightarrow> jm_ID d = i"
  by (simp add: matches_def)

lemma find_replace_first:
  assumes "\<And>d. g (f d) = g d"
  shows "find (\<lambda>d. g d = k) (replace_first (\<lambda>d. g d = i) f ds) =
    (if k = i then map_option f (find (\<lambda>d. g d = i) ds) else find (\<lambda>d. g d = k) ds)"
  by (induction ds) (auto simp: assms)

lemma map_replace_first: "(\<And>d. p d \<Longrightarrow> g (f d) = g d) \<Longrightarrow> map g (replace_first p f ds) = map g ds"
  by (induction ds) auto

lemma set_replace_first: "set (replace_first p f ds) \<subseteq> set ds \<union> f ` {d \<in> set ds. p d}"
  by (induction ds) auto

lemma find_in_distinct:
  assumes "distinct (map g ds)" and "d \<in> set ds"
  shows "find (\<lambda>x. g x = g d) ds = Some d"
  using assms by (induction ds) (auto simp: image_iff)

lemma apply_update_id [simp]: "jm_ID (apply_update u d) = jm_ID d"
proof -
  have "jm_ID (assign a d) = jm_ID d" for a d by (cases a) auto
  then have "jm_ID (fold assign as d) = jm_ID d" for as by (induction as arbitrary: d) auto
  then show ?thesis by (simp add: apply_update_def)
qed

lemma mem_stored: "mem_good w \<Longrightarrow> mem_docs w i = Some d \<Longrightarrow> doc_ok i d"
  by (auto simp: mem_good_def mem_docs_def doc_ok_def find_Some_iff list_all_length)

lemma mem_docs_in: "mem_good w \<Longrightarrow> d \<in> set (wd_docs w) \<Longrightarrow> mem_docs w (jm_ID d) = Some d"
  by (simp add: mem_good_def mem_docs_def find_in_distinct)

lemma mem_docs_mem: "mem_docs w i = Some d \<Longrightarrow> d \<in> set (wd_docs w) \<and> jm_ID d = i"
  by (auto simp: mem_docs_def find_Some_iff)

lemma set_tl: "set (tl xs) \<subseteq> set xs"
  by (cases xs) auto

lemma calm_tl [simp]: "x \<notin> set xs \<Longrightarrow> x \<notin> set (tl xs)" "set xs \<subseteq> A \<Longrightarrow> set (tl xs) \<subseteq> A"
  using set_tl[of xs] by auto

text \<open>An observation of the other parts of the world.\<close>

definition apart :: "(world \<Rightarrow> 'o) \<Rightarrow> bool" where
  "apart obs \<longleftrightarrow>
     (\<forall>w ds fs rs t os. obs (w\<lparr>wd_docs := ds\<rparr>) = obs w \<and> obs (w\<lparr>wd_writes := fs\<rparr>) = obs w \<and>
        obs (w\<lparr>wd_reads := rs\<rparr>) = obs w \<and> obs (w\<lparr>wd_clock := t\<rparr>) = obs w \<and> obs (w\<lparr>wd_objects := os\<rparr>) = obs w)"

lemma apart_observations [simp]: "apart wd_events" "apart wd_queue"
  by (simp_all add: apart_def)

lemma mem_update_contract:
  assumes "apart obs" and "mem_ok rd wr w" and "mem_update [IdIs i] u w = (r, w')"
    and ok: "\<And>d. mem_docs w i = Some d \<Longrightarrow> doc_ok i (apply_update u d)"
  shows "still (mem_ok rd wr) mem_docs obs w w' \<and> (isl r \<or> mem_docs w i = None \<and> r = Inr 0) \<or>
    (\<exists>d. mem_docs w i = Some d \<and> mem_ok rd wr w' \<and> mem_docs w' = (mem_docs w)(i \<mapsto> apply_update u d) \<and>
      obs w' = obs w \<and> (isl r \<or> r = Inr 1))"
proof -
  let ?w1 = "w\<lparr>wd_writes := tl (wd_writes w)\<rparr>"
  let ?w2 = "?w1\<lparr>wd_docs := replace_first (matches [IdIs i]) (apply_update u) (wd_docs w)\<rparr>"
  have g: "mem_good w" using assms(2) by (simp add: mem_ok_def)
  have m: "matches [IdIs i] = (\<lambda>d. jm_ID d = i)" by (simp add: fun_eq_iff)
  have docs2: "mem_docs ?w2 k = (if k = i then map_option (apply_update u) (mem_docs w i) else mem_docs w k)" for k
    unfolding mem_docs_def m by (simp add: find_replace_first)
  have "mem_good ?w2"
  proof -
    have "doc_ok (jm_ID d) d" if "d \<in> set (wd_docs ?w2)" for d
      using set_replace_first[of "matches [IdIs i]" "apply_update u" "wd_docs w"] that g ok mem_docs_in[OF g]
      by (auto simp: mem_good_def list_all_iff doc_ok_def subset_iff)
    with g show ?thesis by (simp add: mem_good_def list_all_iff map_replace_first)
  qed
  then have good2: "mem_ok rd wr ?w2" using assms(2) by (simp add: mem_ok_def)
  have still1: "still (mem_ok rd wr) mem_docs obs w ?w1"
    using assms(1,2) by (simp add: apart_def still_def mem_ok_def mem_good_def mem_docs_def fun_eq_iff)
  have r: "(r, w') \<in> {(Inr (if mem_docs w i = None then 0 else 1), ?w2), (Inl unavailable, ?w1), (Inl unavailable, ?w2)}"
    using assms(3) by (auto simp: mem_update_def Let_def mem_docs_def m split: fault.splits)
  show ?thesis
  proof (cases "mem_docs w i")
    case None
    then have "still (mem_ok rd wr) mem_docs obs w ?w2"
      using good2 docs2 assms(1) by (auto simp: still_def apart_def fun_eq_iff)
    with r still1 None show ?thesis by auto
  next
    case (Some d)
    then have "mem_docs ?w2 = (mem_docs w)(i \<mapsto> apply_update u d)" using docs2 by (simp add: fun_eq_iff)
    with r still1 good2 Some assms(1) show ?thesis by (auto simp: apart_def)
  qed
qed

lemma mem_quiet [simp]:
  assumes "apart obs" and "mem_ok rd wr w"
  shows "still (mem_ok rd wr) mem_docs obs w w"
    "still (mem_ok rd wr) mem_docs obs w (w\<lparr>wd_clock := t\<rparr>)"
    "still (mem_ok rd wr) mem_docs obs w (w\<lparr>wd_objects := os\<rparr>)"
    "still (mem_ok rd wr) mem_docs obs w (after_read w)"
  using assms by (simp_all add: apart_def still_def mem_ok_def mem_good_def mem_docs_def after_read_def fun_eq_iff)

lemma mem_emit_contract:
  assumes "mem_ok rd wr w" and "mem_emit request w = (sent, w')"
  shows "mem_ok rd wr w' \<and> mem_docs w' = mem_docs w \<and>
    (wd_events w' = wd_events w @ [request] \<or> sent \<noteq> None \<and> wd_events w' = wd_events w)"
  using assms set_tl[of "wd_emits w"]
  by (cases "fault_of (wd_emits w)") (auto simp: mem_emit_def Let_def mem_ok_def mem_good_def mem_docs_def fun_eq_iff subset_iff)

lemma calm_fault: "set fs \<subseteq> {Works} \<Longrightarrow> fault_of fs = Works"
  by (cases fs) (auto simp: fault_of_def)

lemma calm_read: "True \<notin> set (wd_reads w) \<Longrightarrow> \<not> read_fails w"
  by (cases "wd_reads w") (auto simp: read_fails_def)

lemma selected_set [simp]: "set (selected cs ks w) = {d \<in> set (wd_docs w). matches cs d}"
  by (auto simp: selected_def)

lemma selected_distinct: "mem_good w \<Longrightarrow> distinct (map jm_ID (selected cs ks w))"
  by (auto simp: mem_good_def selected_def distinct_map intro: inj_on_subset)

lemma selected_id:
  assumes "mem_good w"
  shows "(case selected [IdIs i] ks w of [] \<Rightarrow> None | d # _ \<Rightarrow> Some d) = mem_docs w i"
proof (cases "selected [IdIs i] ks w")
  case Nil
  then have "\<forall>d \<in> set (wd_docs w). jm_ID d \<noteq> i" using selected_set[of "[IdIs i]" ks w] by auto
  then show ?thesis by (auto simp: Nil mem_docs_def find_None_iff2)
next
  case (Cons d ds)
  then have "d \<in> set (wd_docs w)" "jm_ID d = i" using selected_set[of "[IdIs i]" ks w] by auto
  with mem_docs_in[OF assms] Cons show ?thesis by auto
qed

lemma selected_card: "mem_good w \<Longrightarrow> finite (matching mem_docs cs w) \<and> length (selected cs ks w) = card (matching mem_docs cs w)"
proof -
  assume g: "mem_good w"
  have "matching mem_docs cs w = jm_ID ` set (selected cs ks w)"
    using mem_docs_in[OF g] by (auto simp: matching_def image_iff dest: mem_docs_mem)
  then show ?thesis using selected_distinct[OF g, of cs ks] by (metis List.finite_set distinct_card finite_imageI length_map set_map)
qed

subsection \<open>The contracts hold of it\<close>

lemma mem_driver:
  assumes "apart obs"
  shows "job_driver mem_collection (mem_ok rd wr) mem_docs obs"
proof (unfold_locales, goal_cases)
  case (1 w i d) then show ?case unfolding mem_ok_def using mem_stored by blast
next
  case (4 w i u r w')
  then show ?case using mem_update_contract[OF assms, of rd wr w i u r w'] by (simp add: mem_collection_def)
next
  case (5 w i found w')
  then have "mem_good w" by (simp add: mem_ok_def)
  with 5 assms show ?case by (auto simp: mem_collection_def selected_id split: if_splits)
next
  case (6 w cs ks skip limit listed w')
  then have g: "mem_good w" by (simp add: mem_ok_def)
  have "set (take (nat limit) (drop (nat skip) (selected cs ks w))) \<subseteq> set (selected cs ks w)"
    by (meson order_trans set_drop_subset set_take_subset)
  moreover have "distinct (map jm_ID (take (nat limit) (drop (nat skip) (selected cs ks w))))"
    using selected_distinct[OF g] by (simp add: take_map[symmetric] drop_map[symmetric])
  ultimately show ?case
    using 6 assms mem_docs_in[OF g] by (auto simp: mem_collection_def split: if_splits)
qed (use assms in \<open>simp_all add: mem_collection_def\<close>)

interpretation mw: worker_store mem_collection "mem_ok rd wr" mem_docs wd_events "mem_uc c" for rd wr c
proof (rule worker_store.intro, rule mem_driver, simp, unfold_locales, goal_cases)
  case (2 w send request sent w')
  then have "send = mem_emit" by (simp add: mem_uc_def)
  with 2 mem_emit_contract show ?case by blast
qed (simp_all add: mem_uc_def)

interpretation mr: worker_reads mem_collection "mem_ok True wr" mem_docs wd_events "mem_uc c" for wr c
  by unfold_locales (simp_all add: mem_collection_def mem_ok_def calm_read)

interpretation ml: worker_live mem_collection "mem_ok True True" mem_docs wd_events "mem_uc c" for c
proof (unfold_locales, goal_cases)
  case (1 w i u)
  then show ?case by (simp add: mem_collection_def mem_update_def mem_ok_def calm_fault)
next
  case 4
  have "fst (mem_emit request w) = None" if "mem_ok True True w" for request w
    using that by (simp add: mem_emit_def mem_ok_def calm_fault Let_def)
  then show ?case by (simp add: mem_uc_def)
next
  case (5 w limit cs ks listed w')
  then have "mem_good w" "listed = Inr (take (nat limit) (selected cs ks w))"
    by (auto simp: mem_ok_def mem_collection_def calm_read)
  with selected_card[of w cs ks] show ?case by (auto simp: min.commute)
qed (simp_all add: mem_collection_def mem_uc_def)

end
