(* ===== verification/Worker_Scenarios.thy ===== *)
theory Worker_Scenarios
  imports Worker_World
begin

text \<open>
  What the Worker promises of a run: no terminal event is lost, no two events of a job contradict each
  other, the repairer drains the outbox, and what one delivery does. A run is any sequence of
  deliveries and repair rounds. The scenario is one pending job with one PostgreSQL table.
\<close>

subsection \<open>A scenario\<close>

definition job_1 :: uuid where
  "job_1 = ''0190-1''"

definition message_1 :: ExtractExternalDataMessage where
  "message_1 =
     \<lparr>em_JobID = job_1, em_MappedFields = [(''pg'', [(''users'', [''id''])])], em_Filters = [],
      em_Metadata = [(''source'', AString ''report'')]\<rparr>"

definition doc_1 :: JobMongoDBModel where
  "doc_1 =
     \<lparr>jm_ID = job_1, jm_Metadata = [(''source'', AString ''report'')],
      jm_MappedFields = Some [(''pg'', [(''users'', [''id''])])], jm_Filters = [], jm_Status = JobStatusPending,
      jm_DedupActive = True, jm_ResultPath = [], jm_ResultHMAC = [], jm_RequestHash = ''h'', jm_CreatedAt = 0,
      jm_CompletedAt = None\<rparr>"

definition connection_1 :: Connection where
  "connection_1 =
     \<lparr>cn_ID = ''c'', cn_ProductName = ''p'', cn_ConfigName = ''pg'', cn_Type = TypePostgreSQL, cn_Host = ''h'',
      cn_Port = 5432, cn_DatabaseName = ''d'', cn_Schema = None, cn_Username = ''u'', cn_PasswordEncrypted = ''x'',
      cn_EncryptionKeyVersion = ''v1'', cn_SSL = None, cn_Metadata = None, cn_CreatedAt = 0, cn_UpdatedAt = 0,
      cn_DeletedAt = None, cn_password = []\<rparr>"

definition result_1 :: ExtractionResult where
  "result_1 =
     \<lparr>er_State = \<lparr>es_JobID = job_1, es_Status = StatusCompleted, es_StartedAt = 0, es_CompletedAt = Some 0,
        es_FailureMessage = []\<rparr>,
      er_Direct = Some \<lparr>dr_Data = ''{}'', dr_Format = ''json'', dr_RowCount = 0, dr_PlaintextSize = 2,
        dr_Integrity = None, dr_Protection = None, dr_CompletedAt = 0\<rparr>,
      er_Reference = None, er_RowCounts = []\<rparr>"

text \<open>\<open>''m''\<close> is the body of the message; \<open>outcome\<close> is what the Engine answers.\<close>

definition config_1 :: "(serror, ExtractionResult) result \<Rightarrow> wconfig" where
  "config_1 outcome =
     \<lparr>su_connections = (\<lambda>_. Inr [connection_1]), su_queryCRM = (\<lambda>_ _ res. Inr res),
      su_runEngine = (\<lambda>_. outcome), su_decodeResult = (\<lambda>_. Inr []), su_sign = (\<lambda>s. Inr (''hmac '' @ s)),
      su_encrypt = (\<lambda>s. Inr (rev s)),
      su_decode = (\<lambda>body. if body = ''m'' then Inr (Some message_1) else Inl (JsonSyntaxError ''bad'')),
      su_partialID = (\<lambda>_. uuid_Nil), su_parseUUID = (\<lambda>s. if s = job_1 then Some s else None), su_sha256 = id\<rparr>"

definition world_1 :: "bool list \<Rightarrow> fault list \<Rightarrow> fault list \<Rightarrow> world" where
  "world_1 reads writes emits =
     \<lparr>wd_docs = [doc_1], wd_events = [], wd_objects = [], wd_clock = 0, wd_reads = reads, wd_writes = writes,
      wd_emits = emits, wd_queue = [], wd_sends = []\<rparr>"

lemma world_1_ok: "rd \<longrightarrow> True \<notin> set reads \<Longrightarrow> wr \<longrightarrow> set writes \<subseteq> {Works} \<and> set emits \<subseteq> {Works} \<Longrightarrow>
  mem_ok rd wr (world_1 reads writes emits)"
  by (simp add: mem_ok_def mem_good_def world_1_def doc_1_def doc_ok_def isDedupActive_def
      jobStatus_IsValid_def validJobStatuses_def)

lemma job_1_stored: "jobs_of mem_docs (world_1 reads writes emits) i = (if i = job_1 then Some (job_of doc_1) else None)"
  by (auto simp: jobs_of_def mem_docs_def world_1_def doc_1_def)

lemma job_1_outbox: "outbox_ok uc es (job_of doc_1)"
  by (simp add: outbox_ok_def job_of_def doc_1_def hasPendingTerminalEvent_def)

lemma world_1_outbox: "jobs_of mem_docs (world_1 reads writes emits) i = Some j \<Longrightarrow> outbox_ok uc es j"
  using job_1_outbox by (auto simp: job_1_stored split: if_splits)

lemma world_1_events [simp]: "wd_events (world_1 reads writes emits) = []"
  by (simp add: world_1_def)

text \<open>The same job, completed, with its event still to be sent.\<close>

definition doc_2 :: JobMongoDBModel where
  "doc_2 = doc_1\<lparr>jm_Status := JobStatusCompleted, jm_DedupActive := False, jm_Metadata := terminalEventPendingMetadata ''completed'' ''{}''\<rparr>"

definition world_2 :: world where
  "world_2 = (world_1 [] [] [])\<lparr>wd_docs := [doc_2]\<rparr>"

lemma world_2_ok: "mem_ok True True world_2"
  by (simp add: mem_ok_def mem_good_def world_2_def world_1_def doc_2_def doc_1_def doc_ok_def isDedupActive_def
      jobStatus_IsValid_def validJobStatuses_def)

lemma job_2_stored: "jobs_of mem_docs world_2 i = (if i = job_1 then Some (job_of doc_2) else None)"
  by (auto simp: jobs_of_def mem_docs_def world_2_def doc_2_def doc_1_def)

lemma world_2_outbox: "jobs_of mem_docs world_2 i = Some j \<Longrightarrow> outbox_ok uc es j"
  by (auto simp: job_2_stored outbox_ok_def job_of_def doc_2_def hasPendingTerminalEvent_def text_at_def
      terminalEventPendingMetadata_def split: if_splits)

lemma world_2_waiting: "waiting (jobs_of mem_docs) world_2 \<subseteq> {job_1}"
  by (auto simp: waiting_def job_2_stored split: if_splits)

lemma parse_1: "parseMessage (mem_uc (config_1 outcome)) ''m'' = Inr message_1"
  by (simp add: parseMessage_def mem_uc_def config_1_def validateExtractExternalDataMessage_def message_1_def job_1_def
      uuid_Nil_def)

subsection \<open>The contracts of a run\<close>

context worker_store
begin

lemma store_host: "outbox_host uc good (jobs_of docs) events"
  by (rule outbox_host_axioms)

end

context worker_reads
begin

lemma reads_host: "outbox_reads uc good (jobs_of docs) events"
  by (rule outbox_reads_axioms)

end

context worker_live
begin

lemma live_host: "outbox_live uc good (jobs_of docs) events"
  by (rule outbox_live_axioms)

end

lemma inv_iff:
  assumes "worker_store coll good docs events uc"
  shows "outbox_host.inv uc good (jobs_of docs) events S w \<longleftrightarrow>
    good w \<and> (\<forall>i \<in> S. \<forall>j. jobs_of docs w i = Some j \<longrightarrow> outbox_ok uc (events w) j)"
  by (rule outbox_host.inv_def[OF worker_store.store_host[OF assms]])

subsection \<open>A lost publication\<close>

text \<open>The publication of the completed event is lost, then the repairer sends it.\<close>

definition steps_1 :: "wstep list" where
  "steps_1 = [Deliver ''m'' [], Repair 10]"

definition end_1 :: world where
  "end_1 = worker_run (mem_uc (config_1 (Inr result_1))) steps_1 (world_1 [] [] [FailsBefore])"

lemma end_1_job: "map_option jb_Status (jobs_of mem_docs end_1 job_1) = Some JobStatusCompleted"
  by code_simp

lemma end_1_events:
  "map (\<lambda>e. (eq_DefinitionKey e, eq_EventID e, eq_TenantID e, eq_Subject e)) (wd_events end_1) =
     [(''job.completed'', ''fetcher.job.completed.0190-1'', ''single-tenant'', ''0190-1'')]"
  by code_simp

lemma end_1_sent: "event_sent (mem_uc (config_1 (Inr result_1))) (wd_events end_1) JobStatusCompleted job_1"
proof -
  obtain e where "wd_events end_1 = [e]" and
    "(eq_DefinitionKey e, eq_EventID e, eq_TenantID e, eq_Subject e) =
      (''job.completed'', ''fetcher.job.completed.0190-1'', ''single-tenant'', ''0190-1'')"
    using end_1_events by (cases "wd_events end_1") auto
  then show ?thesis
    by (auto simp: event_sent_def event_request_def deterministicJobEventID_def event_tenant_def mem_uc_def job_1_def
        intro!: exI[of _ "eq_Payload e"])
qed

subsection \<open>A repair round beside a delivery\<close>

text \<open>
  The repairer runs in a goroutine of its own, works on the jobs it has listed before, and clears a marker
  whatever status it carries by then. The completed write of a delivery takes effect but reports an error
  (\<open>errored_1\<close>); the repairer lists the job (\<open>listed_1\<close>), and the handler goes on to fail it. If the repairer comes
  first, both events are sent. If it comes last and the failed event was not published, its clear erases the marker of
  the failed event: the failed job has a completed event and nothing waits.
\<close>

definition errored_1 :: "fault list \<Rightarrow> world" where
  "errored_1 emits =
     snd (jr_UpdateStatus (uc_jobs (mem_uc (config_1 (Inr result_1)))) job_1 JobStatusCompleted ''path'' ''hmac''
       (terminalEventPendingMetadata ''completed'' ''{}'') (world_1 [] [FailsAfter] emits))"

definition listed_1 :: "world \<Rightarrow> Job list" where
  "listed_1 w = (case jr_ListPending (uc_jobs (mem_uc (config_1 (Inr result_1)))) 10 w of (Inr js, _) \<Rightarrow> js | _ \<Rightarrow> [])"

definition fail_1 :: "world \<Rightarrow> world" where
  "fail_1 w = snd (handleErrorWithUpdate (mem_uc (config_1 (Inr result_1))) job_1 message_1 ''failed to update job status''
     (Some (Plain ''timeout'')) w)"

definition repair_first :: world where
  "repair_first = fail_1 (snd (repair_jobs (mem_uc (config_1 (Inr result_1))) (listed_1 (errored_1 [])) (errored_1 [])))"

definition repair_last :: world where
  "repair_last =
     snd (repair_jobs (mem_uc (config_1 (Inr result_1))) (listed_1 (errored_1 [FailsBefore])) (fail_1 (errored_1 [FailsBefore])))"

lemma repair_first_sends_both: "map eq_DefinitionKey (wd_events repair_first) = [''job.completed'', ''job.failed'']"
  by code_simp

lemma repair_last_loses_failure:
  "map jm_Status (wd_docs repair_last) = [JobStatusFailed] \<and>
   map eq_DefinitionKey (wd_events repair_last) = [''job.completed''] \<and>
   map_option (\<lambda>j. hasPendingTerminalEvent (jb_Metadata j)) (jobs_of mem_docs repair_last job_1) = Some False"
  by code_simp

subsection \<open>Payloads are built of encodable metadata\<close>

definition encodable :: "(string, any) gomap \<Rightarrow> bool" where
  "encodable m \<longleftrightarrow> list_all (\<lambda>(_, v). encode v \<noteq> None) m"

lemma json_map_Some: "encodable m \<Longrightarrow> json_map encode m \<noteq> None"
  unfolding json_map_def json_struct_Some by (auto simp: encodable_def list_all_iff in_key_order_def)

lemma encodable_update: "encodable m \<Longrightarrow> encode v \<noteq> None \<Longrightarrow> encodable (AList.update k v m)"
  by (induction m) (auto simp: encodable_def)

lemma json_members_Some [simp]:
  "json_integrity x \<noteq> None" "json_protection y \<noteq> None" "json_result z \<noteq> None"
proof -
  show i: "json_integrity x \<noteq> None" for x
    unfolding json_integrity_def json_struct_Some by (auto simp: omit_text_def)
  show p: "json_protection y \<noteq> None" for y
    unfolding json_protection_def json_struct_Some by (auto simp: omit_text_def omit_number_def)
  show "json_result z \<noteq> None"
    unfolding json_result_def json_struct_Some
    using i p by (auto simp: omit_text_def omit_number_def simp del: not_None_eq split: option.splits)
qed

lemma payload_total:
  assumes "encodable (em_Metadata message)" and "\<And>em. em' = Some em \<Longrightarrow> encode (AMap em) \<noteq> None"
  shows "\<exists>payload. buildJobNotificationPayload uc message status em' opts = Inr payload"
proof -
  have "encodable (notification_metadata message status em')"
    using assms by (auto simp: notification_metadata_def simp del: encode.simps intro: encodable_update split: option.splits)
  note md = json_map_Some[OF this]
  have "json_struct ([(''jobId'', Some (JAtom (json_quote (em_JobID message)))),
      (''metadata'', json_map encode (notification_metadata message status em')),
      (''status'', Some (JAtom (json_quote status)))] @ extra) \<noteq> None" if "\<forall>(_, r) \<in> set extra. r \<noteq> None" for extra
    unfolding json_struct_Some using md that by auto
  then show ?thesis
    unfolding buildJobNotificationPayload_def Let_def
    by (auto simp: omit_number_def json_members_Some(3)[unfolded not_None_eq] split: option.split)
qed

subsection \<open>The answers of the scenario's collaborators\<close>

text \<open>The job after a failure.\<close>

definition doc_3 :: JobMongoDBModel where
  "doc_3 = doc_1\<lparr>jm_Status := JobStatusFailed, jm_DedupActive := False\<rparr>"

definition world_3 :: world where
  "world_3 = (world_1 [] [] [])\<lparr>wd_docs := [doc_3]\<rparr>"

lemma world_3_ok: "mem_ok True False world_3"
  by (simp add: mem_ok_def mem_good_def world_3_def world_1_def doc_3_def doc_1_def doc_ok_def isDedupActive_def
      jobStatus_IsValid_def validJobStatuses_def)

lemma job_3_stored: "jobs_of mem_docs world_3 (em_JobID message_1) = Some (job_of doc_3)"
  by (simp add: jobs_of_def mem_docs_def world_3_def doc_3_def doc_1_def message_1_def)

lemma job_1_found: "jobs_of mem_docs (world_1 reads writes emits) (em_JobID message_1) = Some (job_of doc_1)"
  by (simp add: job_1_stored message_1_def)

lemma message_1_encodable: "encodable (em_Metadata message_1)"
  by (simp add: encodable_def message_1_def)

lemma connections_1: "fst (uc_connections (mem_uc (config_1 outcome)) names w) = Inr [connection_1]"
  by (simp add: mem_uc_def config_1_def)

lemma tenant_1: "TenantContextFromRequest (mem_uc c) = Inr \<lparr>TenantID = ''default'', RequestID = []\<rparr>"
proof -
  have "NewTenantContext ''default'' = Inr \<lparr>TenantID = ''default'', RequestID = []\<rparr>" by code_simp
  then show ?thesis by (simp add: TenantContextFromRequest_def mem_uc_def SingleTenantID_def)
qed

lemma split_1: "splitCRMCompatibility message_1 [connection_1] = (None, Some message_1)"
  by code_simp

definition reuse_1 :: directReuse where
  "reuse_1 = \<lparr>re_plaintext = ''{}'', re_rowCount = 0, re_integrity = None\<rparr>"

lemma extract_1_ok:
  "fst (extractInto (mem_uc (config_1 (Inr result_1))) message_1 [connection_1] [] w) = Inr (Some reuse_1, [])"
  by (simp add: extractInto_def split_1 extractViaEngine_def tenant_1)
    (simp add: mem_uc_def config_1_def validateDirectResult_def result_1_def reusableFromDirect_def reuse_1_def)

lemma extract_1_err:
  "fst (extractInto (mem_uc (config_1 (Inl e))) message_1 [connection_1] [] w) = Inl (wrap ''engine extraction'' e)"
  by (simp add: extractInto_def split_1 extractViaEngine_def tenant_1) (simp add: mem_uc_def config_1_def)

definition saved_1 :: JobResultData where
  "saved_1 =
     \<lparr>rd_Path = result_object job_1, rd_SizeBytes = 2, rd_RowCount = 0, rd_Format = ''json'', rd_HMAC = ''hmac {}'',
      rd_Integrity = resultIntegrity ''hmac {}'', rd_Protection = Some resultProtection\<rparr>"

lemma save_1:
  "fst (saveExternalData (mem_uc (config_1 (Inr result_1))) message_1 [] (Some reuse_1) w) = Inr saved_1"
  by (simp add: saveExternalData_def resultPlaintext_def verifyIntegrity_def reuse_1_def saved_1_def mem_uc_def config_1_def
      message_1_def)

lemma deadline_wrapped_transient: "\<not> isNonRetryableHandlerError (Some (wrap ''engine extraction'' ContextDeadline))"
  by code_simp

end
