(* ===== verification/Message_Envelope.thy ===== *)
theory Message_Envelope
  imports Service_Errors Go_Json
begin

text \<open>
  The signed envelope of queued messages (\<^verbatim>\<open>pkg/rabbitmq/security_envelope.go\<close>, the verifier and the
  delivery step of \<^verbatim>\<open>pkg/rabbitmq/rabbitmq.go\<close>, \<^verbatim>\<open>pkg/crypto/signer.go\<close>). HMAC-SHA256, JSON decoding,
  trace headers, the printing of a duration and the name of the request-id header are parameters. Times are
  nanoseconds; \<^verbatim>\<open>time.Unix\<close> wraps at 64 bits and \<^verbatim>\<open>time.Since\<close> saturates.
\<close>

subsection \<open>Signers\<close>

record Signer =
  sn_Sign :: "string \<Rightarrow> string"
  sn_Verify :: "string \<Rightarrow> string \<Rightarrow> serror option"
  sn_Version :: string

definition SignatureVersion :: string where
  "SignatureVersion = ''v1''"

definition ErrInvalidSignature :: serror where
  "ErrInvalidSignature = Plain ''invalid message signature''"

definition ErrUnsupportedSignatureVersion :: serror where
  "ErrUnsupportedSignatureVersion = Plain ''unsupported signature version''"

definition hex_byte :: "char \<Rightarrow> string" where
  "hex_byte c = [hex_digit (of_char c div 16), hex_digit (of_char c mod 16)]"

definition hex_EncodeToString :: "string \<Rightarrow> string" where
  "hex_EncodeToString s = concat (map hex_byte s)"

definition hmac_Sign :: "(string \<Rightarrow> string \<Rightarrow> string) \<Rightarrow> string \<Rightarrow> string \<Rightarrow> string" where
  "hmac_Sign hmac key payload = hex_EncodeToString (hmac key payload)"

definition hmac_Verify :: "(string \<Rightarrow> string \<Rightarrow> string) \<Rightarrow> string \<Rightarrow> string \<Rightarrow> string \<Rightarrow> serror option" where
  "hmac_Verify hmac key payload signature =
     (if hmac_Sign hmac key payload \<noteq> signature then Some ErrInvalidSignature else None)"

definition NewHMACSigner :: "(string \<Rightarrow> string \<Rightarrow> string) \<Rightarrow> string \<Rightarrow> string \<Rightarrow> (serror, Signer) result" where
  "NewHMACSigner hmac key version =
     (if length key < 32
      then Inl (Plain (''signing key too short: got '' @ itoa (int (length key)) @ '' bytes, minimum 32 required''))
      else Inr \<lparr>sn_Sign = hmac_Sign hmac key, sn_Verify = hmac_Verify hmac key,
                sn_Version = (if version = [] then SignatureVersion else version)\<rparr>)"

definition BuildSignaturePayload :: "int \<Rightarrow> string \<Rightarrow> string" where
  "BuildSignaturePayload timestamp body = itoa timestamp @ ''.'' @ body"

subsection \<open>Publishing\<close>

definition HeaderTenantID :: string where "HeaderTenantID = ''X-Tenant-ID''"
definition HeaderMessageSignature :: string where "HeaderMessageSignature = ''x-message-signature''"
definition HeaderSignatureTimestamp :: string where "HeaderSignatureTimestamp = ''t''"
definition HeaderSignatureVersion :: string where "HeaderSignatureVersion = ''signature-version''"
definition HeaderRetryCount :: string where "HeaderRetryCount = ''x-retry-count''"

record Libraries =
  lb_HeaderID :: string
  lb_Unmarshal :: "string \<Rightarrow> (string, any) gomap option"
  lb_InjectTrace :: "(string, any) gomap \<Rightarrow> (string, any) gomap"
  lb_Seconds :: "int \<Rightarrow> string"

definition LF :: char where
  "LF = CHR 0x0A"

definition BuildMessageSignaturePayload ::
  "int \<Rightarrow> string \<Rightarrow> string \<Rightarrow> string \<Rightarrow> string \<Rightarrow> string \<Rightarrow> string \<Rightarrow> string" where
  "BuildMessageSignaturePayload timestamp version tenantID jobID exchange routingKey body =
     itoa timestamp @ LF # version @ LF # tenantID @ LF # jobID @ LF # exchange @
     LF # routingKey @ LF # body"

definition text_header :: "(string, any) gomap \<Rightarrow> string \<Rightarrow> string" where
  "text_header headers k = (case map_of headers k of Some (AString s) \<Rightarrow> s | _ \<Rightarrow> [])"

definition extractJobID :: "Libraries \<Rightarrow> string \<Rightarrow> string" where
  "extractJobID lib body = (case lb_Unmarshal lib body of None \<Rightarrow> [] | Some payload \<Rightarrow> text_header payload ''jobId'')"

definition deleteSecurityOwnedHeaders :: "Libraries \<Rightarrow> (string, any) gomap \<Rightarrow> (string, any) gomap" where
  "deleteSecurityOwnedHeaders lib headers =
     fold AList.delete [lb_HeaderID lib, HeaderRetryCount, HeaderTenantID, HeaderMessageSignature,
       HeaderSignatureTimestamp, HeaderSignatureVersion] headers"

record Publishing =
  pb_ContentType :: string
  pb_Persistent :: bool
  pb_Headers :: "(string, any) gomap"
  pb_Body :: string

text \<open>\<open>tenant\<close> is the tenant of the context, \<open>timestamp\<close> the clock in seconds; no signer is \<open>None\<close>.\<close>

definition BuildSecurePublishing ::
  "Libraries \<Rightarrow> string \<Rightarrow> int \<Rightarrow> string \<Rightarrow> string \<Rightarrow> string \<Rightarrow> string \<Rightarrow> (string, any) gomap \<Rightarrow> Signer option \<Rightarrow> bool \<Rightarrow>
   Publishing" where
  "BuildSecurePublishing lib tenant timestamp reqID exchange routingKey body headers signer enableSigning =
     (let h1 = deleteSecurityOwnedHeaders lib headers;
          h2 = AList.update HeaderRetryCount (AInt 0) (AList.update (lb_HeaderID lib) (AString reqID) h1);
          h3 = (if tenant \<noteq> [] then AList.update HeaderTenantID (AString tenant) h2 else h2);
          h4 = lb_InjectTrace lib h3;
          h5 = (case signer of
                  Some s \<Rightarrow>
                    if enableSigning
                    then (let payload = BuildMessageSignaturePayload timestamp (sn_Version s)
                                (text_header h4 HeaderTenantID) (extractJobID lib body) exchange routingKey body
                          in AList.update HeaderSignatureVersion (AString (sn_Version s))
                               (AList.update HeaderSignatureTimestamp (AString (itoa timestamp))
                                 (AList.update HeaderMessageSignature (AString (sn_Sign s payload)) h4)))
                    else h4
                | None \<Rightarrow> h4)
      in \<lparr>pb_ContentType = ''application/json'', pb_Persistent = True, pb_Headers = h5, pb_Body = body\<rparr>)"

subsection \<open>Verification\<close>

definition ErrSignatureVerificationFailed :: serror where
  "ErrSignatureVerificationFailed = Plain ''message signature verification failed''"
definition ErrMissingSignatureHeaders :: serror where
  "ErrMissingSignatureHeaders = Plain ''missing required signature headers''"
definition ErrSignatureVerifierNotConfigured :: serror where
  "ErrSignatureVerifierNotConfigured = Plain ''signature verification enabled but signer is not configured''"
definition ErrSignatureExpired :: serror where
  "ErrSignatureExpired = Plain ''message signature has expired''"
definition ErrSignatureFromFuture :: serror where
  "ErrSignatureFromFuture = Plain ''message signature timestamp is in the future''"

text \<open>\<^verbatim>\<open>fmt.Errorf\<close> of a sentinel followed by details.\<close>

definition detailed :: "serror \<Rightarrow> string \<Rightarrow> serror" where
  "detailed sentinel details = Wrapped (error_text sentinel @ '': '' @ details) sentinel"

definition DefaultSignatureTimestampTolerance :: int where
  "DefaultSignatureTimestampTolerance = 300 * 1000000000"

definition DefaultSignatureFutureSkew :: int where
  "DefaultSignatureFutureSkew = 30 * 1000000000"

definition min_int64 :: int where "min_int64 = - (2 ^ 63)"
definition max_int64 :: int where "max_int64 = 2 ^ 63 - 1"

definition digit_value :: "char \<Rightarrow> int option" where
  "digit_value c = (if 48 \<le> (of_char c :: nat) \<and> (of_char c :: nat) \<le> 57 then Some (int (of_char c) - 48) else None)"

fun decimal :: "int \<Rightarrow> string \<Rightarrow> int option" where
  "decimal acc [] = Some acc"
| "decimal acc (c # cs) = (case digit_value c of None \<Rightarrow> None | Some d \<Rightarrow> decimal (10 * acc + d) cs)"

text \<open>\<^verbatim>\<open>strconv.ParseInt(s, 10, 64)\<close>; its error quotes a text without special characters.\<close>

definition parseError :: "string \<Rightarrow> string \<Rightarrow> string" where
  "parseError s reason = ''strconv.ParseInt: parsing '' @ [CHR 0x22] @ s @ [CHR 0x22] @ '': '' @ reason"

definition ParseInt64 :: "string \<Rightarrow> (string, int) result" where
  "ParseInt64 s =
     (let neg = (s \<noteq> [] \<and> hd s = CHR ''-'');
          digits = (if s \<noteq> [] \<and> (hd s = CHR ''-'' \<or> hd s = CHR ''+'') then tl s else s)
      in if digits = [] then Inl (parseError s ''invalid syntax'')
         else (case decimal 0 digits of
                 None \<Rightarrow> Inl (parseError s ''invalid syntax'')
               | Some n \<Rightarrow>
                   (let v = (if neg then - n else n)
                    in if min_int64 \<le> v \<and> v \<le> max_int64 then Inr v else Inl (parseError s ''value out of range''))))"

definition unixToInternal :: int where
  "unixToInternal = 62135596800"

definition wrap64 :: "int \<Rightarrow> int" where
  "wrap64 x = (x + 2 ^ 63) mod 2 ^ 64 - 2 ^ 63"

definition clamp64 :: "int \<Rightarrow> int" where
  "clamp64 x = max min_int64 (min max_int64 x)"

text \<open>\<^verbatim>\<open>time.Since(time.Unix(timestamp, 0))\<close> at the clock \<open>now\<close>.\<close>

definition time_Since :: "int \<Rightarrow> int \<Rightarrow> int" where
  "time_Since now timestamp = clamp64 (now - (wrap64 (timestamp + unixToInternal) - unixToInternal) * 1000000000)"

definition header_timestamp :: "(string, any) gomap \<Rightarrow> (serror, int) result" where
  "header_timestamp headers =
     (case map_of headers HeaderSignatureTimestamp of
        None \<Rightarrow> Inl (detailed ErrMissingSignatureHeaders HeaderSignatureTimestamp)
      | Some (AString v) \<Rightarrow>
          (case ParseInt64 v of
             Inl err \<Rightarrow> Inl (detailed ErrSignatureVerificationFailed (''invalid timestamp format: '' @ err))
           | Inr t \<Rightarrow> Inr t)
      | Some (AInt v) \<Rightarrow> Inr v
      | Some _ \<Rightarrow> Inl (detailed ErrMissingSignatureHeaders (HeaderSignatureTimestamp @ '' must be a string or int64'')))"

definition header_string :: "(string, any) gomap \<Rightarrow> string \<Rightarrow> (serror, string) result" where
  "header_string headers k =
     (case map_of headers k of
        None \<Rightarrow> Inl (detailed ErrMissingSignatureHeaders k)
      | Some (AString v) \<Rightarrow> Inr v
      | Some _ \<Rightarrow> Inl (detailed ErrMissingSignatureHeaders (k @ '' must be a string'')))"

definition VerifyMessageSignature ::
  "Libraries \<Rightarrow> int \<Rightarrow> string \<Rightarrow> (string, any) gomap \<Rightarrow> string \<Rightarrow> string \<Rightarrow> Signer option \<Rightarrow> int \<Rightarrow> bool \<Rightarrow> serror option" where
  "VerifyMessageSignature lib now body headers exchange routingKey signer tolerance allowLegacy =
     (case signer of
        None \<Rightarrow> Some ErrSignatureVerifierNotConfigured
      | Some s \<Rightarrow>
         (case header_string headers HeaderMessageSignature of
            Inl err \<Rightarrow> Some err
          | Inr signature \<Rightarrow>
             (case header_timestamp headers of
                Inl err \<Rightarrow> Some err
              | Inr timestamp \<Rightarrow>
                 (let age = time_Since now timestamp
                  in if age < - DefaultSignatureFutureSkew
                     then Some (detailed ErrSignatureFromFuture
                            (''message timestamp is '' @ lb_Seconds lib (- age) @ '' in the future''))
                     else if tolerance > 0 \<and> age > tolerance
                     then Some (detailed ErrSignatureExpired
                            (''message is '' @ lb_Seconds lib age @ '' old, tolerance is '' @ lb_Seconds lib tolerance))
                     else
                       (case header_string headers HeaderSignatureVersion of
                          Inl err \<Rightarrow> Some err
                        | Inr version \<Rightarrow>
                            if version \<noteq> sn_Version s
                            then Some (detailed ErrUnsupportedSignatureVersion
                                   (''expected '' @ sn_Version s @ '', got '' @ version))
                            else
                              (case sn_Verify s (BuildMessageSignaturePayload timestamp version
                                       (text_header headers HeaderTenantID) (extractJobID lib body) exchange routingKey body)
                                     signature of
                                 None \<Rightarrow> None
                               | Some err \<Rightarrow>
                                   if \<not> allowLegacy then Some (detailed ErrSignatureVerificationFailed (error_text err))
                                   else if sn_Verify s (BuildSignaturePayload timestamp body) signature = None then None
                                   else Some (detailed ErrSignatureVerificationFailed (error_text err))))))))"

subsection \<open>Deliveries\<close>

text \<open>The options that concern signatures; the others tune reconnection.\<close>

record AdapterOptions =
  ao_Signer :: "Signer option"
  ao_EnableMessageSigning :: bool
  ao_EnableSignatureVerification :: bool
  ao_SignatureTimestampTolerance :: int
  ao_AllowLegacyBodyOnlySignatureFallback :: bool

record Delivery =
  dl_Headers :: "(string, any) gomap"
  dl_Body :: string
  dl_Exchange :: string
  dl_RoutingKey :: string

datatype outcome = Returned "serror option" | Panicked

text \<open>Every refusal is \<^verbatim>\<open>d.Nack(false, false)\<close>: the message is not put back into its queue.\<close>

datatype verdict = Acked | NackedWithoutRequeue

definition processDelivery ::
  "Libraries \<Rightarrow> AdapterOptions \<Rightarrow> int \<Rightarrow> Delivery \<Rightarrow> (string \<Rightarrow> (string, any) gomap \<Rightarrow> 'w \<Rightarrow> outcome \<times> 'w) \<Rightarrow> 'w \<Rightarrow>
   verdict \<times> 'w" where
  "processDelivery lib opts now d handler w =
     (if ao_EnableSignatureVerification opts \<and>
         VerifyMessageSignature lib now (dl_Body d) (dl_Headers d) (dl_Exchange d) (dl_RoutingKey d) (ao_Signer opts)
           (ao_SignatureTimestampTolerance opts) (ao_AllowLegacyBodyOnlySignatureFallback opts) \<noteq> None
      then (NackedWithoutRequeue, w)
      else
        (case handler (dl_Body d) (dl_Headers d) w of
           (Returned None, w1) \<Rightarrow> (Acked, w1)
         | (_, w1) \<Rightarrow> (NackedWithoutRequeue, w1)))"

definition DefaultBaseRetryDelay :: int where
  "DefaultBaseRetryDelay = 100 * 1000000"

definition DefaultMaxRetryDelay :: int where
  "DefaultMaxRetryDelay = 2 * 1000000000"

definition NextBackoff :: "int \<Rightarrow> int" where
  "NextBackoff current =
     (if current \<le> 0 then DefaultBaseRetryDelay
      else let next = wrap64 (current * 2) in if next > DefaultMaxRetryDelay then DefaultMaxRetryDelay else next)"

subsection \<open>Numbers print and parse\<close>

lemma nat_digits_ne [simp]: "nat_digits n \<noteq> []"
  by (subst nat_digits.simps) simp

lemma digit_char [simp]: "d < 10 \<Longrightarrow> digit_value (char_of (48 + d)) = Some (int d)"
  by (simp add: digit_value_def)

lemma decimal_append: "decimal a (xs @ ys) = (case decimal a xs of None \<Rightarrow> None | Some b \<Rightarrow> decimal b ys)"
  by (induction xs arbitrary: a) (auto split: option.split)

lemma decimal_nat_digits: "decimal 0 (nat_digits n) = Some (int n)"
proof (induction n rule: nat_digits.induct)
  case (1 n)
  show ?case
  proof (cases "n < 10")
    case True
    then show ?thesis by (subst nat_digits.simps) (simp add: digit_char)
  next
    case False
    then have "nat_digits n = nat_digits (n div 10) @ [char_of (48 + n mod 10)]" by (subst nat_digits.simps) simp
    moreover have "10 * int (n div 10) + int (n mod 10) = int n"
      by (metis mult_div_mod_eq of_nat_add of_nat_mult of_nat_numeral)
    ultimately show ?thesis using "1.IH"[OF False] digit_char[of "n mod 10"] by (simp add: decimal_append)
  qed
qed

lemma itoa_no_LF: "LF \<notin> set (itoa t)"
  using nat_digits_chars[of LF] by (auto simp: itoa_def LF_def)

lemma ParseInt64_itoa:
  assumes "min_int64 \<le> t" and "t \<le> max_int64"
  shows "ParseInt64 (itoa t) = Inr t"
proof (cases "t < 0")
  case True
  then show ?thesis using assms by (simp add: ParseInt64_def itoa_def decimal_nat_digits Let_def)
next
  case False
  have "hd (nat_digits (nat t)) \<in> set (nat_digits (nat t))" by simp
  from nat_digits_chars[OF this] have "hd (nat_digits (nat t)) \<noteq> CHR ''-''" "hd (nat_digits (nat t)) \<noteq> CHR ''+''" by auto
  then show ?thesis using False assms by (simp add: ParseInt64_def itoa_def decimal_nat_digits Let_def)
qed

subsection \<open>The payload binds its fields\<close>

lemma LF_split:
  assumes "xs @ LF # ys = xs' @ LF # ys'" and "LF \<notin> set xs" and "LF \<notin> set xs'"
  shows "xs = xs' \<and> ys = ys'"
  using assms
proof (induction xs arbitrary: xs')
  case Nil
  then show ?case by (cases xs') auto
next
  case (Cons x xs)
  then show ?case by (cases xs') auto
qed

lemma nat_digits_inj: "nat_digits m = nat_digits n \<Longrightarrow> m = n"
  by (metis decimal_nat_digits of_nat_eq_iff option.inject)

lemma nat_digits_no_minus: "nat_digits n \<noteq> CHR ''-'' # xs"
proof
  assume "nat_digits n = CHR ''-'' # xs"
  then have "CHR ''-'' \<in> set (nat_digits n)" by simp
  from nat_digits_chars[OF this] show False by simp
qed

lemma itoa_inj:
  assumes "itoa t = itoa t'"
  shows "t = t'"
proof (cases "t < 0")
  case True
  with assms have "t' < 0" using nat_digits_no_minus[of "nat t'"] by (metis itoa_def)
  with True assms have "nat_digits (nat (- t)) = nat_digits (nat (- t'))" by (simp add: itoa_def)
  from nat_digits_inj[OF this] True \<open>t' < 0\<close> show ?thesis by simp
next
  case False
  with assms have "\<not> t' < 0" using nat_digits_no_minus[of "nat t"] by (metis itoa_def)
  with False assms have "nat_digits (nat t) = nat_digits (nat t')" by (simp add: itoa_def)
  from nat_digits_inj[OF this] False \<open>\<not> t' < 0\<close> show ?thesis by simp
qed

lemma payload_inj:
  assumes "BuildMessageSignaturePayload t v tenant job ex rk body = BuildMessageSignaturePayload t' v tenant' job' ex' rk' body'"
    and "LF \<notin> set tenant" "LF \<notin> set tenant'" "LF \<notin> set job" "LF \<notin> set job'"
    and "LF \<notin> set ex" "LF \<notin> set ex'" "LF \<notin> set rk" "LF \<notin> set rk'"
  shows "t = t' \<and> tenant = tenant' \<and> job = job' \<and> ex = ex' \<and> rk = rk' \<and> body = body'"
proof -
  from LF_split[OF assms(1)[unfolded BuildMessageSignaturePayload_def] itoa_no_LF itoa_no_LF]
  have t: "t = t'" and "v @ LF # tenant @ LF # job @ LF # ex @ LF # rk @ LF # body =
      v @ LF # tenant' @ LF # job' @ LF # ex' @ LF # rk' @ LF # body'"
    using itoa_inj by blast+
  then have "tenant @ LF # job @ LF # ex @ LF # rk @ LF # body =
      tenant' @ LF # job' @ LF # ex' @ LF # rk' @ LF # body'" by simp
  from LF_split[OF this assms(2,3)] have a: "tenant = tenant'"
    "job @ LF # ex @ LF # rk @ LF # body = job' @ LF # ex' @ LF # rk' @ LF # body'" by auto
  from LF_split[OF a(2) assms(4,5)] have b: "job = job'"
    "ex @ LF # rk @ LF # body = ex' @ LF # rk' @ LF # body'" by auto
  from LF_split[OF b(2) assms(6,7)] have c: "ex = ex'" "rk @ LF # body = rk' @ LF # body'" by auto
  from LF_split[OF c(2) assms(8,9)] t a b c show ?thesis by simp
qed

lemma of_hex_digit: "n < 16 \<Longrightarrow> of_char (hex_digit n) = (if n < 10 then 48 + n else 87 + n)"
  by (simp add: hex_digit_def)

lemma hex_digit_inj:
  assumes "a < 16" and "b < 16" and "hex_digit a = hex_digit b"
  shows "a = b"
proof -
  have "(if a < 10 then 48 + a else 87 + a) = (if b < 10 then 48 + b else 87 + b)"
    unfolding of_hex_digit[OF assms(1), symmetric] of_hex_digit[OF assms(2), symmetric] by (simp only: assms(3))
  with assms(1,2) show ?thesis by (simp split: if_splits)
qed

lemma hex_byte_inj: "hex_byte c = hex_byte d \<Longrightarrow> c = d"
proof -
  assume eq: "hex_byte c = hex_byte d"
  have small: "of_char x div 16 < (16 :: nat)" for x
    using of_char_of[of "of_char x :: nat"] by (simp add: less_mult_imp_div_less)
  have "of_char c div 16 = (of_char d div 16 :: nat)"
    using eq hex_digit_inj[OF small[of c] small[of d]] by (simp add: hex_byte_def)
  moreover have "of_char c mod 16 = (of_char d mod 16 :: nat)"
    using eq hex_digit_inj[of "of_char c mod 16" "of_char d mod 16"] by (simp add: hex_byte_def)
  ultimately have "(of_char c :: nat) = of_char d" by (metis mod_div_mult_eq)
  then show ?thesis by simp
qed

lemma hex_inj: "hex_EncodeToString s = hex_EncodeToString t \<Longrightarrow> s = t"
proof (induction s arbitrary: t)
  case Nil
  then show ?case by (cases t) (auto simp: hex_EncodeToString_def hex_byte_def)
next
  case (Cons c s)
  then show ?case by (cases t) (auto simp: hex_EncodeToString_def hex_byte_def intro: hex_byte_inj[unfolded hex_byte_def])
qed

subsection \<open>What the verifier accepts\<close>

lemma verify_accepts:
  assumes "VerifyMessageSignature lib now body headers ex rk (Some s) tolerance False = None"
  obtains signature t where "map_of headers HeaderMessageSignature = Some (AString signature)"
    and "header_timestamp headers = Inr t"
    and "sn_Verify s (BuildMessageSignaturePayload t (sn_Version s) (text_header headers HeaderTenantID)
           (extractJobID lib body) ex rk body) signature = None"
    and "- DefaultSignatureFutureSkew \<le> time_Since now t" and "tolerance > 0 \<Longrightarrow> time_Since now t \<le> tolerance"
  using assms that
  by (auto simp: VerifyMessageSignature_def header_string_def Let_def not_less split: option.splits sum.splits any.splits if_splits)

lemma hmac_verify_same:
  assumes "NewHMACSigner hmac key version = Inr s" and "sn_Verify s p signature = None" and "sn_Verify s p' signature = None"
  shows "hmac key p = hmac key p'"
  using assms hex_inj by (auto simp: NewHMACSigner_def hmac_Verify_def hmac_Sign_def split: if_splits)

lemma since_in_range:
  assumes "0 \<le> t" and "t \<le> 2 ^ 32" and "0 \<le> now" and "now \<le> 2 ^ 62"
  shows "time_Since now t = now - t * 1000000000"
proof -
  have "wrap64 (t + unixToInternal) = t + unixToInternal" using assms by (simp add: wrap64_def unixToInternal_def)
  moreover have "clamp64 (now - t * 1000000000) = now - t * 1000000000"
    using assms by (simp add: clamp64_def min_int64_def max_int64_def)
  ultimately show ?thesis by (simp add: time_Since_def)
qed

lemma map_of_fold_del: "map_of (fold AList.delete ks m) k = (if k \<in> set ks then None else map_of m k)"
  by (induction ks arbitrary: m) (auto simp: delete_conv')

lemma header_names [simp]:
  "HeaderTenantID \<noteq> HeaderMessageSignature" "HeaderTenantID \<noteq> HeaderSignatureTimestamp"
  "HeaderTenantID \<noteq> HeaderSignatureVersion" "HeaderMessageSignature \<noteq> HeaderSignatureTimestamp"
  "HeaderMessageSignature \<noteq> HeaderSignatureVersion" "HeaderSignatureTimestamp \<noteq> HeaderSignatureVersion"
  "HeaderTenantID \<noteq> HeaderRetryCount"
  by (simp_all add: HeaderTenantID_def HeaderMessageSignature_def HeaderSignatureTimestamp_def HeaderSignatureVersion_def
      HeaderRetryCount_def)

lemmas header_names_sym [simp] = header_names[symmetric]

lemma hmac_sign_verifies: "NewHMACSigner hmac key version = Inr s \<Longrightarrow> sn_Verify s p (sn_Sign s p) = None"
  by (auto simp: NewHMACSigner_def hmac_Verify_def split: if_splits)

text \<open>A concrete signer (with the identity for the keyed hash) and a signed message.\<close>

definition lib_1 :: Libraries where
  "lib_1 = \<lparr>lb_HeaderID = ''X-Request-Id'', lb_Unmarshal = (\<lambda>_. Some [(''jobId'', AString ''j1'')]), lb_InjectTrace = id,
     lb_Seconds = itoa\<rparr>"

definition key_1 :: string where
  "key_1 = replicate 32 (CHR ''k'')"

definition hash_1 :: "string \<Rightarrow> string \<Rightarrow> string" where
  "hash_1 key p = p"

definition signer_1 :: Signer where
  "signer_1 = \<lparr>sn_Sign = hmac_Sign hash_1 key_1, sn_Verify = hmac_Verify hash_1 key_1, sn_Version = ''v1''\<rparr>"

definition publishing_1 :: Publishing where
  "publishing_1 = BuildSecurePublishing lib_1 ''acme'' 1000 ''r1'' ''jobs'' ''extract'' ''{}''
     [(''x-message-signature'', AString ''forged'')] (Some signer_1) True"

lemma signer_1_new: "NewHMACSigner hash_1 key_1 [] = Inr signer_1"
  by (simp add: NewHMACSigner_def key_1_def signer_1_def SignatureVersion_def)

lemma accepted_1:
  "VerifyMessageSignature lib_1 1000000000000 ''{}'' (pb_Headers publishing_1) ''jobs'' ''extract'' (Some signer_1) 0 False = None"
  "VerifyMessageSignature lib_1 1000000000000 ''{}'' (AList.update ''traceparent'' (AString ''x'') (pb_Headers publishing_1))
     ''jobs'' ''extract'' (Some signer_1) 0 False = None"
  by code_simp+

subsection \<open>Properties\<close>

text \<open>
  C24: a message built by the producer with signing on is accepted by a consumer with the same signer, route and
  clock window, whatever headers the caller passed (they cannot displace the signature), and the consumer
  reads the tenant of the producer's context from it.
\<close>

theorem envelope_roundtrip:
  assumes "NewHMACSigner hmac key version = Inr s"
    and "\<And>h. map_of (lb_InjectTrace lib h) HeaderTenantID = map_of h HeaderTenantID" and "lb_HeaderID lib \<noteq> HeaderTenantID"
    and "0 \<le> t" "t \<le> 2 ^ 32" and "0 \<le> now" "now \<le> 2 ^ 62"
    and "t * 1000000000 - DefaultSignatureFutureSkew \<le> now" and "now \<le> t * 1000000000 + tolerance"
    and p: "p = BuildSecurePublishing lib tenant t reqID exchange routingKey body headers (Some s) True"
  shows "VerifyMessageSignature lib now (pb_Body p) (pb_Headers p) exchange routingKey (Some s) tolerance legacy = None \<and>
    text_header (pb_Headers p) HeaderTenantID = tenant"
proof -
  have range: "min_int64 \<le> t" "t \<le> max_int64" using assms(4,5) by (simp_all add: min_int64_def max_int64_def)
  have tenant: "text_header (pb_Headers p) HeaderTenantID = tenant"
    using assms(2,3)
    by (simp add: p BuildSecurePublishing_def Let_def text_header_def deleteSecurityOwnedHeaders_def map_of_fold_del
        update_conv' del: fold.simps)
  have body: "pb_Body p = body" by (simp add: p BuildSecurePublishing_def Let_def)
  let ?pay = "BuildMessageSignaturePayload t (sn_Version s) tenant (extractJobID lib body) exchange routingKey body"
  have sig: "map_of (pb_Headers p) HeaderMessageSignature = Some (AString (sn_Sign s ?pay))"
    and ts: "map_of (pb_Headers p) HeaderSignatureTimestamp = Some (AString (itoa t))"
    and ver: "map_of (pb_Headers p) HeaderSignatureVersion = Some (AString (sn_Version s))"
    using tenant by (auto simp: p BuildSecurePublishing_def Let_def text_header_def)
  have age: "time_Since now t = now - t * 1000000000" using since_in_range[OF assms(4-7)] .
  show ?thesis
    using tenant body sig ts ver assms(8,9) hmac_sign_verifies[OF assms(1), of ?pay]
    by (auto simp: VerifyMessageSignature_def header_string_def header_timestamp_def ParseInt64_itoa[OF range] age Let_def)
qed

theorem envelope_roundtrip_witness:
  "VerifyMessageSignature lib_1 1000000000000 (pb_Body publishing_1) (pb_Headers publishing_1) ''jobs'' ''extract''
     (Some signer_1) DefaultSignatureTimestampTolerance False = None \<and>
   text_header (pb_Headers publishing_1) HeaderTenantID = ''acme''"
  by (rule envelope_roundtrip[OF signer_1_new _ _ _ _ _ _ _ _ publishing_1_def])
    (simp_all add: lib_1_def HeaderTenantID_def DefaultSignatureFutureSkew_def DefaultSignatureTimestampTolerance_def)

text \<open>
  C25: a signature is bound to its tenant, route, time and body. If a signature is accepted with two messages (the
  body-only fallback being off), then the messages agree in the tenant header, the exchange, the routing key, the
  timestamp and the body, unless the two different texts signed for them have the same HMAC. The names are free of
  newlines.
\<close>

theorem envelope_binds:
  assumes "NewHMACSigner hmac key version = Inr s"
    and "VerifyMessageSignature lib now body headers ex rk (Some s) tolerance False = None"
    and "VerifyMessageSignature lib now' body' headers' ex' rk' (Some s) tolerance' False = None"
    and "map_of headers HeaderMessageSignature = map_of headers' HeaderMessageSignature"
    and "LF \<notin> set (text_header headers HeaderTenantID @ extractJobID lib body @ ex @ rk)"
    and "LF \<notin> set (text_header headers' HeaderTenantID @ extractJobID lib body' @ ex' @ rk')"
  shows "text_header headers HeaderTenantID = text_header headers' HeaderTenantID \<and> ex = ex' \<and> rk = rk' \<and>
      header_timestamp headers = header_timestamp headers' \<and> body = body' \<or>
    (\<exists>t t' p p'. header_timestamp headers = Inr t \<and> header_timestamp headers' = Inr t' \<and>
       p = BuildMessageSignaturePayload t (sn_Version s) (text_header headers HeaderTenantID) (extractJobID lib body) ex rk body \<and>
       p' = BuildMessageSignaturePayload t' (sn_Version s) (text_header headers' HeaderTenantID) (extractJobID lib body') ex' rk'
         body' \<and>
       p \<noteq> p' \<and> hmac key p = hmac key p')"
proof -
  obtain g t where a: "map_of headers HeaderMessageSignature = Some (AString g)" "header_timestamp headers = Inr t"
    "sn_Verify s (BuildMessageSignaturePayload t (sn_Version s) (text_header headers HeaderTenantID)
      (extractJobID lib body) ex rk body) g = None" using verify_accepts[OF assms(2)] by metis
  obtain g' t' where b: "map_of headers' HeaderMessageSignature = Some (AString g')" "header_timestamp headers' = Inr t'"
    "sn_Verify s (BuildMessageSignaturePayload t' (sn_Version s) (text_header headers' HeaderTenantID)
      (extractJobID lib body') ex' rk' body') g' = None" using verify_accepts[OF assms(3)] by metis
  have "g' = g" using a(1) b(1) assms(4) by simp
  let ?p = "BuildMessageSignaturePayload t (sn_Version s) (text_header headers HeaderTenantID) (extractJobID lib body) ex rk body"
  let ?p' = "BuildMessageSignaturePayload t' (sn_Version s) (text_header headers' HeaderTenantID) (extractJobID lib body')
    ex' rk' body'"
  from \<open>g' = g\<close> have same: "hmac key ?p = hmac key ?p'"
    using hmac_verify_same[OF assms(1) a(3) b(3)[unfolded \<open>g' = g\<close>]] by blast
  show ?thesis
  proof (cases "?p = ?p'")
    case True
    then show ?thesis
      using payload_inj[of t "sn_Version s" "text_header headers HeaderTenantID" "extractJobID lib body" ex rk body t'] a(2) b(2)
        assms(5,6) by (metis Un_iff set_append)
  next
    case False
    with same a(2) b(2) show ?thesis by blast
  qed
qed

theorem envelope_binds_witness:
  "text_header (pb_Headers publishing_1) HeaderTenantID =
      text_header (AList.update ''traceparent'' (AString ''x'') (pb_Headers publishing_1)) HeaderTenantID \<and>
    header_timestamp (pb_Headers publishing_1) =
      header_timestamp (AList.update ''traceparent'' (AString ''x'') (pb_Headers publishing_1))"
proof -
  have "text_header (pb_Headers publishing_1) HeaderTenantID =
      text_header (AList.update ''traceparent'' (AString ''x'') (pb_Headers publishing_1)) HeaderTenantID \<and>
    ''jobs'' = ''jobs'' \<and> ''extract'' = ''extract'' \<and>
    header_timestamp (pb_Headers publishing_1) =
      header_timestamp (AList.update ''traceparent'' (AString ''x'') (pb_Headers publishing_1)) \<and> ''{}'' = ''{}'' \<or>
    (\<exists>t t' p p'. header_timestamp (pb_Headers publishing_1) = Inr t \<and>
       header_timestamp (AList.update ''traceparent'' (AString ''x'') (pb_Headers publishing_1)) = Inr t' \<and>
       p = BuildMessageSignaturePayload t (sn_Version signer_1) (text_header (pb_Headers publishing_1) HeaderTenantID)
         (extractJobID lib_1 ''{}'') ''jobs'' ''extract'' ''{}'' \<and>
       p' = BuildMessageSignaturePayload t' (sn_Version signer_1)
         (text_header (AList.update ''traceparent'' (AString ''x'') (pb_Headers publishing_1)) HeaderTenantID)
         (extractJobID lib_1 ''{}'') ''jobs'' ''extract'' ''{}'' \<and>
       p \<noteq> p' \<and> hash_1 key_1 p = hash_1 key_1 p')"
  proof (rule envelope_binds[OF signer_1_new accepted_1])
  show "map_of (pb_Headers publishing_1) HeaderMessageSignature =
      map_of (AList.update ''traceparent'' (AString ''x'') (pb_Headers publishing_1)) HeaderMessageSignature"
    by (simp add: HeaderMessageSignature_def)
  have "text_header (pb_Headers publishing_1) HeaderTenantID = ''acme''" by code_simp
  then show "LF \<notin> set (text_header (pb_Headers publishing_1) HeaderTenantID @ extractJobID lib_1 ''{}'' @ ''jobs'' @ ''extract'')"
    by (simp add: LF_def extractJobID_def lib_1_def text_header_def)
  have "text_header (AList.update ''traceparent'' (AString ''x'') (pb_Headers publishing_1)) HeaderTenantID = ''acme''" by code_simp
  then show "LF \<notin> set (text_header (AList.update ''traceparent'' (AString ''x'') (pb_Headers publishing_1)) HeaderTenantID @
      extractJobID lib_1 ''{}'' @ ''jobs'' @ ''extract'')"
    by (simp add: LF_def extractJobID_def lib_1_def text_header_def)
  qed
  then show ?thesis by (simp add: hash_1_def)
qed

end
