(* ===== verification/Worker_Consumer.thy ===== *)
theory Worker_Consumer
  imports Worker_Jobs Message_Envelope
begin

text \<open>
  The queue consumer of the Worker (\<^verbatim>\<open>worker/internal/bootstrap/consumer.go\<close>): the tenant of a delivery, its
  database, and the two entry points. A context is its tenant and the tenant's database, if one was
  injected; the use case is a function of it. The tenant manager's lookup of a database is a
  parameter on the world.
\<close>

record mctx =
  mc_TenantID :: string
  mc_Mongo :: "string option"

record 'w MultiQueueConsumer =
  mq_multiTenant :: bool
  mq_useCase :: "mctx \<Rightarrow> 'w UseCase"
  mq_mongoManager :: "(string \<Rightarrow> 'w \<Rightarrow> (serror, string) result \<times> 'w) option"
  mq_messageVerifier :: "Signer option"
  mq_allowLegacyBodySignatureFallback :: bool

definition quoted :: "string \<Rightarrow> string" where
  "quoted s = [CHR 0x22] @ s @ [CHR 0x22]"

definition validateAuthoritativeTenantHeader :: "mctx \<Rightarrow> (string, any) gomap \<Rightarrow> serror option" where
  "validateAuthoritativeTenantHeader ctx headers =
     (let tenant = mc_TenantID ctx; header = text_header headers HeaderTenantID
      in if tenant = []
         then Some (Plain ''authoritative tenant context is required before verifying RabbitMQ message signature'')
         else if header = []
         then Some (Plain (''tenant header '' @ HeaderTenantID @ '' is required for authoritative tenant '' @ tenant))
         else if header \<noteq> tenant
         then Some (Plain (''tenant header '' @ HeaderTenantID @ ''='' @ quoted header @
                '' does not match authoritative tenant '' @ quoted tenant))
         else None)"

definition extractTenantIDFromHeaders :: "mctx \<Rightarrow> (string, any) gomap \<Rightarrow> mctx" where
  "extractTenantIDFromHeaders ctx headers =
     (let tenantID = text_header headers HeaderTenantID in if tenantID = [] then ctx else ctx\<lparr>mc_TenantID := tenantID\<rparr>)"

definition resolveTenantMongo ::
  "'w MultiQueueConsumer \<Rightarrow> mctx \<Rightarrow> 'w \<Rightarrow> (serror, mctx) result \<times> 'w" where
  "resolveTenantMongo mq ctx w =
     (case mq_mongoManager mq of
        None \<Rightarrow> (Inr ctx, w)
      | Some get \<Rightarrow>
          if mc_TenantID ctx = [] \<or> mc_Mongo ctx \<noteq> None then (Inr ctx, w)
          else
            (case get (mc_TenantID ctx) w of
               (Inl err, w1) \<Rightarrow> (Inl err, w1)
             | (Inr db, w1) \<Rightarrow> (Inr (ctx\<lparr>mc_Mongo := Some db\<rparr>), w1)))"

text \<open>A permanent failure to find the tenant's database drops the message.\<close>

definition tenant_failure :: "string \<Rightarrow> serror \<Rightarrow> serror option" where
  "tenant_failure message err = (if isPermanentTenantError err then None else Some (wrap message err))"

definition handlerGenerateReport ::
  "'w MultiQueueConsumer \<Rightarrow> mctx \<Rightarrow> string \<Rightarrow> (string, any) gomap \<Rightarrow> 'w \<Rightarrow> serror option \<times> 'w" where
  "handlerGenerateReport mq ctx0 body headers w =
     (let ctx = (if mc_TenantID ctx0 = [] then extractTenantIDFromHeaders ctx0 headers else ctx0)
      in if mq_multiTenant mq \<and> mc_TenantID ctx = [] then (None, w)
         else
           (case resolveTenantMongo mq ctx w of
              (Inl err, w1) \<Rightarrow> (tenant_failure ''resolve tenant mongo'' err, w1)
            | (Inr ctx1, w1) \<Rightarrow> handle_message (mq_useCase mq ctx1) body headers w1))"

definition handlerGenerateReportDelivery ::
  "Libraries \<Rightarrow> 'w MultiQueueConsumer \<Rightarrow> int \<Rightarrow> mctx \<Rightarrow> Delivery \<Rightarrow> 'w \<Rightarrow> serror option \<times> 'w" where
  "handlerGenerateReportDelivery lib mq now ctx d w =
     (if validateAuthoritativeTenantHeader ctx (dl_Headers d) \<noteq> None then (None, w)
      else if mq_messageVerifier mq \<noteq> None \<and>
        VerifyMessageSignature lib now (dl_Body d) (dl_Headers d) (dl_Exchange d) (dl_RoutingKey d) (mq_messageVerifier mq)
          DefaultSignatureTimestampTolerance (mq_allowLegacyBodySignatureFallback mq) \<noteq> None
      then (None, w)
      else
        (case mq_mongoManager mq of
           None \<Rightarrow> handlerGenerateReport mq ctx (dl_Body d) (dl_Headers d) w
         | Some get \<Rightarrow>
             if mc_TenantID ctx = [] then handlerGenerateReport mq ctx (dl_Body d) (dl_Headers d) w
             else
               (case get (mc_TenantID ctx) w of
                  (Inl err, w1) \<Rightarrow> (tenant_failure (''resolve tenant mongo for tenant '' @ mc_TenantID ctx) err, w1)
                | (Inr db, w1) \<Rightarrow>
                    handlerGenerateReport mq (ctx\<lparr>mc_Mongo := Some db\<rparr>) (dl_Body d) (dl_Headers d) w1)))"

text \<open>A handler registered with the adapter of the static connection: the adapter settles the delivery by what
  the handler returns.\<close>

definition consume ::
  "Libraries \<Rightarrow> AdapterOptions \<Rightarrow> int \<Rightarrow> (string \<Rightarrow> (string, any) gomap \<Rightarrow> 'w \<Rightarrow> serror option \<times> 'w) \<Rightarrow> Delivery \<Rightarrow> 'w \<Rightarrow>
   verdict \<times> 'w" where
  "consume lib opts now handler d w =
     processDelivery lib opts now d (\<lambda>body headers w. case handler body headers w of (r, w1) \<Rightarrow> (Returned r, w1)) w"

definition signature_accepted :: "Libraries \<Rightarrow> AdapterOptions \<Rightarrow> int \<Rightarrow> Delivery \<Rightarrow> bool" where
  "signature_accepted lib opts now d \<longleftrightarrow>
     \<not> ao_EnableSignatureVerification opts \<or>
     VerifyMessageSignature lib now (dl_Body d) (dl_Headers d) (dl_Exchange d) (dl_RoutingKey d) (ao_Signer opts)
       (ao_SignatureTimestampTolerance opts) (ao_AllowLegacyBodyOnlySignatureFallback opts) = None"

lemma consume_handled:
  assumes "handler (dl_Body d) (dl_Headers d) w = (r, w')"
  shows "consume lib opts now handler d w =
    (if \<not> signature_accepted lib opts now d then (NackedWithoutRequeue, w)
     else (if r = None then Acked else NackedWithoutRequeue, w'))"
  using assms by (cases r) (auto simp: consume_def processDelivery_def signature_accepted_def)

subsection \<open>A delivery stays with its tenant\<close>

lemma header_validated:
  "validateAuthoritativeTenantHeader ctx headers = None \<Longrightarrow>
     mc_TenantID ctx \<noteq> [] \<and> text_header headers HeaderTenantID = mc_TenantID ctx"
  by (auto simp: validateAuthoritativeTenantHeader_def Let_def split: if_splits)

lemma handler_resolved:
  "mc_TenantID ctx \<noteq> [] \<Longrightarrow> mq_mongoManager mq = None \<or> mc_Mongo ctx \<noteq> None \<Longrightarrow>
     handlerGenerateReport mq ctx body headers w = handle_message (mq_useCase mq ctx) body headers w"
  by (auto simp: handlerGenerateReport_def resolveTenantMongo_def split: option.splits)

end
