(* ===== verification/Worker_Runs.thy ===== *)
theory Worker_Runs
  imports Worker_Scenarios Worker_Consumer
begin

text \<open>
  The properties of the Worker's runs, over every driver and every collaborator that keep the contracts of
  \<open>Worker_World\<close>, each with its witness on the scenario of \<open>Worker_Scenarios\<close>.
\<close>

subsection \<open>No event is lost\<close>

text \<open>
  C14: the outbox invariant of a job under one Worker. If the job satisfies it at the start, as a pending job
  without a marker does, then after any sequence of deliveries and repair rounds that follow one another and are
  the only writers, and whichever database writes, reads or publications fail before or after taking effect, a
  committed terminal status of the job has its event sent or is accompanied by the marker (with that status, and a
  payload to send) from which the repairer sends it. Jobs that the Manager fails itself have neither and are
  outside the claim; so are repair rounds that overlap a delivery of the same job, where it can fail
  (\<open>repair_last_loses_failure\<close> of Worker_Scenarios).
\<close>

theorem outbox_invariant:
  assumes "worker_store coll good docs events uc"
    and "good w"
    and "\<And>j. jobs_of docs w i = Some j \<Longrightarrow> outbox_ok uc (events w) j"
    and "jobs_of docs (worker_run uc steps w) i = Some j"
  shows "outbox_ok uc (events (worker_run uc steps w)) j"
  using outbox_host.inv_run[OF worker_store.store_host[OF assms(1)], of "{i}" w steps] assms(2-4)
  by (simp add: inv_iff[OF assms(1)])

theorem outbox_invariant_witness:
  "map_option (outbox_ok (mem_uc (config_1 (Inr result_1))) (wd_events end_1)) (jobs_of mem_docs end_1 job_1) = Some True"
proof -
  obtain j where j: "jobs_of mem_docs end_1 job_1 = Some j" using end_1_job by auto
  have "outbox_ok (mem_uc (config_1 (Inr result_1))) (wd_events end_1) j"
    unfolding end_1_def
    by (rule outbox_invariant[OF mw.worker_store_axioms world_1_ok[of False _ False] _ j[unfolded end_1_def]])
      (auto intro: world_1_outbox)
  with j show ?thesis by simp
qed

subsection \<open>No two events contradict each other\<close>

text \<open>
  C15: for a job of which no event was sent before, every event one Worker sends announces the terminal status the
  job has afterwards, so it never sends both a completed and a failed event for it. This holds for deliveries and
  repair rounds that follow one another, with no other writer of the job (neither the Manager's late failure
  update nor a repair round that overlaps a delivery), while the reads of the database work and every delivery
  carries a valid message or names no job; writes and publications may fail in any way.
\<close>

theorem events_agree:
  assumes "worker_reads coll good docs events uc"
    and "good w"
    and "\<And>status. \<not> event_sent uc (events w) status i"
    and "\<And>s. s \<in> set steps \<Longrightarrow> well_delivered uc s"
    and "event_request uc status i payload \<in> set (events (worker_run uc steps w))"
  shows "isTerminalStatus status \<and> (\<exists>j. jobs_of docs (worker_run uc steps w) i = Some j \<and> jb_Status j = status)"
proof -
  note r = worker_reads.reads_host[OF assms(1)]
  note h = outbox_reads.axioms(1)[OF r]
  note st = worker_reads.axioms(1)[OF assms(1)]
  have i: "outbox_host.inv uc good (jobs_of docs) events {} w" using assms(2) by (simp add: inv_iff[OF st])
  have c: "outbox_host.con uc good (jobs_of docs) events {i} w"
    using assms(2,3) by (simp add: outbox_host.con_def[OF h])
  have "outbox_host.con uc good (jobs_of docs) events {i} (worker_run uc steps w)"
    using outbox_reads.con_run[OF r i c] assms(4) by blast
  then show ?thesis using assms(5) by (auto simp: outbox_host.con_def[OF h] event_sent_def)
qed

theorem events_agree_witness:
  "isTerminalStatus ''completed'' \<and> map_option jb_Status (jobs_of mem_docs end_1 job_1) = Some ''completed''"
proof -
  let ?uc = "mem_uc (config_1 (Inr result_1))"
  obtain p where p: "event_request ?uc ''completed'' job_1 p \<in> set (wd_events end_1)" using end_1_sent by (auto simp: event_sent_def)
  have "isTerminalStatus ''completed'' \<and>
      (\<exists>j. jobs_of mem_docs (worker_run ?uc steps_1 (world_1 [] [] [FailsBefore])) job_1 = Some j \<and> jb_Status j = ''completed'')"
    by (rule events_agree[OF mr.worker_reads_axioms world_1_ok[of True _ False] _ _ p[unfolded end_1_def]])
      (auto simp: steps_1_def parse_1 world_1_def event_sent_def)
  then show ?thesis by (auto simp: end_1_def)
qed

subsection \<open>The repairer drains the outbox\<close>

text \<open>
  C16: once the database and the emitter answer, \<open>k\<close> repair rounds of page size \<open>page_of
  n\<close> empty the outbox, if at most \<open>k * page_of n\<close> jobs wait and the markers of the waiting
  jobs are those the Worker writes (terminal status, the same in the marker, a payload): no job waits afterwards,
  and every terminal job that satisfied the outbox invariant before the rounds has the event of its status sent
  and no marker. A job the Manager failed has no marker and satisfies no such invariant: the rounds send nothing
  for it.
\<close>

theorem repair_drains:
  assumes "worker_live coll good docs events uc"
    and "good w"
    and "\<And>k j. jobs_of docs w k = Some j \<Longrightarrow> hasPendingTerminalEvent (jb_Metadata j) \<Longrightarrow> outbox_ok uc (events w) j"
    and "card (waiting (jobs_of docs) w) \<le> k * page_of n" and "k > 0"
    and "\<And>j. jobs_of docs w i = Some j \<Longrightarrow> outbox_ok uc (events w) j"
    and "jobs_of docs (worker_run uc (replicate k (Repair n)) w) i = Some j" and "isTerminalStatus (jb_Status j)"
  shows "waiting (jobs_of docs) (worker_run uc (replicate k (Repair n)) w) = {} \<and>
    event_sent uc (events (worker_run uc (replicate k (Repair n)) w)) (jb_Status j) (jb_ID j) \<and>
    \<not> hasPendingTerminalEvent (jb_Metadata j)"
proof -
  note l = worker_live.live_host[OF assms(1)]
  note st = worker_reads.axioms(1)[OF worker_live.axioms(1)[OF assms(1)]]
  let ?w = "worker_run uc (replicate k (Repair n)) w"
  let ?S = "insert i (waiting (jobs_of docs) w)"
  have i: "outbox_host.inv uc good (jobs_of docs) events ?S w"
    using assms(2,3,6) by (auto simp: inv_iff[OF st] waiting_def)
  have drained: "waiting (jobs_of docs) ?w = {}"
    using outbox_live.repair_rounds[OF l i assms(4,5) subset_insertI] .
  then have unmarked: "\<not> hasPendingTerminalEvent (jb_Metadata j)" using assms(7,8) by (auto simp: waiting_def)
  have "outbox_ok uc (events ?w) j"
    using outbox_host.inv_run[OF worker_store.store_host[OF st] i] assms(7) by (simp add: inv_iff[OF st])
  with unmarked drained assms(8) show ?thesis by (simp add: outbox_ok_def)
qed

theorem repair_drains_witness:
  "map_option (\<lambda>j. event_sent (mem_uc (config_1 (Inr result_1)))
      (wd_events (worker_run (mem_uc (config_1 (Inr result_1))) [Repair 10] world_2)) (jb_Status j) (jb_ID j) \<and>
      \<not> hasPendingTerminalEvent (jb_Metadata j))
    (jobs_of mem_docs (worker_run (mem_uc (config_1 (Inr result_1))) [Repair 10] world_2) job_1) = Some True"
proof -
  let ?uc = "mem_uc (config_1 (Inr result_1))"
  let ?w = "worker_run ?uc [Repair 10] world_2"
  have "map_option jb_Status (jobs_of mem_docs ?w job_1) = Some JobStatusCompleted" by code_simp
  then obtain j where j: "jobs_of mem_docs ?w job_1 = Some j" "jb_Status j = JobStatusCompleted" by auto
  have c: "card (waiting (jobs_of mem_docs) world_2) \<le> 1 * page_of 10"
    using card_mono[OF _ world_2_waiting] by (simp add: page_of_def maxJobPageLimit_def)
  have "waiting (jobs_of mem_docs) (worker_run ?uc (replicate 1 (Repair 10)) world_2) = {} \<and>
      event_sent ?uc (wd_events (worker_run ?uc (replicate 1 (Repair 10)) world_2)) (jb_Status j) (jb_ID j) \<and>
      \<not> hasPendingTerminalEvent (jb_Metadata j)"
    by (rule repair_drains[OF ml.worker_live_axioms world_2_ok world_2_outbox c _ world_2_outbox]) (use j in simp_all)
  with j show ?thesis by simp
qed

subsection \<open>One delivery\<close>

text \<open>
  C19: a message for a job that has left the pending state and waits for no event is acknowledged, changes no job
  and sends no event, whatever its headers, and its outcome is the same whatever the connection lookup, the CRM
  query, the Engine, the encryption and the storage would do: a redelivered message never runs an extraction or an
  upload again, also when the job failed or is still processing.
\<close>

theorem redelivery_is_noop:
  assumes "worker_reads coll good docs events uc" and "good w"
    and "parseMessage uc body = Inr message"
    and "jobs_of docs w (em_JobID message) = Some j"
    and "jb_Status j \<noteq> JobStatusPending" and "\<not> hasPendingTerminalEvent (jb_Metadata j)"
  shows "\<exists>w'. handle_message uc body headers w = (None, w') \<and> good w' \<and>
    jobs_of docs w' = jobs_of docs w \<and> events w' = events w \<and>
    (\<forall>c q r e p. handle_message (uc\<lparr>uc_connections := c, uc_queryCRM := q, uc_runEngine := r, uc_encrypt := e,
       uc_put := p\<rparr>) body headers w = (None, w'))"
proof -
  note r = worker_reads.reads_host[OF assms(1)]
  obtain w1 where w1: "handle_message uc body headers w = (None, w1)" "unmoved good (jobs_of docs) events w w1"
    using outbox_reads.redelivered[OF r assms(2-6)] by blast
  obtain w2 where w2: "\<And>c q r e p. handle_message (uc\<lparr>uc_connections := c, uc_queryCRM := q, uc_runEngine := r,
      uc_encrypt := e, uc_put := p\<rparr>) body headers w = (None, w2)"
    using outbox_reads.redelivery[OF r assms(2-6)] by blast
  have "handle_message uc body headers w = (None, w2)"
    using w2[where c = "uc_connections uc" and q = "uc_queryCRM uc" and r = "uc_runEngine uc" and e = "uc_encrypt uc"
        and p = "uc_put uc"] by simp
  with w1 w2 show ?thesis by (simp add: unmoved_def)
qed

theorem redelivery_is_noop_witness:
  "fst (handle_message (mem_uc (config_1 (Inr result_1))) ''m'' [] world_3) = None \<and>
   wd_events (snd (handle_message (mem_uc (config_1 (Inr result_1))) ''m'' [] world_3)) = []"
proof -
  let ?uc = "mem_uc (config_1 (Inr result_1))"
  have "\<exists>w'. handle_message ?uc ''m'' [] world_3 = (None, w') \<and> mem_ok True False w' \<and>
      jobs_of mem_docs w' = jobs_of mem_docs world_3 \<and> wd_events w' = wd_events world_3 \<and>
      (\<forall>c q r e p. handle_message (?uc\<lparr>uc_connections := c, uc_queryCRM := q, uc_runEngine := r, uc_encrypt := e,
         uc_put := p\<rparr>) ''m'' [] world_3 = (None, w'))"
    by (rule redelivery_is_noop[OF mr.worker_reads_axioms world_3_ok parse_1 job_3_stored])
      (simp_all add: doc_3_def doc_1_def hasPendingTerminalEvent_def)
  then obtain w' where "handle_message ?uc ''m'' [] world_3 = (None, w')" "wd_events w' = wd_events world_3" by blast
  then show ?thesis by (simp add: world_3_def)
qed

text \<open>
  C17: with collaborators that answer, the delivery of a valid message for a pending job whose extraction and
  storage succeed is acknowledged; the job is then completed, its completed event is sent and no marker is left.
\<close>

theorem delivery_completes:
  assumes "worker_live coll good docs events uc" and "good w"
    and "parseMessage uc body = Inr message"
    and "jobs_of docs w (em_JobID message) = Some j"
    and "jb_Status j = JobStatusPending" and "\<not> hasPendingTerminalEvent (jb_Metadata j)"
    and "\<And>w. good w \<Longrightarrow> fst (uc_connections uc (keys (em_MappedFields message)) w) = Inr cs" and "cs \<noteq> []"
    and "\<And>w. good w \<Longrightarrow> fst (extractInto uc message cs [] w) = Inr (reuse, res)"
    and "\<And>w. good w \<Longrightarrow> fst (saveExternalData uc message res reuse w) = Inr d"
    and "encodable (em_Metadata message)"
  shows "\<exists>w' j'. handle_message uc body headers w = (None, w') \<and>
    event_sent uc (events w') JobStatusCompleted (em_JobID message) \<and>
    jobs_of docs w' (em_JobID message) = Some j' \<and> jb_Status j' = JobStatusCompleted \<and>
    \<not> hasPendingTerminalEvent (jb_Metadata j')"
proof -
  note l = worker_live.live_host[OF assms(1)]
  have "\<And>opts. \<exists>payload. buildJobNotificationPayload uc message ''completed'' None (Some opts) = Inr payload"
    using payload_total[OF assms(11)] by blast
  from outbox_live.completed_delivery[OF l assms(2-10) this] show ?thesis
    unfolding outbox_live.settled_def[OF l] by blast
qed

theorem delivery_completes_witness:
  "fst (handle_message (mem_uc (config_1 (Inr result_1))) ''m'' [] (world_1 [] [] [])) = None \<and>
   event_sent (mem_uc (config_1 (Inr result_1)))
     (wd_events (snd (handle_message (mem_uc (config_1 (Inr result_1))) ''m'' [] (world_1 [] [] []))))
     JobStatusCompleted job_1"
proof -
  have "\<exists>w' j'. handle_message (mem_uc (config_1 (Inr result_1))) ''m'' [] (world_1 [] [] []) = (None, w') \<and>
      event_sent (mem_uc (config_1 (Inr result_1))) (wd_events w') JobStatusCompleted (em_JobID message_1) \<and>
      jobs_of mem_docs w' (em_JobID message_1) = Some j' \<and> jb_Status j' = JobStatusCompleted \<and>
      \<not> hasPendingTerminalEvent (jb_Metadata j')"
    by (rule delivery_completes[OF ml.worker_live_axioms world_1_ok[of True _ True] parse_1 job_1_found _ _ connections_1 _
          extract_1_ok save_1]) (simp_all add: doc_1_def hasPendingTerminalEvent_def message_1_encodable)
  then show ?thesis by (auto simp: message_1_def)
qed





subsection \<open>A delivery stays with its tenant\<close>

definition consumer_1 :: "world MultiQueueConsumer" where
  "consumer_1 =
     \<lparr>mq_multiTenant = True, mq_useCase = (\<lambda>_. mem_uc (config_1 (Inr result_1))), mq_mongoManager = None,
      mq_messageVerifier = Some signer_1, mq_allowLegacyBodySignatureFallback = False\<rparr>"

definition delivery_1 :: Delivery where
  "delivery_1 =
     \<lparr>dl_Headers = pb_Headers publishing_1, dl_Body = pb_Body publishing_1, dl_Exchange = ''jobs'', dl_RoutingKey = ''extract''\<rparr>"

text \<open>
  C20: tenant isolation of the multi-tenant consumer. Every delivery either reaches the job handler, and then the
  tenant header it carries is the authoritative tenant of its queue, the message passed signature verification,
  and the handler runs with that tenant and the database resolved for that tenant; or nothing happens
  beyond the lookup of that tenant's database.
\<close>

theorem delivery_stays_with_tenant:
  assumes "handlerGenerateReportDelivery lib mq now ctx d w = (r, w')"
  shows "(\<exists>ctx' w1.
      (r, w') = handle_message (mq_useCase mq ctx') (dl_Body d) (dl_Headers d) w1 \<and>
      mc_TenantID ctx \<noteq> [] \<and> text_header (dl_Headers d) HeaderTenantID = mc_TenantID ctx \<and>
      mc_TenantID ctx' = mc_TenantID ctx \<and>
      (case mq_messageVerifier mq of None \<Rightarrow> True | Some s \<Rightarrow>
         VerifyMessageSignature lib now (dl_Body d) (dl_Headers d) (dl_Exchange d) (dl_RoutingKey d) (Some s)
           DefaultSignatureTimestampTolerance (mq_allowLegacyBodySignatureFallback mq) = None) \<and>
      (case mq_mongoManager mq of None \<Rightarrow> w1 = w \<and> mc_Mongo ctx' = mc_Mongo ctx
       | Some get \<Rightarrow> \<exists>db. get (mc_TenantID ctx) w = (Inr db, w1) \<and> mc_Mongo ctx' = Some db)) \<or>
    w' = w \<or> (\<exists>get err. mq_mongoManager mq = Some get \<and> get (mc_TenantID ctx) w = (Inl err, w'))"
proof (cases "validateAuthoritativeTenantHeader ctx (dl_Headers d) = None \<and>
    (case mq_messageVerifier mq of None \<Rightarrow> True | Some s \<Rightarrow>
       VerifyMessageSignature lib now (dl_Body d) (dl_Headers d) (dl_Exchange d) (dl_RoutingKey d) (Some s)
         DefaultSignatureTimestampTolerance (mq_allowLegacyBodySignatureFallback mq) = None)")
  case False
  with assms have "w' = w"
    by (cases "mq_messageVerifier mq") (auto simp: handlerGenerateReportDelivery_def simp del: not_None_eq split: if_splits)
  then show ?thesis by blast
next
  case True
  note tenant = header_validated[OF conjunct1[OF True]]
  have run: "handlerGenerateReportDelivery lib mq now ctx d w =
      (case mq_mongoManager mq of
         None \<Rightarrow> handlerGenerateReport mq ctx (dl_Body d) (dl_Headers d) w
       | Some get \<Rightarrow>
           (case get (mc_TenantID ctx) w of
              (Inl err, w1) \<Rightarrow> (tenant_failure (''resolve tenant mongo for tenant '' @ mc_TenantID ctx) err, w1)
            | (Inr db, w1) \<Rightarrow>
                handlerGenerateReport mq (ctx\<lparr>mc_Mongo := Some db\<rparr>) (dl_Body d) (dl_Headers d) w1))"
    using True tenant
    by (cases "mq_messageVerifier mq") (auto simp: handlerGenerateReportDelivery_def split: option.split)
  show ?thesis
  proof (cases "mq_mongoManager mq")
    case None
    then have "(r, w') = handle_message (mq_useCase mq ctx) (dl_Body d) (dl_Headers d) w"
      using assms run tenant handler_resolved[of ctx mq] by simp
    with None True tenant show ?thesis by (intro disjI1 exI[of _ ctx] exI[of _ w]) simp
  next
    case (Some get)
    obtain x w1 where g: "get (mc_TenantID ctx) w = (x, w1)" by fastforce
    show ?thesis
    proof (cases x)
      case (Inl err)
      with assms run Some g have "w' = w1" by simp
      with Some g Inl show ?thesis by blast
    next
      case (Inr db)
      let ?ctx = "ctx\<lparr>mc_Mongo := Some db\<rparr>"
      have "(r, w') = handle_message (mq_useCase mq ?ctx) (dl_Body d) (dl_Headers d) w1"
        using assms run Some g Inr tenant handler_resolved[of ?ctx mq] by simp
      with Some g Inr True tenant show ?thesis by (intro disjI1 exI[of _ ?ctx] exI[of _ w1]) simp
    qed
  qed
qed

theorem delivery_stays_with_tenant_witness:
  "snd (handlerGenerateReportDelivery lib_1 consumer_1 1000000000000 \<lparr>mc_TenantID = ''other'', mc_Mongo = None\<rparr> delivery_1
     (world_1 [] [] [])) = world_1 [] [] []"
proof -
  let ?ctx = "\<lparr>mc_TenantID = ''other'', mc_Mongo = None\<rparr>"
  have t: "text_header (dl_Headers delivery_1) HeaderTenantID = ''acme''" by code_simp
  obtain r w' where h: "handlerGenerateReportDelivery lib_1 consumer_1 1000000000000 ?ctx delivery_1 (world_1 [] [] []) = (r, w')"
    by fastforce
  have "mq_mongoManager consumer_1 = None" by (simp add: consumer_1_def)
  with delivery_stays_with_tenant[OF h] t have "w' = world_1 [] [] []" by auto
  with h show ?thesis by simp
qed

end
