(* ===== verification/Business_Errors.thy ===== *)
theory Business_Errors
  imports Service_Errors
begin

text \<open>
  How the services turn their sentinel errors into typed errors (\<^verbatim>\<open>pkg/errors.go\<close>). A sentinel is
  \<open>Plain\<close> of its code; each \<^verbatim>\<open>switch\<close> is the list of its cases.
\<close>

definition squoted :: "string \<Rightarrow> string" where
  "squoted s = [CHR 0x27] @ s @ [CHR 0x27]"

text \<open>\<^verbatim>\<open>fmt.Sprintf\<close> on text with \<^verbatim>\<open>%v\<close> and \<^verbatim>\<open>%s\<close> and string arguments.\<close>

fun join_commas :: "string list \<Rightarrow> string" where
  "join_commas [] = []"
| "join_commas [x] = x"
| "join_commas (x # y # ys) = x @ '', '' @ join_commas (y # ys)"

function sprintf :: "string \<Rightarrow> string list \<Rightarrow> string" where
  "sprintf [] args =
     (if args = [] then [] else ''%!(EXTRA '' @ join_commas (map (\<lambda>a. ''string='' @ a) args) @ '')'')"
| "sprintf (c # cs) args =
     (if c = CHR ''%'' \<and> cs \<noteq> [] \<and> hd cs \<in> {CHR ''v'', CHR ''s''}
      then (case args of
              [] \<Rightarrow> ''%!'' @ [hd cs] @ ''(MISSING)'' @ sprintf (tl cs) []
            | a # as \<Rightarrow> a @ sprintf (tl cs) as)
      else c # sprintf cs args)"
  by pat_completeness auto
termination
  by (relation "measure (\<lambda>(s, _). length s)") auto

definition validateCommonErrors :: "string \<Rightarrow> string list \<Rightarrow> (string \<times> serror) list" where
  "validateCommonErrors entityType args =
     [
      (''FET-0405'', TypedError ValidationKind entityType ''Invalid Query Parameter''
          (sprintf (''One or more query parameters are in an incorrect format. Please check the following parameters '' @ squoted ''%v'' @ '' and ensure they meet the required format before trying again.'') args) ''FET-0405'' None),
      (''FET-0408'', TypedError ValidationKind entityType ''Invalid Date Format Error''
          (''The '' @ squoted ''initialDate'' @ '', '' @ squoted ''finalDate'' @ '', or both are in the incorrect format. Please use the '' @ squoted ''yyyy-mm-dd'' @ '' format and try again.'') ''FET-0408'' None),
      (''FET-0409'', TypedError ValidationKind entityType ''Invalid Final Date Error''
          (''The '' @ squoted ''finalDate'' @ '' cannot be earlier than the '' @ squoted ''initialDate'' @ ''. Please verify the dates and try again.'') ''FET-0409'' None),
      (''FET-0406'', TypedError ValidationKind entityType ''Pagination Limit Exceeded''
          (sprintf ''The pagination limit exceeds the maximum allowed of %v items per page. Please verify the limit and try again.'' args) ''FET-0406'' None),
      (''FET-0407'', TypedError ValidationKind entityType ''Invalid Sort Order''
          (''The '' @ squoted ''sort_order'' @ '' field must be '' @ squoted ''asc'' @ '' or '' @ squoted ''desc'' @ ''. Please provide a valid sort order and try again.'') ''FET-0407'' None),
      (''FET-0412'', TypedError ValidationKind entityType ''Metadata Key Length Exceeded''
          (sprintf ''The metadata key %v exceeds the maximum allowed length of %v characters. Please use a shorter key.'' args) ''FET-0412'' None),
      (''FET-0411'', TypedError ValidationKind entityType ''Metadata Value Length Exceeded''
          (sprintf ''The metadata value %v exceeds the maximum allowed length of %v characters. Please use a shorter value.'' args) ''FET-0411'' None),
      (''FET-0410'', TypedError ValidationKind entityType ''Invalid Metadata Nesting''
          (sprintf ''The metadata object cannot contain nested values. Please ensure that the value %v is not nested and try again.'' args) ''FET-0410'' None),
      (''FET-0403'', TypedError ValidationKind entityType ''Invalid header''
          (sprintf ''One or more header values are missing or incorrectly formatted. Please verify required headers %v.'' args) ''FET-0403'' None),
      (''FET-0404'', TypedError ValidationKind entityType ''Invalid Path Parameter''
          (sprintf ''Path parameters is in an incorrect format. Please check the following parameter %v and ensure they meet the required format before trying again.'' args) ''FET-0404'' None),
      (''FET-0401'', TypedError ValidationKind entityType ''Invalid Data Request''
          (if args \<noteq> [] then concat args else ''The request contains invalid data. Please check the request payload and try again.'') ''FET-0401'' None),
      (''FET-0413'', TypedError ValidationKind entityType ''Invalid SSL Mode''
          (sprintf (''Invalid SSL mode. The provided SSL mode '' @ squoted ''%s'' @ '' is not supported. Please use a valid SSL mode for this database type.'') args) ''FET-0413'' None),
      (''FET-0414'', TypedError ValidationKind entityType ''Forbidden Host''
          ''Host is not a valid external database endpoint'' ''FET-0414'' None)]"

definition validateEntityErrors :: "string \<Rightarrow> string list \<Rightarrow> (string \<times> serror) list" where
  "validateEntityErrors entityType args =
     [
      (''FET-1001'', StatusError 404 ''FET-1001'' ''Entity Not Found''
          (sprintf ''It was not possible to find the %v entity during the requested flow. Please review the data provided in the request.'' [entityType])),
      (''FET-1002'', StatusError 409 ''FET-1002'' ''Conflict''
          (sprintf ''An entity of type %v with the same unique attributes already exists. Please use different values to avoid conflicts and review the data provided in the request.'' [entityType]))]"

definition validateTenantErrors :: "string \<Rightarrow> string list \<Rightarrow> (string \<times> serror) list" where
  "validateTenantErrors entityType args =
     [
      (''FET-1080'', TypedError ValidationKind entityType ''Tenant Context Required''
          ''The request requires a tenant context. Ensure the X-Tenant-ID header is present and valid.'' ''FET-1080'' None),
      (''FET-1081'', StatusError 404 ''FET-1081'' ''Tenant Not Found''
          ''The specified tenant was not found. Verify the tenant ID and try again.''),
      (''FET-1082'', StatusError 503 ''FET-1082'' ''Tenant Service Unavailable''
          ''The tenant service is temporarily unavailable due to circuit breaker protection. Please try again later.'')]"

definition validateProductErrors :: "string \<Rightarrow> string list \<Rightarrow> (string \<times> serror) list" where
  "validateProductErrors entityType args =
     [
      (''FET-1013'', StatusError 409 ''FET-1013'' ''Product Has Connections''
          (sprintf ''The %v cannot be deleted because it has associated connections. Remove or reassign all connections before deleting.'' [entityType])),
      (''FET-1014'', TypedError ValidationKind entityType ''Connection Not Assigned''
          (if args \<noteq> [] then concat args else ''The connection is not assigned to any product.'') ''FET-1014'' None),
      (''FET-1015'', StatusError 409 ''FET-1015'' ''Connection Already Assigned''
          (sprintf ''The %v is already assigned to a product and cannot be reassigned.'' [entityType])),
      (''FET-1016'', TypedError ValidationKind entityType ''Product Mismatch''
          (if args \<noteq> [] then concat args else ''One or more datasources do not belong to the specified product.'') ''FET-1016'' None)]"

definition validateJobAndConnectionErrors :: "string \<Rightarrow> string list \<Rightarrow> (string \<times> serror) list" where
  "validateJobAndConnectionErrors entityType args =
     [
      (''FET-1020'', TypedError ValidationKind entityType ''Missing Data Source Table''
          (sprintf ''The data source %v is missing. Please check the value passed.'' args) ''FET-1020'' None),
      (''FET-1021'', StatusError 409 ''FET-1021'' ''Job In Progress''
          (if args \<noteq> [] then concat args else ''The operation cannot be completed because there are active jobs for this connection.'')),
      (''FET-1040'', TypedError ValidationKind entityType ''Connection Down''
          (if args \<noteq> [] then concat args else ''The database connection is not available. Please check the connection configuration and try again.'') ''FET-1040'' None),
      (''FET-1060'', TypedError ValidationKind entityType ''Schema Validation Failed''
          (if args \<noteq> [] then concat args else ''Schema validation found inconsistencies.'') ''FET-1060'' None),
      (''FET-1061'', TypedError ValidationKind entityType ''Validation Limit Exceeded''
          (if args \<noteq> [] then concat args else ''Validation request exceeds allowed limits.'') ''FET-1061'' None)]"

text \<open>\<^verbatim>\<open>ValidateBusinessError\<close> tries the groups in order and passes any other error through.\<close>

definition ValidateBusinessError :: "serror \<Rightarrow> string \<Rightarrow> string list \<Rightarrow> serror" where
  "ValidateBusinessError err entityType args =
     (case err of
        Plain code \<Rightarrow>
          (case map_of (validateCommonErrors entityType args @ validateEntityErrors entityType args @
                        validateTenantErrors entityType args @ validateProductErrors entityType args @
                        validateJobAndConnectionErrors entityType args) code of
             Some result \<Rightarrow> result
           | None \<Rightarrow> err)
      | _ \<Rightarrow> err)"

definition ValidateInternalError :: "serror \<Rightarrow> string \<Rightarrow> serror" where
  "ValidateInternalError err entityType =
     (if err = Plain ''FET-0001''
      then TypedError ValidationKind entityType ''Bad Request''
        ''The server could not understand the request due to malformed syntax. Please check the request and try again.''
        ''FET-0001'' None
      else if err = Plain ''FET-0003''
      then StatusError 503 ''FET-0003'' ''Service Unavailable''
        ''The server is currently unable to handle the request due to temporary overloading or maintenance of the server. Please try again later.''
      else if err = Plain ''FET-0004''
      then StatusError 409 ''FET-0004'' ''Conflict''
        ''The request could not be completed due to a conflict with the current state of the resource. Please resolve the conflict and try again.''
      else if err = Plain ''FET-0005''
      then StatusError 404 ''FET-0005'' ''Not Found''
        ''The requested resource could not be found. Please check the request and try again.''
      else TypedError InternalServerKind entityType ''Internal Server Error''
        ''The server encountered an unexpected error. Please try again later or contact support.'' ''FET-0002'' (Some err))"

definition ValidateBadRequestFieldsError ::
  "(string, string) gomap \<Rightarrow> (string, string) gomap \<Rightarrow> string \<Rightarrow> (string, any) gomap \<Rightarrow> serror" where
  "ValidateBadRequestFieldsError requiredFields knownInvalidFields entityType unknownFields =
     (if unknownFields = [] \<and> knownInvalidFields = [] \<and> requiredFields = []
      then Plain ''expected knownInvalidFields, unknownFields and requiredFields to be non-empty''
      else if unknownFields \<noteq> []
      then UnknownFieldsError entityType ''FET-0400'' ''Unexpected Fields in the Request''
        ''The request body contains more fields than expected. Please send only the allowed fields as per the documentation. The unexpected fields are listed in the fields object.''
        unknownFields
      else if requiredFields \<noteq> []
      then KnownFieldsError entityType ''FET-0402'' ''Missing Fields in Request''
        ''Your request is missing one or more required fields. Please refer to the documentation to ensure all necessary fields are included in your request.''
        requiredFields
      else KnownFieldsError entityType ''FET-0001'' ''Bad Request''
        ''The server could not understand the request due to malformed syntax. Please check the listed fields and try again.''
        knownInvalidFields)"

subsection \<open>Sentinels are told apart\<close>

lemma distinct_cases: "distinct (map fst (validateCommonErrors e args @ validateEntityErrors e args @
    validateTenantErrors e args @ validateProductErrors e args @ validateJobAndConnectionErrors e args))"
  by (simp add: validateCommonErrors_def validateEntityErrors_def validateTenantErrors_def validateProductErrors_def
      validateJobAndConnectionErrors_def)

lemma forbidden_host_error:
  "ValidateBusinessError (Plain ''FET-0414'') e args =
     TypedError ValidationKind e ''Forbidden Host'' ''Host is not a valid external database endpoint'' ''FET-0414'' None"
  by (simp add: ValidateBusinessError_def validateCommonErrors_def)

end
