(* ===== verification/Manager_Jobs.thy ===== *)
theory Manager_Jobs
  imports Connection_Model Job_Repository Business_Errors
begin

text \<open>
  Job creation in the Manager (\<^verbatim>\<open>manager/internal/services/command/create_fetcher_job.go\<close>,
  \<^verbatim>\<open>extraction_request_mapper.go\<close>, \<^verbatim>\<open>query/get_job.go\<close>): validation of the request,
  deduplication by its hash, the checks of its connections, the insertion with conflict resolution and
  the publication to the Worker's queue. The service's collaborators are functions on the world;
  a nil connection in a list is \<open>None\<close>.
\<close>

subsection \<open>Errors\<close>

definition fetcherError :: "string \<Rightarrow> string \<Rightarrow> string \<Rightarrow> serror" where
  "fetcherError code title message = TypedError ValidationKind ''fetcher'' title message code None"

definition is_validation_error :: "serror \<Rightarrow> bool" where
  "is_validation_error err \<longleftrightarrow>
     (\<exists>e \<in> set (causes err). (case e of TypedError k _ _ _ _ _ \<Rightarrow> k = ValidationKind | _ \<Rightarrow> False))"

subsection \<open>The service\<close>

definition DeduplicationWindowMinutes :: int where
  "DeduplicationWindowMinutes = 5"

record CreateFetcherJobResult =
  cr_Job :: Job
  cr_IsDuplicate :: bool
  cr_IsNewCreated :: bool

record 'w ConnectionResolver =
  ResolveConnections :: "string list \<Rightarrow> 'w \<Rightarrow> (serror, Connection option list) result \<times> 'w"
  IsInternalDatasource :: "string \<Rightarrow> bool"

text \<open>A datasource that was opened for a test is its \<^verbatim>\<open>Close\<close>. The identifiers, the clock, the hash, the
  tenant of the context and \<^verbatim>\<open>mongo.IsDuplicateKeyError\<close> come from outside.\<close>

record 'w CreateFetcherJob =
  cf_connRepo :: "string list \<Rightarrow> 'w \<Rightarrow> (serror, Connection option list) result \<times> 'w"
  cf_jobRepo :: "'w JobCollection"
  cf_rabbitMQ :: "(string \<Rightarrow> string \<Rightarrow> string \<Rightarrow> (string, any) gomap \<Rightarrow> 'w \<Rightarrow> serror option \<times> 'w) option"
  cf_connectionTester :: "(Connection \<Rightarrow> 'w \<Rightarrow> serror option \<times> 'w) option"
  cf_dsFactory :: "(Connection \<Rightarrow> 'w \<Rightarrow> (serror, 'w \<Rightarrow> serror option \<times> 'w) result \<times> 'w) option"
  cf_queueName :: string
  cf_connectionResolver :: "'w ConnectionResolver option"
  cf_tenantID :: string
  cf_now :: "'w \<Rightarrow> int \<times> 'w"
  cf_newV7 :: "'w \<Rightarrow> (serror, uuid) result \<times> 'w"
  cf_sha256 :: "string \<Rightarrow> string"
  cf_formatTime :: "int \<Rightarrow> string"
  cf_isDuplicateKey :: "serror \<Rightarrow> bool"

subsection \<open>Validation\<close>

text \<open>The projection to the Engine's request and back: mapped fields and metadata.\<close>

definition manager_mapMappedFields :: "mapped_fields option \<Rightarrow> mapped_fields option" where
  "manager_mapMappedFields mappedFields = map_option (map (\<lambda>(datasource, tables). (datasource, tables))) mappedFields"

definition mapToExtractionRequest :: "FetcherRequest \<Rightarrow> mapped_fields option \<times> (string, any) gomap option" where
  "mapToExtractionRequest request =
     (manager_mapMappedFields (dq_MappedFields (fr_DataRequest request)), fr_Metadata request)"

definition mappedFieldsFromExtraction ::
  "mapped_fields option \<times> (string, any) gomap option \<Rightarrow> mapped_fields option" where
  "mappedFieldsFromExtraction request = map_option (map (\<lambda>(datasource, tables). (datasource, tables))) (fst request)"

definition nil_as_empty :: "'a list option \<Rightarrow> 'a list" where
  "nil_as_empty m = (case m of None \<Rightarrow> [] | Some xs \<Rightarrow> xs)"

definition validateMetadataSource :: "(string, any) gomap option \<Rightarrow> serror option" where
  "validateMetadataSource metadata =
     (case metadata of
        None \<Rightarrow>
          Some (fetcherError ''FET-0402'' ''Missing Required Field''
            (''metadata is required and must contain '' @ squoted ''source'' @ '' field''))
      | Some m \<Rightarrow>
          (case map_of m ''source'' of
             None \<Rightarrow>
               Some (fetcherError ''FET-0402'' ''Missing Required Field''
                 ''metadata.source is required for job notification routing'')
           | Some ANil \<Rightarrow>
               Some (fetcherError ''FET-0402'' ''Missing Required Field''
                 ''metadata.source is required for job notification routing'')
           | Some (AString source) \<Rightarrow>
               if TrimSpace source = []
               then Some (fetcherError ''FET-0402'' ''Invalid Field Value'' ''metadata.source must be a non-empty string'')
               else None
           | Some _ \<Rightarrow>
               Some (fetcherError ''FET-0402'' ''Invalid Field Value'' ''metadata.source must be a non-empty string'')))"

definition validateFilterReferences :: "Job \<Rightarrow> serror option" where
  "validateFilterReferences newJob =
     (if jb_Filters newJob = [] then None
      else case ValidateFilterReferences (jb_Filters newJob) (nil_as_empty (jb_MappedFields newJob)) of
             None \<Rightarrow> None
           | Some errFilters \<Rightarrow>
               Some (TypedError ValidationKind ''fetcher'' ''Invalid Filter References'' (error_text errFilters)
                 ''FET-0401'' (Some errFilters)))"

definition validateAndBuildJob :: "'w CreateFetcherJob \<Rightarrow> FetcherRequest \<Rightarrow> 'w \<Rightarrow> (serror, Job) result \<times> 'w" where
  "validateAndBuildJob s request w =
     (case ComputeRequestHash (cf_sha256 s) request of
        Inl err \<Rightarrow> (Inl (ValidateInternalError err ''fetcher''), w)
      | Inr requestHash \<Rightarrow>
          let extractionReq = mapToExtractionRequest request
          in case cf_now s w of (now, w1) \<Rightarrow>
             (case cf_newV7 s w1 of (fresh, w2) \<Rightarrow>
               (case NewJob fresh (nil_as_empty (snd extractionReq)) (mappedFieldsFromExtraction extractionReq)
                       (dq_Filters (fr_DataRequest request)) JobStatusPending [] requestHash now None of
                  Inl err \<Rightarrow> (Inl (ValidateInternalError err ''fetcher''), w2)
                | Inr newJob \<Rightarrow>
                    (case job_IsValid newJob of
                       Some err \<Rightarrow> (Inl err, w2)
                     | None \<Rightarrow>
                         (case validateMetadataSource (fr_Metadata request) of
                            Some err \<Rightarrow> (Inl err, w2)
                          | None \<Rightarrow>
                              (case validateFilterReferences newJob of
                                 Some err \<Rightarrow> (Inl err, w2)
                               | None \<Rightarrow> (Inr newJob, w2)))))))"

subsection \<open>Deduplication\<close>

definition checkDuplicateJob ::
  "'w CreateFetcherJob \<Rightarrow> Job \<Rightarrow> 'w \<Rightarrow> (serror, CreateFetcherJobResult option) result \<times> 'w" where
  "checkDuplicateJob s newJob w =
     (case repo_FindByRequestHashWithinWindow (cf_jobRepo s) (jb_RequestHash newJob) DeduplicationWindowMinutes w of
        (Inl err, w1) \<Rightarrow> (Inl (ValidateInternalError err ''fetcher''), w1)
      | (Inr None, w1) \<Rightarrow> (Inr None, w1)
      | (Inr (Some existingJob), w1) \<Rightarrow>
          if jb_Status existingJob = JobStatusFailed then (Inr None, w1)
          else (Inr (Some \<lparr>cr_Job = existingJob, cr_IsDuplicate = True, cr_IsNewCreated = False\<rparr>), w1))"

subsection \<open>Connections\<close>

fun ensureAllDatasourcesHaveConnections :: "string list \<Rightarrow> Connection option list \<Rightarrow> serror option" where
  "ensureAllDatasourcesHaveConnections [] connections = None"
| "ensureAllDatasourcesHaveConnections (dsName # dsNames) connections =
     (if \<exists>c \<in> set connections. map_option cn_ConfigName c = Some dsName
      then ensureAllDatasourcesHaveConnections dsNames connections
      else Some (fetcherError ''FET-1020'' ''Missing Data Source''
             (''No connection configured for datasource '' @ squoted dsName)))"

definition lookupConnections ::
  "'w CreateFetcherJob \<Rightarrow> string list \<Rightarrow> 'w \<Rightarrow> (serror, Connection option list) result \<times> 'w" where
  "lookupConnections s names =
     (case cf_connectionResolver s of Some r \<Rightarrow> ResolveConnections r names | None \<Rightarrow> cf_connRepo s names)"

definition resolveAndValidateConnections ::
  "'w CreateFetcherJob \<Rightarrow> Job \<Rightarrow> 'w \<Rightarrow> (serror, Connection option list) result \<times> 'w" where
  "resolveAndValidateConnections s newJob w =
     (case lookupConnections s (GetDatasourceNames newJob) w of
        (Inl err, w1) \<Rightarrow> (Inl (ValidateInternalError err ''fetcher''), w1)
      | (Inr connections, w1) \<Rightarrow>
          if connections = []
          then (Inl (fetcherError ''FET-1020'' ''No Connections Found''
                  ''No connections configured for the requested datasources''), w1)
          else (case ensureAllDatasourcesHaveConnections (GetDatasourceNames newJob) connections of
                  Some err \<Rightarrow> (Inl err, w1)
                | None \<Rightarrow> (Inr connections, w1)))"

definition isInternal :: "'w CreateFetcherJob \<Rightarrow> Connection \<Rightarrow> bool" where
  "isInternal s conn =
     (case cf_connectionResolver s of Some r \<Rightarrow> IsInternalDatasource r (cn_ConfigName conn) | None \<Rightarrow> False)"

fun validateProductOwnership :: "'w CreateFetcherJob \<Rightarrow> string \<Rightarrow> Connection option list \<Rightarrow> serror option" where
  "validateProductOwnership s source [] = None"
| "validateProductOwnership s source (None # connections) = validateProductOwnership s source connections"
| "validateProductOwnership s source (Some conn # connections) =
     (if isInternal s conn then validateProductOwnership s source connections
      else if cn_ProductName conn = []
      then Some (fetcherError ''FET-1014'' ''Connection Not Assigned''
             (''Connection '' @ squoted (cn_ConfigName conn) @
              '' has no product assigned. Use the migration endpoint to assign it first.''))
      else if cn_ProductName conn \<noteq> source
      then Some (fetcherError ''FET-1016'' ''Product Mismatch''
             (''Connection '' @ squoted (cn_ConfigName conn) @
              '' does not belong to the product identified by source '' @ squoted source))
      else validateProductOwnership s source connections)"

definition manager_TestConnection :: "'w CreateFetcherJob \<Rightarrow> Connection \<Rightarrow> 'w \<Rightarrow> serror option \<times> 'w" where
  "manager_TestConnection s conn w =
     (case cf_dsFactory s of
        None \<Rightarrow> (None, w)
      | Some dsFactory \<Rightarrow>
          (case dsFactory conn w of
             (Inl err, w1) \<Rightarrow> (Some (wrap ''connection test failed'' err), w1)
           | (Inr close, w1) \<Rightarrow> (None, snd (close w1))))"

definition runTest :: "'w CreateFetcherJob \<Rightarrow> Connection \<Rightarrow> 'w \<Rightarrow> serror option \<times> 'w" where
  "runTest s = (case cf_connectionTester s of None \<Rightarrow> manager_TestConnection s | Some t \<Rightarrow> t)"

fun testConnections :: "'w CreateFetcherJob \<Rightarrow> Connection option list \<Rightarrow> 'w \<Rightarrow> serror option \<times> 'w" where
  "testConnections s [] w = (None, w)"
| "testConnections s (None # connections) w = testConnections s connections w"
| "testConnections s (Some conn # connections) w =
     (if isInternal s conn then testConnections s connections w
      else (case runTest s conn w of
              (None, w1) \<Rightarrow> testConnections s connections w1
            | (Some err, w1) \<Rightarrow>
                (Some (if is_validation_error err then err
                       else fetcherError ''FET-1040'' ''Connection Down''
                              (''Connection '' @ squoted (cn_ConfigName conn) @ '' is not available'')), w1)))"

subsection \<open>Insertion\<close>

record jobCreationResult =
  jc_job :: Job
  jc_duplicate :: bool

definition asResult :: "jobCreationResult \<Rightarrow> CreateFetcherJobResult" where
  "asResult r = \<lparr>cr_Job = jc_job r, cr_IsDuplicate = jc_duplicate r, cr_IsNewCreated = (\<not> jc_duplicate r)\<rparr>"

definition findActiveDuplicateJob :: "'w CreateFetcherJob \<Rightarrow> string \<Rightarrow> 'w \<Rightarrow> (serror, Job option) result \<times> 'w" where
  "findActiveDuplicateJob s requestHash = repo_FindActiveByRequestHash (cf_jobRepo s) requestHash"

definition recoverFromDuplicateKey ::
  "'w CreateFetcherJob \<Rightarrow> Job \<Rightarrow> 'w \<Rightarrow> (serror, jobCreationResult option) result \<times> 'w" where
  "recoverFromDuplicateKey s newJob w =
     (case findActiveDuplicateJob s (jb_RequestHash newJob) w of
        (Inl findErr, w1) \<Rightarrow> (Inl (ValidateInternalError findErr ''fetcher''), w1)
      | (Inr None, w1) \<Rightarrow> (Inr None, w1)
      | (Inr (Some existing), w1) \<Rightarrow> (Inr (Some \<lparr>jc_job = existing, jc_duplicate = True\<rparr>), w1))"

definition conflictError :: "serror \<Rightarrow> serror" where
  "conflictError err =
     ValidateInternalError
       (wrap ''unable to create job after conflict resolution: concurrent active job prevents creation'' err) ''fetcher''"

definition retryCreateAfterConflict ::
  "'w CreateFetcherJob \<Rightarrow> Job \<Rightarrow> 'w \<Rightarrow> (serror, jobCreationResult) result \<times> 'w" where
  "retryCreateAfterConflict s newJob w =
     (case repo_Create (cf_jobRepo s) newJob w of
        (Inr createdJob, w1) \<Rightarrow> (Inr \<lparr>jc_job = createdJob, jc_duplicate = False\<rparr>, w1)
      | (Inl err, w1) \<Rightarrow>
          if cf_isDuplicateKey s err
          then (case recoverFromDuplicateKey s newJob w1 of
                  (Inl recoverErr, w2) \<Rightarrow> (Inl recoverErr, w2)
                | (Inr (Some result), w2) \<Rightarrow> (Inr result, w2)
                | (Inr None, w2) \<Rightarrow> (Inl (conflictError err), w2))
          else (Inl (conflictError err), w1))"

definition createJobWithConflictResolution ::
  "'w CreateFetcherJob \<Rightarrow> Job \<Rightarrow> 'w \<Rightarrow> (serror, jobCreationResult) result \<times> 'w" where
  "createJobWithConflictResolution s newJob w =
     (case repo_Create (cf_jobRepo s) newJob w of
        (Inr createdJob, w1) \<Rightarrow> (Inr \<lparr>jc_job = createdJob, jc_duplicate = False\<rparr>, w1)
      | (Inl err, w1) \<Rightarrow>
          if \<not> cf_isDuplicateKey s err then (Inl (ValidateInternalError err ''fetcher''), w1)
          else (case recoverFromDuplicateKey s newJob w1 of
                  (Inl err', w2) \<Rightarrow> (Inl err', w2)
                | (Inr (Some result), w2) \<Rightarrow> (Inr result, w2)
                | (Inr None, w2) \<Rightarrow> retryCreateAfterConflict s newJob w2))"

subsection \<open>Publication\<close>

definition buildQueueMessage :: "(int \<Rightarrow> string) \<Rightarrow> Job \<Rightarrow> (string, json option) gomap" where
  "buildQueueMessage formatTime j =
     [(''jobId'', Some (JAtom (json_quote (jb_ID j)))),
      (''mappedFields'', case jb_MappedFields j of None \<Rightarrow> Some (JAtom ''null'') | Some m \<Rightarrow> json_fields m),
      (''metadata'', json_map encode (jb_Metadata j)),
      (''createdAt'', Some (JAtom (json_quote (formatTime (jb_CreatedAt j)))))] @
     (if jb_Filters j \<noteq> [] then [(''filters'', json_filters (jb_Filters j))] else [])"

definition queueHeader :: "'w CreateFetcherJob \<Rightarrow> Job \<Rightarrow> (string, any) gomap" where
  "queueHeader s j =
     [(''jobId'', AString (jb_ID j))] @
     (if cf_tenantID s \<noteq> [] then [(''X-Tenant-ID'', AString (cf_tenantID s))] else [])"

definition publishToQueue :: "'w CreateFetcherJob \<Rightarrow> Job \<Rightarrow> 'w \<Rightarrow> serror option \<times> 'w" where
  "publishToQueue s j w =
     (case cf_rabbitMQ s of
        None \<Rightarrow> (None, w)
      | Some producerDefault \<Rightarrow>
          (case json_map id (buildQueueMessage (cf_formatTime s) j) of
             None \<Rightarrow> (Some (wrap ''failed to marshal job message'' (Plain ''json: unsupported value'')), w)
           | Some message \<Rightarrow> producerDefault [] (cf_queueName s) (compact message) (queueHeader s j) w))"

definition publishAndHandleFailure :: "'w CreateFetcherJob \<Rightarrow> Job \<Rightarrow> 'w \<Rightarrow> serror option \<times> 'w" where
  "publishAndHandleFailure s createdJob w =
     (case publishToQueue s createdJob w of
        (None, w1) \<Rightarrow> (None, w1)
      | (Some err, w1) \<Rightarrow>
          (case cf_now s w1 of (now, w2) \<Rightarrow>
             (Some (ValidateInternalError err ''fetcher''),
              snd (repo_Update (cf_jobRepo s) (SetFailedStatus now ''process failed: unable to publish'' createdJob) w2))))"

subsection \<open>The command\<close>

definition nonblank_source :: "(string, any) gomap option \<Rightarrow> string option" where
  "nonblank_source metadata =
     (case map_of (nil_as_empty metadata) ''source'' of
        Some (AString source) \<Rightarrow> if TrimSpace source \<noteq> [] then Some source else None
      | _ \<Rightarrow> None)"

definition checkOwnership ::
  "'w CreateFetcherJob \<Rightarrow> FetcherRequest \<Rightarrow> Connection option list \<Rightarrow> serror option" where
  "checkOwnership s request connections =
     (case nonblank_source (fr_Metadata request) of
        Some source \<Rightarrow> validateProductOwnership s source connections
      | None \<Rightarrow> None)"

definition createAndPublish ::
  "'w CreateFetcherJob \<Rightarrow> Job \<Rightarrow> 'w \<Rightarrow> (serror, CreateFetcherJobResult) result \<times> 'w" where
  "createAndPublish s newJob w =
     (case createJobWithConflictResolution s newJob w of
        (Inl err, w1) \<Rightarrow> (Inl err, w1)
      | (Inr createdJob, w1) \<Rightarrow>
          if jc_duplicate createdJob then (Inr (asResult createdJob), w1)
          else (case publishAndHandleFailure s (jc_job createdJob) w1 of
                  (Some err, w2) \<Rightarrow> (Inl err, w2)
                | (None, w2) \<Rightarrow>
                    (Inr \<lparr>cr_Job = jc_job createdJob, cr_IsDuplicate = False, cr_IsNewCreated = True\<rparr>, w2)))"

definition CreateFetcherJob_Execute ::
  "'w CreateFetcherJob \<Rightarrow> FetcherRequest \<Rightarrow> 'w \<Rightarrow> (serror, CreateFetcherJobResult) result \<times> 'w" where
  "CreateFetcherJob_Execute s request w =
     (case validateAndBuildJob s request w of
        (Inl err, w1) \<Rightarrow> (Inl err, w1)
      | (Inr newJob, w1) \<Rightarrow>
          (case checkDuplicateJob s newJob w1 of
             (Inl err, w2) \<Rightarrow> (Inl err, w2)
           | (Inr (Some dupResult), w2) \<Rightarrow> (Inr dupResult, w2)
           | (Inr None, w2) \<Rightarrow>
               (case resolveAndValidateConnections s newJob w2 of
                  (Inl err, w3) \<Rightarrow> (Inl err, w3)
                | (Inr connections, w3) \<Rightarrow>
                    (case checkOwnership s request connections of
                       Some err \<Rightarrow> (Inl err, w3)
                     | None \<Rightarrow>
                         (case testConnections s connections w3 of
                            (Some err, w4) \<Rightarrow> (Inl err, w4)
                          | (None, w4) \<Rightarrow> createAndPublish s newJob w4)))))"

subsection \<open>Reading a job\<close>

definition GetJob_Execute :: "'w JobCollection \<Rightarrow> uuid \<Rightarrow> 'w \<Rightarrow> (serror, Job) result \<times> 'w" where
  "GetJob_Execute coll jobID w =
     (case repo_FindByID coll jobID w of
        (Inl err, w1) \<Rightarrow> (Inl (wrap ''failed to find job by id'' err), w1)
      | (Inr None, w1) \<Rightarrow> (Inl (ValidateBusinessError (Plain ''FET-1001'') ''job'' []), w1)
      | (Inr (Some j), w1) \<Rightarrow> (Inr j, w1))"

end
