(* ===== verification/Manager_Store.thy ===== *)
theory Manager_Store
  imports Manager_Jobs Job_Store
begin

text \<open>
  What job creation relies on of the database, of the queue and of the other collaborators of the
  Manager, and what it promises. The locale \<open>job_index\<close> adds the unique index over the hashes of the
  active jobs to the driver's contract, \<open>manager_store\<close> the collaborators of the service. The flag
  \<open>answers\<close> says whether the database is known to answer every call.
\<close>

subsection \<open>The unique index\<close>

definition clash :: "('w \<Rightarrow> uuid \<Rightarrow> JobMongoDBModel option) \<Rightarrow> 'w \<Rightarrow> JobMongoDBModel \<Rightarrow> bool" where
  "clash docs w d \<longleftrightarrow>
     docs w (jm_ID d) \<noteq> None \<or>
     (\<exists>i x. docs w i = Some x \<and> jm_DedupActive d \<and> jm_DedupActive x \<and> jm_RequestHash x = jm_RequestHash d)"

definition newest ::
  "('w \<Rightarrow> uuid \<Rightarrow> JobMongoDBModel option) \<Rightarrow> cond list \<Rightarrow> 'w \<Rightarrow> JobMongoDBModel option \<Rightarrow> bool" where
  "newest docs cs w found \<longleftrightarrow>
     (case found of
        None \<Rightarrow> \<forall>i x. docs w i = Some x \<longrightarrow> \<not> matches cs x
      | Some d \<Rightarrow> docs w (jm_ID d) = Some d \<and> matches cs d \<and>
          (\<forall>i x. docs w i = Some x \<longrightarrow> matches cs x \<longrightarrow> jm_CreatedAt x \<le> jm_CreatedAt d))"

text \<open>A job with this hash that is stored and satisfies \<open>P\<close>.\<close>

definition stored_job ::
  "('w \<Rightarrow> uuid \<Rightarrow> JobMongoDBModel option) \<Rightarrow> 'w \<Rightarrow> string \<Rightarrow> (JobStatus \<Rightarrow> bool) \<Rightarrow> Job \<Rightarrow> bool" where
  "stored_job docs w h P j \<longleftrightarrow>
     (\<exists>d. docs w (jb_ID j) = Some d \<and> j = job_of d \<and> jm_RequestHash d = h \<and> P (jm_Status d))"

locale job_index = job_driver coll good docs obs
  for coll :: "'w JobCollection" and good :: "'w \<Rightarrow> bool" and docs :: "'w \<Rightarrow> uuid \<Rightarrow> JobMongoDBModel option"
    and obs :: "'w \<Rightarrow> 'o" +
  fixes isDup :: "serror \<Rightarrow> bool" and answers :: bool
  assumes inserted: "good w \<Longrightarrow> doc_ok (jm_ID d) d \<Longrightarrow> InsertOne coll d w = (r, w') \<Longrightarrow>
      still good docs obs w w' \<and> (\<exists>e. r = Some e \<and> (isDup e \<longrightarrow> clash docs w d)) \<or>
      \<not> clash docs w d \<and> good w' \<and> docs w' = (docs w)(jm_ID d \<mapsto> d) \<and> obs w' = obs w \<and>
        (\<forall>e. r = Some e \<longrightarrow> \<not> isDup e)"
    and latest: "good w \<Longrightarrow> FindOne coll cs [ByCreated False] w = (found, w') \<Longrightarrow>
      still good docs obs w w' \<and> (\<forall>x. found = Inr x \<longrightarrow> newest docs cs w x)"
    and replaced: "good w \<Longrightarrow> FindOneAndUpdate coll [IdIs i] u w = (changed, w') \<Longrightarrow>
      (\<And>d. docs w i = Some d \<Longrightarrow> doc_ok i (apply_update u d)) \<Longrightarrow>
      still good docs obs w w' \<and> isl changed \<or>
      (\<exists>d. docs w i = Some d \<and> good w' \<and> docs w' = (docs w)(i \<mapsto> apply_update u d) \<and> obs w' = obs w)"
    and wrapped: "isDup (wrap text e) = isDup e"
    and unresolved: "good w \<Longrightarrow> ResolveDatabase coll w = (Some e, w') \<Longrightarrow> \<not> isDup e"
    and answer_resolve: "answers \<Longrightarrow> good w \<Longrightarrow> fst (ResolveDatabase coll w) = None"
    and answer_insert: "answers \<Longrightarrow> good w \<Longrightarrow> InsertOne coll d w = (Some e, w') \<Longrightarrow> isDup e"
    and answer_find: "answers \<Longrightarrow> good w \<Longrightarrow> \<not> isl (fst (FindOne coll cs [ByCreated False] w))"
    and answer_replace: "answers \<Longrightarrow> good w \<Longrightarrow> docs w i \<noteq> None \<Longrightarrow> \<not> isl (fst (FindOneAndUpdate coll [IdIs i] u w))"
begin

definition added :: "Job \<Rightarrow> 'w \<Rightarrow> 'w \<Rightarrow> bool" where
  "added job w w' \<longleftrightarrow> good w' \<and> docs w' = (docs w)(jb_ID job \<mapsto> FromEntity job) \<and> obs w' = obs w"

lemma still_refl: "good w \<Longrightarrow> still good docs obs w w"
  by (simp add: still_def)

lemma still_trans: "still good docs obs w w1 \<Longrightarrow> still good docs obs w1 w2 \<Longrightarrow> still good docs obs w w2"
  by (simp add: still_def)

lemma clash_still: "still good docs obs w w1 \<Longrightarrow> clash docs w1 = clash docs w"
  by (simp add: still_def clash_def fun_eq_iff)

lemma stored_job_still: "still good docs obs w w1 \<Longrightarrow> stored_job docs w1 = stored_job docs w"
  by (simp add: still_def stored_job_def fun_eq_iff)

lemma repo_Create_contract:
  assumes "good w" and "jobStatus_IsValid (jb_Status job)" and "repo_Create coll job w = (r, w')"
  shows "still good docs obs w w' \<and>
      (\<exists>e. r = Inl e \<and> (isDup e \<longrightarrow> clash docs w (FromEntity job)) \<and> (answers \<longrightarrow> isDup e)) \<or>
    \<not> clash docs w (FromEntity job) \<and> added job w w' \<and> (r = Inr job \<or> (\<exists>e. r = Inl e \<and> \<not> isDup e \<and> \<not> answers))"
proof -
  obtain e w1 where d: "ResolveDatabase coll w = (e, w1)" by fastforce
  have s1: "still good docs obs w w1" using resolved[OF assms(1)] by (simp add: d)
  then have g1: "good w1" by (simp add: still_def)
  obtain x w2 where i: "InsertOne coll (FromEntity job) w1 = (x, w2)" by fastforce
  have ok: "doc_ok (jm_ID (FromEntity job)) (FromEntity job)"
    using assms(2) by (simp add: doc_ok_def FromEntity_def)
  show ?thesis
  proof (cases e)
    case None
    then have "r = (case x of None \<Rightarrow> Inr job | Some err \<Rightarrow> Inl (wrap ''failed to insert job'' err)) \<and> w' = w2"
      using assms(3) by (simp add: repo_Create_def with_database_def d i entity_roundtrip[OF assms(2)] split: option.splits)
    then show ?thesis
      using inserted[OF g1 ok i] s1 clash_still[OF s1] wrapped answer_insert[OF _ g1] i
      by (auto simp: added_def still_def FromEntity_def split: option.splits)
  next
    case (Some err)
    then show ?thesis
      using assms(3) s1 unresolved[OF assms(1)] d wrapped answer_resolve[OF _ assms(1)]
      by (auto simp: repo_Create_def with_database_def)
  qed
qed

lemma found_latest:
  assumes "good w" and "FindOne coll cs [ByCreated False] w = (found, w1)" and "found_entity message (found, w1) = (r, w')"
  shows "still good docs obs w w' \<and> (isl r \<longleftrightarrow> isl found) \<and>
    (r = Inr None \<longrightarrow> (\<forall>i x. docs w i = Some x \<longrightarrow> \<not> matches cs x)) \<and>
    (\<forall>j. r = Inr (Some j) \<longrightarrow> (\<exists>d. docs w (jb_ID j) = Some d \<and> j = job_of d \<and> matches cs d))"
proof -
  note l = latest[OF assms(1,2)]
  have "entity d = Inr (job_of d)" if "found = Inr (Some d)" for d
    using l that stored[OF assms(1)] entity_ok by (auto simp: newest_def)
  with l assms(3) show ?thesis
    by (cases found; cases "projr found") (auto simp: found_entity_def newest_def)
qed

lemma repo_FindActive_contract:
  assumes "good w" and "repo_FindActiveByRequestHash coll h w = (r, w')"
  shows "still good docs obs w w' \<and> (answers \<longrightarrow> \<not> isl r) \<and>
    (\<forall>j. r = Inr (Some j) \<longrightarrow> stored_job docs w h isDedupActive j) \<and>
    (r = Inr None \<longrightarrow> h \<noteq> [] \<longrightarrow> (\<forall>i d. docs w i = Some d \<longrightarrow> jm_RequestHash d = h \<longrightarrow> \<not> isDedupActive (jm_Status d)))"
proof (cases "h = []")
  case False
  let ?cs = "[HashIs h, StatusIn [JobStatusPending, JobStatusProcessing]]"
  obtain e w1 where d: "ResolveDatabase coll w = (e, w1)" by fastforce
  have s1: "still good docs obs w w1" using resolved[OF assms(1)] by (simp add: d)
  then have g1: "good w1" by (simp add: still_def)
  obtain x w2 where f: "FindOne coll ?cs [ByCreated False] w1 = (x, w2)" by fastforce
  have m: "matches ?cs y \<longleftrightarrow> jm_RequestHash y = h \<and> isDedupActive (jm_Status y)" for y
    by (simp add: matches_def isDedupActive_def)
  show ?thesis
  proof (cases e)
    case None
    then have "found_entity ''failed to find active job by request hash'' (x, w2) = (r, w')"
      using assms(2) False by (simp add: repo_FindActiveByRequestHash_def with_database_def d f)
    from found_latest[OF g1 f this] show ?thesis
      unfolding m using s1 stored_job_still[OF s1] answer_find[OF _ g1, of ?cs] by (auto simp: f still_def stored_job_def)
  qed (use assms(2) False s1 answer_resolve[OF _ assms(1)] in \<open>auto simp: repo_FindActiveByRequestHash_def with_database_def d\<close>)
qed (use assms still_refl in \<open>auto simp: repo_FindActiveByRequestHash_def\<close>)

lemma repo_FindWindow_contract:
  assumes "good w" and "repo_FindByRequestHashWithinWindow coll h n w = (r, w')"
  shows "still good docs obs w w' \<and> (answers \<longrightarrow> \<not> isl r) \<and>
    (\<forall>j. r = Inr (Some j) \<longrightarrow> stored_job docs w h (\<lambda>_. True) j)"
proof (cases "h = []")
  case False
  obtain e w1 where d: "ResolveDatabase coll w = (e, w1)" by fastforce
  have s1: "still good docs obs w w1" using resolved[OF assms(1)] by (simp add: d)
  then have g1: "good w1" by (simp add: still_def)
  obtain now w2 where t: "now_UTC coll w1 = (now, w2)" by fastforce
  have s2: "still good docs obs w w2" using still_trans[OF s1] timed[OF g1] by (simp add: t)
  then have g2: "good w2" by (simp add: still_def)
  let ?cs = "[HashIs h, CreatedFrom (now - n * 60000000000)]"
  obtain x w3 where f: "FindOne coll ?cs [ByCreated False] w2 = (x, w3)" by fastforce
  show ?thesis
  proof (cases e)
    case None
    then have "found_entity ''failed to find job by request hash'' (x, w3) = (r, w')"
      using assms(2) False by (simp add: repo_FindByRequestHashWithinWindow_def with_database_def d t f)
    from found_latest[OF g2 f this] show ?thesis
      using s2 stored_job_still[OF s2] answer_find[OF _ g2, of ?cs] by (auto simp: f still_def stored_job_def matches_def)
  qed (use assms(2) False s1 answer_resolve[OF _ assms(1)] in \<open>auto simp: repo_FindByRequestHashWithinWindow_def with_database_def d\<close>)
qed (use assms still_refl in \<open>auto simp: repo_FindByRequestHashWithinWindow_def\<close>)

text \<open>A full update of a job replaces everything but its identity, its hash and its creation time.\<close>

lemma repo_Update_contract:
  assumes "good w" and "jobStatus_IsValid (jb_Status job)" and "repo_Update coll job w = (r, w')"
  shows "still good docs obs w w' \<and> isl r \<and> (answers \<longrightarrow> docs w (jb_ID job) = None) \<or>
    (\<exists>d. docs w (jb_ID job) = Some d \<and> good w' \<and> obs w' = obs w \<and>
      docs w' = (docs w)(jb_ID job \<mapsto>
        FromEntity (job\<lparr>jb_RequestHash := jm_RequestHash d, jb_CreatedAt := jm_CreatedAt d\<rparr>)))"
proof -
  obtain e w1 where d: "ResolveDatabase coll w = (e, w1)" by fastforce
  have s1: "still good docs obs w w1" using resolved[OF assms(1)] by (simp add: d)
  then have g1: "good w1" by (simp add: still_def)
  let ?u = "([SetMetadata (jb_Metadata job), SetMappedFields (jb_MappedFields job), SetFilters (jb_Filters job),
                SetStatus (jb_Status job), SetDedupActive (isDedupActive (jb_Status job)),
                SetResultPath (jb_ResultPath job), SetResultHMAC (jb_ResultHMAC job),
                SetCompletedAt (jb_CompletedAt job)], [])"
  obtain x w2 where f: "FindOneAndUpdate coll [IdIs (jb_ID job)] ?u w1 = (x, w2)" by fastforce
  have eff: "apply_update ?u dd = FromEntity (job\<lparr>jb_RequestHash := jm_RequestHash dd, jb_CreatedAt := jm_CreatedAt dd\<rparr>)"
    if "docs w1 (jb_ID job) = Some dd" for dd
    using stored[OF g1 that] by (simp add: apply_update_def FromEntity_def doc_ok_def)
  have ok: "doc_ok (jb_ID job) (apply_update ?u dd)" if "docs w1 (jb_ID job) = Some dd" for dd
    unfolding eff[OF that] using assms(2) by (simp add: doc_ok_def FromEntity_def)
  show ?thesis
  proof (cases e)
    case None
    then have "w' = w2" "isl x \<longrightarrow> isl r"
      using assms(3) by (auto simp: repo_Update_def with_database_def d f split: sum.splits)
    moreover have "answers \<longrightarrow> isl x \<longrightarrow> docs w (jb_ID job) = None"
      using answer_replace[OF _ g1, of "jb_ID job" ?u] s1
      by (cases "docs w (jb_ID job)") (auto simp: f still_def)
    ultimately show ?thesis using replaced[OF g1 f ok] s1 eff by (auto simp: still_def)
  qed (use assms(3) s1 answer_resolve[OF _ assms(1)] in \<open>auto simp: repo_Update_def with_database_def d\<close>)
qed

end

subsection \<open>The collaborators of the service\<close>

type_synonym queue_entry = "string \<times> string \<times> string \<times> (string, any) gomap"

definition entry :: "'w CreateFetcherJob \<Rightarrow> Job \<Rightarrow> queue_entry" where
  "entry s j =
     ([], cf_queueName s,
      (case json_map id (buildQueueMessage (cf_formatTime s) j) of None \<Rightarrow> [] | Some m \<Rightarrow> compact m), queueHeader s j)"

text \<open>The queue before and after a successful publication; without a queue nothing is sent.\<close>

definition posted :: "'w CreateFetcherJob \<Rightarrow> Job \<Rightarrow> queue_entry list \<Rightarrow> queue_entry list \<Rightarrow> bool" where
  "posted s j q q' \<longleftrightarrow>
     (case cf_rabbitMQ s of None \<Rightarrow> q' = q | Some _ \<Rightarrow> \<exists>n > 0. q' = q @ replicate n (entry s j))"

definition unpublished :: "int \<Rightarrow> Job \<Rightarrow> Job" where
  "unpublished now j = SetFailedStatus now ''process failed: unable to publish'' j"

text \<open>The job a valid request asks for, and what was established of its connections: every datasource has
  one, and each that is not internal belongs to the product the request names and passed its test.\<close>

definition job_for :: "'w CreateFetcherJob \<Rightarrow> FetcherRequest \<Rightarrow> Job \<Rightarrow> bool" where
  "job_for s request j \<longleftrightarrow>
     ComputeRequestHash (cf_sha256 s) request = Inr (jb_RequestHash j) \<and> jb_Status j = JobStatusPending \<and>
     jb_MappedFields j = dq_MappedFields (fr_DataRequest request) \<and> jb_Filters j = dq_Filters (fr_DataRequest request) \<and>
     fr_Metadata request = Some (jb_Metadata j) \<and> job_IsValid j = None \<and>
     fst ` set (jb_Filters j) \<subseteq> set (GetDatasourceNames j) \<and> nonblank_source (fr_Metadata request) \<noteq> None"

definition authorized :: "'w CreateFetcherJob \<Rightarrow> FetcherRequest \<Rightarrow> Job \<Rightarrow> Connection option list \<Rightarrow> bool" where
  "authorized s request j connections \<longleftrightarrow>
     set (GetDatasourceNames j) \<subseteq> {cn_ConfigName c |c. Some c \<in> set connections} \<and>
     (\<forall>c. Some c \<in> set connections \<longrightarrow> isInternal s c \<or>
        Some (cn_ProductName c) = nonblank_source (fr_Metadata request) \<and> (\<exists>w. fst (runTest s c w) = None))"

lemma ensure_names:
  "ensureAllDatasourcesHaveConnections names connections = None \<Longrightarrow>
     set names \<subseteq> {cn_ConfigName c |c. Some c \<in> set connections}"
  by (induction names) (auto split: if_splits)

lemma ownership_checked:
  "validateProductOwnership s source connections = None \<Longrightarrow> Some c \<in> set connections \<Longrightarrow>
     isInternal s c \<or> cn_ProductName c = source"
  by (induction s source connections rule: validateProductOwnership.induct) (auto split: if_splits)

lemma tests_passed:
  "testConnections s connections w = (None, w') \<Longrightarrow> Some c \<in> set connections \<Longrightarrow>
     isInternal s c \<or> (\<exists>w. fst (runTest s c w) = None)"
proof (induction s connections w arbitrary: w' rule: testConnections.induct)
  case (3 s conn connections w)
  show ?case
  proof (cases "isInternal s conn")
    case False
    obtain e w1 where t: "runTest s conn w = (e, w1)" by fastforce
    with 3(3) False have "e = None" "testConnections s connections w1 = (None, w')"
      by (auto split: option.splits)
    with 3(2)[OF False t[symmetric]] 3(4) t show ?thesis by (metis fst_conv list.set_cases option.inject set_ConsD)
  qed (use 3 in auto)
qed auto

lemma source_checked:
  "validateMetadataSource m = None \<Longrightarrow> m \<noteq> None \<and> nonblank_source m \<noteq> None"
  by (auto simp: validateMetadataSource_def nonblank_source_def nil_as_empty_def split: option.splits any.splits if_splits)

lemma filters_checked:
  assumes "validateFilterReferences j = None" and "jb_MappedFields j \<noteq> None"
  shows "fst ` set (jb_Filters j) \<subseteq> set (GetDatasourceNames j)"
proof -
  obtain m where m: "jb_MappedFields j = Some m" using assms(2) by blast
  then have "\<forall>(n, _) \<in> set (jb_Filters j). map_of m n \<noteq> None"
    using assms(1)
    by (auto simp: validateFilterReferences_def ValidateFilterReferences_def nil_as_empty_def filter_empty_conv
        split: if_splits option.splits)
  then show ?thesis by (auto simp: GetDatasourceNames_def m)
qed

text \<open>A request whose hash was computed can be marshalled again as a queue message.\<close>

lemma message_encodes:
  assumes "job_for s request j"
  shows "json_map id (buildQueueMessage formatTime j) \<noteq> None"
proof -
  have "json_request request \<noteq> None"
    using assms by (auto simp: job_for_def ComputeRequestHash_def split: option.splits)
  with assms show ?thesis
    unfolding json_map_Some_iff
    by (auto simp: job_for_def json_request_def json_struct_Some buildQueueMessage_def Let_def json_map_def json_struct_def
        nonblank_source_def nil_as_empty_def simp del: not_None_eq split: option.splits if_splits)
qed

text \<open>A publication may be repeated by the producer's retries, and may fail after it was accepted.\<close>

locale manager_store = job_index coll good docs sent "cf_isDuplicateKey s" answers
  for coll :: "'w JobCollection" and good :: "'w \<Rightarrow> bool" and docs :: "'w \<Rightarrow> uuid \<Rightarrow> JobMongoDBModel option"
    and sent :: "'w \<Rightarrow> queue_entry list" and s :: "'w CreateFetcherJob" and answers :: bool +
  assumes jobRepo: "cf_jobRepo s = coll"
    and looked_up: "good w \<Longrightarrow> still good docs sent w (snd (lookupConnections s names w))"
    and tested: "good w \<Longrightarrow> still good docs sent w (snd (runTest s conn w))"
    and clocked: "good w \<Longrightarrow> still good docs sent w (snd (cf_now s w))"
    and named: "good w \<Longrightarrow> still good docs sent w (snd (cf_newV7 s w))"
    and produced: "good w \<Longrightarrow> cf_rabbitMQ s = Some send \<Longrightarrow> send exchange key body header w = (failure, w') \<Longrightarrow>
      good w' \<and> docs w' = docs w \<and>
      (\<exists>n. sent w' = sent w @ replicate n (exchange, key, body, header) \<and> (failure = None \<longrightarrow> n > 0))"
begin

lemma recover_contract:
  assumes "good w" and "recoverFromDuplicateKey s j w = (r, w')"
  shows "still good docs sent w w' \<and> (answers \<longrightarrow> \<not> isl r) \<and>
    (\<forall>x. r = Inr (Some x) \<longrightarrow> jc_duplicate x \<and> stored_job docs w (jb_RequestHash j) isDedupActive (jc_job x)) \<and>
    (r = Inr None \<longrightarrow> jb_RequestHash j \<noteq> [] \<longrightarrow>
      (\<forall>i d. docs w i = Some d \<longrightarrow> jm_RequestHash d = jb_RequestHash j \<longrightarrow> \<not> isDedupActive (jm_Status d)))"
proof -
  obtain x w1 where f: "repo_FindActiveByRequestHash coll (jb_RequestHash j) w = (x, w1)" by fastforce
  from repo_FindActive_contract[OF assms(1) f] assms(2) show ?thesis
    by (auto simp: recoverFromDuplicateKey_def findActiveDuplicateJob_def jobRepo f split: sum.splits option.splits)
qed

text \<open>What a creation attempt leaves behind: the new job, or nothing and maybe an active job of the same hash.\<close>

definition created :: "Job \<Rightarrow> 'w \<Rightarrow> (serror, jobCreationResult) result \<Rightarrow> 'w \<Rightarrow> bool" where
  "created j w r w' \<longleftrightarrow>
     (case r of
        Inr x \<Rightarrow>
          if jc_duplicate x then still good docs sent w w' \<and> stored_job docs w (jb_RequestHash j) isDedupActive (jc_job x)
          else jc_job x = j \<and> \<not> clash docs w (FromEntity j) \<and> added j w w'
      | Inl _ \<Rightarrow> still good docs sent w w' \<or> \<not> answers \<and> \<not> clash docs w (FromEntity j) \<and> added j w w')"

lemma created_still: "still good docs sent w w1 \<Longrightarrow> created j w1 r w' \<Longrightarrow> created j w r w'"
  using stored_job_still clash_still
  by (auto simp: created_def added_def still_def split: sum.splits if_splits)

lemma retry_contract:
  assumes "good w" and "jobStatus_IsValid (jb_Status j)" and "retryCreateAfterConflict s j w = (r, w')"
  shows "created j w r w'"
proof -
  obtain x w1 where c: "repo_Create coll j w = (x, w1)" by fastforce
  note k = repo_Create_contract[OF assms(1,2) c]
  obtain y w2 where f: "recoverFromDuplicateKey s j w1 = (y, w2)" by fastforce
  consider (dup) e where "x = Inl e" "cf_isDuplicateKey s e" "still good docs sent w w1"
    | (other) e where "x = Inl e" "\<not> cf_isDuplicateKey s e"
    | (fresh) "x = Inr j" using k by blast
  then show ?thesis
  proof cases
    case dup
    then have g1: "good w1" by (simp add: still_def)
    have "created j w1 r w'"
      using recover_contract[OF g1 f] assms(3) dup
      by (auto simp: retryCreateAfterConflict_def jobRepo c f created_def split: sum.splits option.splits)
    then show ?thesis by (rule created_still[OF dup(3)])
  next
    case other
    then show ?thesis using k assms(3) by (auto simp: retryCreateAfterConflict_def jobRepo c created_def)
  next
    case fresh
    then show ?thesis using k assms(3) by (auto simp: retryCreateAfterConflict_def jobRepo c created_def)
  qed
qed

lemma create_contract:
  assumes "good w" and "jobStatus_IsValid (jb_Status j)" and "createJobWithConflictResolution s j w = (r, w')"
  shows "created j w r w'"
proof -
  obtain x w1 where c: "repo_Create coll j w = (x, w1)" by fastforce
  note k = repo_Create_contract[OF assms(1,2) c]
  obtain y w2 where f: "recoverFromDuplicateKey s j w1 = (y, w2)" by fastforce
  consider (dup) e where "x = Inl e" "cf_isDuplicateKey s e" "still good docs sent w w1"
    | (other) e where "x = Inl e" "\<not> cf_isDuplicateKey s e"
    | (fresh) "x = Inr j" using k by blast
  then show ?thesis
  proof cases
    case dup
    then have g1: "good w1" by (simp add: still_def)
    note rec = recover_contract[OF g1 f]
    have g2: "good w2" using rec by (simp add: still_def)
    show ?thesis
    proof (cases "y = Inr None")
      case True
      then have "retryCreateAfterConflict s j w2 = (r, w')"
        using assms(3) dup by (simp add: createJobWithConflictResolution_def jobRepo c f)
      from retry_contract[OF g2 assms(2) this] show ?thesis
        using created_still still_trans dup(3) rec by blast
    next
      case False
      then have "created j w1 r w'"
        using rec assms(3) dup
        by (auto simp: createJobWithConflictResolution_def jobRepo c f created_def split: sum.splits option.splits)
      then show ?thesis by (rule created_still[OF dup(3)])
    qed
  next
    case other
    then show ?thesis using k assms(3) by (auto simp: createJobWithConflictResolution_def jobRepo c created_def)
  next
    case fresh
    then show ?thesis using k assms(3) by (auto simp: createJobWithConflictResolution_def jobRepo c created_def)
  qed
qed

lemma publish_contract:
  assumes "good w" and "json_map id (buildQueueMessage (cf_formatTime s) j) \<noteq> None"
    and "publishToQueue s j w = (r, w')"
  shows "good w' \<and> docs w' = docs w \<and> (r = None \<longrightarrow> posted s j (sent w) (sent w')) \<and>
    (\<exists>n. sent w' = sent w @ replicate n (entry s j))"
proof (cases "cf_rabbitMQ s")
  case None
  then show ?thesis
    using assms(1,3) by (auto simp: publishToQueue_def posted_def intro: exI[of _ 0])
next
  case (Some send)
  obtain m where m: "json_map id (buildQueueMessage (cf_formatTime s) j) = Some m" using assms(2) by blast
  then have "send [] (cf_queueName s) (compact m) (queueHeader s j) w = (r, w')"
    using assms(3) Some by (simp add: publishToQueue_def)
  from produced[OF assms(1) Some this] show ?thesis
    by (auto simp: posted_def entry_def m Some)
qed

lemma handle_failure_contract:
  assumes "good w" and "docs w (jb_ID j) = Some (FromEntity j)"
    and "json_map id (buildQueueMessage (cf_formatTime s) j) \<noteq> None"
    and "publishAndHandleFailure s j w = (r, w')"
  shows "good w' \<and> (r = None \<longrightarrow> docs w' = docs w \<and> posted s j (sent w) (sent w')) \<and>
    (\<exists>n. sent w' = sent w @ replicate n (entry s j)) \<and>
    (docs w' = docs w \<and> (r = None \<or> \<not> answers) \<or>
     (\<exists>now. docs w' = (docs w)(jb_ID j \<mapsto> FromEntity (unpublished now j))))"
proof -
  obtain x w1 where p: "publishToQueue s j w = (x, w1)" by fastforce
  note pc = publish_contract[OF assms(1,3) p]
  then have g1: "good w1" by simp
  obtain now w2 where t: "cf_now s w1 = (now, w2)" by fastforce
  have s2: "still good docs sent w1 w2" using clocked[OF g1] by (simp add: t)
  then have g2: "good w2" by (simp add: still_def)
  obtain y w3 where u: "repo_Update coll (unpublished now j) w2 = (y, w3)" by fastforce
  have v: "jobStatus_IsValid (jb_Status (unpublished now j))" "jb_ID (unpublished now j) = jb_ID j"
    by (simp_all add: unpublished_def SetFailedStatus_def jobStatus_IsValid_def validJobStatuses_def)
  have same: "(unpublished now j)\<lparr>jb_RequestHash := jm_RequestHash d, jb_CreatedAt := jm_CreatedAt d\<rparr> = unpublished now j"
    if "docs w2 (jb_ID j) = Some d" for d
    using that s2 pc assms(2) by (auto simp: still_def unpublished_def SetFailedStatus_def FromEntity_def)
  show ?thesis
  proof (cases x)
    case None
    then show ?thesis using assms(4) pc by (simp add: publishAndHandleFailure_def p)
  next
    case (Some e)
    then have "w' = w3 \<and> r \<noteq> None"
      using assms(4) u by (auto simp: publishAndHandleFailure_def p t jobRepo unpublished_def)
    with repo_Update_contract[OF g2 v(1) u] same s2 pc v(2) assms(2) show ?thesis by (auto simp: still_def)
  qed
qed

lemma tests_still: "good w \<Longrightarrow> still good docs sent w (snd (testConnections s connections w))"
proof (induction connections arbitrary: w)
  case (Cons c connections)
  show ?case
  proof (cases c)
    case (Some conn)
    obtain e w1 where t: "runTest s conn w = (e, w1)" by fastforce
    have s1: "still good docs sent w w1" using tested[OF Cons(2), of conn] by (simp add: t)
    then have "still good docs sent w (snd (testConnections s connections w1))"
      using Cons(1)[of w1] still_trans by (simp add: still_def)
    with Cons s1 t Some show ?thesis by (auto split: option.splits)
  qed (use Cons in simp)
qed (simp add: still_refl)

lemma build_contract:
  assumes "good w" and "validateAndBuildJob s request w = (r, w')"
  shows "still good docs sent w w' \<and> (\<forall>j. r = Inr j \<longrightarrow> job_for s request j)"
proof -
  obtain now w1 where t: "cf_now s w = (now, w1)" by fastforce
  have s1: "still good docs sent w w1" using clocked[OF assms(1)] by (simp add: t)
  then have g1: "good w1" by (simp add: still_def)
  obtain i w2 where n: "cf_newV7 s w1 = (i, w2)" by fastforce
  have s2: "still good docs sent w w2" using named[OF g1] still_trans[OF s1] by (simp add: n)
  have "w' = w \<or> w' = w2"
    using assms(2) by (auto simp: validateAndBuildJob_def t n Let_def split: sum.splits option.splits)
  then have moved: "still good docs sent w w'" using s2 still_refl[OF assms(1)] by auto
  have "job_for s request j" if "r = Inr j" for j
  proof -
    have "ComputeRequestHash (cf_sha256 s) request = Inr (jb_RequestHash j)" "jb_Status j = JobStatusPending"
      "jb_MappedFields j = dq_MappedFields (fr_DataRequest request)" "jb_Filters j = dq_Filters (fr_DataRequest request)"
      "jb_Metadata j = nil_as_empty (fr_Metadata request)" "job_IsValid j = None"
      "validateMetadataSource (fr_Metadata request) = None" "validateFilterReferences j = None"
      using assms(2) that
      by (auto simp: validateAndBuildJob_def t n Let_def NewJob_def mapToExtractionRequest_def mappedFieldsFromExtraction_def
          manager_mapMappedFields_def option.map_id split: sum.splits option.splits)
    moreover from this have "jb_MappedFields j \<noteq> None" by (auto simp: job_IsValid_def split: option.splits)
    ultimately show ?thesis
      using source_checked[of "fr_Metadata request"] filters_checked[of j] by (simp add: job_for_def nil_as_empty_def) auto
  qed
  with moved show ?thesis by blast
qed

lemma duplicate_contract:
  assumes "good w" and "checkDuplicateJob s j w = (r, w')"
  shows "still good docs sent w w' \<and> (answers \<longrightarrow> \<not> isl r) \<and>
    (\<forall>x. r = Inr (Some x) \<longrightarrow>
       cr_IsDuplicate x \<and> stored_job docs w (jb_RequestHash j) (\<lambda>st. st \<noteq> JobStatusFailed) (cr_Job x))"
proof -
  obtain x w1 where f: "repo_FindByRequestHashWithinWindow coll (jb_RequestHash j) DeduplicationWindowMinutes w = (x, w1)"
    by fastforce
  from repo_FindWindow_contract[OF assms(1) f] assms(2) show ?thesis
    by (auto simp: checkDuplicateJob_def jobRepo f stored_job_def split: sum.splits option.splits if_splits)
qed

lemma connections_contract:
  assumes "good w" and "resolveAndValidateConnections s j w = (r, w')"
  shows "still good docs sent w w' \<and>
    (\<forall>cs. r = Inr cs \<longrightarrow> fst (lookupConnections s (GetDatasourceNames j) w) = Inr cs \<and>
      set (GetDatasourceNames j) \<subseteq> {cn_ConfigName c |c. Some c \<in> set cs})"
proof -
  obtain x w1 where l: "lookupConnections s (GetDatasourceNames j) w = (x, w1)" by fastforce
  have "still good docs sent w w1" using looked_up[OF assms(1), of "GetDatasourceNames j"] by (simp add: l)
  with assms(2) ensure_names show ?thesis
    by (auto simp: resolveAndValidateConnections_def l split: sum.splits option.splits if_splits)
qed

text \<open>The outcomes of the command: an existing job, a new job with its message, or an error.\<close>

definition outcome :: "FetcherRequest \<Rightarrow> 'w \<Rightarrow> (serror, CreateFetcherJobResult) result \<Rightarrow> 'w \<Rightarrow> bool" where
  "outcome request w r w' \<longleftrightarrow>
     (case r of
        Inl _ \<Rightarrow>
          still good docs sent w w' \<or>
          (\<exists>j n. job_for s request j \<and> \<not> clash docs w (FromEntity j) \<and> good w' \<and>
             sent w' = sent w @ replicate n (entry s j) \<and>
             (\<not> answers \<and> docs w' = (docs w)(jb_ID j \<mapsto> FromEntity j) \<or>
              (\<exists>now. docs w' = (docs w)(jb_ID j \<mapsto> FromEntity (unpublished now j)))))
      | Inr x \<Rightarrow>
          if cr_IsDuplicate x
          then still good docs sent w w' \<and>
            (\<exists>h. ComputeRequestHash (cf_sha256 s) request = Inr h \<and>
                 stored_job docs w h (\<lambda>st. st \<noteq> JobStatusFailed) (cr_Job x))
          else job_for s request (cr_Job x) \<and> \<not> clash docs w (FromEntity (cr_Job x)) \<and> good w' \<and>
            docs w' = (docs w)(jb_ID (cr_Job x) \<mapsto> FromEntity (cr_Job x)) \<and> posted s (cr_Job x) (sent w) (sent w') \<and>
            (\<exists>ws connections. fst (lookupConnections s (GetDatasourceNames (cr_Job x)) ws) = Inr connections \<and>
               authorized s request (cr_Job x) connections))"

lemma outcome_still: "still good docs sent w w1 \<Longrightarrow> outcome request w1 r w' \<Longrightarrow> outcome request w r w'"
  using stored_job_still[of w w1] clash_still[of w w1]
  by (simp add: outcome_def still_def split: sum.splits if_splits)

lemma active_not_failed: "stored_job docs w h isDedupActive j \<Longrightarrow> stored_job docs w h (\<lambda>st. st \<noteq> JobStatusFailed) j"
  by (auto simp: stored_job_def isDedupActive_def)

lemma create_and_publish_contract:
  assumes "good w" and "job_for s request j" and "createAndPublish s j w = (r, w')"
    and "fst (lookupConnections s (GetDatasourceNames j) ws) = Inr connections" and "authorized s request j connections"
  shows "outcome request w r w'"
proof -
  obtain c w1 where c: "createJobWithConflictResolution s j w = (c, w1)" by fastforce
  have "jobStatus_IsValid (jb_Status j)"
    using assms(2) by (simp add: job_for_def jobStatus_IsValid_def validJobStatuses_def)
  note k = create_contract[OF assms(1) this c]
  obtain p w2 where p: "publishAndHandleFailure s j w1 = (p, w2)" by fastforce
  have h: "ComputeRequestHash (cf_sha256 s) request = Inr (jb_RequestHash j)" using assms(2) by (simp add: job_for_def)
  show ?thesis
  proof (cases c)
    case (Inl e)
    then have "r = Inl e" "w' = w1" using assms(3) by (simp_all add: createAndPublish_def c)
    moreover have "still good docs sent w w1 \<or> \<not> answers \<and> \<not> clash docs w (FromEntity j) \<and> added j w w1"
      using k by (simp add: created_def Inl)
    ultimately show ?thesis
      using assms(2) by (auto simp: outcome_def added_def intro!: exI[of _ j] exI[of _ "0::nat"])
  next
    case (Inr x)
    show ?thesis
    proof (cases "jc_duplicate x")
      case True
      then have "r = Inr (asResult x)" "w' = w1" using assms(3) by (simp_all add: createAndPublish_def c Inr)
      with k Inr True h active_not_failed show ?thesis by (simp add: outcome_def created_def asResult_def)
    next
      case False
      then have x: "jc_job x = j" "\<not> clash docs w (FromEntity j)" "added j w w1" using k Inr by (simp_all add: created_def)
      then have w1: "good w1" "docs w1 = (docs w)(jb_ID j \<mapsto> FromEntity j)" "sent w1 = sent w"
        by (simp_all add: added_def)
      then have "docs w1 (jb_ID j) = Some (FromEntity j)" by simp
      note f = handle_failure_contract[OF w1(1) this message_encodes[OF assms(2)] p]
      have "r = (case p of Some err \<Rightarrow> Inl err
          | None \<Rightarrow> Inr \<lparr>cr_Job = j, cr_IsDuplicate = False, cr_IsNewCreated = True\<rparr>) \<and> w' = w2"
        using assms(3) False x(1) p by (auto simp: createAndPublish_def c Inr split: option.splits)
      with f w1 x(2) assms(2,4,5) show ?thesis by (cases p) (auto simp: outcome_def)
    qed
  qed
qed

lemma execute_contract:
  assumes "good w" and "CreateFetcherJob_Execute s request w = (r, w')"
  shows "outcome request w r w'"
proof -
  have err: "outcome request w (Inl e) v" if "still good docs sent w v" for e v
    using that by (simp add: outcome_def)
  obtain b w1 where b: "validateAndBuildJob s request w = (b, w1)" by fastforce
  note bc = build_contract[OF assms(1) b]
  show ?thesis
  proof (cases b)
    case (Inl e)
    with assms(2) bc err show ?thesis by (auto simp: CreateFetcherJob_Execute_def b)
  next
    case (Inr j)
    then have j: "job_for s request j" and s1: "still good docs sent w w1" using bc by auto
    then have g1: "good w1" by (simp add: still_def)
    obtain d w2 where d: "checkDuplicateJob s j w1 = (d, w2)" by fastforce
    note dc = duplicate_contract[OF g1 d]
    then have s2: "still good docs sent w w2" using still_trans[OF s1] by blast
    then have g2: "good w2" by (simp add: still_def)
    obtain cs w3 where c: "resolveAndValidateConnections s j w2 = (cs, w3)" by fastforce
    note cc = connections_contract[OF g2 c]
    then have s3: "still good docs sent w w3" using still_trans[OF s2] by blast
    then have g3: "good w3" by (simp add: still_def)
    consider (lookup) e where "d = Inl e" | (dup) x where "d = Inr (Some x)" | (go) "d = Inr None" by (metis obj_sumE option.exhaust)
    then show ?thesis
    proof cases
      case lookup
      with assms(2) s2 err show ?thesis by (auto simp: CreateFetcherJob_Execute_def b Inr d)
    next
      case dup
      then have "r = Inr x" "w' = w2" using assms(2) by (simp_all add: CreateFetcherJob_Execute_def b Inr d)
      with dc dup s2 stored_job_still[OF s1] j show ?thesis by (auto simp: outcome_def job_for_def)
    next
      case go
      show ?thesis
      proof (cases "\<exists>conns. cs = Inr conns \<and> checkOwnership s request conns = None \<and> fst (testConnections s conns w3) = None")
        case True
        then obtain conns w4 where t: "cs = Inr conns" "checkOwnership s request conns = None"
          "testConnections s conns w3 = (None, w4)" by (metis eq_fst_iff)
        have s4: "still good docs sent w w4" using tests_still[OF g3, of conns] still_trans[OF s3] by (simp add: t)
        then have g4: "good w4" by (simp add: still_def)
        have "createAndPublish s j w4 = (r, w')"
          using assms(2) go t by (simp add: CreateFetcherJob_Execute_def b Inr d c)
        moreover obtain source where "nonblank_source (fr_Metadata request) = Some source"
          using j by (auto simp: job_for_def)
        moreover from this t have "authorized s request j conns"
          using cc ownership_checked[of s source conns] tests_passed[OF t(3)] by (auto simp: authorized_def checkOwnership_def)
        ultimately show ?thesis
          using create_and_publish_contract[OF g4 j] cc t(1) outcome_still[OF s4] by blast
      next
        case False
        then have "isl r \<and> still good docs sent w w'"
          using assms(2) go s3 tests_still[OF g3] still_trans[OF s3]
          by (auto simp: CreateFetcherJob_Execute_def b Inr d c split: sum.splits option.splits prod.splits) (metis snd_conv)+
        with err show ?thesis by (cases r) auto
      qed
    qed
  qed
qed

text \<open>While an active job has the hash of a request, creation answers with such a job.\<close>

lemma create_answers:
  assumes "answers" and "good w" and "job_for s request j" and "jb_RequestHash j \<noteq> []"
    and "docs w i = Some d" and "isDedupActive (jm_Status d)" and "jm_RequestHash d = jb_RequestHash j"
  shows "\<exists>x w'. createJobWithConflictResolution s j w = (Inr x, w') \<and> jc_duplicate x"
proof -
  have v: "jobStatus_IsValid (jb_Status j)" and a: "isDedupActive (jb_Status j)"
    using assms(3) by (simp_all add: job_for_def jobStatus_IsValid_def validJobStatuses_def isDedupActive_def)
  have "jm_DedupActive d" using stored[OF assms(2,5)] assms(6) by (simp add: doc_ok_def)
  then have cl: "clash docs w (FromEntity j)" using assms(5,7) a by (auto simp: clash_def FromEntity_def)
  obtain r w1 where c: "repo_Create coll j w = (r, w1)" by fastforce
  from repo_Create_contract[OF assms(2) v c] cl assms(1) obtain e where e: "r = Inl e" "cf_isDuplicateKey s e"
    and s1: "still good docs sent w w1" by auto
  then have g1: "good w1" by (simp add: still_def)
  obtain y w2 where f: "recoverFromDuplicateKey s j w1 = (y, w2)" by fastforce
  have "y \<noteq> Inr None" using recover_contract[OF g1 f] assms(4-7) s1 by (auto simp: still_def)
  then obtain x where "y = Inr (Some x)" "jc_duplicate x"
    using recover_contract[OF g1 f] assms(1) by (cases y; cases "projr y") auto
  then show ?thesis by (simp add: createJobWithConflictResolution_def jobRepo c e f)
qed

lemma execute_answers:
  assumes "answers" and "good w" and "fst (validateAndBuildJob s request w) = Inr j" and "jb_RequestHash j \<noteq> []"
    and "docs w i = Some d" and "isDedupActive (jm_Status d)" and "jm_RequestHash d = jb_RequestHash j"
    and "\<And>v. good v \<Longrightarrow> \<exists>cs. fst (resolveAndValidateConnections s j v) = Inr cs \<and> checkOwnership s request cs = None \<and>
      (\<forall>v. good v \<longrightarrow> fst (testConnections s cs v) = None)"
  shows "\<exists>x w'. CreateFetcherJob_Execute s request w = (Inr x, w') \<and> cr_IsDuplicate x"
proof -
  obtain w1 where b: "validateAndBuildJob s request w = (Inr j, w1)" using assms(3) by (metis eq_fst_iff)
  note bc = build_contract[OF assms(2) b]
  then have s1: "still good docs sent w w1" and g1: "good w1" by (auto simp: still_def)
  obtain r w2 where d: "checkDuplicateJob s j w1 = (r, w2)" by fastforce
  note dc = duplicate_contract[OF g1 d]
  then have s2: "still good docs sent w w2" using still_trans[OF s1] by blast
  then have g2: "good w2" by (simp add: still_def)
  obtain cs w3 where c: "resolveAndValidateConnections s j w2 = (Inr cs, w3)" "checkOwnership s request cs = None"
    "\<And>v. good v \<Longrightarrow> fst (testConnections s cs v) = None" using assms(8)[OF g2] by (metis eq_fst_iff)
  have s3: "still good docs sent w w3" using connections_contract[OF g2 c(1)] still_trans[OF s2] by blast
  then have g3: "good w3" by (simp add: still_def)
  obtain w4 where t: "testConnections s cs w3 = (None, w4)" using c(3)[OF g3] by (metis eq_fst_iff)
  have s4: "still good docs sent w w4" using tests_still[OF g3, of cs] still_trans[OF s3] by (simp add: t)
  then have w4: "good w4" "docs w4 i = Some d" using assms(5) by (auto simp: still_def)
  obtain x w5 where x: "createJobWithConflictResolution s j w4 = (Inr x, w5)" "jc_duplicate x"
    using create_answers[OF assms(1) w4(1) _ assms(4) w4(2) assms(6,7), of request] bc by blast
  consider (go) "r = Inr None" | (dup) y where "r = Inr (Some y)"
    using dc assms(1) by (cases r; cases "projr r") auto
  then show ?thesis
  proof cases
    case go
    then show ?thesis
      using c(2) x by (simp add: CreateFetcherJob_Execute_def b d c(1) t createAndPublish_def asResult_def)
  next
    case dup
    then show ?thesis using dc by (simp add: CreateFetcherJob_Execute_def b d)
  qed
qed

end

end
