(* ===== verification/Manager_Runs.thy ===== *)
theory Manager_Runs
  imports Manager_Store Worker_Scenarios
begin

text \<open>
  The properties of job creation over every database, queue and collaborator that keep the contracts of
  \<open>Manager_Store\<close>, with witnesses over the in-memory collection of \<open>Worker_World\<close>, and the
  race between a publication that is reported as failed and the Worker.
\<close>

subsection \<open>The service over the in-memory collection\<close>

definition mem_send :: "string \<Rightarrow> string \<Rightarrow> string \<Rightarrow> (string, any) gomap \<Rightarrow> world \<Rightarrow> serror option \<times> world" where
  "mem_send exchange key body header w =
     (let w1 = w\<lparr>wd_sends := tl (wd_sends w)\<rparr>; w2 = w1\<lparr>wd_queue := wd_queue w @ [(exchange, key, body, header)]\<rparr>
      in case fault_of (wd_sends w) of
           Works \<Rightarrow> (None, w2) | FailsBefore \<Rightarrow> (Some unavailable, w1) | FailsAfter \<Rightarrow> (Some unavailable, w2))"

definition mem_isDuplicateKey :: "serror \<Rightarrow> bool" where
  "mem_isDuplicateKey e \<longleftrightarrow> duplicate_key \<in> set (causes e)"

definition mem_now :: "world \<Rightarrow> int \<times> world" where
  "mem_now w = (wd_clock w, w\<lparr>wd_clock := wd_clock w + 1\<rparr>)"

definition mem_newV7 :: "world \<Rightarrow> (serror, uuid) result \<times> world" where
  "mem_newV7 w = (Inr (''0190-'' @ itoa (wd_clock w)), w\<lparr>wd_clock := wd_clock w + 1\<rparr>)"

record mconfig =
  mc_connections :: "string list \<Rightarrow> (serror, Connection option list) result"
  mc_test :: "Connection \<Rightarrow> serror option"
  mc_tenantID :: string
  mc_sha256 :: "string \<Rightarrow> string"

definition mem_manager :: "mconfig \<Rightarrow> world CreateFetcherJob" where
  "mem_manager c =
     \<lparr>cf_connRepo = (\<lambda>names w. (mc_connections c names, w)), cf_jobRepo = mem_collection, cf_rabbitMQ = Some mem_send,
      cf_connectionTester = Some (\<lambda>conn w. (mc_test c conn, w)), cf_dsFactory = None, cf_queueName = ''jobs'',
      cf_connectionResolver = None, cf_tenantID = mc_tenantID c, cf_now = mem_now, cf_newV7 = mem_newV7,
      cf_sha256 = mc_sha256 c, cf_formatTime = itoa, cf_isDuplicateKey = mem_isDuplicateKey\<rparr>"

lemma find_append: "find p (xs @ ys) = (case find p xs of None \<Rightarrow> find p ys | Some x \<Rightarrow> Some x)"
  by (induction xs) auto

lemma mem_clash: "mem_good w \<Longrightarrow> clash mem_docs w d \<longleftrightarrow> find (conflicts d) (wd_docs w) \<noteq> None"
proof -
  assume g: "mem_good w"
  have "find (conflicts d) (wd_docs w) \<noteq> None \<longleftrightarrow> (\<exists>x \<in> set (wd_docs w). conflicts d x)"
    by (auto simp: find_None_iff)
  also have "\<dots> \<longleftrightarrow> clash mem_docs w d"
    using mem_docs_in[OF g] by (auto simp: clash_def conflicts_def dest: mem_docs_mem) (metis mem_docs_mem)+
  finally show ?thesis by simp
qed

lemma mem_insert_contract:
  assumes "mem_ok rd wr w" and "doc_ok (jm_ID d) d" and "mem_insert d w = (r, w')"
  shows "still (mem_ok rd wr) mem_docs wd_queue w w' \<and> (\<exists>e. r = Some e \<and> (mem_isDuplicateKey e \<longrightarrow> clash mem_docs w d)) \<or>
    \<not> clash mem_docs w d \<and> mem_ok rd wr w' \<and> mem_docs w' = (mem_docs w)(jm_ID d \<mapsto> d) \<and> wd_queue w' = wd_queue w \<and>
      (\<forall>e. r = Some e \<longrightarrow> \<not> mem_isDuplicateKey e)"
proof -
  let ?w1 = "w\<lparr>wd_writes := tl (wd_writes w)\<rparr>"
  let ?w2 = "?w1\<lparr>wd_docs := wd_docs w @ [d]\<rparr>"
  have g: "mem_good w" using assms(1) by (simp add: mem_ok_def)
  have u: "\<not> mem_isDuplicateKey unavailable"
    by (simp add: mem_isDuplicateKey_def unavailable_def duplicate_key_def)
  have s1: "still (mem_ok rd wr) mem_docs wd_queue w ?w1"
    using assms(1) by (simp add: still_def mem_ok_def mem_good_def mem_docs_def fun_eq_iff)
  show ?thesis
  proof (cases "clash mem_docs w d")
    case True
    then show ?thesis
      using assms(3) s1 mem_clash[OF g, of d] by (auto simp: mem_insert_def Let_def split: fault.splits)
  next
    case False
    then have fresh: "mem_docs w (jm_ID d) = None" by (simp add: clash_def)
    have no: "find (conflicts d) (wd_docs w) = None" using False mem_clash[OF g] by simp
    have "jm_ID d \<notin> jm_ID ` set (wd_docs w)" using fresh mem_docs_in[OF g] by force
    then have "mem_ok rd wr ?w2"
      using assms(1,2) by (simp add: mem_ok_def mem_good_def)
    moreover have "mem_docs ?w2 = (mem_docs w)(jm_ID d \<mapsto> d)"
      using fresh by (auto simp: mem_docs_def fun_eq_iff find_append split: option.splits)
    ultimately show ?thesis
      using assms(3) s1 u False no by (auto simp: mem_insert_def Let_def split: fault.splits)
  qed
qed

lemma mem_latest:
  assumes "mem_good w"
  shows "newest mem_docs cs w (case selected cs [ByCreated False] w of [] \<Rightarrow> None | d # _ \<Rightarrow> Some d)"
proof (cases "selected cs [ByCreated False] w")
  case Nil
  then have "\<forall>x \<in> set (wd_docs w). \<not> matches cs x" using selected_set[of cs "[ByCreated False]" w] by auto
  then show ?thesis by (auto simp: Nil newest_def dest: mem_docs_mem)
next
  case (Cons d ds)
  have "sorted (map (sort_value [ByCreated False]) (selected cs [ByCreated False] w))" by (simp add: selected_def)
  then have "\<forall>x \<in> set ds. jm_CreatedAt x \<le> jm_CreatedAt d" by (auto simp: Cons sort_value_def)
  moreover have "set (d # ds) = {d \<in> set (wd_docs w). matches cs d}" using selected_set[of cs "[ByCreated False]" w] Cons by simp
  ultimately show ?thesis
    using mem_docs_in[OF assms] by (fastforce simp: Cons newest_def dest: mem_docs_mem)
qed

lemma mem_replace_contract:
  assumes "mem_ok rd wr w" and "FindOneAndUpdate mem_collection [IdIs i] u w = (r, w')"
    and "\<And>d. mem_docs w i = Some d \<Longrightarrow> doc_ok i (apply_update u d)"
  shows "still (mem_ok rd wr) mem_docs wd_queue w w' \<and> isl r \<or>
    (\<exists>d. mem_docs w i = Some d \<and> mem_ok rd wr w' \<and> mem_docs w' = (mem_docs w)(i \<mapsto> apply_update u d) \<and>
      wd_queue w' = wd_queue w)"
proof -
  obtain x w1 where m: "mem_update [IdIs i] u w = (x, w1)" by fastforce
  have f: "find (matches [IdIs i]) (wd_docs w) = mem_docs w i"
    by (simp add: mem_docs_def fun_eq_iff[symmetric] cong: find_cong)
  show ?thesis
    using mem_update_contract[OF apart_observations(2) assms(1) m assms(3)] assms(2) f m mem_quiet(1)[OF apart_observations(2) assms(1)]
    by (auto simp: mem_collection_def split: option.splits sum.splits)
qed

lemma mem_send_contract:
  assumes "mem_ok rd wr w" and "mem_send exchange key body header w = (r, w')"
  shows "mem_ok rd wr w' \<and> mem_docs w' = mem_docs w \<and>
    (\<exists>n. wd_queue w' = wd_queue w @ replicate n (exchange, key, body, header) \<and> (r = None \<longrightarrow> n > 0))"
proof (cases "fault_of (wd_sends w) = FailsBefore")
  case True
  then show ?thesis
    using assms by (auto simp: mem_send_def Let_def mem_ok_def mem_good_def mem_docs_def fun_eq_iff intro: exI[of _ 0])
next
  case False
  then show ?thesis
    using assms
    by (cases "fault_of (wd_sends w)")
      (auto simp: mem_send_def Let_def mem_ok_def mem_good_def mem_docs_def fun_eq_iff intro!: exI[of _ "1::nat"])
qed

interpretation mm: manager_store mem_collection "mem_ok answers answers" mem_docs wd_queue "mem_manager c" answers for answers c
proof (rule manager_store.intro, rule job_index.intro, rule mem_driver, simp, unfold_locales, goal_cases)
  case (1 w d r w')
  then show ?case using mem_insert_contract[of answers answers w d r w'] by (simp add: mem_collection_def mem_manager_def)
next
  case (2 w cs found w')
  then have "mem_good w" by (simp add: mem_ok_def)
  with 2 mem_latest[of w cs] show ?case by (auto simp: mem_collection_def split: if_splits)
next
  case (3 w i u changed w')
  then show ?case using mem_replace_contract by blast
next
  case (4 message e)
  then show ?case by (simp add: mem_manager_def mem_isDuplicateKey_def wrap_def duplicate_key_def)
next
  case (7 w d e w')
  then show ?case
    by (auto simp: mem_collection_def mem_insert_def mem_ok_def calm_fault Let_def mem_manager_def mem_isDuplicateKey_def
        duplicate_key_def split: if_splits)
next
  case (9 w i u)
  then have "find (matches [IdIs i]) (wd_docs w) = mem_docs w i"
    by (simp add: mem_docs_def fun_eq_iff[symmetric] cong: find_cong)
  with 9 show ?case by (auto simp: mem_collection_def mem_update_def mem_ok_def calm_fault Let_def split: option.splits)
next
  case (15 w send exchange key body header failure w')
  then have "send = mem_send" by (simp add: mem_manager_def)
  with 15 mem_send_contract show ?case by blast
qed (simp_all add: mem_collection_def mem_manager_def mem_ok_def calm_read lookupConnections_def runTest_def mem_now_def
      mem_newV7_def still_def mem_good_def mem_docs_def fun_eq_iff)

subsection \<open>A scenario\<close>

definition request_1 :: FetcherRequest where
  "request_1 =
     \<lparr>fr_DataRequest = \<lparr>dq_MappedFields = Some [(''pg'', [(''users'', [''id''])])], dq_Filters = []\<rparr>,
      fr_Metadata = Some [(''source'', AString ''report'')]\<rparr>"

definition mconfig_1 :: mconfig where
  "mconfig_1 =
     \<lparr>mc_connections = (\<lambda>_. Inr [Some (connection_1\<lparr>cn_ProductName := ''report''\<rparr>), None]), mc_test = (\<lambda>_. None),
      mc_tenantID = ''t1'', mc_sha256 = (\<lambda>body. ''sha '' @ body)\<rparr>"

definition empty_world :: "fault list \<Rightarrow> world" where
  "empty_world sends = (world_1 [] [] [])\<lparr>wd_docs := [], wd_sends := sends\<rparr>"

lemma empty_world_ok: "mem_ok rd wr (empty_world sends)"
  by (simp add: empty_world_def world_1_def mem_ok_def mem_good_def)

definition run_1 :: "fault list \<Rightarrow> (serror, CreateFetcherJobResult) result \<times> world" where
  "run_1 sends = CreateFetcherJob_Execute (mem_manager mconfig_1) request_1 (empty_world sends)"

definition created_1 :: Job where
  "created_1 =
     \<lparr>jb_ID = ''0190-1'', jb_Metadata = [(''source'', AString ''report'')],
      jb_MappedFields = Some [(''pg'', [(''users'', [''id''])])], jb_Filters = [], jb_Status = JobStatusPending,
      jb_ResultPath = [], jb_ResultHMAC = [],
      jb_RequestHash = mc_sha256 mconfig_1 (compact (the (json_request request_1))), jb_CreatedAt = 0,
      jb_CompletedAt = None\<rparr>"

lemma run_1_created: "fst (run_1 []) = Inr \<lparr>cr_Job = created_1, cr_IsDuplicate = False, cr_IsNewCreated = True\<rparr>"
  by code_simp

lemma run_1_rejected: "isl (fst (run_1 [FailsAfter]))"
  by code_simp

lemma run_1_queue: "map fst (wd_queue (snd (run_1 [FailsAfter]))) = [[]]"
  by code_simp

subsection \<open>What a creation does\<close>

text \<open>
  C21: a successful job creation either returns a stored job with the hash of the request that has not failed, and
  then nothing changes and nothing is sent, or it has stored one new pending job with exactly the
  request's fields, filters and metadata, under an identity and a hash no active job had, and has sent its
  message (at least once) to the queue; every datasource of that job has a connection, and each
  connection that is not internal belongs to the product the request names and passed its test. Reads, writes and
  publications may fail before or after their effect.
\<close>

theorem job_creation:
  assumes "manager_store coll good docs sent s answers"
    and "good w"
    and "CreateFetcherJob_Execute s request w = (Inr x, w')"
  shows "if cr_IsDuplicate x
    then docs w' = docs w \<and> sent w' = sent w \<and>
      (\<exists>h. ComputeRequestHash (cf_sha256 s) request = Inr h \<and>
           stored_job docs w h (\<lambda>status. status \<noteq> JobStatusFailed) (cr_Job x))
    else job_for s request (cr_Job x) \<and> \<not> clash docs w (FromEntity (cr_Job x)) \<and>
      docs w' = (docs w)(jb_ID (cr_Job x) \<mapsto> FromEntity (cr_Job x)) \<and> posted s (cr_Job x) (sent w) (sent w') \<and>
      (\<exists>ws connections. fst (lookupConnections s (GetDatasourceNames (cr_Job x)) ws) = Inr connections \<and>
         authorized s request (cr_Job x) connections)"
  using manager_store.execute_contract[OF assms]
  by (simp add: manager_store.outcome_def[OF assms(1)] still_def split: if_splits)

theorem job_creation_witness:
  "mem_docs (snd (run_1 [])) ''0190-1'' = Some (FromEntity created_1) \<and>
   posted (mem_manager mconfig_1) created_1 [] (wd_queue (snd (run_1 [])))"
proof -
  have "CreateFetcherJob_Execute (mem_manager mconfig_1) request_1 (empty_world []) =
      (Inr \<lparr>cr_Job = created_1, cr_IsDuplicate = False, cr_IsNewCreated = True\<rparr>, snd (run_1 []))"
    using run_1_created by (metis prod.collapse run_1_def)
  from job_creation[OF mm.manager_store_axioms[of False] empty_world_ok this] show ?thesis
    by (simp add: created_1_def empty_world_def world_1_def)
qed

subsection \<open>What a failed creation leaves behind\<close>

text \<open>
  C23: a failed job creation leaves no active job behind, if the database answers: either nothing changed and nothing was
  sent, or the publication was reported as failed and the new job is stored as failed with the reason. The
  jobs that are active afterwards were stored before, so the same request can be made again. The message
  of the failed job may still have reached the queue.
\<close>

theorem failed_creation:
  assumes "manager_store coll good docs sent s True"
    and "good w"
    and "CreateFetcherJob_Execute s request w = (Inl e, w')"
  shows "(docs w' = docs w \<and> sent w' = sent w \<or>
      (\<exists>j n now. job_for s request j \<and> docs w (jb_ID j) = None \<and> sent w' = sent w @ replicate n (entry s j) \<and>
        docs w' = (docs w)(jb_ID j \<mapsto> FromEntity (SetFailedStatus now ''process failed: unable to publish'' j)))) \<and>
    (\<forall>i d. docs w' i = Some d \<longrightarrow> isDedupActive (jm_Status d) \<longrightarrow> docs w i = Some d)"
proof -
  have c: "docs w' = docs w \<and> sent w' = sent w \<or>
    (\<exists>j n now. job_for s request j \<and> docs w (jb_ID j) = None \<and> sent w' = sent w @ replicate n (entry s j) \<and>
      docs w' = (docs w)(jb_ID j \<mapsto> FromEntity (SetFailedStatus now ''process failed: unable to publish'' j)))"
    using manager_store.execute_contract[OF assms]
    by (auto simp: manager_store.outcome_def[OF assms(1)] still_def unpublished_def clash_def FromEntity_def)
  moreover have "docs w i = Some d" if "docs w' i = Some d" "isDedupActive (jm_Status d)" for i d
    using c that by (auto simp: FromEntity_def SetFailedStatus_def isDedupActive_def split: if_splits)
  ultimately show ?thesis by blast
qed

theorem failed_creation_witness:
  "length (wd_queue (snd (run_1 [FailsAfter]))) = 1 \<and>
   filter (\<lambda>d. isDedupActive (jm_Status d)) (wd_docs (snd (run_1 [FailsAfter]))) = []"
proof -
  obtain e where e: "fst (run_1 [FailsAfter]) = Inl e" using run_1_rejected by (cases "fst (run_1 [FailsAfter])") auto
  then have r: "CreateFetcherJob_Execute (mem_manager mconfig_1) request_1 (empty_world [FailsAfter]) =
      (Inl e, snd (run_1 [FailsAfter]))"
    by (metis prod.collapse run_1_def)
  have none: "mem_docs (empty_world [FailsAfter]) i = None" for i by (simp add: mem_docs_def empty_world_def)
  have ok: "mem_ok True True (snd (run_1 [FailsAfter]))"
    using manager_store.execute_contract[OF mm.manager_store_axioms[of True] empty_world_ok r]
    by (auto simp: mm.outcome_def still_def)
  have "\<not> isDedupActive (jm_Status d)" if "d \<in> set (wd_docs (snd (run_1 [FailsAfter])))" for d
  proof -
    have "mem_docs (snd (run_1 [FailsAfter])) (jm_ID d) = Some d" using ok that mem_docs_in by (simp add: mem_ok_def)
    then show ?thesis
      using conjunct2[OF failed_creation[OF mm.manager_store_axioms empty_world_ok r]] none by (metis option.distinct(1))
  qed
  then show ?thesis using arg_cong[OF run_1_queue, of length] by (simp add: filter_empty_conv)
qed

subsection \<open>Deduplication\<close>

text \<open>What the checks before the insertion decide for a request, whatever the state of the database.\<close>

definition checks_pass :: "('w \<Rightarrow> bool) \<Rightarrow> 'w CreateFetcherJob \<Rightarrow> FetcherRequest \<Rightarrow> 'w \<Rightarrow> bool" where
  "checks_pass good s request w \<longleftrightarrow>
     (\<exists>j. fst (validateAndBuildJob s request w) = Inr j \<and>
        (\<forall>v. good v \<longrightarrow> (\<exists>cs. fst (resolveAndValidateConnections s j v) = Inr cs \<and> checkOwnership s request cs = None \<and>
           (\<forall>v. good v \<longrightarrow> fst (testConnections s cs v) = None))))"

text \<open>
  C22: as long as a job with the hash of a request is active (pending or processing, however long ago it was
  created), repeating the request, with its maps in whatever order, creates no job and sends nothing; an answer is
  a job with that hash that has not failed. If the database answers and the checks of the request pass,
  there is such an answer: the window lookup or the recovery from the duplicate key finds it.
\<close>

theorem job_deduplication:
  assumes "manager_store coll good docs sent s answers"
    and "good w"
    and "docs w i = Some d" and "isDedupActive (jm_Status d)"
    and "ComputeRequestHash (cf_sha256 s) r = Inr (jm_RequestHash d)"
    and "same_fetcher_request r r'"
    and "CreateFetcherJob_Execute s r' w = (res, w')"
  shows "docs w' = docs w \<and> sent w' = sent w \<and>
    (\<forall>x. res = Inr x \<longrightarrow>
       cr_IsDuplicate x \<and> stored_job docs w (jm_RequestHash d) (\<lambda>status. status \<noteq> JobStatusFailed) (cr_Job x)) \<and>
    (answers \<longrightarrow> jm_RequestHash d \<noteq> [] \<longrightarrow> checks_pass good s r' w \<longrightarrow> \<not> isl res)"
proof -
  have h: "ComputeRequestHash (cf_sha256 s) r' = Inr (jm_RequestHash d)"
    using assms(5) json_request_same[OF assms(6)] by (simp add: ComputeRequestHash_def)
  note ix = manager_store.axioms(1)[OF assms(1)]
  note dr = job_index.axioms(1)[OF ix]
  have "jm_DedupActive d" using job_driver.stored[OF dr assms(2,3)] assms(4) by (simp add: doc_ok_def)
  then have cl: "clash docs w (FromEntity j)" if "job_for s r' j" for j
    using that assms(3) h by (auto simp: clash_def job_for_def FromEntity_def isDedupActive_def)
  have o: "manager_store.outcome good docs sent s answers r' w res w'"
    using manager_store.execute_contract[OF assms(1,2,7)] .
  have "\<not> isl res" if a: "answers" "jm_RequestHash d \<noteq> []" "checks_pass good s r' w"
  proof -
    obtain j where j: "fst (validateAndBuildJob s r' w) = Inr j"
      "\<And>v. good v \<Longrightarrow> \<exists>cs. fst (resolveAndValidateConnections s j v) = Inr cs \<and> checkOwnership s r' cs = None \<and>
         (\<forall>v. good v \<longrightarrow> fst (testConnections s cs v) = None)" using a(3) by (auto simp: checks_pass_def)
    have "job_for s r' j"
      using manager_store.build_contract[OF assms(1,2), of r' "Inr j"] j(1) by (metis prod.collapse)
    then have e: "jm_RequestHash d = jb_RequestHash j" using h by (simp add: job_for_def)
    then have n: "jb_RequestHash j \<noteq> []" using a(2) by simp
    obtain x v where "CreateFetcherJob_Execute s r' w = (Inr x, v)"
      using manager_store.execute_answers[OF assms(1) a(1) assms(2) j(1) n assms(3,4) e j(2)] by blast
    with assms(7) show ?thesis by auto
  qed
  with o cl h show ?thesis
    by (auto simp: manager_store.outcome_def[OF assms(1)] still_def split: sum.splits if_splits)
qed

definition busy_1 :: world where
  "busy_1 = (world_1 [] [] [])\<lparr>wd_docs := [FromEntity created_1], wd_clock := 3\<rparr>"

definition repeat_1 :: "(serror, CreateFetcherJobResult) result \<times> world" where
  "repeat_1 = CreateFetcherJob_Execute (mem_manager mconfig_1) request_1 busy_1"

lemma checks_1: "checks_pass (mem_ok True True) (mem_manager mconfig_1) request_1 busy_1"
proof -
  let ?s = "mem_manager mconfig_1"
  let ?cs = "[Some (connection_1\<lparr>cn_ProductName := ''report''\<rparr>), None]"
  have v: "fst (validateAndBuildJob ?s request_1 busy_1) = Inr (created_1\<lparr>jb_ID := ''0190-4'', jb_CreatedAt := 3\<rparr>)"
    by code_simp
  have r: "fst (resolveAndValidateConnections ?s (created_1\<lparr>jb_ID := ''0190-4'', jb_CreatedAt := 3\<rparr>) w) = Inr ?cs" for w
    by (simp add: resolveAndValidateConnections_def lookupConnections_def mem_manager_def mconfig_1_def GetDatasourceNames_def
        created_1_def connection_1_def sortedKeys_def keys_def)
  have o: "checkOwnership ?s request_1 ?cs = None" by code_simp
  have t: "fst (testConnections ?s ?cs w) = None" for w
    by (simp add: isInternal_def runTest_def mem_manager_def mconfig_1_def)
  show ?thesis unfolding checks_pass_def using v r o t by blast
qed

theorem job_deduplication_witness:
  "mem_docs (snd repeat_1) = mem_docs busy_1 \<and> wd_queue (snd repeat_1) = [] \<and> \<not> isl (fst repeat_1)"
proof -
  have w: "mem_ok True True busy_1" "mem_docs busy_1 ''0190-1'' = Some (FromEntity created_1)"
    by (simp_all add: busy_1_def world_1_def mem_ok_def mem_good_def mem_docs_def FromEntity_def created_1_def doc_ok_def
        jobStatus_IsValid_def validJobStatuses_def)
  have a: "isDedupActive (jm_Status (FromEntity created_1))" "jm_RequestHash (FromEntity created_1) \<noteq> []"
    by (simp_all add: FromEntity_def created_1_def isDedupActive_def mconfig_1_def)
  have h: "ComputeRequestHash (cf_sha256 (mem_manager mconfig_1)) request_1 = Inr (jm_RequestHash (FromEntity created_1))"
    by code_simp
  have same: "same_fetcher_request request_1 request_1"
    by (simp add: same_fetcher_request_def request_1_def map_rel_def same_map_def map_ok_def option.rel_refl)
  have "CreateFetcherJob_Execute (mem_manager mconfig_1) request_1 busy_1 = (fst repeat_1, snd repeat_1)"
    by (simp add: repeat_1_def)
  from job_deduplication[OF mm.manager_store_axioms w a(1) h same this] a(2) checks_1 show ?thesis
    by (simp add: busy_1_def world_1_def)
qed

subsection \<open>A publication that is reported as failed\<close>

text \<open>The broker accepts the message, the Worker completes the job, and then the producer reports a failure
  (a confirmation that times out): the Manager's full update overwrites the completed job, whose completed
  event was sent.\<close>

definition late_send :: "string \<Rightarrow> string \<Rightarrow> string \<Rightarrow> (string, any) gomap \<Rightarrow> world \<Rightarrow> serror option \<times> world" where
  "late_send exchange key body header w =
     (Some unavailable,
      snd (handle_message (mem_uc ((config_1 (Inr result_1))\<lparr>su_decode := (\<lambda>_. Inr (Some message_1))\<rparr>)) body header w))"

definition race_1 :: world where
  "race_1 = snd (publishAndHandleFailure ((mem_manager mconfig_1)\<lparr>cf_rabbitMQ := Some late_send\<rparr>) created_1 busy_1)"

lemma late_failure_overwrites: "map jm_Status (wd_docs race_1) = [JobStatusFailed]"
  by code_simp

lemma late_failure_event: "map eq_DefinitionKey (wd_events race_1) = [''job.completed'']"
  by code_simp

end
