(* ===== verification/Datasource_Guards.thy ===== *)
theory Datasource_Guards
  imports Connection_Model Business_Errors
begin

text \<open>
  The guards in front of a customer's database: the SSL modes each driver accepts
  (\<^verbatim>\<open>pkg/datasource/sslmode\<close>) and the host safety check of
  \<^verbatim>\<open>pkg/datasource/hostsafety\<close>. The blocklist of the shared library and the resolver are parameters.
\<close>

subsection \<open>SSL modes\<close>

definition validMongoDBModes :: "string list" where
  "validMongoDBModes = ['''', ''disable'', ''false'', ''true'', ''enable'', ''insecure'']"

definition validMySQLModes :: "string list" where
  "validMySQLModes = ['''', ''false'', ''true'', ''skip-verify'', ''preferred'']"

definition validOracleModes :: "string list" where
  "validOracleModes = ['''', ''disable'', ''false'', ''true'', ''enable'', ''verify'', ''skip-verify'']"

definition validPostgreSQLModes :: "string list" where
  "validPostgreSQLModes = ['''', ''disable'', ''allow'', ''prefer'', ''require'', ''verify-ca'', ''verify-full'']"

definition validSQLServerModes :: "string list" where
  "validSQLServerModes = ['''', ''disable'', ''false'', ''true'', ''strict'']"

definition ValidateMongoDBMode :: "string \<Rightarrow> serror option" where
  "ValidateMongoDBMode mode =
     (if mode \<notin> set validMongoDBModes then Some (ValidateBusinessError (Plain ''FET-0413'') [] [mode]) else None)"

definition ValidateMySQLMode :: "string \<Rightarrow> serror option" where
  "ValidateMySQLMode mode =
     (if mode \<notin> set validMySQLModes then Some (ValidateBusinessError (Plain ''FET-0413'') [] [mode]) else None)"

definition ValidateOracleMode :: "string \<Rightarrow> serror option" where
  "ValidateOracleMode mode =
     (if mode \<notin> set validOracleModes then Some (ValidateBusinessError (Plain ''FET-0413'') [] [mode]) else None)"

definition ValidatePostgreSQLMode :: "string \<Rightarrow> serror option" where
  "ValidatePostgreSQLMode mode =
     (if mode \<notin> set validPostgreSQLModes then Some (ValidateBusinessError (Plain ''FET-0413'') [] [mode]) else None)"

definition ValidateSQLServerMode :: "string \<Rightarrow> serror option" where
  "ValidateSQLServerMode mode =
     (if mode \<notin> set validSQLServerModes then Some (ValidateBusinessError (Plain ''FET-0413'') [] [mode]) else None)"

definition validModes :: "DBType \<Rightarrow> string list" where
  "validModes t =
     (if t = TypeMySQL then validMySQLModes else if t = TypePostgreSQL then validPostgreSQLModes
      else if t = TypeOracle then validOracleModes else if t = TypeMongoDB then validMongoDBModes
      else if t = TypeSQLServer then validSQLServerModes else [])"

lemmas ssl_mode_checks =
  ValidateMongoDBMode_def ValidateMySQLMode_def ValidateOracleMode_def ValidatePostgreSQLMode_def ValidateSQLServerMode_def

lemmas ssl_mode_tables =
  validMongoDBModes_def validMySQLModes_def validOracleModes_def validPostgreSQLModes_def validSQLServerModes_def

text \<open>No accepted mode has a character with a meaning in a connection string.\<close>

definition plain_text :: "string \<Rightarrow> bool" where
  "plain_text s \<longleftrightarrow> list_all (\<lambda>c. c \<notin> set ''&=?#/:@%;'') s"

lemma modes_plain: "list_all plain_text (validModes t)"
  by (auto simp: validModes_def ssl_mode_tables plain_text_def)

subsection \<open>Host safety\<close>

record ('ip, 'w) HostPolicy =
  hp_enabled :: bool
  hp_IsBlockedHostname :: "string \<Rightarrow> bool"
  hp_ParseIP :: "string \<Rightarrow> 'ip option"
  hp_IsBlockedIP :: "'ip \<Rightarrow> bool"
  hp_Resolver :: "string \<Rightarrow> 'w \<Rightarrow> (serror, 'ip list) result \<times> 'w"

definition forbiddenHost :: serror where
  "forbiddenHost = ValidateBusinessError (Plain ''FET-0414'') ''connection'' []"

definition ValidateHostForConnection ::
  "('ip, 'w) HostPolicy \<Rightarrow> Connection option \<Rightarrow> 'w \<Rightarrow> serror option \<times> 'w" where
  "ValidateHostForConnection p conn w =
     (case conn of
        None \<Rightarrow> (None, w)
      | Some c \<Rightarrow>
          if \<not> hp_enabled p \<or> cn_EncryptionKeyVersion c = [] then (None, w)
          else
            (let host = TrimSpace (cn_Host c)
             in if hp_IsBlockedHostname p host then (Some forbiddenHost, w)
                else (case hp_ParseIP p host of
                        Some ip \<Rightarrow> (if hp_IsBlockedIP p ip then Some forbiddenHost else None, w)
                      | None \<Rightarrow>
                          (case hp_Resolver p host w of
                             (Inl _, w1) \<Rightarrow> (None, w1)
                           | (Inr addrs, w1) \<Rightarrow>
                               (if \<exists>a \<in> set addrs. hp_IsBlockedIP p a then Some forbiddenHost else None, w1)))))"

definition ValidateSafeHostString :: "('ip, 'w) HostPolicy \<Rightarrow> string \<Rightarrow> bool" where
  "ValidateSafeHostString p value \<longleftrightarrow>
     (if \<not> hp_enabled p then True
      else case hp_ParseIP p (TrimSpace value) of None \<Rightarrow> True | Some ip \<Rightarrow> \<not> hp_IsBlockedIP p ip)"

text \<open>What the check establishes of a tenant's host: no blocked name, no blocked literal, and no blocked
  address among those the resolver gave it.\<close>

definition host_cleared :: "('ip, 'w) HostPolicy \<Rightarrow> string \<Rightarrow> 'w \<Rightarrow> bool" where
  "host_cleared p host w \<longleftrightarrow>
     \<not> hp_IsBlockedHostname p host \<and>
     (case hp_ParseIP p host of
        Some ip \<Rightarrow> \<not> hp_IsBlockedIP p ip
      | None \<Rightarrow>
          (case fst (hp_Resolver p host w) of Inl _ \<Rightarrow> True | Inr addrs \<Rightarrow> \<forall>a \<in> set addrs. \<not> hp_IsBlockedIP p a))"

lemma host_check:
  assumes "hp_enabled p" and "cn_EncryptionKeyVersion c \<noteq> []"
  shows "fst (ValidateHostForConnection p (Some c) w) =
    (if host_cleared p (TrimSpace (cn_Host c)) w then None else Some forbiddenHost)"
  using assms
  by (auto simp: ValidateHostForConnection_def host_cleared_def Let_def split: option.splits prod.splits sum.splits)

text \<open>The check of the request never rejects a host the factory would accept.\<close>

lemma safe_string_weaker:
  assumes "host_cleared p (TrimSpace value) w"
  shows "ValidateSafeHostString p value"
  using assms by (auto simp: ValidateSafeHostString_def host_cleared_def split: option.splits)

subsection \<open>URLs\<close>

text \<open>\<^verbatim>\<open>url.QueryEscape\<close>, and how \<^verbatim>\<open>url.Parse\<close> reads the authority of a URL and the password in it.\<close>

definition unreserved :: "char \<Rightarrow> bool" where
  "unreserved c \<longleftrightarrow>
     (let n = of_char c :: nat in (65 \<le> n \<and> n \<le> 90) \<or> (97 \<le> n \<and> n \<le> 122) \<or> (48 \<le> n \<and> n \<le> 57)) \<or>
     c \<in> set ''-_.~''"

definition upper_hex :: "nat \<Rightarrow> char" where
  "upper_hex n = char_of (if n < 10 then 48 + n else 55 + n)"

definition escape_byte :: "char \<Rightarrow> string" where
  "escape_byte c =
     (if unreserved c then [c] else if c = CHR '' '' then ''+''
      else [CHR ''%'', upper_hex (of_char c div 16), upper_hex (of_char c mod 16)])"

definition QueryEscape :: "string \<Rightarrow> string" where
  "QueryEscape s = concat (map escape_byte s)"

definition unhex :: "char \<Rightarrow> nat option" where
  "unhex c =
     (let n = of_char c :: nat
      in if 48 \<le> n \<and> n \<le> 57 then Some (n - 48) else if 65 \<le> n \<and> n \<le> 70 then Some (n - 55)
         else if 97 \<le> n \<and> n \<le> 102 then Some (n - 87) else None)"

fun userinfo_unescape :: "string \<Rightarrow> string option" where
  "userinfo_unescape [] = Some []"
| "userinfo_unescape (c # cs) =
     (if c = CHR ''%''
      then (case cs of
              a # b # rest \<Rightarrow>
                (case (unhex a, unhex b) of
                   (Some x, Some y) \<Rightarrow> map_option ((#) (char_of (16 * x + y))) (userinfo_unescape rest)
                 | _ \<Rightarrow> None)
            | _ \<Rightarrow> None)
      else map_option ((#) c) (userinfo_unescape cs))"

definition url_rest :: "string \<Rightarrow> string" where
  "url_rest url =
     (case dropWhile (\<lambda>c. c \<noteq> CHR '':'') url of
        _ # a # b # rest \<Rightarrow> if a = CHR ''/'' \<and> b = CHR ''/'' then rest else []
      | _ \<Rightarrow> [])"

definition url_authority :: "string \<Rightarrow> string" where
  "url_authority url = takeWhile (\<lambda>c. c \<notin> set ''/?#'') (url_rest url)"

definition url_Host :: "string \<Rightarrow> string" where
  "url_Host url = rev (takeWhile (\<lambda>c. c \<noteq> CHR ''@'') (rev (url_authority url)))"

definition url_userinfo :: "string \<Rightarrow> string" where
  "url_userinfo url = rev (drop 1 (dropWhile (\<lambda>c. c \<noteq> CHR ''@'') (rev (url_authority url))))"

definition url_Password :: "string \<Rightarrow> string option" where
  "url_Password url = userinfo_unescape (drop 1 (dropWhile (\<lambda>c. c \<noteq> CHR '':'') (url_userinfo url)))"

subsubsection \<open>Reading back what was escaped\<close>

lemma unhex_upper_hex: "n < 16 \<Longrightarrow> unhex (upper_hex n) = Some n"
  by (auto simp: unhex_def upper_hex_def Let_def)

lemma percent_reserved: "\<not> unreserved (CHR ''%'')"
  by code_simp

lemma nibbles: "16 * (of_char c div 16) + of_char c mod 16 = (of_char c :: nat)"
  by simp

lemma high_nibble: "of_char c div 16 < (16 :: nat)"
  using of_char_of[of "of_char c :: nat"] by (simp add: less_mult_imp_div_less)

lemma unescape_byte:
  "userinfo_unescape (escape_byte c @ rest) =
     map_option ((#) (if c = CHR '' '' then CHR ''+'' else c)) (userinfo_unescape rest)"
proof (cases "unreserved c")
  case True
  then have "c \<noteq> CHR ''%''" "c \<noteq> CHR '' ''" using percent_reserved by (auto simp: unreserved_def)
  then show ?thesis using True by (simp add: escape_byte_def)
next
  case False
  show ?thesis
  proof (cases "c = CHR '' ''")
    case True
    then show ?thesis using False by (simp add: escape_byte_def)
  next
    case sp: False
    then show ?thesis
      using False by (simp add: escape_byte_def unhex_upper_hex high_nibble nibbles)
  qed
qed

text \<open>A password survives the round trip, except that a space comes back as a plus sign.\<close>

lemma password_read_back:
  "userinfo_unescape (QueryEscape p) = Some (map (\<lambda>c. if c = CHR '' '' then CHR ''+'' else c) p)"
  by (induction p) (simp_all add: QueryEscape_def unescape_byte)

text \<open>The output of \<^verbatim>\<open>QueryEscape\<close> has no character with a meaning in an authority.\<close>

lemma upper_hex_plain: "n < 16 \<Longrightarrow> upper_hex n \<notin> set ''/?#@:''"
proof -
  assume "n < 16"
  then have "n \<in> set [0..<16]" by simp
  moreover have "list_all (\<lambda>n. upper_hex n \<notin> set ''/?#@:'') [0..<16]" by code_simp
  ultimately show ?thesis by (simp add: list_all_iff)
qed

lemma unreserved_plain: "unreserved c \<Longrightarrow> c \<notin> set ''/?#@:''"
  by (auto simp: unreserved_def)

lemma escaped_plain: "c \<in> set (QueryEscape p) \<Longrightarrow> c \<notin> set ''/?#@:''"
proof -
  have "c \<notin> set ''/?#@:''" if "c \<in> set (escape_byte b)" for b
  proof -
    have "c = b \<and> unreserved b \<or> c = CHR ''+'' \<or> c = CHR ''%'' \<or> c = upper_hex (of_char b div 16) \<or> c = upper_hex (of_char b mod 16)"
      using that by (auto simp: escape_byte_def split: if_splits)
    then show ?thesis
      using unreserved_plain upper_hex_plain[OF high_nibble] upper_hex_plain[of "of_char b mod 16"] by auto
  qed
  then show "c \<in> set (QueryEscape p) \<Longrightarrow> c \<notin> set ''/?#@:''" by (auto simp: QueryEscape_def)
qed

lemma itoa_plain: "list_all (\<lambda>c. c \<notin> set ''/?#@'') (itoa n)"
proof -
  have "c \<notin> set ''/?#@''" if "c \<in> set (nat_digits m)" for c m
    using nat_digits_chars[OF that] by auto
  then show ?thesis by (simp add: itoa_def list_all_iff)
qed

lemma outside_mono: "list_all (\<lambda>c. c \<notin> S) xs \<Longrightarrow> T \<subseteq> S \<Longrightarrow> list_all (\<lambda>c. c \<notin> T) xs"
  by (auto simp: list_all_iff)

text \<open>The authority a URL of the shape the factory writes has, when nothing in it is special.\<close>

lemma takeWhile_sep: "list_all P xs \<Longrightarrow> ys = [] \<or> \<not> P (hd ys) \<Longrightarrow> takeWhile P (xs @ ys) = xs"
  by (induction xs) (cases ys, auto)

lemma dropWhile_sep: "list_all P xs \<Longrightarrow> \<not> P y \<Longrightarrow> dropWhile P (xs @ y # ys) = y # ys"
  by (induction xs) auto

lemma url_of_parts:
  assumes "list_all (\<lambda>c. c \<noteq> CHR '':'') scheme" and "list_all (\<lambda>c. c \<notin> set ''/?#'') user"
    and "list_all (\<lambda>c. c \<notin> set ''/?#@'') host" and "tail = [] \<or> hd tail \<in> set ''/?#''"
  shows "url_Host (scheme @ ''://'' @ user @ '':'' @ QueryEscape pw @ ''@'' @ host @ '':'' @ itoa port @ tail) =
      host @ '':'' @ itoa port"
    and "list_all (\<lambda>c. c \<noteq> CHR '':'') user \<Longrightarrow>
      url_Password (scheme @ ''://'' @ user @ '':'' @ QueryEscape pw @ ''@'' @ host @ '':'' @ itoa port @ tail) =
      Some (map (\<lambda>c. if c = CHR '' '' then CHR ''+'' else c) pw)"
proof -
  let ?u = "scheme @ ''://'' @ user @ '':'' @ QueryEscape pw @ ''@'' @ host @ '':'' @ itoa port @ tail"
  let ?a = "user @ '':'' @ QueryEscape pw @ ''@'' @ host @ '':'' @ itoa port"
  have rest: "url_rest ?u = ?a @ tail"
    using dropWhile_sep[of "\<lambda>c. c \<noteq> CHR '':''" scheme "CHR '':''"] assms(1) by (simp add: url_rest_def)
  have "list_all (\<lambda>c. c \<notin> set ''/?#@:'') (QueryEscape pw)" using escaped_plain[of _ pw] unfolding list_all_iff by blast
  then have pw: "list_all (\<lambda>c. c \<notin> set ''/?#'') (QueryEscape pw)" by (rule outside_mono) auto
  have hp: "list_all (\<lambda>c. c \<notin> set ''/?#@'') (host @ '':'' @ itoa port)"
    using assms(3) itoa_plain[of port] by (simp only: list_all_append) simp
  then have "list_all (\<lambda>c. c \<notin> set ''/?#'') (host @ '':'' @ itoa port)" by (rule outside_mono) auto
  then have "list_all (\<lambda>c. c \<notin> set ''/?#'') ?a" using assms(2) pw by simp
  then have auth: "url_authority ?u = ?a"
    unfolding url_authority_def rest using assms(4) by (intro takeWhile_sep) auto
  have h: "list_all (\<lambda>c. c \<noteq> CHR ''@'') (rev (host @ '':'' @ itoa port))"
    using hp unfolding list_all_iff set_rev by auto
  have r: "rev ?a = rev (host @ '':'' @ itoa port) @ CHR ''@'' # rev (user @ '':'' @ QueryEscape pw)" by simp
  show "url_Host ?u = host @ '':'' @ itoa port"
    unfolding url_Host_def auth r using takeWhile_sep[OF h, of "CHR ''@'' # rev (user @ '':'' @ QueryEscape pw)"] by simp
  have ui: "url_userinfo ?u = user @ '':'' @ QueryEscape pw"
    unfolding url_userinfo_def auth r by (subst dropWhile_sep[OF h]) simp_all
  show "url_Password ?u = Some (map (\<lambda>c. if c = CHR '' '' then CHR ''+'' else c) pw)"
    if "list_all (\<lambda>c. c \<noteq> CHR '':'') user"
    unfolding url_Password_def ui using dropWhile_sep[OF that, of "CHR '':''" "QueryEscape pw"]
    by (simp add: password_read_back)
qed

end
