(* ===== verification/Credential_Crypto.thy ===== *)
theory Credential_Crypto
  imports Service_Errors
begin

text \<open>
  How the services protect a credential (\<^verbatim>\<open>pkg/crypto/crypto.go\<close>, \<^verbatim>\<open>pkg/crypto/key_deriver.go\<close>):
  base64 of the standard library, the AES-GCM service and the derivation of its key. The cipher, the
  random source and HKDF are parameters.
\<close>

subsection \<open>Base64\<close>

definition b64_alphabet :: string where
  "b64_alphabet = ''ABCDEFGHIJKLMNOPQRSTUVWXYZabcdefghijklmnopqrstuvwxyz0123456789+/''"

definition b64_char :: "nat \<Rightarrow> char" where
  "b64_char v = b64_alphabet ! v"

definition b64_value :: "char \<Rightarrow> nat option" where
  "b64_value c = map_of (zip b64_alphabet [0..<64]) c"

abbreviation byte :: "char \<Rightarrow> nat" where
  "byte c \<equiv> of_char c"

fun b64_encode :: "string \<Rightarrow> string" where
  "b64_encode [] = []"
| "b64_encode [a] = [b64_char (byte a div 4), b64_char (byte a mod 4 * 16), CHR ''='', CHR ''='']"
| "b64_encode [a, b] =
     [b64_char (byte a div 4), b64_char (byte a mod 4 * 16 + byte b div 16), b64_char (byte b mod 16 * 4), CHR ''='']"
| "b64_encode (a # b # c # rest) =
     [b64_char (byte a div 4), b64_char (byte a mod 4 * 16 + byte b div 16),
      b64_char (byte b mod 16 * 4 + byte c div 64), b64_char (byte c mod 64)] @ b64_encode rest"

definition is_newline :: "char \<Rightarrow> bool" where
  "is_newline c \<longleftrightarrow> c = CHR 0x0A \<or> c = CHR 0x0D"

definition skip_newlines :: "nat \<Rightarrow> string \<Rightarrow> nat \<times> string" where
  "skip_newlines si cs = (si + length (takeWhile is_newline cs), dropWhile is_newline cs)"

text \<open>The bytes of two, three and four sextets.\<close>

definition b64_bytes :: "nat list \<Rightarrow> string" where
  "b64_bytes vs =
     (case vs of
        [x, y] \<Rightarrow> [char_of (x * 4 + y div 16)]
      | [x, y, z] \<Rightarrow> [char_of (x * 4 + y div 16), char_of (y mod 16 * 16 + z div 4)]
      | [x, y, z, u] \<Rightarrow>
          [char_of (x * 4 + y div 16), char_of (y mod 16 * 16 + z div 4), char_of (z mod 4 * 64 + u)]
      | _ \<Rightarrow> [])"

text \<open>\<^verbatim>\<open>decodeQuantum\<close> from the first padding character on; an error is the index of the input byte.\<close>

definition b64_padding :: "nat \<Rightarrow> nat list \<Rightarrow> string \<Rightarrow> nat + string" where
  "b64_padding si buf cs =
     (if length buf < 2 then Inl (si - 1)
      else
        (let finish = (\<lambda>si cs. case skip_newlines si cs of
                          (si, rest) \<Rightarrow> if rest \<noteq> [] then Inl si else Inr (b64_bytes buf))
         in if length buf = 2
            then (case skip_newlines si cs of
                    (si, []) \<Rightarrow> Inl si
                  | (si, c # rest) \<Rightarrow> if c \<noteq> CHR ''='' then Inl (si - 1) else finish (si + 1) rest)
            else finish si cs))"

fun b64_decode :: "nat \<Rightarrow> nat list \<Rightarrow> string \<Rightarrow> nat + string" where
  "b64_decode si buf [] = (if buf = [] then Inr [] else Inl (si - length buf))"
| "b64_decode si buf (c # cs) =
     (case b64_value c of
        Some v \<Rightarrow>
          if length buf = 3
          then (case b64_decode (si + 1) [] cs of Inl e \<Rightarrow> Inl e | Inr s \<Rightarrow> Inr (b64_bytes (buf @ [v]) @ s))
          else b64_decode (si + 1) (buf @ [v]) cs
      | None \<Rightarrow>
          if is_newline c then b64_decode (si + 1) buf cs
          else if c \<noteq> CHR ''='' then Inl si
          else b64_padding (si + 1) buf cs)"

definition b64_DecodeString :: "string \<Rightarrow> (serror, string) result" where
  "b64_DecodeString s =
     (case b64_decode 0 [] s of
        Inl i \<Rightarrow> Inl (Plain (''illegal base64 data at input byte '' @ itoa (int i)))
      | Inr raw \<Rightarrow> Inr raw)"

subsection \<open>The AES-GCM service\<close>

record 'w Cryptor =
  cr_Encrypt :: "string \<Rightarrow> 'w \<Rightarrow> (serror, string \<times> string) result \<times> 'w"
  cr_Decrypt :: "string \<Rightarrow> string \<Rightarrow> (serror, string) result"
  cr_KeyVersion :: string

text \<open>The random source, and the seal and open of GCM over a cipher with the key.\<close>

record 'w AEAD =
  ad_ReadFull :: "nat \<Rightarrow> 'w \<Rightarrow> (serror, string) result \<times> 'w"
  ad_Seal :: "string \<Rightarrow> string \<Rightarrow> string \<Rightarrow> string"
  ad_Open :: "string \<Rightarrow> string \<Rightarrow> string \<Rightarrow> (serror, string) result"

abbreviation gcm_NonceSize :: nat where
  "gcm_NonceSize \<equiv> 12"

record AESGCMService =
  as_key :: string
  as_keyVersion :: string

definition NewAESGCMService :: "string \<Rightarrow> string \<Rightarrow> (serror, AESGCMService) result" where
  "NewAESGCMService key keyVersion =
     (if length key \<noteq> 32
      then Inl (Plain (''invalid encryption key length: got '' @ itoa (int (length key)) @ '', expected 32 bytes''))
      else Inr \<lparr>as_key = key, as_keyVersion = if keyVersion = [] then ''1'' else keyVersion\<rparr>)"

definition NewAESGCMServiceFromEnv :: "string \<Rightarrow> string \<Rightarrow> (serror, AESGCMService) result" where
  "NewAESGCMServiceFromEnv keyBase64 keyVersion =
     (case b64_DecodeString keyBase64 of
        Inl err \<Rightarrow> Inl (wrap ''invalid encryption key (base64)'' err)
      | Inr key \<Rightarrow> NewAESGCMService key keyVersion)"

definition aes_NewCipher :: "string \<Rightarrow> serror option" where
  "aes_NewCipher key =
     (if length key \<in> {16, 24, 32} then None
      else Some (Plain (''crypto/aes: invalid key size '' @ itoa (int (length key)))))"

definition aes_Encrypt ::
  "'w AEAD \<Rightarrow> AESGCMService \<Rightarrow> string \<Rightarrow> 'w \<Rightarrow> (serror, string \<times> string) result \<times> 'w" where
  "aes_Encrypt ad s plain w =
     (case aes_NewCipher (as_key s) of
        Some err \<Rightarrow> (Inl err, w)
      | None \<Rightarrow>
          (case ad_ReadFull ad gcm_NonceSize w of
             (Inl err, w1) \<Rightarrow> (Inl err, w1)
           | (Inr nonce, w1) \<Rightarrow>
               (Inr (b64_encode (nonce @ ad_Seal ad (as_key s) nonce plain), as_keyVersion s), w1)))"

definition aes_Decrypt :: "'w AEAD \<Rightarrow> AESGCMService \<Rightarrow> string \<Rightarrow> string \<Rightarrow> (serror, string) result" where
  "aes_Decrypt ad s cipherTextBase64 keyVersion =
     (if keyVersion \<noteq> as_keyVersion s then Inl (Plain (''unsupported key version: '' @ keyVersion))
      else (case b64_DecodeString cipherTextBase64 of
              Inl err \<Rightarrow> Inl (wrap ''invalid ciphertext (base64)'' err)
            | Inr raw \<Rightarrow>
                (case aes_NewCipher (as_key s) of
                   Some err \<Rightarrow> Inl err
                 | None \<Rightarrow>
                     if length raw < gcm_NonceSize then Inl (Plain ''ciphertext too short'')
                     else ad_Open ad (as_key s) (take gcm_NonceSize raw) (drop gcm_NonceSize raw))))"

definition aes_KeyVersion :: "AESGCMService \<Rightarrow> string" where
  "aes_KeyVersion s = as_keyVersion s"

definition aes_Cryptor :: "'w AEAD \<Rightarrow> AESGCMService \<Rightarrow> 'w Cryptor" where
  "aes_Cryptor ad s =
     \<lparr>cr_Encrypt = aes_Encrypt ad s, cr_Decrypt = aes_Decrypt ad s, cr_KeyVersion = aes_KeyVersion s\<rparr>"

subsection \<open>The derived keys\<close>

definition ContextCredentialsLabel :: string where
  "ContextCredentialsLabel = ''fetcher-credentials-v1''"

definition ContextInternalHMAC :: string where
  "ContextInternalHMAC = ''fetcher-internal-hmac-v1''"

definition ContextExternalHMAC :: string where
  "ContextExternalHMAC = ''fetcher-external-hmac-v1''"

definition ContextStorageEncryption :: string where
  "ContextStorageEncryption = ''fetcher-storage-encryption-v1''"

definition DefaultKeyLength :: nat where
  "DefaultKeyLength = 32"

type_synonym hkdf = "string \<Rightarrow> string \<Rightarrow> nat \<Rightarrow> (serror, string) result"

record HKDFKeyDeriver =
  kd_masterKey :: string
  kd_credentialKey :: string
  kd_internalHMACKey :: string
  kd_externalHMACKey :: string
  kd_storageEncryptKey :: string

definition DeriveKey :: "hkdf \<Rightarrow> string \<Rightarrow> string \<Rightarrow> int \<Rightarrow> (serror, string) result" where
  "DeriveKey hkdf masterKey context len =
     (if len \<le> 0 then Inl (Plain ''key length must be positive'')
      else if context = [] then Inl (Plain ''context cannot be empty'')
      else (case hkdf masterKey context (nat len) of
              Inl err \<Rightarrow> Inl (wrap ''failed to derive key'' err)
            | Inr key \<Rightarrow> Inr key))"

definition NewHKDFKeyDeriver :: "hkdf \<Rightarrow> string \<Rightarrow> (serror, HKDFKeyDeriver) result" where
  "NewHKDFKeyDeriver hkdf masterKey =
     (if length masterKey < 32
      then Inl (Plain (''master key too short: got '' @ itoa (int (length masterKey)) @ '' bytes, minimum 32 required''))
      else
        (case DeriveKey hkdf masterKey ContextCredentialsLabel (int DefaultKeyLength) of
           Inl err \<Rightarrow> Inl (wrap ''failed to derive credential key'' err)
         | Inr credentialKey \<Rightarrow>
             (case DeriveKey hkdf masterKey ContextInternalHMAC (int DefaultKeyLength) of
                Inl err \<Rightarrow> Inl (wrap ''failed to derive internal HMAC key'' err)
              | Inr internalKey \<Rightarrow>
                  (case DeriveKey hkdf masterKey ContextExternalHMAC (int DefaultKeyLength) of
                     Inl err \<Rightarrow> Inl (wrap ''failed to derive external HMAC key'' err)
                   | Inr externalKey \<Rightarrow>
                       (case DeriveKey hkdf masterKey ContextStorageEncryption (int DefaultKeyLength) of
                          Inl err \<Rightarrow> Inl (wrap ''failed to derive storage encryption key'' err)
                        | Inr storageKey \<Rightarrow>
                            Inr \<lparr>kd_masterKey = masterKey, kd_credentialKey = credentialKey,
                                 kd_internalHMACKey = internalKey, kd_externalHMACKey = externalKey,
                                 kd_storageEncryptKey = storageKey\<rparr>)))))"

definition DecodeMasterKey :: "string \<Rightarrow> (serror, string) result" where
  "DecodeMasterKey keyBase64 =
     (case b64_DecodeString keyBase64 of
        Inl err \<Rightarrow> Inl (wrap ''invalid master key (base64)'' err)
      | Inr key \<Rightarrow>
          if length key < 32
          then Inl (Plain (''master key too short: got '' @ itoa (int (length key)) @ '' bytes, minimum 32 required''))
          else Inr key)"

subsection \<open>Round trips\<close>

lemma b64_value_char: "v < 64 \<Longrightarrow> b64_value (b64_char v) = Some v"
proof -
  assume "v < 64"
  then have "v \<in> set [0..<64]" by simp
  moreover have "list_all (\<lambda>v. b64_value (b64_char v) = Some v) [0..<64]" by code_simp
  ultimately show ?thesis by (simp add: list_all_iff)
qed

lemma equals_no_value: "b64_value (CHR ''='') = None"
  by code_simp

lemma byte_less: "byte c < (256 :: nat)"
proof -
  have "byte c = byte c mod (256 :: nat)" using of_char_of[of "byte c :: nat"] by simp
  then show ?thesis by (metis mod_less_divisor zero_less_numeral)
qed

lemma sextet_bounds:
  fixes x y z :: nat
  assumes "x < 256" and "y < 256" and "z < 256"
  shows "x div 4 < 64" and "x mod 4 * 16 + y div 16 < 64" and "y mod 16 * 4 + z div 64 < 64"
    and "x mod 4 * 16 < 64" and "y mod 16 * 4 < 64" and "z mod 64 < 64"
proof -
  have "x mod 4 < 4" "y div 16 < 16" "y mod 16 < 16" "z div 64 < 4" using assms by auto
  then show "x div 4 < 64" and "x mod 4 * 16 + y div 16 < 64" and "y mod 16 * 4 + z div 64 < 64"
    and "x mod 4 * 16 < 64" and "y mod 16 * 4 < 64" and "z mod 64 < 64" using assms by linarith+
qed

lemmas sextets = sextet_bounds[OF byte_less byte_less byte_less]

lemma sextets_joined:
  fixes x y z :: nat
  assumes "x < 256" and "y < 256" and "z < 256"
  shows "x div 4 * 4 + x mod 4 = x" and "x mod 4 * 16 div 16 = x mod 4"
    and "(x mod 4 * 16 + y div 16) div 16 = x mod 4" and "(x mod 4 * 16 + y div 16) mod 16 = y div 16"
    and "(y mod 16 * 4 + z div 64) div 4 = y mod 16" and "(y mod 16 * 4 + z div 64) mod 4 = z div 64"
    and "y div 16 * 16 + y mod 16 = y" and "y mod 16 * 4 div 4 = y mod 16" and "z div 64 * 64 + z mod 64 = z"
proof -
  have "y div 16 < 16" "z div 64 < 4" using assms by auto
  then show "(x mod 4 * 16 + y div 16) div 16 = x mod 4" and "(x mod 4 * 16 + y div 16) mod 16 = y div 16"
    and "(y mod 16 * 4 + z div 64) div 4 = y mod 16" and "(y mod 16 * 4 + z div 64) mod 4 = z div 64" by simp_all
qed simp_all

lemma bytes_back:
  "b64_bytes [byte a div 4, byte a mod 4 * 16] = [a]"
  "b64_bytes [byte a div 4, byte a mod 4 * 16 + byte b div 16, byte b mod 16 * 4] = [a, b]"
  "b64_bytes [byte a div 4, byte a mod 4 * 16 + byte b div 16, byte b mod 16 * 4 + byte c div 64, byte c mod 64] = [a, b, c]"
  unfolding b64_bytes_def list.case sextets_joined[OF byte_less byte_less byte_less] by simp_all

lemma b64_round_trip: "b64_decode si [] (b64_encode s) = Inr s"
proof (induction s arbitrary: si rule: b64_encode.induct)
  case (2 a)
  then show ?case
    by (simp add: b64_value_char sextets equals_no_value is_newline_def b64_padding_def skip_newlines_def bytes_back)
next
  case (3 a b)
  then show ?case
    by (simp add: b64_value_char sextets equals_no_value is_newline_def b64_padding_def skip_newlines_def bytes_back)
next
  case (4 a b c rest)
  then show ?case by (simp add: b64_value_char sextets bytes_back)
qed simp

lemma DecodeString_encode [simp]: "b64_DecodeString (b64_encode s) = Inr s"
  by (simp add: b64_DecodeString_def b64_round_trip)

text \<open>What the standard library documents of its random source and of GCM.\<close>

definition aead_ok :: "'w AEAD \<Rightarrow> bool" where
  "aead_ok ad \<longleftrightarrow>
     (\<forall>n w nonce w'. ad_ReadFull ad n w = (Inr nonce, w') \<longrightarrow> length nonce = n) \<and>
     (\<forall>key nonce plain. ad_Open ad key nonce (ad_Seal ad key nonce plain) = Inr plain)"

lemma NewAESGCMService_iff:
  "NewAESGCMService key kv = Inr s \<longleftrightarrow>
     length key = 32 \<and> s = \<lparr>as_key = key, as_keyVersion = if kv = [] then ''1'' else kv\<rparr>"
  by (auto simp: NewAESGCMService_def)

lemma aes_round_trip:
  assumes "aead_ok ad" and "NewAESGCMService key kv = Inr s" and "aes_Encrypt ad s plain w = (Inr (text, version), w')"
  shows "aes_Decrypt ad s text version = Inr plain" and "version = as_keyVersion s" and "version \<noteq> []"
    and "text \<noteq> []"
proof -
  from assms(2) have k: "length (as_key s) = 32" "as_keyVersion s \<noteq> []" by (auto simp: NewAESGCMService_iff)
  from assms(3) k obtain nonce where n: "ad_ReadFull ad gcm_NonceSize w = (Inr nonce, w')"
    and t: "text = b64_encode (nonce @ ad_Seal ad (as_key s) nonce plain)" "version = as_keyVersion s"
    by (auto simp: aes_Encrypt_def aes_NewCipher_def split: prod.splits sum.splits)
  from n assms(1) have "length nonce = 12" unfolding aead_ok_def by blast
  then show "aes_Decrypt ad s text version = Inr plain"
    using assms(1) k by (simp add: aes_Decrypt_def t aes_NewCipher_def aead_ok_def)
  show "version = as_keyVersion s" "version \<noteq> []" using t k by auto
  show "text \<noteq> []"
    using \<open>length nonce = 12\<close> t(1) by (cases nonce rule: b64_encode.cases) auto
qed

text \<open>A text that was sealed under another key version is refused before it is decoded.\<close>

lemma other_version_refused:
  "version \<noteq> as_keyVersion s \<Longrightarrow>
     aes_Decrypt ad s text version = Inl (Plain (''unsupported key version: '' @ version))"
  by (simp add: aes_Decrypt_def)

text \<open>The four contexts differ, so no two derived keys share an HKDF input, and each has the length its user asks for.\<close>

lemma contexts_distinct:
  "distinct [ContextCredentialsLabel, ContextInternalHMAC, ContextExternalHMAC, ContextStorageEncryption]"
  by code_simp

lemma derived_keys:
  assumes "\<And>m c n key. hkdf m c n = Inr key \<Longrightarrow> length key = n" and "NewHKDFKeyDeriver hkdf masterKey = Inr d"
  shows "length (kd_credentialKey d) = 32" and "length (kd_internalHMACKey d) = 32"
    and "length (kd_externalHMACKey d) = 32" and "length (kd_storageEncryptKey d) = 32"
    and "\<exists>s. NewAESGCMService (kd_credentialKey d) version = Inr s"
proof -
  have "length key = 32" if "DeriveKey hkdf masterKey c (int DefaultKeyLength) = Inr key" for c key
    using that assms(1) by (auto simp: DeriveKey_def DefaultKeyLength_def split: if_splits sum.splits)
  then show "length (kd_credentialKey d) = 32" and "length (kd_internalHMACKey d) = 32"
    and "length (kd_externalHMACKey d) = 32" and "length (kd_storageEncryptKey d) = 32"
    and "\<exists>s. NewAESGCMService (kd_credentialKey d) version = Inr s"
    using assms(2) by (auto simp: NewHKDFKeyDeriver_def NewAESGCMService_iff split: if_splits sum.splits)
qed

end
