(* ===== verification/Connection_Rules.thy ===== *)
theory Connection_Rules
  imports Datasource_Guards Credential_Crypto Job_Model
begin

text \<open>
  The rules of a connection (\<^verbatim>\<open>pkg/model/connection.go\<close>): how it is created, validated, patched, assigned
  and deleted, and what leaves the service. A method with a pointer receiver returns the connection it leaves
  behind beside its error. The cryptor, \<^verbatim>\<open>uuid.NewV7\<close> and the clock are arguments.
\<close>

subsection \<open>Validation\<close>

definition normalizeFields :: "Connection \<Rightarrow> Connection" where
  "normalizeFields conn =
     conn\<lparr>cn_ProductName := TrimSpace (cn_ProductName conn), cn_ConfigName := TrimSpace (cn_ConfigName conn),
          cn_Host := TrimSpace (cn_Host conn), cn_DatabaseName := TrimSpace (cn_DatabaseName conn),
          cn_Username := TrimSpace (cn_Username conn)\<rparr>"

definition config_char :: "char \<Rightarrow> bool" where
  "config_char c \<longleftrightarrow>
     (let n = of_char c :: nat in (97 \<le> n \<and> n \<le> 122) \<or> (65 \<le> n \<and> n \<le> 90) \<or> (48 \<le> n \<and> n \<le> 57)) \<or>
     c = CHR ''_'' \<or> c = CHR ''-''"

definition configNameRegex :: "string \<Rightarrow> bool" where
  "configNameRegex s \<longleftrightarrow> s \<noteq> [] \<and> list_all config_char s"

definition validateSSLRequiredFields :: "Connection \<Rightarrow> (string, string) gomap \<Rightarrow> (string, string) gomap" where
  "validateSSLRequiredFields conn requiredFields =
     (case cn_SSL conn of
        None \<Rightarrow> requiredFields
      | Some ssl \<Rightarrow>
          requiredFields @
          (if ssl_Mode ssl = [] then [(''ssl.mode'', ''SSL mode is required'')] else []) @
          (if ssl_CA ssl = [] then [(''ssl.ca'', ''SSL CA is required'')] else []))"

definition validateRequiredFields :: "Connection \<Rightarrow> (string, string) gomap" where
  "validateRequiredFields conn =
     validateSSLRequiredFields conn
       ((if cn_ProductName conn = [] then [(''product_name'', ''product name is required'')] else []) @
        (if cn_ConfigName conn = [] then [(''config_name'', ''config name is required'')]
         else if \<not> configNameRegex (cn_ConfigName conn)
         then [(''config_name'', ''config name can only contain alphanumeric characters, underscores, and hyphens'')]
         else []) @
        (if cn_Port conn \<le> 0 then [(''port'', ''port must be a positive integer'')]
         else if cn_Port conn > 65535 then [(''port'', ''port must be between 1 and 65535'')] else []) @
        (if cn_Host conn = [] then [(''host'', ''host is required'')] else []) @
        (if cn_DatabaseName conn = [] then [(''database_name'', ''database name is required'')] else []) @
        (if cn_Username conn = [] then [(''username'', ''username is required'')] else []) @
        (if cn_PasswordEncrypted conn = [] then [(''password_encrypted'', ''password_encrypted is required'')] else []) @
        (if cn_ID conn = uuid_Nil then [(''id'', ''connection ID is required'')] else []))"

definition validateSSLModeForType :: "DBType \<Rightarrow> string \<Rightarrow> serror option" where
  "validateSSLModeForType t mode =
     (if t = TypeMySQL then ValidateMySQLMode mode
      else if t = TypePostgreSQL then ValidatePostgreSQLMode mode
      else if t = TypeOracle then ValidateOracleMode mode
      else if t = TypeMongoDB then ValidateMongoDBMode mode
      else if t = TypeSQLServer then ValidateSQLServerMode mode
      else None)"

definition validateFieldValues :: "Connection \<Rightarrow> (string, string) gomap" where
  "validateFieldValues conn =
     (if \<not> dbType_IsValid (cn_Type conn) then [(''type'', ''invalid connection type'')] else []) @
     (if length (cn_ConfigName conn) < 3 \<or> length (cn_ConfigName conn) > 100
      then [(''config_name'', ''config name must be between 3 and 100 characters'')] else []) @
     (case cn_SSL conn of
        None \<Rightarrow> []
      | Some ssl \<Rightarrow>
          if ssl_Mode ssl = [] then []
          else (case validateSSLModeForType (cn_Type conn) (ssl_Mode ssl) of
                  None \<Rightarrow> []
                | Some err \<Rightarrow> [(''ssl.mode'', error_text err)]))"

definition conn_IsValid :: "Connection \<Rightarrow> serror option \<times> Connection" where
  "conn_IsValid conn0 =
     (let conn = normalizeFields conn0;
          requiredFields = validateRequiredFields conn;
          knownInvalidFields = validateFieldValues conn
      in (if requiredFields = [] \<and> knownInvalidFields = [] then None
          else Some (ValidateBadRequestFieldsError requiredFields knownInvalidFields ''connection'' []), conn))"

subsection \<open>Creation and change\<close>

definition invalidType :: serror where
  "invalidType = ValidateBadRequestFieldsError [] [(''type'', ''invalid connection type'')] ''connection'' []"

definition sslFrom :: "string option \<Rightarrow> string option \<Rightarrow> string option \<Rightarrow> string option \<Rightarrow> SSLConfig option" where
  "sslFrom sslMode sslCA sslCert sslKey =
     map_option (\<lambda>mode. \<lparr>ssl_Mode = mode, ssl_CA = case sslCA of None \<Rightarrow> [] | Some x \<Rightarrow> x,
                         ssl_Cert = case sslCert of None \<Rightarrow> [] | Some x \<Rightarrow> x,
                         ssl_Key = case sslKey of None \<Rightarrow> [] | Some x \<Rightarrow> x\<rparr>) sslMode"

definition NewConnection ::
  "('w \<Rightarrow> (serror, uuid) result \<times> 'w) \<Rightarrow> ('w \<Rightarrow> int \<times> 'w) \<Rightarrow> 'w Cryptor \<Rightarrow> string \<Rightarrow> string \<Rightarrow> string \<Rightarrow> string \<Rightarrow> int \<Rightarrow>
   string \<Rightarrow> string option \<Rightarrow> string \<Rightarrow> string \<Rightarrow> (string, any) gomap option \<Rightarrow>
   string option \<Rightarrow> string option \<Rightarrow> string option \<Rightarrow> string option \<Rightarrow> 'w \<Rightarrow>
   (Connection option \<times> serror option) \<times> 'w" where
  "NewConnection newV7 now cryptor productName configName typ host port databaseName schema username password
     metadata sslMode sslCA sslCert sslKey w =
     (case newV7 w of
        (Inl err, w1) \<Rightarrow> ((None, Some (ValidateInternalError err ''connection'')), w1)
      | (Inr i, w1) \<Rightarrow>
          (case (if password \<noteq> [] then cr_Encrypt cryptor password w1 else (Inr ([], []), w1)) of
             (Inl err, w2) \<Rightarrow> ((None, Some (ValidateInternalError err ''connection'')), w2)
           | (Inr (passwordEncrypted, keyVersion), w2) \<Rightarrow>
               (case NewTypeFromString typ of
                  Inl _ \<Rightarrow> ((None, Some invalidType), w2)
                | Inr dbType \<Rightarrow>
                    (case now w2 of (created, w3) \<Rightarrow>
                     case now w3 of (updated, w4) \<Rightarrow>
                     case conn_IsValid
                       \<lparr>cn_ID = i, cn_ProductName = productName, cn_ConfigName = configName, cn_Type = dbType,
                        cn_Host = host, cn_Port = port, cn_DatabaseName = databaseName, cn_Schema = schema,
                        cn_Username = username, cn_PasswordEncrypted = passwordEncrypted,
                        cn_EncryptionKeyVersion = keyVersion, cn_SSL = sslFrom sslMode sslCA sslCert sslKey,
                        cn_Metadata = metadata, cn_CreatedAt = created, cn_UpdatedAt = updated,
                        cn_DeletedAt = None, cn_password = []\<rparr>
                     of (err, conn) \<Rightarrow> ((Some conn, err), w4)))))"

text \<open>The DTO of a patch; the update command hands its fields to \<^verbatim>\<open>ApplyPatch\<close> one by one.\<close>

record SSLUpdateInput =
  su_Mode :: "string option"
  su_CA :: "string option"
  su_Cert :: "string option"
  su_Key :: "string option"

record ConnectionUpdateInput =
  cu_ConfigName :: "string option"
  cu_Type :: "string option"
  cu_Host :: "string option"
  cu_Port :: "int option"
  cu_DatabaseName :: "string option"
  cu_Schema :: "string option"
  cu_Username :: "string option"
  cu_Password :: "string option"
  cu_SSL :: "SSLUpdateInput option"
  cu_Metadata :: "(string, any) gomap option"

definition assign_opt :: "'a option \<Rightarrow> 'a \<Rightarrow> 'a" where
  "assign_opt p old = (case p of None \<Rightarrow> old | Some v \<Rightarrow> v)"

definition ApplyPatch ::
  "('w \<Rightarrow> int \<times> 'w) \<Rightarrow> 'w Cryptor option \<Rightarrow> string option \<Rightarrow> string option \<Rightarrow> string option \<Rightarrow> int option \<Rightarrow>
   string option \<Rightarrow> string option \<Rightarrow> string option \<Rightarrow> string option \<Rightarrow> (string, any) gomap option \<Rightarrow>
   string option \<Rightarrow> string option \<Rightarrow> string option \<Rightarrow> string option \<Rightarrow> Connection \<Rightarrow> 'w \<Rightarrow>
   (serror option \<times> Connection) \<times> 'w" where
  "ApplyPatch now enc configName typ host port dbName schema username password metadata
     sslMode sslCA sslCert sslKey conn w =
     (let conn1 = conn\<lparr>cn_ConfigName := assign_opt configName (cn_ConfigName conn)\<rparr>
      in case (case typ of None \<Rightarrow> Inr (cn_Type conn) | Some t \<Rightarrow> NewTypeFromString t) of
           Inl _ \<Rightarrow> ((Some invalidType, conn1), w)
         | Inr connType \<Rightarrow>
             (let conn2 = conn1\<lparr>cn_Type := connType, cn_Host := assign_opt host (cn_Host conn1),
                                cn_Port := assign_opt port (cn_Port conn1),
                                cn_DatabaseName := assign_opt dbName (cn_DatabaseName conn1),
                                cn_Schema := (if schema = None then cn_Schema conn1 else schema),
                                cn_Username := assign_opt username (cn_Username conn1)\<rparr>;
                  secret = (case password of
                              None \<Rightarrow> (Inr (cn_PasswordEncrypted conn, cn_EncryptionKeyVersion conn), w)
                            | Some plain \<Rightarrow>
                                (case enc of
                                   None \<Rightarrow> (Inl (Plain ''cryptor is required to encrypt password''), w)
                                 | Some cryptor \<Rightarrow> cr_Encrypt cryptor plain w))
              in case secret of
                   (Inl err, w1) \<Rightarrow> ((Some (ValidateInternalError err ''connection''), conn2), w1)
                 | (Inr (passwordEncrypted, keyVersion), w1) \<Rightarrow>
                     (case now w1 of (t, w2) \<Rightarrow>
                      (conn_IsValid
                         (conn2\<lparr>cn_PasswordEncrypted := passwordEncrypted, cn_EncryptionKeyVersion := keyVersion,
                                cn_Metadata := (if metadata = None then cn_Metadata conn2 else metadata),
                                cn_SSL := (if sslMode = None then cn_SSL conn2 else sslFrom sslMode sslCA sslCert sslKey),
                                cn_UpdatedAt := t\<rparr>), w2))))"

definition conn_SoftDelete :: "('w \<Rightarrow> int \<times> 'w) \<Rightarrow> int option \<Rightarrow> Connection \<Rightarrow> 'w \<Rightarrow> Connection \<times> 'w" where
  "conn_SoftDelete now ts conn w =
     (case (case ts of None \<Rightarrow> now w | Some t \<Rightarrow> (t, w)) of
        (t, w1) \<Rightarrow> (conn\<lparr>cn_DeletedAt := Some t, cn_UpdatedAt := t\<rparr>, w1))"

definition conn_AssignProductName ::
  "('w \<Rightarrow> int \<times> 'w) \<Rightarrow> string \<Rightarrow> Connection \<Rightarrow> 'w \<Rightarrow> (serror option \<times> Connection) \<times> 'w" where
  "conn_AssignProductName now productName conn w =
     (if cn_ProductName conn \<noteq> []
      then ((Some (ValidateBusinessError (Plain ''FET-1015'') ''connection'' []), conn), w)
      else (case now w of (t, w1) \<Rightarrow> ((None, conn\<lparr>cn_ProductName := productName, cn_UpdatedAt := t\<rparr>), w1)))"

subsection \<open>The password\<close>

definition SetPlaintextPassword :: "string \<Rightarrow> Connection \<Rightarrow> Connection" where
  "SetPlaintextPassword password conn = conn\<lparr>cn_password := password\<rparr>"

definition GetPlaintextPassword :: "Connection \<Rightarrow> string" where
  "GetPlaintextPassword conn = cn_password conn"

definition GetPasswordDecrypted :: "'w Cryptor option \<Rightarrow> Connection \<Rightarrow> (serror, string) result \<times> Connection" where
  "GetPasswordDecrypted cryptor conn =
     (case cryptor of
        None \<Rightarrow> (Inl (Plain ''cryptor is required to decrypt password''), conn)
      | Some c \<Rightarrow>
          (case cr_Decrypt c (cn_PasswordEncrypted conn) (cn_EncryptionKeyVersion conn) of
             Inl err \<Rightarrow> (Inl (ValidateInternalError err ''connection''), conn)
           | Inr plain \<Rightarrow> (Inr plain, conn\<lparr>cn_password := plain\<rparr>)))"

definition DecryptPassword :: "'w Cryptor option \<Rightarrow> Connection \<Rightarrow> serror option \<times> Connection" where
  "DecryptPassword cryptor conn =
     (case cryptor of
        None \<Rightarrow> (Some (Plain ''cryptor is required to decrypt password''), conn)
      | Some c \<Rightarrow>
          (case cr_Decrypt c (cn_PasswordEncrypted conn) (cn_EncryptionKeyVersion conn) of
             Inl err \<Rightarrow> (Some (ValidateInternalError err ''connection''), conn)
           | Inr plain \<Rightarrow> (None, conn\<lparr>cn_password := plain\<rparr>)))"

subsection \<open>Inputs and responses\<close>

record SSLInput =
  si_Mode :: string
  si_CA :: string
  si_Cert :: "string option"
  si_Key :: "string option"

record model_ConnectionInput =
  ci_ConfigName :: string
  ci_Type :: string
  ci_Host :: string
  ci_Port :: int
  ci_DatabaseName :: string
  ci_Schema :: string
  ci_Username :: string
  ci_Password :: string
  ci_SSL :: "SSLInput option"
  ci_Metadata :: "(string, any) gomap option"

definition sslInput_IsEmpty :: "SSLInput option \<Rightarrow> bool" where
  "sslInput_IsEmpty s =
     (case s of
        None \<Rightarrow> True
      | Some s \<Rightarrow> si_Mode s = [] \<and> si_CA s = [] \<and> si_Cert s = None \<and> si_Key s = None)"

definition connectionInput_IsEmpty :: "model_ConnectionInput option \<Rightarrow> bool" where
  "connectionInput_IsEmpty conn =
     (case conn of
        None \<Rightarrow> True
      | Some c \<Rightarrow>
          ci_ConfigName c = [] \<and> ci_Type c = [] \<and> ci_Host c = [] \<and> ci_Port c = 0 \<and> ci_DatabaseName c = [] \<and>
          ci_Schema c = [] \<and> ci_Username c = [] \<and> ci_Password c = [] \<and>
          (ci_SSL c = None \<or> sslInput_IsEmpty (ci_SSL c)) \<and> ci_Metadata c = None)"

definition sslUpdate_IsEmpty :: "SSLUpdateInput option \<Rightarrow> bool" where
  "sslUpdate_IsEmpty s =
     (case s of
        None \<Rightarrow> True
      | Some s \<Rightarrow> su_Mode s = None \<and> su_CA s = None \<and> su_Cert s = None \<and> su_Key s = None)"

definition connectionUpdate_IsEmpty :: "ConnectionUpdateInput option \<Rightarrow> bool" where
  "connectionUpdate_IsEmpty conn =
     (case conn of
        None \<Rightarrow> True
      | Some c \<Rightarrow>
          if cu_ConfigName c \<noteq> None \<or> cu_Type c \<noteq> None \<or> cu_Host c \<noteq> None \<or> cu_Port c \<noteq> None \<or>
             cu_DatabaseName c \<noteq> None \<or> cu_Schema c \<noteq> None \<or> cu_Username c \<noteq> None \<or>
             cu_Password c \<noteq> None \<or> cu_Metadata c \<noteq> None
          then False
          else if cu_SSL c \<noteq> None then sslUpdate_IsEmpty (cu_SSL c) else True)"

record ConnectionResponse =
  rs_ID :: string
  rs_ProductName :: string
  rs_ConfigName :: string
  rs_Type :: string
  rs_Host :: string
  rs_Port :: int
  rs_DatabaseName :: string
  rs_Schema :: "string option"
  rs_Username :: string
  rs_SSL :: "string option"
  rs_Metadata :: "(string, any) gomap option"
  rs_CreatedAt :: int
  rs_UpdatedAt :: int

definition NewConnectionResponseFrom :: "Connection option \<Rightarrow> ConnectionResponse option" where
  "NewConnectionResponseFrom conn =
     map_option (\<lambda>c. \<lparr>rs_ID = cn_ID c, rs_ProductName = cn_ProductName c, rs_ConfigName = cn_ConfigName c,
                      rs_Type = cn_Type c, rs_Host = cn_Host c, rs_Port = cn_Port c,
                      rs_DatabaseName = cn_DatabaseName c, rs_Schema = cn_Schema c, rs_Username = cn_Username c,
                      rs_SSL = map_option ssl_Mode (cn_SSL c), rs_Metadata = cn_Metadata c,
                      rs_CreatedAt = cn_CreatedAt c, rs_UpdatedAt = cn_UpdatedAt c\<rparr>) conn"

subsection \<open>What a valid connection is\<close>

text \<open>The abstract predicate: trimmed and present fields, a port of the range, a configuration name of the
  alphabet and length, a known type, and SSL settings complete and within the driver's list.\<close>

definition ssl_ok :: "Connection \<Rightarrow> bool" where
  "ssl_ok c =
     (case cn_SSL c of
        None \<Rightarrow> True
      | Some ssl \<Rightarrow> ssl_Mode ssl \<noteq> [] \<and> ssl_CA ssl \<noteq> [] \<and> ssl_Mode ssl \<in> set (validModes (cn_Type c)))"

definition conn_ok :: "Connection \<Rightarrow> bool" where
  "conn_ok c \<longleftrightarrow>
     normalizeFields c = c \<and> cn_ProductName c \<noteq> [] \<and> list_all config_char (cn_ConfigName c) \<and>
     3 \<le> length (cn_ConfigName c) \<and> length (cn_ConfigName c) \<le> 100 \<and>
     0 < cn_Port c \<and> cn_Port c \<le> 65535 \<and> cn_Host c \<noteq> [] \<and> cn_DatabaseName c \<noteq> [] \<and> cn_Username c \<noteq> [] \<and>
     cn_PasswordEncrypted c \<noteq> [] \<and> cn_ID c \<noteq> uuid_Nil \<and> dbType_IsValid (cn_Type c) \<and> ssl_ok c"

lemma space_len_prefix: "prefix t s \<Longrightarrow> space_len id s = 0 \<Longrightarrow> space_len id t = 0"
proof -
  assume p: "prefix t s" and z: "space_len id s = 0"
  have ne: "e \<in> set space_encodings \<Longrightarrow> e \<noteq> []" for e by (auto simp: space_encodings_def)
  have "filter (\<lambda>e. prefix e s) space_encodings = []"
  proof (cases "filter (\<lambda>e. prefix e s) space_encodings")
    case (Cons e es)
    then have "e \<in> set space_encodings" by (metis filter_is_subset in_mono list.set_intros(1))
    with ne Cons z show ?thesis by (simp add: space_len_def)
  qed simp
  then have "filter (\<lambda>e. prefix e t) space_encodings = []"
    using p prefix_order.trans by (auto simp: filter_empty_conv)
  then show "space_len id t = 0" by (simp add: space_len_def)
qed

lemma trim_front_done: "trim_front f s = [] \<or> space_len f (trim_front f s) = 0"
proof (induction f s rule: trim_front.induct)
  case (1 f s)
  then show ?case by (cases "s = [] \<or> space_len f s = 0") (auto simp: trim_front.simps[of f s])
qed

lemma TrimSpace_idem [simp]: "TrimSpace (TrimSpace s) = TrimSpace s"
proof -
  let ?a = "trim_front id s" and ?b = "trim_front rev (rev (trim_front id s))"
  have "prefix (rev ?b) ?a" using trim_front_suffix[of rev "rev ?a"] by (simp add: suffix_to_prefix)
  then have "rev ?b = [] \<or> space_len id (rev ?b) = 0"
    using trim_front_done[of id s] space_len_prefix by (cases "?a = []") auto
  then have "trim_front id (rev ?b) = rev ?b" by (subst trim_front.simps) simp
  then show ?thesis by (simp add: TrimSpace_def trim_front_idem)
qed

lemma normalize_idem [simp]: "normalizeFields (normalizeFields c) = normalizeFields c"
  by (simp add: normalizeFields_def)

lemma ssl_mode_table: "dbType_IsValid t \<Longrightarrow> validateSSLModeForType t mode = None \<longleftrightarrow> mode \<in> set (validModes t)"
  by (auto simp: dbType_IsValid_def validTypes_def validateSSLModeForType_def validModes_def ssl_mode_checks)

lemma required_iff:
  "validateRequiredFields c = [] \<longleftrightarrow>
     cn_ProductName c \<noteq> [] \<and> cn_ConfigName c \<noteq> [] \<and> list_all config_char (cn_ConfigName c) \<and>
     0 < cn_Port c \<and> cn_Port c \<le> 65535 \<and> cn_Host c \<noteq> [] \<and> cn_DatabaseName c \<noteq> [] \<and> cn_Username c \<noteq> [] \<and>
     cn_PasswordEncrypted c \<noteq> [] \<and> cn_ID c \<noteq> uuid_Nil \<and>
     (\<forall>ssl. cn_SSL c = Some ssl \<longrightarrow> ssl_Mode ssl \<noteq> [] \<and> ssl_CA ssl \<noteq> [])"
  by (cases "cn_SSL c") (auto simp: validateRequiredFields_def validateSSLRequiredFields_def configNameRegex_def)

lemma values_iff:
  "validateFieldValues c = [] \<longleftrightarrow>
     dbType_IsValid (cn_Type c) \<and> 3 \<le> length (cn_ConfigName c) \<and> length (cn_ConfigName c) \<le> 100 \<and>
     (\<forall>ssl. cn_SSL c = Some ssl \<longrightarrow> ssl_Mode ssl = [] \<or> ssl_Mode ssl \<in> set (validModes (cn_Type c)))"
  by (cases "cn_SSL c")
    (auto simp: validateFieldValues_def ssl_mode_table[symmetric] split: option.splits)

lemma IsValid_iff: "conn_IsValid c = (None, c') \<longleftrightarrow> c' = normalizeFields c \<and> conn_ok c'"
proof -
  have "conn_IsValid c = (None, c') \<longleftrightarrow>
      c' = normalizeFields c \<and> validateRequiredFields c' = [] \<and> validateFieldValues c' = []"
    by (auto simp: conn_IsValid_def Let_def)
  also have "\<dots> \<longleftrightarrow> c' = normalizeFields c \<and> conn_ok c'"
    by (auto simp: conn_ok_def ssl_ok_def required_iff values_iff split: option.splits)
  finally show ?thesis .
qed

text \<open>A refusal lists the missing fields, or, when none is missing, the invalid ones.\<close>

lemma IsValid_error:
  assumes "conn_IsValid c = (Some e, c')"
  shows "\<not> conn_ok c'"
    and "\<exists>code title message fields. e = KnownFieldsError ''connection'' code title message fields \<and> fields \<noteq> [] \<and>
      fields = (if validateRequiredFields c' \<noteq> [] then validateRequiredFields c' else validateFieldValues c')"
proof -
  have "c' = normalizeFields c" using assms by (simp add: conn_IsValid_def Let_def)
  then show "\<not> conn_ok c'" using assms IsValid_iff[of c c'] by auto
  show "\<exists>code title message fields. e = KnownFieldsError ''connection'' code title message fields \<and> fields \<noteq> [] \<and>
      fields = (if validateRequiredFields c' \<noteq> [] then validateRequiredFields c' else validateFieldValues c')"
    using assms by (auto simp: conn_IsValid_def Let_def ValidateBadRequestFieldsError_def split: if_splits)
qed


subsection \<open>The calls of the commands\<close>

definition extractSSLFields ::
  "model_ConnectionInput \<Rightarrow> string option \<times> string option \<times> string option \<times> string option" where
  "extractSSLFields input =
     (if ci_SSL input = None \<or> sslInput_IsEmpty (ci_SSL input) then (None, None, None, None)
      else (let s = the (ci_SSL input) in (Some (si_Mode s), Some (si_CA s), si_Cert s, si_Key s)))"

definition connection_of_input ::
  "('w \<Rightarrow> (serror, uuid) result \<times> 'w) \<Rightarrow> ('w \<Rightarrow> int \<times> 'w) \<Rightarrow> 'w Cryptor \<Rightarrow> model_ConnectionInput \<Rightarrow> string \<Rightarrow> 'w \<Rightarrow>
   (Connection option \<times> serror option) \<times> 'w" where
  "connection_of_input newV7 now cryptor input productName w =
     (case extractSSLFields input of (sslMode, sslCA, sslCert, sslKey) \<Rightarrow>
        NewConnection newV7 now cryptor productName (ci_ConfigName input) (ci_Type input) (ci_Host input)
          (ci_Port input) (ci_DatabaseName input) (if ci_Schema input \<noteq> [] then Some (ci_Schema input) else None)
          (ci_Username input) (ci_Password input) (ci_Metadata input) sslMode sslCA sslCert sslKey w)"

definition patch_of_input ::
  "('w \<Rightarrow> int \<times> 'w) \<Rightarrow> 'w Cryptor option \<Rightarrow> ConnectionUpdateInput \<Rightarrow> Connection \<Rightarrow> 'w \<Rightarrow>
   (serror option \<times> Connection) \<times> 'w" where
  "patch_of_input now cryptor u conn w =
     (let ssl = (\<lambda>f. Option.bind (cu_SSL u) f)
      in ApplyPatch now cryptor (cu_ConfigName u) (cu_Type u) (cu_Host u) (cu_Port u) (cu_DatabaseName u)
           (cu_Schema u) (cu_Username u) (cu_Password u) (cu_Metadata u)
           (ssl su_Mode) (ssl su_CA) (ssl su_Cert) (ssl su_Key) conn w)"

text \<open>What a successful creation fixes.\<close>

lemma created_connection:
  assumes "connection_of_input newV7 now cryptor input productName w = ((Some c, None), w')"
  shows "conn_ok c" and "cn_ProductName c = TrimSpace productName" and "cn_Host c = TrimSpace (ci_Host input)"
    and "cn_Port c = ci_Port input" and "cn_Username c = TrimSpace (ci_Username input)"
    and "cn_DatabaseName c = TrimSpace (ci_DatabaseName input)" and "cn_DeletedAt c = None" and "cn_password c = []"
    and "\<exists>w1 w2. cr_Encrypt cryptor (ci_Password input) w1 =
      (Inr (cn_PasswordEncrypted c, cn_EncryptionKeyVersion c), w2)"
    and "ci_Password input \<noteq> []"
proof -
  obtain c0 w1 w2 where v: "conn_IsValid c0 = (None, c)"
    and f: "cn_ProductName c0 = productName" "cn_Host c0 = ci_Host input" "cn_Port c0 = ci_Port input"
      "cn_Username c0 = ci_Username input" "cn_DatabaseName c0 = ci_DatabaseName input"
      "cn_DeletedAt c0 = None" "cn_password c0 = []"
    and e: "(if ci_Password input \<noteq> [] then cr_Encrypt cryptor (ci_Password input) w1 else (Inr ([], []), w1)) =
      (Inr (cn_PasswordEncrypted c0, cn_EncryptionKeyVersion c0), w2)"
    using assms unfolding connection_of_input_def NewConnection_def
    by (fastforce split: prod.splits sum.splits)
  have n: "c = normalizeFields c0" "conn_ok c" using v by (auto simp: IsValid_iff)
  then show "conn_ok c" and "cn_ProductName c = TrimSpace productName" and "cn_Host c = TrimSpace (ci_Host input)"
    and "cn_Port c = ci_Port input" and "cn_Username c = TrimSpace (ci_Username input)"
    and "cn_DatabaseName c = TrimSpace (ci_DatabaseName input)" and "cn_DeletedAt c = None" and "cn_password c = []"
    using f by (simp_all add: normalizeFields_def)
  have "cn_PasswordEncrypted c0 \<noteq> []" using n by (simp add: conn_ok_def normalizeFields_def)
  then show "\<exists>w1 w2. cr_Encrypt cryptor (ci_Password input) w1 =
      (Inr (cn_PasswordEncrypted c, cn_EncryptionKeyVersion c), w2)"
    and "ci_Password input \<noteq> []"
    using e n by (auto simp: normalizeFields_def split: if_splits)
qed


subsection \<open>Properties\<close>


definition conn_1 :: "string \<Rightarrow> Connection" where
  "conn_1 host =
     \<lparr>cn_ID = ''c-1'', cn_ProductName = ''shop'', cn_ConfigName = ''prod-db'', cn_Type = TypePostgreSQL,
      cn_Host = host, cn_Port = 80, cn_DatabaseName = ''shop'', cn_Schema = None, cn_Username = ''app'',
      cn_PasswordEncrypted = ''c2VjcmV0'', cn_EncryptionKeyVersion = ''1'', cn_SSL = None, cn_Metadata = None,
      cn_CreatedAt = 7, cn_UpdatedAt = 7, cn_DeletedAt = None, cn_password = []\<rparr>"

definition patch_1 :: ConnectionUpdateInput where
  "patch_1 =
     \<lparr>cu_ConfigName = None, cu_Type = None, cu_Host = Some ''db2.example.com'', cu_Port = None, cu_DatabaseName = None,
      cu_Schema = None, cu_Username = None, cu_Password = None, cu_SSL = None, cu_Metadata = None\<rparr>"


text \<open>An empty password is never accepted at creation, but a patch accepts it and stores its encryption.\<close>

definition echo_1 :: "unit Cryptor" where
  "echo_1 = \<lparr>cr_Encrypt = (\<lambda>plain w. (Inr (''sealed:'' @ plain, ''1''), w)),
             cr_Decrypt = (\<lambda>t v. Inr (drop 7 t)), cr_KeyVersion = ''1''\<rparr>"

lemma empty_password_patch:
  "fst (fst (patch_of_input (\<lambda>w. (7, w)) (Some echo_1) (patch_1\<lparr>cu_Password := Some []\<rparr>) (conn_1 ''db.example.com'') ())) = None"
  by code_simp

end
