(* ===== verification/Sql_Filters.thy ===== *)
theory Sql_Filters
  imports Connection_Model Business_Errors Job_Model
begin

text \<open>
  How a job's filters become a query (\<^verbatim>\<open>pkg/postgres\<close>, \<^verbatim>\<open>pkg/mysql\<close>,
  \<^verbatim>\<open>pkg/sqlserver\<close>, \<^verbatim>\<open>pkg/oracle\<close>, the \<^verbatim>\<open>datasource.*.go\<close> of each). The query builder is the
  record of the calls made on it; what a predicate selects, \<^verbatim>\<open>uuid.Parse\<close> and the execution of a query are
  parameters. The operators are the same code in the four packages; the lookups of tables and columns are not.
\<close>

subsection \<open>The schema and the query builder\<close>

record ColumnInformation =
  col_Name :: string
  col_DataType :: string
  col_IsNullable :: bool
  col_IsPrimaryKey :: bool

record SqlTable =
  tb_TableName :: string
  tb_Columns :: "ColumnInformation list"

datatype predicate =
    SqEq (sq_field: string) any
  | SqNotEq (sq_field: string) any
  | SqGt (sq_field: string) any
  | SqGtOrEq (sq_field: string) any
  | SqLt (sq_field: string) any
  | SqLtOrEq (sq_field: string) any
  | SqLike (sq_field: string) string
  | SqIn (sq_field: string) "any list"

record SelectBuilder =
  sb_Columns :: "string list"
  sb_From :: string
  sb_Where :: "predicate list"

definition sq_Where :: "predicate \<Rightarrow> SelectBuilder \<Rightarrow> SelectBuilder" where
  "sq_Where p b = b\<lparr>sb_Where := sb_Where b @ [p]\<rparr>"

subsection \<open>The operators of a condition\<close>

definition isDateField :: "string \<Rightarrow> bool" where
  "isDateField fieldName \<longleftrightarrow>
     (\<exists>p \<in> set [''created_at'', ''updated_at'', ''deleted_at'', ''completed_at'', ''date'', ''time'', ''_at'', ''_date'', ''_time''].
        sublist p (ToLower fieldName))"

definition isDateString :: "any \<Rightarrow> bool" where
  "isDateString v =
     (case v of
        AString s \<Rightarrow> length s \<ge> 10 \<and> sublist ''-'' s \<and> (length s = 10 \<or> sublist ''T'' s)
      | _ \<Rightarrow> False)"

definition adjustEndDateIfNeeded :: "string \<Rightarrow> any \<Rightarrow> any \<Rightarrow> any" where
  "adjustEndDateIfNeeded field startValue endValue =
     (if \<not> isDateField field \<or> \<not> isDateString startValue \<or> \<not> isDateString endValue then endValue
      else (case endValue of
              AString s \<Rightarrow> if length s \<noteq> 10 then endValue else AString (s @ ''T23:59:59.999Z'')
            | _ \<Rightarrow> endValue))"

definition applyEqualsFilter :: "SelectBuilder \<Rightarrow> string \<Rightarrow> FilterCondition \<Rightarrow> SelectBuilder" where
  "applyEqualsFilter b field c =
     (case fc_Equals c of
        [] \<Rightarrow> b
      | [v] \<Rightarrow> sq_Where (SqEq field v) b
      | vs \<Rightarrow> sq_Where (SqEq field (ASlice vs)) b)"

definition apply_first :: "(any \<Rightarrow> predicate) \<Rightarrow> any list \<Rightarrow> SelectBuilder \<Rightarrow> SelectBuilder" where
  "apply_first p vs b = (case vs of [] \<Rightarrow> b | v # _ \<Rightarrow> sq_Where (p v) b)"

definition applyComparisonFilters :: "SelectBuilder \<Rightarrow> string \<Rightarrow> FilterCondition \<Rightarrow> SelectBuilder" where
  "applyComparisonFilters b field c =
     apply_first (SqLtOrEq field) (fc_LessOrEqual c)
       (apply_first (SqLt field) (fc_LessThan c)
         (apply_first (SqGtOrEq field) (fc_GreaterOrEqual c) (apply_first (SqGt field) (fc_GreaterThan c) b)))"

definition applyBetweenFilter :: "SelectBuilder \<Rightarrow> string \<Rightarrow> FilterCondition \<Rightarrow> SelectBuilder" where
  "applyBetweenFilter b field c =
     (case fc_Between c of
        [x, y] \<Rightarrow> sq_Where (SqLtOrEq field (adjustEndDateIfNeeded field x y)) (sq_Where (SqGtOrEq field x) b)
      | _ \<Rightarrow> b)"

definition applyInFilters :: "SelectBuilder \<Rightarrow> string \<Rightarrow> FilterCondition \<Rightarrow> SelectBuilder" where
  "applyInFilters b field c =
     (let b1 = (if fc_In c \<noteq> [] then sq_Where (SqEq field (ASlice (fc_In c))) b else b)
      in if fc_NotIn c \<noteq> [] then sq_Where (SqNotEq field (ASlice (fc_NotIn c))) b1 else b1)"

definition applyNotEqualsFilter :: "SelectBuilder \<Rightarrow> string \<Rightarrow> FilterCondition \<Rightarrow> SelectBuilder" where
  "applyNotEqualsFilter b field c = foldl (\<lambda>b v. sq_Where (SqNotEq field v) b) b (fc_NotEquals c)"

definition applyLikeFilter :: "SelectBuilder \<Rightarrow> string \<Rightarrow> FilterCondition \<Rightarrow> SelectBuilder" where
  "applyLikeFilter b field c =
     (case fc_Like c of AString pattern # _ \<Rightarrow> sq_Where (SqLike field pattern) b | _ \<Rightarrow> b)"

definition applyAdvancedFilter :: "SelectBuilder \<Rightarrow> string \<Rightarrow> FilterCondition \<Rightarrow> SelectBuilder" where
  "applyAdvancedFilter b field c =
     applyLikeFilter
       (applyNotEqualsFilter
         (applyInFilters (applyBetweenFilter (applyComparisonFilters (applyEqualsFilter b field c) field c) field c) field c)
         field c)
       field c"

subsection \<open>The validation of a condition\<close>

definition isFilterConditionEmpty :: "FilterCondition \<Rightarrow> bool" where
  "isFilterConditionEmpty c \<longleftrightarrow>
     fc_Equals c = [] \<and> fc_GreaterThan c = [] \<and> fc_GreaterOrEqual c = [] \<and> fc_LessThan c = [] \<and>
     fc_LessOrEqual c = [] \<and> fc_Between c = [] \<and> fc_In c = [] \<and> fc_NotIn c = [] \<and> fc_NotEquals c = [] \<and> fc_Like c = []"

definition isLikelyUUIDField :: "string \<Rightarrow> bool" where
  "isLikelyUUIDField fieldName \<longleftrightarrow>
     (\<exists>p \<in> set [''id'', ''_id'', ''uuid'', ''template_id'', ''organization_id'', ''user_id'', ''account_id''].
        sublist p (ToLower fieldName))"

definition not_uuid :: "(string \<Rightarrow> bool) \<Rightarrow> any \<Rightarrow> string option" where
  "not_uuid isValidUUIDFormat v =
     (case v of AString s \<Rightarrow> if isValidUUIDFormat s then None else Some s | _ \<Rightarrow> None)"

definition validateUUIDFieldValues :: "(string \<Rightarrow> bool) \<Rightarrow> string \<Rightarrow> FilterCondition \<Rightarrow> serror option" where
  "validateUUIDFieldValues isValidUUIDFormat fieldName c =
     (case List.map_filter (not_uuid isValidUUIDFormat)
             (fc_Equals c @ fc_GreaterThan c @ fc_GreaterOrEqual c @ fc_LessThan c @ fc_LessOrEqual c @ fc_Between c @
              fc_In c @ fc_NotIn c) of
        [] \<Rightarrow> None
      | s # _ \<Rightarrow>
          Some (Plain (''field '' @ squoted fieldName @ '' appears to be a UUID field but received non-UUID value '' @ squoted s @
            ''. UUID fields require valid UUID format (e.g., '' @ squoted ''550e8400-e29b-41d4-a716-446655440000'' @
            '') or use a date field for date filtering'')))"

text \<open>The operators with one value are visited in the order of a Go map; the model takes one of the orders.\<close>

definition validateFilterCondition :: "(string \<Rightarrow> bool) \<Rightarrow> string \<Rightarrow> FilterCondition \<Rightarrow> serror option" where
  "validateFilterCondition isValidUUIDFormat fieldName c =
     (if fc_Between c \<noteq> [] \<and> length (fc_Between c) \<noteq> 2
      then Some (Plain (''between operator for field '' @ squoted fieldName @ '' must have exactly 2 values, got '' @
             itoa (int (length (fc_Between c)))))
      else
        (case filter (\<lambda>(_, vs). vs \<noteq> [] \<and> length vs \<noteq> 1)
                [(''gt'', fc_GreaterThan c), (''gte'', fc_GreaterOrEqual c), (''lt'', fc_LessThan c), (''lte'', fc_LessOrEqual c)] of
           (opName, vs) # _ \<Rightarrow>
             Some (Plain (opName @ '' operator for field '' @ squoted fieldName @ '' must have exactly 1 value, got '' @
               itoa (int (length vs))))
         | [] \<Rightarrow>
             if isLikelyUUIDField fieldName then validateUUIDFieldValues isValidUUIDFormat fieldName c else None))"

subsection \<open>Tables and columns\<close>

definition find_table :: "(string \<Rightarrow> bool) \<Rightarrow> SqlTable list \<Rightarrow> ColumnInformation list option" where
  "find_table p schema = map_option tb_Columns (find (\<lambda>t. p (tb_TableName t)) schema)"

definition known_exact :: "ColumnInformation list \<Rightarrow> string \<Rightarrow> string option" where
  "known_exact cols f = (if f \<in> set (map col_Name cols) then Some f else None)"

definition known_folded :: "ColumnInformation list \<Rightarrow> string \<Rightarrow> string option" where
  "known_folded cols f =
     (if ToUpper f \<in> set (map (\<lambda>c. ToUpper (col_Name c)) cols)
      then Some (case find (\<lambda>c. EqualFold (col_Name c) f) cols of Some c \<Rightarrow> col_Name c | None \<Rightarrow> [])
      else None)"

definition known_in ::
  "(ColumnInformation list \<Rightarrow> string \<Rightarrow> string option) \<Rightarrow> ColumnInformation list option \<Rightarrow> string \<Rightarrow> string option" where
  "known_in known cols f = (case cols of None \<Rightarrow> None | Some cs \<Rightarrow> known cs f)"

definition validate_fields ::
  "(ColumnInformation list \<Rightarrow> string \<Rightarrow> string option) \<Rightarrow> ColumnInformation list option \<Rightarrow> string \<Rightarrow> string list \<Rightarrow>
   (serror, string list) result" where
  "validate_fields known found tableName requestedFields =
     (case found of
        None \<Rightarrow> Inl (Plain (''table '' @ squoted tableName @ '' does not exist in the database''))
      | Some cols \<Rightarrow>
          if requestedFields = [''*''] then Inr (map col_Name cols)
          else
            (let invalidFields = filter (\<lambda>f. known cols f = None) requestedFields;
                 validFields = List.map_filter (known cols) requestedFields
             in if invalidFields \<noteq> []
                then Inl (Plain (''invalid fields for table '' @ squoted tableName @ '': ['' @ join '' '' invalidFields @ '']''))
                else if validFields = []
                then Inl (Plain (''no valid fields specified for table '' @ squoted tableName))
                else Inr validFields))"

definition postgres_table :: "SqlTable list \<Rightarrow> string \<Rightarrow> ColumnInformation list option" where
  "postgres_table schema table =
     find_table (\<lambda>n. n = NormalizeTableNameForLookup table DefaultSchemaPostgreSQL) schema"

definition sqlserver_table :: "SqlTable list \<Rightarrow> string \<Rightarrow> ColumnInformation list option" where
  "sqlserver_table schema table =
     find_table (\<lambda>n. n = NormalizeTableNameForLookup table DefaultSchemaSQLServer) schema"

definition mysql_table :: "SqlTable list \<Rightarrow> string \<Rightarrow> ColumnInformation list option" where
  "mysql_table schema table = find_table (\<lambda>n. n = table) schema"

text \<open>Oracle looks a table up by its name without the current schema to validate it, and by the name as it was
  requested to filter it.\<close>

definition oracle_table :: "string \<Rightarrow> SqlTable list \<Rightarrow> string \<Rightarrow> ColumnInformation list option" where
  "oracle_table currentSchema schema table =
     find_table (\<lambda>n. EqualFold n (NormalizeTableNameForLookup table currentSchema)) schema"

definition oracle_filter_table :: "SqlTable list \<Rightarrow> string \<Rightarrow> ColumnInformation list option" where
  "oracle_filter_table schema table = find_table (\<lambda>n. EqualFold n table) schema"

datatype SqlDriver = PostgresDriver | MySQLDriver | SQLServerDriver | OracleDriver string

definition postgres_ValidateTableAndFields :: "string \<Rightarrow> string list \<Rightarrow> SqlTable list \<Rightarrow> (serror, string list) result" where
  "postgres_ValidateTableAndFields table requested schema =
     validate_fields known_exact (postgres_table schema table) table requested"

definition mysql_ValidateTableAndFields :: "string \<Rightarrow> string list \<Rightarrow> SqlTable list \<Rightarrow> (serror, string list) result" where
  "mysql_ValidateTableAndFields table requested schema =
     validate_fields known_exact (mysql_table schema table) table requested"

definition sqlserver_ValidateTableAndFields :: "string \<Rightarrow> string list \<Rightarrow> SqlTable list \<Rightarrow> (serror, string list) result" where
  "sqlserver_ValidateTableAndFields table requested schema =
     validate_fields known_exact (sqlserver_table schema table) table requested"

definition oracle_ValidateTableAndFields ::
  "string \<Rightarrow> string \<Rightarrow> string list \<Rightarrow> SqlTable list \<Rightarrow> (serror, string list) result" where
  "oracle_ValidateTableAndFields currentSchema table requested schema =
     validate_fields known_folded (oracle_table currentSchema schema table) table requested"

fun add_conditions ::
  "(string \<Rightarrow> bool) \<Rightarrow> (string \<Rightarrow> string option) \<Rightarrow> (string, FilterCondition) gomap \<Rightarrow> SelectBuilder \<Rightarrow>
   (serror, SelectBuilder) result" where
  "add_conditions uuidOk known [] b = Inr b"
| "add_conditions uuidOk known ((field, c) # rest) b =
     (case known field of
        None \<Rightarrow> add_conditions uuidOk known rest b
      | Some col \<Rightarrow>
          if isFilterConditionEmpty c then add_conditions uuidOk known rest b
          else (case validateFilterCondition uuidOk field c of
                  Some err \<Rightarrow> Inl err
                | None \<Rightarrow> add_conditions uuidOk known rest (applyAdvancedFilter b col c)))"

definition postgres_buildAdvancedFilters ::
  "(string \<Rightarrow> bool) \<Rightarrow> SelectBuilder \<Rightarrow> SqlTable list \<Rightarrow> string \<Rightarrow> (string, FilterCondition) gomap \<Rightarrow>
   (serror, SelectBuilder) result" where
  "postgres_buildAdvancedFilters uuidOk b schema table filters =
     add_conditions uuidOk (known_in known_exact (postgres_table schema table)) filters b"

definition mysql_buildAdvancedFilters ::
  "(string \<Rightarrow> bool) \<Rightarrow> SelectBuilder \<Rightarrow> SqlTable list \<Rightarrow> string \<Rightarrow> (string, FilterCondition) gomap \<Rightarrow>
   (serror, SelectBuilder) result" where
  "mysql_buildAdvancedFilters uuidOk b schema table filters =
     add_conditions uuidOk (known_in known_exact (mysql_table schema table)) filters b"

definition sqlserver_buildAdvancedFilters ::
  "(string \<Rightarrow> bool) \<Rightarrow> SelectBuilder \<Rightarrow> SqlTable list \<Rightarrow> string \<Rightarrow> (string, FilterCondition) gomap \<Rightarrow>
   (serror, SelectBuilder) result" where
  "sqlserver_buildAdvancedFilters uuidOk b schema table filters =
     add_conditions uuidOk (known_in known_exact (sqlserver_table schema table)) filters b"

definition oracle_buildAdvancedFilters ::
  "(string \<Rightarrow> bool) \<Rightarrow> SelectBuilder \<Rightarrow> SqlTable list \<Rightarrow> string \<Rightarrow> (string, FilterCondition) gomap \<Rightarrow>
   (serror, SelectBuilder) result" where
  "oracle_buildAdvancedFilters uuidOk b schema table filters =
     add_conditions uuidOk (known_in known_folded (oracle_filter_table schema table)) filters b"

subsection \<open>The query\<close>

definition ValidateTableAndFields :: "SqlDriver \<Rightarrow> string \<Rightarrow> string list \<Rightarrow> SqlTable list \<Rightarrow> (serror, string list) result" where
  "ValidateTableAndFields d =
     (case d of
        PostgresDriver \<Rightarrow> postgres_ValidateTableAndFields
      | MySQLDriver \<Rightarrow> mysql_ValidateTableAndFields
      | SQLServerDriver \<Rightarrow> sqlserver_ValidateTableAndFields
      | OracleDriver currentSchema \<Rightarrow> oracle_ValidateTableAndFields currentSchema)"

definition buildAdvancedFilters ::
  "SqlDriver \<Rightarrow> (string \<Rightarrow> bool) \<Rightarrow> SelectBuilder \<Rightarrow> SqlTable list \<Rightarrow> string \<Rightarrow> (string, FilterCondition) gomap \<Rightarrow>
   (serror, SelectBuilder) result" where
  "buildAdvancedFilters d =
     (case d of
        PostgresDriver \<Rightarrow> postgres_buildAdvancedFilters
      | MySQLDriver \<Rightarrow> mysql_buildAdvancedFilters
      | SQLServerDriver \<Rightarrow> sqlserver_buildAdvancedFilters
      | OracleDriver _ \<Rightarrow> oracle_buildAdvancedFilters)"

text \<open>\<open>run\<close> is \<^verbatim>\<open>ToSql\<close>, \<^verbatim>\<open>QueryContext\<close> under the timeout, and the scan of the rows.\<close>

definition QueryWithAdvancedFilters ::
  "SqlDriver \<Rightarrow> (string \<Rightarrow> bool) \<Rightarrow> (SelectBuilder \<Rightarrow> 'w \<Rightarrow> (serror, row list) result \<times> 'w) \<Rightarrow> SqlTable list \<Rightarrow> string \<Rightarrow>
   string list \<Rightarrow> (string, FilterCondition) gomap \<Rightarrow> 'w \<Rightarrow> (serror, row list) result \<times> 'w" where
  "QueryWithAdvancedFilters d uuidOk run schema table requested filters w =
     (case ValidateTableAndFields d table requested schema of
        Inl err \<Rightarrow> (Inl err, w)
      | Inr queriedFields \<Rightarrow>
          (case buildAdvancedFilters d uuidOk \<lparr>sb_Columns = queriedFields, sb_From = table, sb_Where = []\<rparr> schema table filters of
             Inl err \<Rightarrow> (Inl (wrap ''error building advanced filters'' err), w)
           | Inr query \<Rightarrow> run query w))"

text \<open>The simple query: the drivers differ in how they write a list of values.\<close>

definition applyFilter :: "SqlDriver \<Rightarrow> SelectBuilder \<Rightarrow> string \<Rightarrow> any list \<Rightarrow> SelectBuilder" where
  "applyFilter d b fieldName vs =
     (if vs = [] then b
      else (case d of
              MySQLDriver \<Rightarrow> sq_Where (SqIn fieldName vs) b
            | OracleDriver _ \<Rightarrow> sq_Where (SqIn fieldName vs) b
            | _ \<Rightarrow> (case vs of [v] \<Rightarrow> sq_Where (SqEq fieldName v) b | _ \<Rightarrow> sq_Where (SqEq fieldName (ASlice vs)) b)))"

definition filter_columns :: "SqlDriver \<Rightarrow> SqlTable list \<Rightarrow> string \<Rightarrow> string \<Rightarrow> string option" where
  "filter_columns d schema table =
     (case d of
        PostgresDriver \<Rightarrow> known_in known_exact (postgres_table schema table)
      | MySQLDriver \<Rightarrow> known_in known_exact (mysql_table schema table)
      | SQLServerDriver \<Rightarrow> known_in known_exact (sqlserver_table schema table)
      | OracleDriver _ \<Rightarrow> known_in known_folded (oracle_filter_table schema table))"

definition buildDynamicFilters ::
  "SqlDriver \<Rightarrow> SelectBuilder \<Rightarrow> SqlTable list \<Rightarrow> string \<Rightarrow> (string, any list) gomap \<Rightarrow> SelectBuilder" where
  "buildDynamicFilters d b schema table filters =
     foldl (\<lambda>b (field, vs).
       case filter_columns d schema table field of
         None \<Rightarrow> b
       | Some col \<Rightarrow> if vs \<noteq> [] then applyFilter d b col vs else b) b filters"

definition sql_Query ::
  "SqlDriver \<Rightarrow> (SelectBuilder \<Rightarrow> 'w \<Rightarrow> (serror, row list) result \<times> 'w) \<Rightarrow> SqlTable list \<Rightarrow> string \<Rightarrow>
   string list \<Rightarrow> (string, any list) gomap \<Rightarrow> 'w \<Rightarrow> (serror, row list) result \<times> 'w" where
  "sql_Query d run schema table requested filters w =
     (case ValidateTableAndFields d table requested schema of
        Inl err \<Rightarrow> (Inl err, w)
      | Inr queriedFields \<Rightarrow>
          run (buildDynamicFilters d \<lparr>sb_Columns = queriedFields, sb_From = table, sb_Where = []\<rparr> schema table filters) w)"

subsection \<open>What a condition means\<close>

text \<open>The reference: each operator of the condition, on the values themselves. The end of a range of dates that is a bare
  day, on a column named like a date or a time, is the last millisecond of that day. Of the patterns of
  \<^verbatim>\<open>Like\<close> only the first counts, and only if it is a text.\<close>

definition day_column :: "string \<Rightarrow> bool" where
  "day_column f \<longleftrightarrow> sublist ''date'' (ToLower f) \<or> sublist ''time'' (ToLower f) \<or> sublist ''_at'' (ToLower f)"

fun bare_day :: "any \<Rightarrow> bool" where
  "bare_day (AString s) \<longleftrightarrow> length s = 10 \<and> CHR ''-'' \<in> set s"
| "bare_day _ \<longleftrightarrow> False"

fun day_and_time :: "any \<Rightarrow> bool" where
  "day_and_time (AString s) \<longleftrightarrow> length s > 10 \<and> CHR ''-'' \<in> set s \<and> CHR ''T'' \<in> set s"
| "day_and_time _ \<longleftrightarrow> False"

fun end_of_day :: "any \<Rightarrow> any" where
  "end_of_day (AString s) = AString (s @ ''T23:59:59.999Z'')"
| "end_of_day v = v"

definition range_end :: "string \<Rightarrow> any \<Rightarrow> any \<Rightarrow> any" where
  "range_end f x y = (if day_column f \<and> (bare_day x \<or> day_and_time x) \<and> bare_day y then end_of_day y else y)"

definition cond_spec :: "(predicate \<Rightarrow> 'r \<Rightarrow> bool) \<Rightarrow> string \<Rightarrow> FilterCondition \<Rightarrow> 'r \<Rightarrow> bool" where
  "cond_spec holds f c r \<longleftrightarrow>
     (fc_Equals c \<noteq> [] \<longrightarrow> (\<exists>v \<in> set (fc_Equals c). holds (SqEq f v) r)) \<and>
     (\<forall>v \<in> set (fc_GreaterThan c). holds (SqGt f v) r) \<and> (\<forall>v \<in> set (fc_GreaterOrEqual c). holds (SqGtOrEq f v) r) \<and>
     (\<forall>v \<in> set (fc_LessThan c). holds (SqLt f v) r) \<and> (\<forall>v \<in> set (fc_LessOrEqual c). holds (SqLtOrEq f v) r) \<and>
     (fc_Between c \<noteq> [] \<longrightarrow>
        holds (SqGtOrEq f (fc_Between c ! 0)) r \<and> holds (SqLtOrEq f (range_end f (fc_Between c ! 0) (fc_Between c ! 1))) r) \<and>
     (fc_In c \<noteq> [] \<longrightarrow> (\<exists>v \<in> set (fc_In c). holds (SqEq f v) r)) \<and>
     (\<forall>v \<in> set (fc_NotIn c). holds (SqNotEq f v) r) \<and> (\<forall>v \<in> set (fc_NotEquals c). holds (SqNotEq f v) r) \<and>
     (\<forall>p \<in> set (take 1 (fc_Like c)). case p of AString pattern \<Rightarrow> holds (SqLike f pattern) r | _ \<Rightarrow> True)"

lemma sublist_letter: "sublist [c] s \<longleftrightarrow> c \<in> set s"
  by (metis Cons_eq_append_conv append_Cons append_Nil in_set_conv_decomp sublist_def)

lemma date_field: "isDateField f \<longleftrightarrow> day_column f"
proof -
  have sub: "sublist xs t" if "sublist ys t" "sublist xs ys" for xs ys t :: string
    using that by (auto simp: sublist_def) (metis append.assoc)
  have "sublist ''_at'' ''created_at''" "sublist ''_at'' ''updated_at''" "sublist ''_at'' ''deleted_at''"
    "sublist ''_at'' ''completed_at''" "sublist ''date'' ''_date''" "sublist ''time'' ''_time''" by code_simp+
  with sub show ?thesis unfolding isDateField_def day_column_def by (simp, blast)
qed

lemma end_date: "adjustEndDateIfNeeded f x y = range_end f x y"
  by (cases x; cases y)
    (auto simp: adjustEndDateIfNeeded_def range_end_def date_field isDateString_def sublist_letter)

definition scalar :: "any \<Rightarrow> bool" where
  "scalar v = (case v of ABool _ \<Rightarrow> True | AInt _ \<Rightarrow> True | AFloat _ \<Rightarrow> True | AString _ \<Rightarrow> True | _ \<Rightarrow> False)"

definition list_values :: "FilterCondition \<Rightarrow> any list" where
  "list_values c = fc_Equals c @ fc_In c @ fc_NotIn c"

text \<open>What the query builder documents of a list: membership, and membership denied.\<close>

definition list_laws :: "(predicate \<Rightarrow> 'r \<Rightarrow> bool) \<Rightarrow> bool" where
  "list_laws holds \<longleftrightarrow>
     (\<forall>f vs r. vs \<noteq> [] \<and> list_all scalar vs \<longrightarrow>
        holds (SqEq f (ASlice vs)) r = (\<exists>v \<in> set vs. holds (SqEq f v) r) \<and>
        holds (SqNotEq f (ASlice vs)) r = (\<forall>v \<in> set vs. holds (SqNotEq f v) r))"

definition row_selected :: "(predicate \<Rightarrow> 'r \<Rightarrow> bool) \<Rightarrow> SelectBuilder \<Rightarrow> 'r \<Rightarrow> bool" where
  "row_selected holds b r \<longleftrightarrow> (\<forall>p \<in> set (sb_Where b). holds p r)"

lemma selected_Where [simp]: "row_selected holds (sq_Where p b) r \<longleftrightarrow> row_selected holds b r \<and> holds p r"
  by (auto simp: row_selected_def sq_Where_def)

lemma selected_first:
  "length vs \<le> 1 \<Longrightarrow> row_selected holds (apply_first p vs b) r \<longleftrightarrow> row_selected holds b r \<and> (\<forall>v \<in> set vs. holds (p v) r)"
  by (cases vs) (auto simp: apply_first_def)

lemma selected_equals:
  assumes "list_laws holds" and "list_all scalar (fc_Equals c)"
  shows "row_selected holds (applyEqualsFilter b f c) r \<longleftrightarrow>
    row_selected holds b r \<and> (fc_Equals c \<noteq> [] \<longrightarrow> (\<exists>v \<in> set (fc_Equals c). holds (SqEq f v) r))"
proof (cases "fc_Equals c")
  case (Cons v vs)
  have "holds (SqEq f (ASlice (v # vs))) r = (\<exists>x \<in> set (v # vs). holds (SqEq f x) r)"
    using assms Cons by (simp add: list_laws_def)
  then show ?thesis using Cons by (cases vs) (auto simp: applyEqualsFilter_def)
qed (simp add: applyEqualsFilter_def)

lemma selected_in:
  assumes "list_laws holds" and "list_all scalar (fc_In c)" and "list_all scalar (fc_NotIn c)"
  shows "row_selected holds (applyInFilters b f c) r \<longleftrightarrow>
    row_selected holds b r \<and> (fc_In c \<noteq> [] \<longrightarrow> (\<exists>v \<in> set (fc_In c). holds (SqEq f v) r)) \<and>
    (\<forall>v \<in> set (fc_NotIn c). holds (SqNotEq f v) r)"
  using assms by (auto simp: applyInFilters_def list_laws_def Let_def)

lemma selected_not_equals:
  "row_selected holds (applyNotEqualsFilter b f c) r \<longleftrightarrow>
     row_selected holds b r \<and> (\<forall>v \<in> set (fc_NotEquals c). holds (SqNotEq f v) r)"
proof -
  have "row_selected holds (foldl (\<lambda>b v. sq_Where (SqNotEq f v) b) b vs) r \<longleftrightarrow>
      row_selected holds b r \<and> (\<forall>v \<in> set vs. holds (SqNotEq f v) r)" for vs
    by (induction vs arbitrary: b) auto
  then show ?thesis by (simp add: applyNotEqualsFilter_def)
qed

lemma condition_lengths:
  assumes "validateFilterCondition uuidOk f c = None"
  shows "fc_Between c = [] \<or> length (fc_Between c) = 2" and "length (fc_GreaterThan c) \<le> 1"
    and "length (fc_GreaterOrEqual c) \<le> 1" and "length (fc_LessThan c) \<le> 1" and "length (fc_LessOrEqual c) \<le> 1"
  using assms by (auto simp: validateFilterCondition_def split: if_splits list.splits)

lemma selected_condition:
  assumes "list_laws holds" and "list_all scalar (list_values c)" and "validateFilterCondition uuidOk g c = None"
  shows "row_selected holds (applyAdvancedFilter b f c) r \<longleftrightarrow> row_selected holds b r \<and> cond_spec holds f c r"
proof -
  have s: "list_all scalar (fc_Equals c)" "list_all scalar (fc_In c)" "list_all scalar (fc_NotIn c)"
    using assms(2) by (simp_all add: list_values_def)
  note l = condition_lengths[OF assms(3)]
  have compare: "row_selected holds (applyComparisonFilters b f c) r \<longleftrightarrow> row_selected holds b r \<and>
      (\<forall>v \<in> set (fc_GreaterThan c). holds (SqGt f v) r) \<and> (\<forall>v \<in> set (fc_GreaterOrEqual c). holds (SqGtOrEq f v) r) \<and>
      (\<forall>v \<in> set (fc_LessThan c). holds (SqLt f v) r) \<and> (\<forall>v \<in> set (fc_LessOrEqual c). holds (SqLtOrEq f v) r)" for b
    unfolding applyComparisonFilters_def selected_first[OF l(2)] selected_first[OF l(3)] selected_first[OF l(4)]
      selected_first[OF l(5)] by (simp only: conj_assoc)
  have between: "row_selected holds (applyBetweenFilter b f c) r \<longleftrightarrow> row_selected holds b r \<and>
      (fc_Between c \<noteq> [] \<longrightarrow>
        holds (SqGtOrEq f (fc_Between c ! 0)) r \<and> holds (SqLtOrEq f (range_end f (fc_Between c ! 0) (fc_Between c ! 1))) r)"
    for b
    using l(1) by (auto simp: applyBetweenFilter_def end_date length_Suc_conv numeral_2_eq_2)
  have like: "row_selected holds (applyLikeFilter b f c) r \<longleftrightarrow> row_selected holds b r \<and>
      (\<forall>p \<in> set (take 1 (fc_Like c)). case p of AString pattern \<Rightarrow> holds (SqLike f pattern) r | _ \<Rightarrow> True)" for b
    by (cases "fc_Like c") (auto simp: applyLikeFilter_def split: any.splits)
  show ?thesis
    unfolding applyAdvancedFilter_def cond_spec_def like selected_not_equals selected_in[OF assms(1) s(2,3)] between compare
      selected_equals[OF assms(1) s(1)]
    by (simp only: conj_assoc)
qed

lemma empty_condition: "isFilterConditionEmpty c \<Longrightarrow> cond_spec holds f c r"
  by (simp add: isFilterConditionEmpty_def cond_spec_def)

lemma selected_conditions:
  assumes "list_laws holds" and "\<forall>(f, c) \<in> set filters. known f \<noteq> None \<longrightarrow> list_all scalar (list_values c)"
    and "add_conditions uuidOk known filters b = Inr b'"
  shows "row_selected holds b' r \<longleftrightarrow>
    row_selected holds b r \<and> (\<forall>(f, c) \<in> set filters. \<forall>col. known f = Some col \<longrightarrow> cond_spec holds col c r)"
  using assms(2,3)
proof (induction uuidOk known filters b rule: add_conditions.induct)
  case (2 uuidOk known field c rest b)
  show ?case
  proof (cases "known field")
    case None
    then show ?thesis using 2 by auto
  next
    case (Some col)
    show ?thesis
    proof (cases "isFilterConditionEmpty c")
      case True
      then show ?thesis using 2 Some empty_condition[OF True] by auto
    next
      case False
      then have v: "validateFilterCondition uuidOk field c = None"
        using 2(5) Some by (auto split: option.splits)
      have "row_selected holds b' r \<longleftrightarrow> row_selected holds (applyAdvancedFilter b col c) r \<and>
          (\<forall>(f, c) \<in> set rest. \<forall>col. known f = Some col \<longrightarrow> cond_spec holds col c r)"
        using 2(3)[OF Some False v] 2(4,5) Some False v by auto
      then show ?thesis using selected_condition[OF assms(1) _ v, of b col r] 2(4) Some by auto
    qed
  qed
qed simp

lemma built_filters:
  "buildAdvancedFilters d uuidOk b schema table filters = add_conditions uuidOk (filter_columns d schema table) filters b"
  by (cases d)
    (simp_all add: buildAdvancedFilters_def filter_columns_def postgres_buildAdvancedFilters_def mysql_buildAdvancedFilters_def
      sqlserver_buildAdvancedFilters_def oracle_buildAdvancedFilters_def)

subsection \<open>Which names reach the query\<close>

lemma upper_fold: "ToUpper s = ToUpper t \<Longrightarrow> EqualFold s t"
proof -
  have "lower_byte (upper_byte c) = lower_byte c" for c by (auto simp: lower_byte_def upper_byte_def Let_def)
  then have "ToLower (ToUpper u) = ToLower u" for u by (simp add: ToLower_def ToUpper_def)
  then show "ToUpper s = ToUpper t \<Longrightarrow> EqualFold s t" unfolding EqualFold_def by metis
qed

lemma known_folded_in: "known_folded cols f = Some col \<Longrightarrow> col \<in> set (map col_Name cols)"
proof -
  assume k: "known_folded cols f = Some col"
  then obtain c where c: "c \<in> set cols" "ToUpper (col_Name c) = ToUpper f" by (auto simp: known_folded_def split: if_splits)
  then obtain c' where f: "find (\<lambda>c. EqualFold (col_Name c) f) cols = Some c'"
    using upper_fold by (cases "find (\<lambda>c. EqualFold (col_Name c) f) cols") (auto simp: find_None_iff)
  then have "c' \<in> set cols" by (metis find_Some_iff nth_mem)
  moreover have "col = col_Name c'" using k f by (simp add: known_folded_def split: if_splits)
  ultimately show ?thesis by simp
qed

lemma known_exact_in: "known_exact cols f = Some col \<Longrightarrow> col \<in> set (map col_Name cols)"
  by (auto simp: known_exact_def split: if_splits)

lemma find_table_in: "find_table p schema = Some cols \<Longrightarrow> \<exists>t \<in> set schema. p (tb_TableName t) \<and> tb_Columns t = cols"
  by (auto simp: find_table_def find_Some_iff)

definition schema_columns :: "SqlTable list \<Rightarrow> string set" where
  "schema_columns schema = {col_Name c |c t. t \<in> set schema \<and> c \<in> set (tb_Columns t)}"

lemma validated_fields:
  assumes "\<And>cols f col. known cols f = Some col \<Longrightarrow> col \<in> set (map col_Name cols)"
    and "validate_fields known (find_table p schema) table requested = Inr names"
  shows "set names \<subseteq> schema_columns schema"
proof -
  obtain cols where c: "find_table p schema = Some cols"
    using assms(2) by (auto simp: validate_fields_def split: option.splits)
  then have "col_Name ` set cols \<subseteq> schema_columns schema"
    using find_table_in by (fastforce simp: schema_columns_def)
  moreover have "set names \<subseteq> col_Name ` set cols"
    using assms c by (fastforce simp: validate_fields_def Let_def map_filter_def split: if_splits)
  ultimately show ?thesis by blast
qed

lemma filter_column_in: "filter_columns d schema table f = Some col \<Longrightarrow> col \<in> schema_columns schema"
  by (cases d)
    (fastforce simp: filter_columns_def known_in_def postgres_table_def mysql_table_def sqlserver_table_def
      oracle_filter_table_def schema_columns_def
      split: option.splits dest!: find_table_in known_exact_in known_folded_in)+

lemma fields_validated:
  assumes "ValidateTableAndFields d table requested schema = Inr names"
  shows "set names \<subseteq> schema_columns schema"
proof (cases d)
  case (OracleDriver x)
  then show ?thesis
    using assms validated_fields[where known = known_folded, OF known_folded_in]
    by (simp add: ValidateTableAndFields_def oracle_ValidateTableAndFields_def oracle_table_def)
qed (use assms validated_fields[where known = known_exact, OF known_exact_in] in
  \<open>simp_all add: ValidateTableAndFields_def postgres_ValidateTableAndFields_def mysql_ValidateTableAndFields_def
     sqlserver_ValidateTableAndFields_def postgres_table_def mysql_table_def sqlserver_table_def\<close>)

definition where_fields :: "SelectBuilder \<Rightarrow> string set" where
  "where_fields b = sq_field ` set (sb_Where b)"

text \<open>What a condition adds: predicates on its own field, after those that were there.\<close>

definition adds :: "string \<Rightarrow> SelectBuilder \<Rightarrow> SelectBuilder \<Rightarrow> bool" where
  "adds f b b' \<longleftrightarrow>
     sb_Columns b' = sb_Columns b \<and> sb_From b' = sb_From b \<and> where_fields b' \<subseteq> insert f (where_fields b)"

lemma adds_refl: "adds f b b"
  by (auto simp: adds_def)

lemma adds_Where: "adds f b b' \<Longrightarrow> sq_field p = f \<Longrightarrow> adds f b (sq_Where p b')"
  by (auto simp: adds_def sq_Where_def where_fields_def)

lemma adds_first: "adds f b b' \<Longrightarrow> (\<And>v. sq_field (p v) = f) \<Longrightarrow> adds f b (apply_first p vs b')"
  by (cases vs) (simp_all add: apply_first_def adds_Where)

lemma adds_foldl: "adds f b b' \<Longrightarrow> adds f b (foldl (\<lambda>b v. sq_Where (SqNotEq f v) b) b' vs)"
  by (induction vs arbitrary: b') (simp_all add: adds_Where)

lemma adds_equals: "adds f b b' \<Longrightarrow> adds f b (applyEqualsFilter b' f c)"
  by (simp add: applyEqualsFilter_def adds_Where split: list.split)

lemma adds_comparison: "adds f b b' \<Longrightarrow> adds f b (applyComparisonFilters b' f c)"
  unfolding applyComparisonFilters_def by (intro adds_first) simp_all

lemma adds_between: "adds f b b' \<Longrightarrow> adds f b (applyBetweenFilter b' f c)"
  by (simp add: applyBetweenFilter_def adds_Where split: list.split)

lemma adds_in: "adds f b b' \<Longrightarrow> adds f b (applyInFilters b' f c)"
  by (simp add: applyInFilters_def Let_def adds_Where)

lemma adds_not_equals: "adds f b b' \<Longrightarrow> adds f b (applyNotEqualsFilter b' f c)"
  unfolding applyNotEqualsFilter_def by (rule adds_foldl)

lemma adds_like: "adds f b b' \<Longrightarrow> adds f b (applyLikeFilter b' f c)"
  by (simp add: applyLikeFilter_def adds_Where split: list.split any.split)

lemma condition_adds: "adds f b (applyAdvancedFilter b f c)"
  unfolding applyAdvancedFilter_def
  by (intro adds_like adds_not_equals adds_in adds_between adds_comparison adds_equals adds_refl)

lemma conditions_built:
  assumes "add_conditions uuidOk known filters b = Inr b'" and "\<And>f col. known f = Some col \<Longrightarrow> col \<in> S"
  shows "sb_Columns b' = sb_Columns b \<and> sb_From b' = sb_From b \<and> where_fields b' \<subseteq> where_fields b \<union> S"
  using assms(1)
proof (induction filters arbitrary: b)
  case (Cons fc rest)
  obtain f c where fc: "fc = (f, c)" by fastforce
  show ?case
  proof (cases "known f = None \<or> isFilterConditionEmpty c")
    case True
    then show ?thesis using Cons fc by (auto split: option.splits)
  next
    case False
    then obtain col where k: "known f = Some col" by auto
    then have "add_conditions uuidOk known rest (applyAdvancedFilter b col c) = Inr b'"
      using Cons.prems fc False by (auto split: option.splits)
    from Cons.IH[OF this] show ?thesis
      using condition_adds[of col b c] assms(2)[OF k] by (auto simp: adds_def)
  qed
qed simp

subsection \<open>The columns conditions are put on\<close>

text \<open>The entry of the schema in which a driver looks up the columns of a filter: PostgreSQL and SQL Server leave the default
  schema out of the name, MySQL takes the name as it is, and Oracle the name as it is up to the case of its letters, so that
  a name with the current schema in front finds nothing.\<close>

definition finds_table :: "SqlDriver \<Rightarrow> string \<Rightarrow> string \<Rightarrow> bool" where
  "finds_table d table n \<longleftrightarrow>
     (case d of
        PostgresDriver \<Rightarrow> n = NormalizeTableNameForLookup table ''public''
      | SQLServerDriver \<Rightarrow> n = NormalizeTableNameForLookup table ''dbo''
      | MySQLDriver \<Rightarrow> n = table
      | OracleDriver _ \<Rightarrow> EqualFold n table)"

definition finds_column :: "SqlDriver \<Rightarrow> string \<Rightarrow> string \<Rightarrow> bool" where
  "finds_column d f n \<longleftrightarrow> (case d of OracleDriver _ \<Rightarrow> EqualFold n f | _ \<Rightarrow> n = f)"

definition filters_on :: "SqlDriver \<Rightarrow> SqlTable list \<Rightarrow> string \<Rightarrow> string \<Rightarrow> string \<Rightarrow> bool" where
  "filters_on d schema table f col \<longleftrightarrow>
     (\<exists>before t after cs c cs'.
        schema = before @ t # after \<and> finds_table d table (tb_TableName t) \<and>
        (\<forall>u \<in> set before. \<not> finds_table d table (tb_TableName u)) \<and>
        tb_Columns t = cs @ c # cs' \<and> finds_column d f (col_Name c) \<and>
        (\<forall>u \<in> set cs. \<not> finds_column d f (col_Name u)) \<and> col = col_Name c)"

lemma find_split:
  "find P xs = Some x \<longleftrightarrow> (\<exists>before after. xs = before @ x # after \<and> P x \<and> (\<forall>u \<in> set before. \<not> P u))"
proof (induction xs)
  case (Cons y ys)
  show ?case
  proof (cases "P y")
    case True
    then show ?thesis by (auto simp: Cons_eq_append_conv intro: exI[of _ "[]"])
  next
    case False
    then have "(\<exists>before after. y # ys = before @ x # after \<and> P x \<and> (\<forall>u \<in> set before. \<not> P u)) \<longleftrightarrow>
        (\<exists>before after. ys = before @ x # after \<and> P x \<and> (\<forall>u \<in> set before. \<not> P u))"
      by (auto simp: Cons_eq_append_conv) (metis set_ConsD)+
    with Cons False show ?thesis by simp
  qed
qed simp

lemma fold_upper: "EqualFold s t \<Longrightarrow> ToUpper s = ToUpper t"
proof -
  have "upper_byte (lower_byte c) = upper_byte c" for c by (auto simp: lower_byte_def upper_byte_def Let_def)
  then have "ToUpper (ToLower u) = ToUpper u" for u by (simp add: ToLower_def ToUpper_def)
  then show "EqualFold s t \<Longrightarrow> ToUpper s = ToUpper t" unfolding EqualFold_def by metis
qed

lemma known_folded_find: "known_folded cols f = map_option col_Name (find (\<lambda>c. EqualFold (col_Name c) f) cols)"
proof (cases "find (\<lambda>c. EqualFold (col_Name c) f) cols")
  case None
  then have "ToUpper f \<notin> set (map (\<lambda>c. ToUpper (col_Name c)) cols)"
    using upper_fold by (fastforce simp: find_None_iff)
  with None show ?thesis by (simp add: known_folded_def)
next
  case (Some c)
  then have "c \<in> set cols" "EqualFold (col_Name c) f" by (auto simp: find_Some_iff)
  then have "ToUpper f \<in> set (map (\<lambda>c. ToUpper (col_Name c)) cols)"
    using fold_upper[of "col_Name c" f] by (auto intro: image_eqI[of _ _ c])
  with Some show ?thesis by (simp add: known_folded_def)
qed

lemma known_exact_find: "known_exact cols f = map_option col_Name (find (\<lambda>c. col_Name c = f) cols)"
  by (induction cols) (auto simp: known_exact_def)

lemma filter_columns_find:
  "filter_columns d schema table f =
     (case find (\<lambda>t. finds_table d table (tb_TableName t)) schema of
        None \<Rightarrow> None
      | Some t \<Rightarrow> map_option col_Name (find (\<lambda>c. finds_column d f (col_Name c)) (tb_Columns t)))"
  by (cases d)
    (simp_all add: filter_columns_def finds_table_def finds_column_def known_in_def known_exact_find known_folded_find
      postgres_table_def mysql_table_def sqlserver_table_def oracle_filter_table_def find_table_def
      DefaultSchemaPostgreSQL_def DefaultSchemaSQLServer_def split: option.split)

lemma filter_columns_iff: "filter_columns d schema table f = Some col \<longleftrightarrow> filters_on d schema table f col"
proof -
  have "filter_columns d schema table f = Some col \<longleftrightarrow>
      (\<exists>t c. find (\<lambda>t. finds_table d table (tb_TableName t)) schema = Some t \<and>
        find (\<lambda>c. finds_column d f (col_Name c)) (tb_Columns t) = Some c \<and> col = col_Name c)"
    unfolding filter_columns_find by (auto split: option.split)
  then show ?thesis unfolding find_split filters_on_def by blast
qed

subsection \<open>Properties\<close>

text \<open>
  C30: if a driver accepts the filters of a table, the predicates it adds to its query select exactly the rows
  that meet, operator by operator, every condition on a column it finds: a bare day that ends a range of dates
  stands for its last millisecond, of the patterns of Like only the first counts and only if it is a text.
  Conditions on other columns select everything; the columns are those of the first entry of the schema with the
  name of the table, which for PostgreSQL and SQL Server is the name without the default schema and for Oracle the
  name as written, so that there a name qualified with the current schema loses every condition. The list
  operators carry scalar values, and a predicate on a list means membership.
\<close>

theorem filters_select_exactly:
  assumes "list_laws holds" and "\<forall>(f, c) \<in> set filters. list_all scalar (list_values c)"
    and "buildAdvancedFilters d uuidOk b schema table filters = Inr b'"
  shows "row_selected holds b' r \<longleftrightarrow>
    row_selected holds b r \<and>
    (\<forall>(f, c) \<in> set filters. \<forall>col. filters_on d schema table f col \<longrightarrow> cond_spec holds col c r)"
proof -
  have "\<forall>(f, c) \<in> set filters. filter_columns d schema table f \<noteq> None \<longrightarrow> list_all scalar (list_values c)"
    using assms(2) by auto
  from selected_conditions[OF assms(1) this] assms(3) show ?thesis by (simp add: built_filters filter_columns_iff)
qed

text \<open>C32: a query with filters is refused before anything runs, or runs one statement that selects and filters only on
  columns of the discovered schema, from the requested table: no other name of the request is written into it.\<close>

theorem query_uses_known_columns:
  "(\<exists>err. QueryWithAdvancedFilters d uuidOk run schema table requested filters w = (Inl err, w)) \<or>
   (\<exists>query. QueryWithAdvancedFilters d uuidOk run schema table requested filters w = run query w \<and>
      set (sb_Columns query) \<subseteq> schema_columns schema \<and> where_fields query \<subseteq> schema_columns schema \<and> sb_From query = table)"
proof (cases "ValidateTableAndFields d table requested schema")
  case (Inl err)
  then show ?thesis by (simp add: QueryWithAdvancedFilters_def)
next
  case (Inr names)
  let ?b = "\<lparr>sb_Columns = names, sb_From = table, sb_Where = []\<rparr>"
  show ?thesis
  proof (cases "buildAdvancedFilters d uuidOk ?b schema table filters")
    case (Inl err)
    then show ?thesis using Inr by (simp add: QueryWithAdvancedFilters_def)
  next
    case q: (Inr query)
    have "sb_Columns query = names \<and> sb_From query = table \<and> where_fields query \<subseteq> schema_columns schema"
      using conditions_built[of uuidOk "filter_columns d schema table" filters ?b query "schema_columns schema"]
        q filter_column_in by (auto simp: built_filters where_fields_def)
    moreover have "QueryWithAdvancedFilters d uuidOk run schema table requested filters w = run query w"
      using Inr q by (simp add: QueryWithAdvancedFilters_def)
    ultimately show ?thesis using fields_validated[OF Inr] by blast
  qed
qed

subsection \<open>Runs\<close>

text \<open>Equality alone, on the values of a row.\<close>

fun holds_1 :: "predicate \<Rightarrow> row \<Rightarrow> bool" where
  "holds_1 (SqEq f (ASlice vs)) r \<longleftrightarrow> (\<exists>v \<in> set vs. map_of r f = Some v)"
| "holds_1 (SqEq f v) r \<longleftrightarrow> map_of r f = Some v"
| "holds_1 (SqNotEq f (ASlice vs)) r \<longleftrightarrow> (\<forall>v \<in> set vs. map_of r f \<noteq> Some v)"
| "holds_1 (SqNotEq f v) r \<longleftrightarrow> map_of r f \<noteq> Some v"
| "holds_1 _ r \<longleftrightarrow> True"

lemma holds_1_scalar:
  assumes "scalar v"
  shows "holds_1 (SqEq f v) r \<longleftrightarrow> map_of r f = Some v" and "holds_1 (SqNotEq f v) r \<longleftrightarrow> map_of r f \<noteq> Some v"
  using assms by (auto simp: scalar_def split: any.splits)

lemma holds_1_laws: "list_laws holds_1"
  by (auto simp: list_laws_def list_all_iff holds_1_scalar)

definition no_condition :: FilterCondition where
  "no_condition =
     \<lparr>fc_Equals = [], fc_GreaterThan = [], fc_GreaterOrEqual = [], fc_LessThan = [], fc_LessOrEqual = [], fc_Between = [],
      fc_In = [], fc_NotIn = [], fc_NotEquals = [], fc_Like = []\<rparr>"

definition column_1 :: "string \<Rightarrow> ColumnInformation" where
  "column_1 n = \<lparr>col_Name = n, col_DataType = ''text'', col_IsNullable = True, col_IsPrimaryKey = False\<rparr>"

definition orders_1 :: "string list \<Rightarrow> SqlTable list" where
  "orders_1 cols = [\<lparr>tb_TableName = ''ORDERS'', tb_Columns = map column_1 cols\<rparr>]"

definition status_1 :: "(string, FilterCondition) gomap" where
  "status_1 = [(''STATUS'', no_condition\<lparr>fc_In := [AString ''open'', AString ''held'']\<rparr>)]"

abbreviation select_1 :: "string \<Rightarrow> predicate list \<Rightarrow> SelectBuilder" where
  "select_1 table ps \<equiv> \<lparr>sb_Columns = [''STATUS''], sb_From = table, sb_Where = ps\<rparr>"

theorem filters_select_exactly_witness:
  "row_selected holds_1 (select_1 ''ORDERS'' [SqEq ''STATUS'' (ASlice [AString ''open'', AString ''held''])]) [(''STATUS'', AString ''held'')]"
proof -
  have b: "buildAdvancedFilters MySQLDriver (\<lambda>_. False) (select_1 ''ORDERS'' []) (orders_1 [''STATUS'']) ''ORDERS'' status_1 =
      Inr (select_1 ''ORDERS'' [SqEq ''STATUS'' (ASlice [AString ''open'', AString ''held''])])" by code_simp
  have s: "\<forall>(f, c) \<in> set status_1. list_all scalar (list_values c)" by code_simp
  have "filter_columns MySQLDriver (orders_1 [''STATUS'']) ''ORDERS'' ''STATUS'' = Some ''STATUS''" by code_simp
  then have "filters_on MySQLDriver (orders_1 [''STATUS'']) ''ORDERS'' ''STATUS'' col \<longleftrightarrow> col = ''STATUS''" for col
    by (auto simp: filter_columns_iff[symmetric])
  moreover have "cond_spec holds_1 ''STATUS'' (no_condition\<lparr>fc_In := [AString ''open'', AString ''held'']\<rparr>) [(''STATUS'', AString ''held'')]"
    by code_simp
  ultimately show ?thesis
    using filters_select_exactly[OF holds_1_laws s b, of "[(''STATUS'', AString ''held'')]"]
    by (simp add: status_1_def row_selected_def)
qed

text \<open>Oracle: a table named with the current schema passes the validation and loses every filter.\<close>

lemma oracle_filters_lost:
  "ValidateTableAndFields (OracleDriver ''APP'') ''APP.ORDERS'' [''STATUS''] (orders_1 [''STATUS'']) = Inr [''STATUS'']"
  "buildAdvancedFilters (OracleDriver ''APP'') (\<lambda>_. False) (select_1 ''APP.ORDERS'' []) (orders_1 [''STATUS'']) ''APP.ORDERS'' status_1 =
     Inr (select_1 ''APP.ORDERS'' [])"
  by code_simp+

text \<open>A second pattern, and one that is not a text, are ignored without an error.\<close>

lemma like_patterns_ignored:
  "buildAdvancedFilters MySQLDriver (\<lambda>_. False) (select_1 ''ORDERS'' []) (orders_1 [''STATUS'']) ''ORDERS''
     [(''STATUS'', no_condition\<lparr>fc_Like := [AString ''o%'', AString ''h%'']\<rparr>)] =
   Inr (select_1 ''ORDERS'' [SqLike ''STATUS'' ''o%''])"
  "buildAdvancedFilters MySQLDriver (\<lambda>_. False) (select_1 ''ORDERS'' []) (orders_1 [''STATUS'']) ''ORDERS''
     [(''STATUS'', no_condition\<lparr>fc_Like := [AInt 7]\<rparr>)] = Inr (select_1 ''ORDERS'' [])"
  by code_simp+

text \<open>A date range on a column whose name contains the letters \<^verbatim>\<open>id\<close> is taken for a UUID and refused.\<close>

lemma date_column_taken_for_uuid:
  "isDateField ''paid_at''" "isLikelyUUIDField ''paid_at''"
  "validateFilterCondition (\<lambda>_. False) ''paid_at''
     (no_condition\<lparr>fc_Between := [AString ''2024-01-01'', AString ''2024-01-31'']\<rparr>) \<noteq> None"
  by code_simp+

end
