(* ===== verification/Datasource_Query.thy ===== *)
theory Datasource_Query
  imports Sql_Filters Model_Schema Credential_Crypto
begin

text \<open>
  The SQL datasources of the services: discovery of a schema (\<^verbatim>\<open>GetDatabaseSchema\<close> of the four drivers
  in \<^verbatim>\<open>pkg/postgres\<close>, \<^verbatim>\<open>pkg/mysql\<close>, \<^verbatim>\<open>pkg/sqlserver\<close>, \<^verbatim>\<open>pkg/oracle\<close>), scanning of rows, and the query over
  several tables (\<^verbatim>\<open>pkg/model/datasource\<close>). The database behind \<^verbatim>\<open>database/sql\<close> is a parameter: \<open>db_Tables\<close>,
  \<open>db_Keys\<close>, \<open>db_Columns\<close> are the statements on the catalogue with their arguments and \<open>db_Select\<close> a built
  query. A statement fails, or delivers rows until they end, break off, or cannot be scanned. Logging is left out:
  the sources are modelled with a logger that can be called.
\<close>

subsection \<open>Rows\<close>

datatype rows_end = RowsDone | RowsBroken serror | ScanFailed serror

datatype 'a sql_rows = QueryFailed bool serror | Fetched "'a list" rows_end

datatype dbvalue = DbNil | DbBytes string | DbValue any

record 'w SqlDb =
  db_Tables :: "string list \<Rightarrow> 'w \<Rightarrow> (string \<times> string) sql_rows \<times> 'w"
  db_Keys :: "string list \<Rightarrow> 'w \<Rightarrow> (string \<times> string \<times> string) sql_rows \<times> 'w"
  db_Columns :: "string list \<Rightarrow> string \<Rightarrow> 'w \<Rightarrow> (string \<times> string \<times> bool) sql_rows \<times> 'w"
  db_Select :: "SelectBuilder \<Rightarrow> 'w \<Rightarrow> (string list \<times> dbvalue list sql_rows) \<times> 'w"

text \<open>\<^verbatim>\<open>json.Unmarshal\<close> into a map, a slice and a string.\<close>

record JsonDecoder =
  jd_Map :: "string \<Rightarrow> any option"
  jd_Array :: "string \<Rightarrow> any option"
  jd_String :: "string \<Rightarrow> any option"

text \<open>Bytes that are no JSON stay a byte slice, which is written into the result as base64.\<close>

definition parseJSONField :: "JsonDecoder \<Rightarrow> dbvalue \<Rightarrow> any" where
  "parseJSONField j v =
     (case v of
        DbNil \<Rightarrow> ANil
      | DbBytes s \<Rightarrow>
          (case jd_Map j s of
             Some m \<Rightarrow> m
           | None \<Rightarrow> (case jd_Array j s of
               Some xs \<Rightarrow> xs
             | None \<Rightarrow> (case jd_String j s of Some t \<Rightarrow> t | None \<Rightarrow> AString (b64_encode s))))
      | DbValue a \<Rightarrow> a)"

definition createRowMap :: "JsonDecoder \<Rightarrow> string list \<Rightarrow> dbvalue list \<Rightarrow> row" where
  "createRowMap j columns vs = foldl (\<lambda>m (c, v). AList.update c (parseJSONField j v) m) [] (zip columns vs)"

definition scanRows :: "JsonDecoder \<Rightarrow> string list \<Rightarrow> dbvalue list list \<Rightarrow> rows_end \<Rightarrow> (serror, row list) result" where
  "scanRows j columns rows ending =
     (case ending of
        ScanFailed err \<Rightarrow> Inl err
      | _ \<Rightarrow> Inr (map (createRowMap j columns) rows))"

text \<open>The part of \<^verbatim>\<open>Query\<close> and \<^verbatim>\<open>QueryWithAdvancedFilters\<close> behind the builder.\<close>

definition run_select ::
  "JsonDecoder \<Rightarrow> 'w SqlDb \<Rightarrow> string \<Rightarrow> SelectBuilder \<Rightarrow> 'w \<Rightarrow> (serror, row list) result \<times> 'w" where
  "run_select j db timeoutText query w =
     (case db_Select db query w of
        ((columns, QueryFailed expired err), w1) \<Rightarrow>
          (Inl (wrap (if expired then timeoutText else ''error executing query'') err), w1)
      | ((columns, Fetched rows ending), w1) \<Rightarrow> (scanRows j columns rows ending, w1))"

definition simple_timeout :: string where
  "simple_timeout = ''query execution timeout after 1m0s''"

definition advanced_timeout :: string where
  "advanced_timeout = ''advanced filter query timeout after 2m0s''"

subsection \<open>Discovery\<close>

definition read_tables :: "(string \<times> string \<Rightarrow> string) \<Rightarrow> bool \<Rightarrow> (string \<times> string) sql_rows \<Rightarrow> (serror, string list) result" where
  "read_tables name checksErr rows =
     (case rows of
        QueryFailed _ err \<Rightarrow> Inl (wrap ''error querying tables'' err)
      | Fetched xs (ScanFailed err) \<Rightarrow> Inl (wrap ''error scanning table name'' err)
      | Fetched xs (RowsBroken err) \<Rightarrow> if checksErr then Inl (wrap ''rows error'' err) else Inr (map name xs)
      | Fetched xs RowsDone \<Rightarrow> Inr (map name xs))"

type_synonym primary_keys = "(string, (string, bool) gomap) gomap"

definition add_key :: "(string \<times> string \<Rightarrow> string) \<Rightarrow> primary_keys \<Rightarrow> string \<times> string \<times> string \<Rightarrow> primary_keys" where
  "add_key name pks k =
     (case k of (s, t, c) \<Rightarrow>
        AList.update (name (s, t)) (AList.update c True (case map_of pks (name (s, t)) of None \<Rightarrow> [] | Some m \<Rightarrow> m)) pks)"

definition read_keys ::
  "(string \<times> string \<Rightarrow> string) \<Rightarrow> bool \<Rightarrow> (string \<times> string \<times> string) sql_rows \<Rightarrow> (serror, primary_keys) result" where
  "read_keys name checksErr rows =
     (case rows of
        QueryFailed expired err \<Rightarrow>
          Inl (wrap (if expired then ''schema discovery timeout after 30s while querying primary keys''
                     else ''error querying primary keys'') err)
      | Fetched xs (ScanFailed err) \<Rightarrow> Inl (wrap ''error scanning primary key info'' err)
      | Fetched xs (RowsBroken err) \<Rightarrow>
          if checksErr then Inl (wrap ''rows error'' err) else Inr (foldl (add_key name) [] xs)
      | Fetched xs RowsDone \<Rightarrow> Inr (foldl (add_key name) [] xs))"

definition scan_column :: "string \<Rightarrow> primary_keys \<Rightarrow> string \<times> string \<times> bool \<Rightarrow> ColumnInformation" where
  "scan_column tableName pks c =
     (case c of (n, ty, nullable) \<Rightarrow>
        \<lparr>col_Name = n, col_DataType = ty, col_IsNullable = nullable,
         col_IsPrimaryKey = (case map_of pks tableName of None \<Rightarrow> False | Some m \<Rightarrow> map_of m n = Some True)\<rparr>)"

definition scanColumns ::
  "string \<Rightarrow> primary_keys \<Rightarrow> (string \<times> string \<times> bool) list \<Rightarrow> rows_end \<Rightarrow> (serror, ColumnInformation list) result" where
  "scanColumns tableName pks rows ending =
     (case ending of
        ScanFailed err \<Rightarrow> Inl (wrap ''error scanning column info'' err)
      | _ \<Rightarrow> Inr (map (scan_column tableName pks) rows))"

definition table_of_columns ::
  "string \<Rightarrow> primary_keys \<Rightarrow> (string \<times> string \<times> bool) sql_rows \<Rightarrow> (serror, SqlTable) result" where
  "table_of_columns tableName pks rows =
     (case rows of
        QueryFailed expired err \<Rightarrow>
          Inl (wrap (if expired then ''schema discovery timeout after 30s while querying columns for table '' @ tableName
                     else ''error querying columns for table '' @ tableName) err)
      | Fetched xs ending \<Rightarrow>
          (case scanColumns tableName pks xs ending of
             Inl err \<Rightarrow> Inl err
           | Inr cols \<Rightarrow> Inr \<lparr>tb_TableName = tableName, tb_Columns = cols\<rparr>))"

fun buildSchema :: "(string \<Rightarrow> 'w \<Rightarrow> (serror, SqlTable) result \<times> 'w) \<Rightarrow> string list \<Rightarrow> 'w \<Rightarrow> (serror, SqlTable list) result \<times> 'w" where
  "buildSchema build [] w = (Inr [], w)"
| "buildSchema build (tableName # rest) w =
     (case build tableName w of
        (Inl err, w1) \<Rightarrow> (Inl err, w1)
      | (Inr table, w1) \<Rightarrow>
          (case buildSchema build rest w1 of
             (Inl err, w2) \<Rightarrow> (Inl err, w2)
           | (Inr schema, w2) \<Rightarrow> (Inr (table # schema), w2)))"

text \<open>The three statements of \<^verbatim>\<open>GetDatabaseSchema\<close>, in its order.\<close>

definition discover ::
  "('w \<Rightarrow> (serror, string list) result \<times> 'w) \<Rightarrow> ('w \<Rightarrow> (serror, primary_keys) result \<times> 'w) \<Rightarrow>
   (primary_keys \<Rightarrow> string \<Rightarrow> 'w \<Rightarrow> (serror, SqlTable) result \<times> 'w) \<Rightarrow> 'w \<Rightarrow> (serror, SqlTable list) result \<times> 'w" where
  "discover tables primaryKeys build w =
     (case tables w of
        (Inl err, w1) \<Rightarrow> (Inl err, w1)
      | (Inr names, w1) \<Rightarrow>
          (case primaryKeys w1 of
             (Inl err, w2) \<Rightarrow> (Inl err, w2)
           | (Inr pks, w2) \<Rightarrow> buildSchema (build pks) names w2))"

definition qualified_unless :: "string \<Rightarrow> string \<times> string \<Rightarrow> string" where
  "qualified_unless defaultSchema n =
     (case n of (schemaName, tableName) \<Rightarrow> if schemaName \<noteq> defaultSchema then schemaName @ ''.'' @ tableName else tableName)"

subsubsection \<open>PostgreSQL\<close>

definition postgres_schemas :: "string list \<Rightarrow> string list" where
  "postgres_schemas schemas = (if schemas = [] then [DefaultSchemaPostgreSQL] else schemas)"

definition postgres_queryTables :: "'w SqlDb \<Rightarrow> string list \<Rightarrow> 'w \<Rightarrow> (serror, string list) result \<times> 'w" where
  "postgres_queryTables db schemas w =
     map_prod (read_tables (qualified_unless DefaultSchemaPostgreSQL) True) id (db_Tables db (postgres_schemas schemas) w)"

definition postgres_queryPrimaryKeys :: "'w SqlDb \<Rightarrow> string list \<Rightarrow> 'w \<Rightarrow> (serror, primary_keys) result \<times> 'w" where
  "postgres_queryPrimaryKeys db schemas w =
     map_prod (read_keys (qualified_unless DefaultSchemaPostgreSQL) True) id (db_Keys db (postgres_schemas schemas) w)"

definition bad_table_name :: "string \<Rightarrow> serror \<Rightarrow> serror" where
  "bad_table_name tableName err = wrap (''error parsing table name '' @ ([CHR 0x22] @ tableName @ [CHR 0x22])) err"

definition postgres_buildTableSchema ::
  "'w SqlDb \<Rightarrow> primary_keys \<Rightarrow> string \<Rightarrow> 'w \<Rightarrow> (serror, SqlTable) result \<times> 'w" where
  "postgres_buildTableSchema db pks tableName w =
     (case ParseQualifiedTableName tableName DefaultSchemaPostgreSQL of
        Inl err \<Rightarrow> (Inl (bad_table_name tableName err), w)
      | Inr (schemaName, simpleTableName) \<Rightarrow>
          map_prod (table_of_columns tableName pks) id (db_Columns db [schemaName] simpleTableName w))"

definition postgres_GetDatabaseSchema :: "'w SqlDb \<Rightarrow> string list \<Rightarrow> 'w \<Rightarrow> (serror, SqlTable list) result \<times> 'w" where
  "postgres_GetDatabaseSchema db schemas =
     discover (postgres_queryTables db schemas) (postgres_queryPrimaryKeys db schemas) (postgres_buildTableSchema db)"

subsubsection \<open>SQL Server\<close>

definition cleaned :: "string list \<Rightarrow> string list" where
  "cleaned schemas = filter (\<lambda>s. s \<noteq> []) (map TrimSpace schemas)"

definition sqlserver_schemas :: "string list \<Rightarrow> string list" where
  "sqlserver_schemas schemas = (if cleaned schemas = [] then [DefaultSchemaSQLServer] else cleaned schemas)"

definition sqlserver_queryTables :: "'w SqlDb \<Rightarrow> string list \<Rightarrow> 'w \<Rightarrow> (serror, string list) result \<times> 'w" where
  "sqlserver_queryTables db schemas w =
     map_prod (read_tables (qualified_unless DefaultSchemaSQLServer) True) id (db_Tables db (sqlserver_schemas schemas) w)"

definition sqlserver_queryPrimaryKeys :: "'w SqlDb \<Rightarrow> string list \<Rightarrow> 'w \<Rightarrow> (serror, primary_keys) result \<times> 'w" where
  "sqlserver_queryPrimaryKeys db schemas w =
     map_prod (read_keys (qualified_unless DefaultSchemaSQLServer) True) id (db_Keys db (sqlserver_schemas schemas) w)"

text \<open>The columns of an unqualified table are read from all requested schemas.\<close>

definition sqlserver_buildTableSchema ::
  "'w SqlDb \<Rightarrow> string list \<Rightarrow> primary_keys \<Rightarrow> string \<Rightarrow> 'w \<Rightarrow> (serror, SqlTable) result \<times> 'w" where
  "sqlserver_buildTableSchema db schemas pks tableName w =
     (case ParseQualifiedTableName tableName DefaultSchemaSQLServer of
        Inl err \<Rightarrow> (Inl (bad_table_name tableName err), w)
      | Inr (schemaName, simpleTableName) \<Rightarrow>
          map_prod (table_of_columns tableName pks) id
            (db_Columns db (if CHR ''.'' \<in> set tableName then [schemaName] else sqlserver_schemas schemas) simpleTableName w))"

definition sqlserver_GetDatabaseSchema :: "'w SqlDb \<Rightarrow> string list \<Rightarrow> 'w \<Rightarrow> (serror, SqlTable list) result \<times> 'w" where
  "sqlserver_GetDatabaseSchema db schemas =
     discover (sqlserver_queryTables db schemas) (sqlserver_queryPrimaryKeys db schemas) (sqlserver_buildTableSchema db schemas)"

subsubsection \<open>MySQL\<close>

text \<open>The schema is \<^verbatim>\<open>DATABASE()\<close>, no argument of the statements.\<close>

definition mysql_queryTables :: "'w SqlDb \<Rightarrow> 'w \<Rightarrow> (serror, string list) result \<times> 'w" where
  "mysql_queryTables db w = map_prod (read_tables snd False) id (db_Tables db [] w)"

definition mysql_queryPrimaryKeys :: "'w SqlDb \<Rightarrow> 'w \<Rightarrow> (serror, primary_keys) result \<times> 'w" where
  "mysql_queryPrimaryKeys db w = map_prod (read_keys snd False) id (db_Keys db [] w)"

definition mysql_buildTableSchema :: "'w SqlDb \<Rightarrow> primary_keys \<Rightarrow> string \<Rightarrow> 'w \<Rightarrow> (serror, SqlTable) result \<times> 'w" where
  "mysql_buildTableSchema db pks tableName w = map_prod (table_of_columns tableName pks) id (db_Columns db [] tableName w)"

definition mysql_GetDatabaseSchema :: "'w SqlDb \<Rightarrow> 'w \<Rightarrow> (serror, SqlTable list) result \<times> 'w" where
  "mysql_GetDatabaseSchema db =
     discover (mysql_queryTables db) (mysql_queryPrimaryKeys db) (mysql_buildTableSchema db)"

subsubsection \<open>Oracle\<close>

text \<open>No owner asks for the tables of the current user. \<open>currentSchema\<close> is what \<^verbatim>\<open>getCurrentSchema\<close> returns: the
  user in upper case, or nothing when the database did not tell.\<close>

definition oracle_schemas :: "string list \<Rightarrow> string list" where
  "oracle_schemas schemas = filter (\<lambda>s. s \<noteq> []) (map (\<lambda>s. ToUpper (TrimSpace s)) schemas)"

definition oracle_name :: "string \<Rightarrow> string list \<Rightarrow> string \<times> string \<Rightarrow> string" where
  "oracle_name currentSchema schemas n =
     (case n of (owner, tableName) \<Rightarrow>
        if oracle_schemas schemas \<noteq> [] \<and> \<not> EqualFold owner currentSchema then owner @ ''.'' @ tableName else tableName)"

definition oracle_queryTables :: "'w SqlDb \<Rightarrow> string \<Rightarrow> string list \<Rightarrow> 'w \<Rightarrow> (serror, string list) result \<times> 'w" where
  "oracle_queryTables db currentSchema schemas w =
     map_prod (read_tables (oracle_name currentSchema schemas) True) id (db_Tables db (oracle_schemas schemas) w)"

definition oracle_queryPrimaryKeys :: "'w SqlDb \<Rightarrow> string \<Rightarrow> string list \<Rightarrow> 'w \<Rightarrow> (serror, primary_keys) result \<times> 'w" where
  "oracle_queryPrimaryKeys db currentSchema schemas w =
     map_prod (read_keys (oracle_name currentSchema schemas) True) id (db_Keys db (oracle_schemas schemas) w)"

definition oracle_buildTableSchema ::
  "'w SqlDb \<Rightarrow> string \<Rightarrow> string list \<Rightarrow> primary_keys \<Rightarrow> string \<Rightarrow> 'w \<Rightarrow> (serror, SqlTable) result \<times> 'w" where
  "oracle_buildTableSchema db currentSchema schemas pks tableName w =
     (case ParseQualifiedTableName tableName currentSchema of
        Inl err \<Rightarrow> (Inl (bad_table_name tableName err), w)
      | Inr (ownerName, simpleTableName) \<Rightarrow>
          map_prod (table_of_columns tableName pks) id
            (db_Columns db (if CHR ''.'' \<in> set tableName then [ToUpper ownerName] else oracle_schemas schemas)
               (ToUpper simpleTableName) w))"

definition oracle_GetDatabaseSchema ::
  "'w SqlDb \<Rightarrow> string \<Rightarrow> string list \<Rightarrow> 'w \<Rightarrow> (serror, SqlTable list) result \<times> 'w" where
  "oracle_GetDatabaseSchema db currentSchema schemas =
     discover (oracle_queryTables db currentSchema schemas) (oracle_queryPrimaryKeys db currentSchema schemas)
       (oracle_buildTableSchema db currentSchema schemas)"

subsection \<open>Queries over several tables\<close>

type_synonym table_filters = "(string, (string, FilterCondition) gomap) gomap"

definition exact_filters :: "table_filters \<Rightarrow> string \<Rightarrow> (string, FilterCondition) gomap" where
  "exact_filters filters tableName = (case map_of filters tableName of None \<Rightarrow> [] | Some fs \<Rightarrow> fs)"

definition SplitSchemaTable :: "string \<Rightarrow> string \<times> string" where
  "SplitSchemaTable qualified =
     (let q = TrimSpace qualified
      in if q = [] then ([], [])
         else (case before_dot q of
                 None \<Rightarrow> ([], q)
               | Some s \<Rightarrow>
                   let schema = TrimSpace s; table = TrimSpace (drop (length s + 1) q)
                   in if schema = [] \<or> table = [] then ([], []) else (schema, table)))"

definition schema_filters :: "string \<Rightarrow> table_filters \<Rightarrow> string \<Rightarrow> (string, FilterCondition) gomap" where
  "schema_filters defaultSchema filters tableName =
     (case map_of filters tableName of
        Some fs \<Rightarrow> fs
      | None \<Rightarrow>
          if CHR ''.'' \<in> set tableName
          then exact_filters filters (snd (SplitSchemaTable tableName))
          else exact_filters filters (defaultSchema @ ''.'' @ tableName))"

definition postgres_getTableFilters :: "table_filters \<Rightarrow> string \<Rightarrow> (string, FilterCondition) gomap" where
  "postgres_getTableFilters = schema_filters DefaultSchemaPostgreSQL"

definition sqlserver_getTableFilters :: "table_filters \<Rightarrow> string \<Rightarrow> (string, FilterCondition) gomap" where
  "sqlserver_getTableFilters = schema_filters DefaultSchemaSQLServer"

definition mysql_getTableFilters :: "table_filters \<Rightarrow> string \<Rightarrow> (string, FilterCondition) gomap" where
  "mysql_getTableFilters = exact_filters"

definition oracle_getTableFilters :: "table_filters \<Rightarrow> string \<Rightarrow> (string, FilterCondition) gomap" where
  "oracle_getTableFilters = exact_filters"

definition ensureDefaultSchemaIncluded :: "(string, string list) gomap \<Rightarrow> string list \<Rightarrow> string list" where
  "ensureDefaultSchemaIncluded tables schemas =
     (if hasUnqualifiedTable tables \<and> DefaultSchemaPostgreSQL \<notin> set schemas then schemas @ [DefaultSchemaPostgreSQL] else schemas)"

text \<open>One table of the loop, and the loop over the tables in the order the map is visited.\<close>

definition query_table ::
  "SqlDriver \<Rightarrow> JsonDecoder \<Rightarrow> (string \<Rightarrow> bool) \<Rightarrow> 'w SqlDb \<Rightarrow> SqlTable list \<Rightarrow> (string, FilterCondition) gomap \<Rightarrow>
   string \<Rightarrow> string list \<Rightarrow> 'w \<Rightarrow> (serror, row list) result \<times> 'w" where
  "query_table d j uuidOk db schema tableFilters table names w =
     (if tableFilters \<noteq> []
      then QueryWithAdvancedFilters d uuidOk (run_select j db advanced_timeout) schema table names tableFilters w
      else sql_Query d (run_select j db simple_timeout) schema table names [] w)"

fun query_tables ::
  "(string \<Rightarrow> string list \<Rightarrow> 'w \<Rightarrow> (serror, row list) result \<times> 'w) \<Rightarrow> (string, string list) gomap \<Rightarrow>
   (string, row list) gomap \<Rightarrow> 'w \<Rightarrow> (serror, (string, row list) gomap) result \<times> 'w" where
  "query_tables one [] out w = (Inr out, w)"
| "query_tables one ((table, names) # rest) out w =
     (case one table names w of
        (Inl err, w1) \<Rightarrow> (Inl err, w1)
      | (Inr rows, w1) \<Rightarrow> query_tables one rest (AList.update table rows out) w1)"

definition with_schema ::
  "(serror, SqlTable list) result \<times> 'w \<Rightarrow> (SqlTable list \<Rightarrow> 'w \<Rightarrow> (serror, (string, row list) gomap) result \<times> 'w) \<Rightarrow>
   (serror, (string, row list) gomap) result \<times> 'w" where
  "with_schema found k = (case found of (Inl err, w1) \<Rightarrow> (Inl err, w1) | (Inr schema, w1) \<Rightarrow> k schema w1)"

definition postgres_source_Query ::
  "JsonDecoder \<Rightarrow> (string \<Rightarrow> bool) \<Rightarrow> 'w SqlDb \<Rightarrow> (string, string list) gomap \<Rightarrow> table_filters \<Rightarrow> 'w \<Rightarrow>
   (serror, (string, row list) gomap) result \<times> 'w" where
  "postgres_source_Query j uuidOk db tables filters w =
     with_schema (postgres_GetDatabaseSchema db (ensureDefaultSchemaIncluded tables (GetUniqueSchemas tables)) w)
       (\<lambda>schema. query_tables
          (\<lambda>table. query_table PostgresDriver j uuidOk db schema (postgres_getTableFilters filters table) table) tables [])"

definition sqlserver_source_Query ::
  "JsonDecoder \<Rightarrow> (string \<Rightarrow> bool) \<Rightarrow> 'w SqlDb \<Rightarrow> (string, string list) gomap \<Rightarrow> table_filters \<Rightarrow> 'w \<Rightarrow>
   (serror, (string, row list) gomap) result \<times> 'w" where
  "sqlserver_source_Query j uuidOk db tables filters w =
     with_schema (sqlserver_GetDatabaseSchema db (GetUniqueSchemas tables) w)
       (\<lambda>schema. query_tables
          (\<lambda>table. query_table SQLServerDriver j uuidOk db schema (sqlserver_getTableFilters filters table) table) tables [])"

definition mysql_source_Query ::
  "JsonDecoder \<Rightarrow> (string \<Rightarrow> bool) \<Rightarrow> 'w SqlDb \<Rightarrow> (string, string list) gomap \<Rightarrow> table_filters \<Rightarrow> 'w \<Rightarrow>
   (serror, (string, row list) gomap) result \<times> 'w" where
  "mysql_source_Query j uuidOk db tables filters w =
     with_schema (mysql_GetDatabaseSchema db w)
       (\<lambda>schema. query_tables
          (\<lambda>table. query_table MySQLDriver j uuidOk db schema (mysql_getTableFilters filters table) table) tables [])"

definition oracle_source_Query ::
  "JsonDecoder \<Rightarrow> (string \<Rightarrow> bool) \<Rightarrow> 'w SqlDb \<Rightarrow> string \<Rightarrow> (string, string list) gomap \<Rightarrow> table_filters \<Rightarrow> 'w \<Rightarrow>
   (serror, (string, row list) gomap) result \<times> 'w" where
  "oracle_source_Query j uuidOk db currentSchema tables filters w =
     with_schema (oracle_GetDatabaseSchema db currentSchema (GetUniqueSchemas tables) w)
       (\<lambda>schema. query_tables
          (\<lambda>table. query_table (OracleDriver currentSchema) j uuidOk db schema (oracle_getTableFilters filters table) table)
          tables [])"

subsection \<open>The schema of a datasource\<close>

definition source_schema :: "(string \<Rightarrow> string) \<Rightarrow> string \<Rightarrow> SqlTable list \<Rightarrow> DataSourceSchema" where
  "source_schema canonical configName tables =
     foldl (\<lambda>s t. AddTable s (canonical (tb_TableName t)) (map (\<lambda>c. canonical (col_Name c)) (tb_Columns t)))
       (NewDataSourceSchema configName) tables"

definition schema_info ::
  "string \<Rightarrow> (string \<Rightarrow> string) \<Rightarrow> string \<Rightarrow> (serror, SqlTable list) result \<times> 'w \<Rightarrow> (serror, DataSourceSchema) result \<times> 'w" where
  "schema_info label canonical configName found =
     (case found of
        (Inl err, w1) \<Rightarrow> (Inl (wrap (''failed to get '' @ label @ '' schema'') err), w1)
      | (Inr tables, w1) \<Rightarrow> (Inr (source_schema canonical configName tables), w1))"

definition postgres_GetSchemaInfo ::
  "'w SqlDb \<Rightarrow> string \<Rightarrow> string list \<Rightarrow> 'w \<Rightarrow> (serror, DataSourceSchema) result \<times> 'w" where
  "postgres_GetSchemaInfo db configName schemas w =
     schema_info ''PostgreSQL'' id configName (postgres_GetDatabaseSchema db schemas w)"

definition sqlserver_GetSchemaInfo ::
  "'w SqlDb \<Rightarrow> string \<Rightarrow> string list \<Rightarrow> 'w \<Rightarrow> (serror, DataSourceSchema) result \<times> 'w" where
  "sqlserver_GetSchemaInfo db configName schemas w =
     schema_info ''SQL Server'' id configName (sqlserver_GetDatabaseSchema db schemas w)"

definition mysql_GetSchemaInfo :: "'w SqlDb \<Rightarrow> string \<Rightarrow> 'w \<Rightarrow> (serror, DataSourceSchema) result \<times> 'w" where
  "mysql_GetSchemaInfo db configName w = schema_info ''MySQL'' id configName (mysql_GetDatabaseSchema db w)"

definition oracle_GetSchemaInfo ::
  "'w SqlDb \<Rightarrow> string \<Rightarrow> string \<Rightarrow> string list \<Rightarrow> 'w \<Rightarrow> (serror, DataSourceSchema) result \<times> 'w" where
  "oracle_GetSchemaInfo db currentSchema configName schemas w =
     schema_info ''Oracle'' ToLower configName (oracle_GetDatabaseSchema db currentSchema schemas w)"

subsection \<open>What discovery finds\<close>

text \<open>The database the theorems are about: a catalogue of tables with their columns, the rows of each table, and
  statements that answer from them. Names are printable ASCII without dots.\<close>

type_synonym catalogue = "((string \<times> string) \<times> string list) list"
















subsection \<open>What a query returns\<close>

text \<open>\<open>named\<close>: how a request may spell a table of the catalogue.\<close>

definition named :: "string \<Rightarrow> string \<times> string \<Rightarrow> bool" where
  "named n st \<longleftrightarrow> (case st of (s, t) \<Rightarrow> n = s @ ''.'' @ t \<or> n = t \<and> s = DefaultSchemaPostgreSQL)"



subsection \<open>A PostgreSQL database\<close>


text \<open>The entry of the catalogue that a name denotes, with \<^verbatim>\<open>public\<close> as the search path.\<close>

definition pg_entry :: "catalogue \<Rightarrow> string \<Rightarrow> ((string \<times> string) \<times> string list) option" where
  "pg_entry cat n = find (\<lambda>e. named n (fst e)) cat"



text \<open>\<open>fits\<close>: which values PostgreSQL compares with a column. A statement over an existing table and its columns, with
  names that denote themselves and values that fit, is answered with the rows that meet every predicate, column by
  column: values the driver has a type for, bytes for the others, or nothing.\<close>

type_synonym dbrow = "string \<Rightarrow> dbvalue"



























subsection \<open>Properties\<close>


subsection \<open>Runs\<close>

text \<open>A database in memory.\<close>

definition columns_in :: "catalogue \<Rightarrow> string list \<Rightarrow> string \<Rightarrow> string list" where
  "columns_in cat ss t = concat (map (\<lambda>((s, t'), cols). if s \<in> set ss \<and> t' = t then cols else []) cat)"

definition mem_db :: "catalogue \<Rightarrow> (predicate \<Rightarrow> dbrow \<Rightarrow> bool) \<Rightarrow> (string \<times> string \<Rightarrow> dbrow list) \<Rightarrow> unit SqlDb" where
  "mem_db cat holds content =
     \<lparr>db_Tables = (\<lambda>ss w. (Fetched (filter (\<lambda>n. fst n \<in> set ss) (map fst cat)) RowsDone, w)),
      db_Keys = (\<lambda>ss w. (Fetched [] RowsDone, w)),
      db_Columns = (\<lambda>ss t w. (Fetched (map (\<lambda>c. (c, ''text'', True)) (columns_in cat ss t)) RowsDone, w)),
      db_Select = (\<lambda>q w. ((sb_Columns q,
        Fetched (map (\<lambda>r. map r (sb_Columns q))
          (filter (row_selected holds q) (case pg_entry cat (sb_From q) of None \<Rightarrow> [] | Some (st, _) \<Rightarrow> content st))) RowsDone), w))\<rparr>"




text \<open>Equality on the values of a row; nothing compares with bytes or with a missing value.\<close>

definition holds_db :: "predicate \<Rightarrow> dbrow \<Rightarrow> bool" where
  "holds_db p r = (case r (sq_field p) of DbValue v \<Rightarrow> holds_1 p [(sq_field p, v)] | _ \<Rightarrow> False)"


definition json_0 :: JsonDecoder where
  "json_0 = \<lparr>jd_Map = (\<lambda>_. None), jd_Array = (\<lambda>_. None), jd_String = (\<lambda>_. None)\<rparr>"

definition shop :: "string \<Rightarrow> catalogue" where
  "shop defaultSchema = [((defaultSchema, ''orders''), [''status'', ''total'']), ((''acc'', ''bills''), [''total''])]"

definition row_with :: "(string \<times> dbvalue) list \<Rightarrow> dbrow" where
  "row_with vs c = (case map_of vs c of None \<Rightarrow> DbNil | Some v \<Rightarrow> v)"

definition shop_rows :: "string \<times> string \<Rightarrow> dbrow list" where
  "shop_rows st =
     (if snd st = ''orders''
      then [row_with [(''status'', DbValue (AString ''held'')), (''total'', DbValue (AInt 5))],
            row_with [(''status'', DbValue (AString ''new'')), (''total'', DbValue (AInt 7))],
            row_with [(''status'', DbValue (AString ''open''))]]
      else if snd st = ''bills'' then [row_with [(''total'', DbBytes ''x'')]] else [])"

definition shop_request :: "(string, string list) gomap" where
  "shop_request = [(''orders'', [''*'']), (''acc.bills'', [''total''])]"





text \<open>SQL Server: the same request over the same tables misses the default schema, since only PostgreSQL adds it.\<close>

lemma sqlserver_misses_default_schema:
  "sqlserver_source_Query json_0 (\<lambda>_. False) (mem_db (shop ''dbo'') holds_db shop_rows) shop_request [] () =
     (Inl (Plain (''table '' @ squoted ''orders'' @ '' does not exist in the database'')), ())"
  by code_simp

text \<open>SQL Server: a table of the default schema gets the columns of its namesake in another requested schema.\<close>

lemma sqlserver_merges_namesakes:
  "map_prod (map_sum id (map (\<lambda>t. (tb_TableName t, map col_Name (tb_Columns t))))) id
     (sqlserver_GetDatabaseSchema (mem_db [((''dbo'', ''t''), [''id'']), ((''acc'', ''t''), [''total''])] holds_db shop_rows)
        [''dbo'', ''acc''] ()) =
   (Inr [(''t'', [''id'', ''total'']), (''acc.t'', [''total''])], ())"
  by code_simp

text \<open>A connection that breaks while rows are read, or a query timeout at that moment, ends the loop of
  \<^verbatim>\<open>rows.Next\<close>; nobody asks \<^verbatim>\<open>rows.Err\<close>, and the rows read so far are the result.\<close>

definition breaking_db :: "nat \<Rightarrow> unit SqlDb \<Rightarrow> unit SqlDb" where
  "breaking_db k db =
     db\<lparr>db_Select := (\<lambda>q w. case db_Select db q w of
          ((cols, Fetched rows _), w1) \<Rightarrow> ((cols, Fetched (take k rows) (RowsBroken (Plain ''connection lost''))), w1)
        | x \<Rightarrow> x)\<rparr>"

lemma broken_rows_reported_complete:
  "postgres_source_Query json_0 (\<lambda>_. False) (breaking_db 1 (mem_db (shop ''public'') holds_db shop_rows)) shop_request [] () =
     (Inr [(''orders'', [[(''status'', AString ''held''), (''total'', AInt 5)]]), (''acc.bills'', [[(''total'', AString ''eA=='')]])], ())"
  by code_simp

text \<open>MySQL: the list of tables is not checked either, so a table may be reported missing that exists.\<close>

lemma mysql_tables_truncated:
  "mysql_queryTables
     ((mem_db (shop []) holds_db shop_rows)\<lparr>db_Tables := (\<lambda>ss w. (Fetched [([], ''orders'')] (RowsBroken (Plain ''connection lost'')), w))\<rparr>) () =
   (Inr [''orders''], ())"
  by code_simp

end
