(* ===== verification/Engine_Adapters.thy ===== *)
theory Engine_Adapters
  imports Datasource_Query Worker_Request Engine_Planner Engine_Runner Engine_Cursor
begin

text \<open>
  The adapters that let the Engine drive the datasources of the services (\<^verbatim>\<open>pkg/enginecompat\<close>): the connection
  record carried through a descriptor, the snapshot of a schema with its system tables left out, the extraction
  connector, and the tables and filters it hands to a datasource. The record of a connection and a filter
  condition travel through the Engine as opaque values of their types, with the map of their fields as content. A map
  of typed conditions is a value of a type of its own, other than a plain map of them.
\<close>

subsection \<open>Conditions and connections as opaque values\<close>

definition slice_values :: "any option \<Rightarrow> any list" where
  "slice_values a = (case a of Some (ASlice vs) \<Rightarrow> vs | _ \<Rightarrow> [])"

text \<open>The assertion \<^verbatim>\<open>value.(job.FilterCondition)\<close>.\<close>

definition any_condition :: "any \<Rightarrow> FilterCondition option" where
  "any_condition a =
     (case a of
        ATyped ty (AMap ms) \<Rightarrow>
          if ty = condition_type
          then Some \<lparr>fc_Equals = slice_values (map_of ms ''eq''), fc_GreaterThan = slice_values (map_of ms ''gt''),
                     fc_GreaterOrEqual = slice_values (map_of ms ''gte''), fc_LessThan = slice_values (map_of ms ''lt''),
                     fc_LessOrEqual = slice_values (map_of ms ''lte''), fc_Between = slice_values (map_of ms ''between''),
                     fc_In = slice_values (map_of ms ''in''), fc_NotIn = slice_values (map_of ms ''nin''),
                     fc_NotEquals = slice_values (map_of ms ''ne''), fc_Like = slice_values (map_of ms ''like'')\<rparr>
          else None
      | _ \<Rightarrow> None)"

lemma member_lookup:
  "map_of (map (\<lambda>(k, vs). (k, ASlice vs)) (list_member k vs)) n = (if n = k \<and> vs \<noteq> [] then Some (ASlice vs) else None)"
  by (simp add: list_member_def)

lemma condition_fields:
  defines "at c n \<equiv> slice_values (map_of (map (\<lambda>(k, vs). (k, ASlice vs)) (condition_members c)) n)"
  shows "at c ''eq'' = fc_Equals c" "at c ''gt'' = fc_GreaterThan c" "at c ''gte'' = fc_GreaterOrEqual c"
    "at c ''lt'' = fc_LessThan c" "at c ''lte'' = fc_LessOrEqual c" "at c ''between'' = fc_Between c" "at c ''in'' = fc_In c"
    "at c ''nin'' = fc_NotIn c" "at c ''ne'' = fc_NotEquals c" "at c ''like'' = fc_Like c"
  by (simp_all add: at_def condition_members_def map_add_def member_lookup slice_values_def)

lemma condition_round_trip [simp]: "any_condition (condition_any c) = Some c"
proof -
  let ?ms = "map (\<lambda>(k, vs). (k, ASlice vs)) (condition_members c)"
  have "any_condition (ATyped condition_type (AMap ?ms)) = Some c"
    by (simp only: any_condition_def any.case condition_fields if_True) simp
  then show ?thesis by (simp add: condition_any_def)
qed

text \<open>The record of a connection under \<^verbatim>\<open>HostAttributes\<close>: a pointer in the code, its fields here.\<close>

definition hostRecordKey :: string where
  "hostRecordKey = ''fetcher.connection.record''"

definition ssl_any :: "SSLConfig option \<Rightarrow> any" where
  "ssl_any s =
     (case s of
        None \<Rightarrow> ANil
      | Some c \<Rightarrow> AMap [(''Mode'', AString (ssl_Mode c)), (''CA'', AString (ssl_CA c)), (''Cert'', AString (ssl_Cert c)),
                      (''Key'', AString (ssl_Key c))])"

definition connection_type :: string where
  "connection_type = ''*model.Connection''"

definition connection_any :: "Connection \<Rightarrow> any" where
  "connection_any c =
     ATyped connection_type (AMap [(''ID'', AString (cn_ID c)), (''ProductName'', AString (cn_ProductName c)), (''ConfigName'', AString (cn_ConfigName c)),
       (''Type'', AString (cn_Type c)), (''Host'', AString (cn_Host c)), (''Port'', AInt (cn_Port c)),
       (''DatabaseName'', AString (cn_DatabaseName c)),
       (''Schema'', case cn_Schema c of None \<Rightarrow> ANil | Some x \<Rightarrow> AString x),
       (''Username'', AString (cn_Username c)), (''PasswordEncrypted'', AString (cn_PasswordEncrypted c)),
       (''EncryptionKeyVersion'', AString (cn_EncryptionKeyVersion c)), (''SSL'', ssl_any (cn_SSL c)),
       (''Metadata'', case cn_Metadata c of None \<Rightarrow> ANil | Some m \<Rightarrow> AMap m), (''CreatedAt'', AInt (cn_CreatedAt c)),
       (''UpdatedAt'', AInt (cn_UpdatedAt c)), (''DeletedAt'', case cn_DeletedAt c of None \<Rightarrow> ANil | Some t \<Rightarrow> AInt t),
       (''password'', AString (cn_password c))])"

definition text_at :: "row \<Rightarrow> string \<Rightarrow> string" where
  "text_at m k = (case map_of m k of Some (AString x) \<Rightarrow> x | _ \<Rightarrow> [])"

definition number_at :: "row \<Rightarrow> string \<Rightarrow> int" where
  "number_at m k = (case map_of m k of Some (AInt x) \<Rightarrow> x | _ \<Rightarrow> 0)"

text \<open>The assertion \<^verbatim>\<open>.(*model.Connection)\<close>.\<close>

definition any_connection :: "any \<Rightarrow> Connection option" where
  "any_connection a =
     (case a of
        ATyped ty (AMap m) \<Rightarrow>
          if ty \<noteq> connection_type then None
          else Some
            \<lparr>cn_ID = text_at m ''ID'', cn_ProductName = text_at m ''ProductName'', cn_ConfigName = text_at m ''ConfigName'',
             cn_Type = text_at m ''Type'', cn_Host = text_at m ''Host'', cn_Port = number_at m ''Port'',
             cn_DatabaseName = text_at m ''DatabaseName'',
             cn_Schema = (case map_of m ''Schema'' of Some (AString x) \<Rightarrow> Some x | _ \<Rightarrow> None),
             cn_Username = text_at m ''Username'', cn_PasswordEncrypted = text_at m ''PasswordEncrypted'',
             cn_EncryptionKeyVersion = text_at m ''EncryptionKeyVersion'',
             cn_SSL = (case map_of m ''SSL'' of
                         Some (AMap x) \<Rightarrow> Some \<lparr>ssl_Mode = text_at x ''Mode'', ssl_CA = text_at x ''CA'',
                                              ssl_Cert = text_at x ''Cert'', ssl_Key = text_at x ''Key''\<rparr>
                       | _ \<Rightarrow> None),
             cn_Metadata = (case map_of m ''Metadata'' of Some (AMap x) \<Rightarrow> Some x | _ \<Rightarrow> None),
             cn_CreatedAt = number_at m ''CreatedAt'', cn_UpdatedAt = number_at m ''UpdatedAt'',
             cn_DeletedAt = (case map_of m ''DeletedAt'' of Some (AInt t) \<Rightarrow> Some t | _ \<Rightarrow> None),
             cn_password = text_at m ''password''\<rparr>
      | _ \<Rightarrow> None)"

lemma connection_any_round_trip [simp]: "any_connection (connection_any c) = Some c"
proof -
  have "(case ssl_any s of AMap x \<Rightarrow> Some \<lparr>ssl_Mode = text_at x ''Mode'', ssl_CA = text_at x ''CA'',
      ssl_Cert = text_at x ''Cert'', ssl_Key = text_at x ''Key''\<rparr> | _ \<Rightarrow> None) = s" for s
    by (cases s) (simp_all add: ssl_any_def text_at_def)
  moreover have "(case (case s of None \<Rightarrow> ANil | Some x \<Rightarrow> AString x) of AString x \<Rightarrow> Some x | _ \<Rightarrow> None) = s" for s
    by (cases s) simp_all
  moreover have "(case (case s of None \<Rightarrow> ANil | Some x \<Rightarrow> AMap x) of AMap x \<Rightarrow> Some x | _ \<Rightarrow> None) = s" for s
    by (cases s) simp_all
  moreover have "(case (case s of None \<Rightarrow> ANil | Some x \<Rightarrow> AInt x) of AInt x \<Rightarrow> Some x | _ \<Rightarrow> None) = s" for s
    by (cases s) simp_all
  ultimately show ?thesis by (simp add: connection_any_def any_connection_def text_at_def number_at_def)
qed

definition DescriptorFromConnection :: "Connection option \<Rightarrow> ConnectionDescriptor" where
  "DescriptorFromConnection conn =
     (case conn of
        None \<Rightarrow> \<lparr>d_ID = [], d_ConfigName = [], d_Type = [], d_Host = [], d_Port = 0, d_DatabaseName = [], d_Schema = [],
                 d_Username = [], d_SSLMode = [], d_KeyVersion = 0, d_HostAttributes = None\<rparr>
      | Some c \<Rightarrow>
          \<lparr>d_ID = cn_ID c, d_ConfigName = cn_ConfigName c, d_Type = cn_Type c, d_Host = cn_Host c, d_Port = cn_Port c,
           d_DatabaseName = cn_DatabaseName c, d_Schema = (case cn_Schema c of None \<Rightarrow> [] | Some x \<Rightarrow> x),
           d_Username = cn_Username c, d_SSLMode = (case cn_SSL c of None \<Rightarrow> [] | Some x \<Rightarrow> ssl_Mode x), d_KeyVersion = 0,
           d_HostAttributes = Some [(hostRecordKey, connection_any c)]\<rparr>)"

definition ConnectionFromDescriptor :: "ConnectionDescriptor \<Rightarrow> Connection option" where
  "ConnectionFromDescriptor desc =
     (case d_HostAttributes desc of
        None \<Rightarrow> None
      | Some attrs \<Rightarrow> (case map_of attrs hostRecordKey of None \<Rightarrow> None | Some a \<Rightarrow> any_connection a))"

lemma record_survives [simp]: "ConnectionFromDescriptor (DescriptorFromConnection (Some c)) = Some c"
  by (simp add: ConnectionFromDescriptor_def DescriptorFromConnection_def)

subsection \<open>Snapshots\<close>

definition isPostgreSQLSystemTable :: "string \<Rightarrow> bool" where
  "isPostgreSQLSystemTable tableName \<longleftrightarrow> (\<exists>p \<in> set [''pg_'', ''information_schema'']. prefix p tableName \<or> tableName = p)"

definition isMySQLSystemTable :: "string \<Rightarrow> bool" where
  "isMySQLSystemTable tableName \<longleftrightarrow> tableName \<in> set [''mysql'', ''information_schema'', ''performance_schema'', ''sys'']"

definition isOracleSystemTable :: "string \<Rightarrow> bool" where
  "isOracleSystemTable tableName \<longleftrightarrow>
     (let t = ToUpper tableName
      in CHR ''$'' \<in> set t \<or>
         (\<exists>p \<in> set [''LOGMNR'', ''REDO_'', ''MVIEW$'', ''AQ$'', ''DEF$'', ''REPCAT$'', ''SQLPLUS_'']. prefix p t) \<or>
         t \<in> set [''REDO_LOG'', ''REDO_DB'', ''PLAN_TABLE''] \<or>
         t \<in> set [''SYS'', ''SYSTEM'', ''OUTLN'', ''XDB'', ''MDSYS'', ''CTXSYS'', ''DBSNMP'', ''WMSYS'', ''EXFSYS'', ''ORDSYS'', ''ORDDATA'',
                  ''ORDPLUGINS'', ''SI_INFORMTN_SCHEMA'', ''APEX_PUBLIC_USER'', ''APEX_040000'', ''APEX_030200'', ''FLOWS_FILES'',
                  ''ANONYMOUS''])"

definition isSQLServerSystemTable :: "string \<Rightarrow> bool" where
  "isSQLServerSystemTable tableName \<longleftrightarrow>
     tableName \<in> set [''sys'', ''information_schema''] \<or> prefix ''db_'' tableName \<or>
     (case before_dot tableName of None \<Rightarrow> False | Some schema \<Rightarrow> prefix ''db_'' schema)"

definition isMongoDBSystemCollection :: "string \<Rightarrow> bool" where
  "isMongoDBSystemCollection collectionName \<longleftrightarrow>
     prefix ''system.'' collectionName \<or> collectionName \<in> set [''admin'', ''local'', ''config'']"

definition IsSystemTable :: "DBType \<Rightarrow> string \<Rightarrow> bool" where
  "IsSystemTable dbType tableName \<longleftrightarrow>
     (if dbType = TypePostgreSQL then isPostgreSQLSystemTable (ToLower tableName)
      else if dbType = TypeMySQL then isMySQLSystemTable (ToLower tableName)
      else if dbType = TypeOracle then isOracleSystemTable tableName
      else if dbType = TypeSQLServer then isSQLServerSystemTable (ToLower tableName)
      else if dbType = TypeMongoDB then isMongoDBSystemCollection (ToLower tableName)
      else False)"

record SnapshotOptions =
  so_FilterSystemTables :: bool
  so_Normalize :: bool

definition normalizeSnapshotFields :: "DBType \<Rightarrow> string list \<Rightarrow> string list" where
  "normalizeSnapshotFields dbType names = (if \<not> FoldsFieldCase dbType then names else map (NormalizeField dbType) names)"

definition BuildSnapshot :: "string \<Rightarrow> DBType \<Rightarrow> DataSourceSchema option \<Rightarrow> SnapshotOptions \<Rightarrow> SchemaSnapshot" where
  "BuildSnapshot configName dbType schema opts =
     (case schema of
        None \<Rightarrow> \<lparr>sn_ConfigName = configName, sn_Tables = [], sn_CapturedAt = 0\<rparr>
      | Some s \<Rightarrow>
          \<lparr>sn_ConfigName = (if ds_ConfigName s \<noteq> [] then ds_ConfigName s else configName),
           sn_Tables = List.map_filter (\<lambda>(name, table).
             let tableName = (if ts_TableName table \<noteq> [] then ts_TableName table else name)
             in if so_FilterSystemTables opts \<and> IsSystemTable dbType tableName then None
                else if so_Normalize opts
                then Some \<lparr>tb_Name = NormalizeTable dbType tableName,
                           tb_Fields = normalizeSnapshotFields dbType (GetColumnsList table)\<rparr>
                else Some \<lparr>tb_Name = tableName, tb_Fields = GetColumnsList table\<rparr>) (ds_Tables s),
           sn_CapturedAt = ds_CachedAt s\<rparr>)"

definition snapshotFromSchema :: "string \<Rightarrow> DBType \<Rightarrow> DataSourceSchema option \<Rightarrow> SchemaSnapshot" where
  "snapshotFromSchema configName dbType schema =
     BuildSnapshot configName dbType schema \<lparr>so_FilterSystemTables = True, so_Normalize = True\<rparr>"

definition SnapshotFromDataSourceSchema :: "DataSourceSchema option \<Rightarrow> SchemaSnapshot" where
  "SnapshotFromDataSourceSchema schema =
     BuildSnapshot (case schema of None \<Rightarrow> [] | Some s \<Rightarrow> ds_ConfigName s) [] schema
       \<lparr>so_FilterSystemTables = False, so_Normalize = False\<rparr>"

definition DataSourceSchemaFromSnapshot :: "SchemaSnapshot \<Rightarrow> DataSourceSchema" where
  "DataSourceSchemaFromSnapshot snapshot =
     foldl (\<lambda>s t. AddTable s (tb_Name t) (tb_Fields t)) (NewDataSourceSchema (sn_ConfigName snapshot)) (sn_Tables snapshot)"

subsection \<open>What a datasource is asked for\<close>

definition tablesForConfig :: "string \<Rightarrow> ExtractionRequest \<Rightarrow> (string, string list) gomap" where
  "tablesForConfig configName request =
     (case map_of (MappedFields request) configName of None \<Rightarrow> [] | Some selection \<Rightarrow> copy_map selection)"

definition typed_conditions :: "(string, any) gomap \<Rightarrow> (string, FilterCondition) gomap" where
  "typed_conditions names =
     foldl (\<lambda>conditions (field, v).
       case any_condition v of None \<Rightarrow> conditions | Some c \<Rightarrow> AList.update field c conditions) [] names"

text \<open>A value of the typed map is returned as it is.\<close>

definition typed_filters_type :: string where
  "typed_filters_type = ''map[string]map[string]job.FilterCondition''"

definition typed_filters :: "(string, any) gomap \<Rightarrow> table_filters" where
  "typed_filters tables =
     map (\<lambda>(table, v). (table, case v of AMap names \<Rightarrow> typed_conditions names | _ \<Rightarrow> [])) tables"

definition filtersForConfig :: "string \<Rightarrow> ExtractionRequest \<Rightarrow> table_filters" where
  "filtersForConfig configName request =
     (case map_of (Filters request) configName of
        Some (AMap tables) \<Rightarrow>
          foldl (\<lambda>out (table, tableRaw).
            case tableRaw of
              AMap names \<Rightarrow>
                let conditions = typed_conditions names
                in if conditions \<noteq> [] then AList.update table conditions out else out
            | _ \<Rightarrow> out) [] tables
      | Some (ATyped ty (AMap tables)) \<Rightarrow> if ty = typed_filters_type then typed_filters tables else []
      | _ \<Rightarrow> [])"

subsection \<open>The connector\<close>

record ('d, 'w) SourceOps =
  so_Query :: "'d \<Rightarrow> (string, string list) gomap \<Rightarrow> table_filters \<Rightarrow> 'w \<Rightarrow> (serror, (string, row list) gomap) result \<times> 'w"
  so_GetSchemaInfo :: "'d \<Rightarrow> string list \<Rightarrow> 'w \<Rightarrow> (serror, DataSourceSchema option) result \<times> 'w"
  so_Close :: "'d \<Rightarrow> 'w \<Rightarrow> serror option \<times> 'w"

record ('d, 'w) AdapterFactory =
  af_factory :: "Connection \<Rightarrow> 'w \<Rightarrow> (serror, 'd) result \<times> 'w"
  af_resolver :: "ConnectionDescriptor \<Rightarrow> 'w \<Rightarrow> (serror, string) result \<times> 'w"

record 'd AdapterConnector =
  ac_descriptor :: ConnectionDescriptor
  ac_ds :: "'d option"

definition adapter_Build :: "ConnectionDescriptor \<Rightarrow> 'd AdapterConnector res" where
  "adapter_Build descriptor =
     (case NewTypeFromString (d_Type descriptor) of
        Inl _ \<Rightarrow> Inl (UnknownConnectorTypeError (d_Type descriptor))
      | Inr _ \<Rightarrow> Inr \<lparr>ac_descriptor = descriptor, ac_ds = None\<rparr>)"

text \<open>\<^verbatim>\<open>uuid.Parse\<close> of the trimmed id is a parameter.\<close>

definition parseConnectionID :: "(string \<Rightarrow> string option) \<Rightarrow> string \<Rightarrow> string" where
  "parseConnectionID parse i = (case parse (TrimSpace i) of None \<Rightarrow> uuid_Nil | Some u \<Rightarrow> u)"

definition adapter_buildConnection ::
  "(string \<Rightarrow> string option) \<Rightarrow> ('d, 'w) AdapterFactory \<Rightarrow> ConnectionDescriptor \<Rightarrow> 'w \<Rightarrow> Connection res \<times> 'w" where
  "adapter_buildConnection parse cf d w =
     (case ConnectionFromDescriptor d of
        Some rich \<Rightarrow> (Inr rich, w)
      | None \<Rightarrow>
          (case af_resolver cf d w of
             (Inl _, w1) \<Rightarrow> (Inl (NewEngineError CategoryUnavailable ''failed to resolve datasource credential''), w1)
           | (Inr password, w1) \<Rightarrow>
               (case NewTypeFromString (d_Type d) of
                  Inl _ \<Rightarrow> (Inl (UnknownConnectorTypeError (d_Type d)), w1)
                | Inr dbType \<Rightarrow>
                    (Inr \<lparr>cn_ID = parseConnectionID parse (d_ID d), cn_ProductName = [], cn_ConfigName = d_ConfigName d,
                          cn_Type = dbType, cn_Host = d_Host d, cn_Port = d_Port d, cn_DatabaseName = d_DatabaseName d,
                          cn_Schema = (if d_Schema d \<noteq> [] then Some (d_Schema d) else None), cn_Username = d_Username d,
                          cn_PasswordEncrypted = [], cn_EncryptionKeyVersion = [],
                          cn_SSL = (if d_SSLMode d \<noteq> []
                                    then Some \<lparr>ssl_Mode = d_SSLMode d, ssl_CA = [], ssl_Cert = [], ssl_Key = []\<rparr> else None),
                          cn_Metadata = None, cn_CreatedAt = 0, cn_UpdatedAt = 0, cn_DeletedAt = None,
                          cn_password = password\<rparr>, w1))))"

definition ensureConnected ::
  "(string \<Rightarrow> string option) \<Rightarrow> ('d, 'w) AdapterFactory \<Rightarrow> 'd AdapterConnector \<Rightarrow> 'w \<Rightarrow>
   (goerror option \<times> 'd AdapterConnector) \<times> 'w" where
  "ensureConnected parse cf c w =
     (case ac_ds c of
        Some _ \<Rightarrow> ((None, c), w)
      | None \<Rightarrow>
          (case adapter_buildConnection parse cf (ac_descriptor c) w of
             (Inl err, w1) \<Rightarrow> ((Some err, c), w1)
           | (Inr conn, w1) \<Rightarrow>
               (case af_factory cf conn w1 of
                  (Inl _, w2) \<Rightarrow> ((Some (NewEngineError CategoryUnavailable ''failed to connect to datasource''), c), w2)
                | (Inr ds, w2) \<Rightarrow> ((None, c\<lparr>ac_ds := Some ds\<rparr>), w2))))"

definition adapter_TestConnection ::
  "(string \<Rightarrow> string option) \<Rightarrow> ('d, 'w) AdapterFactory \<Rightarrow> 'd AdapterConnector \<Rightarrow> 'w \<Rightarrow>
   (goerror option \<times> 'd AdapterConnector) \<times> 'w" where
  "adapter_TestConnection parse cf c w = ensureConnected parse cf c w"

text \<open>\<open>scope\<close> is the schema scope the host has put into the request's context.\<close>

definition adapter_schemaArg :: "(string \<Rightarrow> string list) \<Rightarrow> ConnectionDescriptor \<Rightarrow> string list" where
  "adapter_schemaArg scope d =
     (if scope (d_ConfigName d) \<noteq> [] then scope (d_ConfigName d)
      else if TrimSpace (d_Schema d) = [] then [] else [d_Schema d])"

definition adapter_DiscoverSchema ::
  "(string \<Rightarrow> string option) \<Rightarrow> ('d, 'w) AdapterFactory \<Rightarrow> ('d, 'w) SourceOps \<Rightarrow> (string \<Rightarrow> string list) \<Rightarrow>
   'd AdapterConnector \<Rightarrow> 'w \<Rightarrow> (SchemaSnapshot res \<times> 'd AdapterConnector) \<times> 'w" where
  "adapter_DiscoverSchema parse cf ops scope c w =
     (case ensureConnected parse cf c w of
        ((Some err, c1), w1) \<Rightarrow> ((Inl err, c1), w1)
      | ((None, c1), w1) \<Rightarrow>
          (case ac_ds c1 of
             None \<Rightarrow> ((Inl (NewEngineError CategoryUnavailable ''datasource is not connected''), c1), w1)
           | Some ds \<Rightarrow>
               (case so_GetSchemaInfo ops ds (adapter_schemaArg scope (ac_descriptor c1)) w1 of
                  (Inl _, w2) \<Rightarrow>
                    ((Inl (NewEngineError CategoryUnavailable ''failed to discover datasource schema''), c1), w2)
                | (Inr schema, w2) \<Rightarrow>
                    (let dbType = (case NewTypeFromString (d_Type (ac_descriptor c1)) of Inl _ \<Rightarrow> [] | Inr t \<Rightarrow> t)
                     in ((Inr (snapshotFromSchema (d_ConfigName (ac_descriptor c1)) dbType schema), c1), w2)))))"

definition adapter_QueryStream ::
  "('d, 'w) SourceOps \<Rightarrow> 'd AdapterConnector \<Rightarrow> ExtractionRequest \<Rightarrow> 'w \<Rightarrow> eagerCursor res \<times> 'w" where
  "adapter_QueryStream ops c request w =
     (case ac_ds c of
        None \<Rightarrow> (Inl (NewEngineError CategoryUnavailable ''datasource is not connected''), w)
      | Some ds \<Rightarrow>
          (let name = d_ConfigName (ac_descriptor c)
           in case so_Query ops ds (tablesForConfig name request) (filtersForConfig name request) w of
                (Inl _, w1) \<Rightarrow> (Inl (NewEngineError CategoryUnavailable ''failed to query datasource''), w1)
              | (Inr rows, w1) \<Rightarrow> (Inr (NewEagerCursor rows), w1)))"

definition adapter_Close ::
  "('d, 'w) SourceOps \<Rightarrow> 'd AdapterConnector \<Rightarrow> 'w \<Rightarrow> (goerror option \<times> 'd AdapterConnector) \<times> 'w" where
  "adapter_Close ops c w =
     (case ac_ds c of
        None \<Rightarrow> ((None, c), w)
      | Some ds \<Rightarrow>
          (case so_Close ops ds w of
             (err, w1) \<Rightarrow>
               ((map_option (\<lambda>_. NewEngineError CategoryUnavailable ''failed to close datasource'') err, c\<lparr>ac_ds := None\<rparr>), w1)))"

text \<open>A second close finds nothing to close, whatever the first one reported.\<close>

lemma close_once:
  assumes "adapter_Close ops c w = ((err, c'), w')"
  shows "adapter_Close ops c' w' = ((None, c'), w')"
  using assms by (auto simp: adapter_Close_def split: option.splits prod.splits)

text \<open>A connector opened with the host's record connects with that very record.\<close>

lemma record_is_dialled:
  assumes "ac_descriptor c = DescriptorFromConnection (Some conn)" and "ac_ds c = None"
  shows "ensureConnected parse cf c w =
    (case af_factory cf conn w of
       (Inl _, w1) \<Rightarrow> ((Some (NewEngineError CategoryUnavailable ''failed to connect to datasource''), c), w1)
     | (Inr ds, w1) \<Rightarrow> ((None, c\<lparr>ac_ds := Some ds\<rparr>), w1))"
  using assms by (simp add: ensureConnected_def adapter_buildConnection_def)

subsection \<open>Conditions on their way to the datasource\<close>

definition cond_at :: "(string, (string, 'a) gomap) gomap \<Rightarrow> string \<Rightarrow> string \<Rightarrow> 'a option" where
  "cond_at m t f = Option.bind (map_of m t) (\<lambda>conditions. map_of conditions f)"

lemma typed_fold:
  "map_ok names \<Longrightarrow>
   map_of (foldl (\<lambda>conditions (field, v).
       case any_condition v of None \<Rightarrow> conditions | Some c \<Rightarrow> AList.update field c conditions) acc names) f =
     (case Option.bind (map_of names f) any_condition of None \<Rightarrow> map_of acc f | Some c \<Rightarrow> Some c)"
proof (induction names arbitrary: acc)
  case (Cons x names)
  then show ?case by (cases x) (auto simp: Cons.IH split: option.splits)
qed simp

lemma typed_lookup: "map_ok names \<Longrightarrow> map_of (typed_conditions names) f = Option.bind (map_of names f) any_condition"
  by (simp add: typed_conditions_def typed_fold split: option.splits)

definition table_conditions :: "any \<Rightarrow> (string, FilterCondition) gomap" where
  "table_conditions a = (case a of AMap names \<Rightarrow> typed_conditions names | _ \<Rightarrow> [])"

lemma filters_fold:
  "map_ok tables \<Longrightarrow>
   map_of (foldl (\<lambda>out (table, tableRaw). case tableRaw of
       AMap names \<Rightarrow> let conditions = typed_conditions names in if conditions \<noteq> [] then AList.update table conditions out else out
     | _ \<Rightarrow> out) acc tables) t =
     (case map_of tables t of
        Some a \<Rightarrow> if table_conditions a = [] then map_of acc t else Some (table_conditions a)
      | None \<Rightarrow> map_of acc t)"
proof (induction tables arbitrary: acc)
  case (Cons x tables)
  obtain n a where x: "x = (n, a)" by (cases x)
  have ok: "map_of tables n = None" "map_ok tables" using Cons.prems x by auto
  show ?case using ok by (cases a) (auto simp: x Cons.IH table_conditions_def Let_def split: option.splits)
qed simp

text \<open>The conditions the step hands over are the ones the Engine carries for the step.\<close>

lemma filtersToAny_lookup: "map_ok m \<Longrightarrow> map_of (filtersToAny m) t = map_option AMap (map_of m t)"
proof -
  have "map_of (foldl (\<lambda>out (table, names). AList.update table (AMap names) out) acc m) t =
      (case map_of m t of None \<Rightarrow> map_of acc t | Some names \<Rightarrow> Some (AMap names))" if "map_ok m" for acc
    using that
  proof (induction m arbitrary: acc)
    case (Cons x m)
    then show ?case by (cases x) (auto simp: Cons.IH split: option.splits)
  qed simp
  then show "map_ok m \<Longrightarrow> ?thesis" by (simp add: filtersToAny_def split: option.splits)
qed

lemma filtersToAny_ok: "map_ok (filtersToAny m)"
proof -
  have "map_ok (foldl (\<lambda>out (table, names). AList.update table (AMap names) out) acc m)" if "map_ok acc" for acc
    using that by (induction m arbitrary: acc) auto
  then show ?thesis by (simp add: filtersToAny_def)
qed

lemma step_filters:
  assumes "map_ok (st_Filters step)" and "\<And>t names. map_of (st_Filters step) t = Some names \<Longrightarrow> map_ok names"
  shows "cond_at (filtersForConfig (st_ConfigName step) (extractionRequestForStep step)) t f =
    Option.bind (cond_at (st_Filters step) t f) any_condition"
proof (cases "st_Filters step = []")
  case True
  then show ?thesis by (simp add: extractionRequestForStep_def filtersForConfig_def cond_at_def map_len_def)
next
  case False
  have "filtersForConfig (st_ConfigName step) (extractionRequestForStep step) =
      foldl (\<lambda>out (table, tableRaw). case tableRaw of
         AMap names \<Rightarrow> let conditions = typed_conditions names in if conditions \<noteq> [] then AList.update table conditions out else out
       | _ \<Rightarrow> out) [] (filtersToAny (st_Filters step))"
    using False by (simp add: filtersForConfig_def extractionRequestForStep_def map_len_def)
  then have "map_of (filtersForConfig (st_ConfigName step) (extractionRequestForStep step)) t =
      (case map_of (filtersToAny (st_Filters step)) t of
         Some a \<Rightarrow> if table_conditions a = [] then None else Some (table_conditions a) | None \<Rightarrow> None)"
    using filters_fold[OF filtersToAny_ok, of "[]" "st_Filters step" t] by (simp split: option.split)
  then have l: "map_of (filtersForConfig (st_ConfigName step) (extractionRequestForStep step)) t =
      (case map_of (st_Filters step) t of
         Some names \<Rightarrow> if typed_conditions names = [] then None else Some (typed_conditions names) | None \<Rightarrow> None)"
    by (simp add: filtersToAny_lookup[OF assms(1)] table_conditions_def split: option.split)
  show ?thesis
  proof (cases "map_of (st_Filters step) t")
    case None
    then show ?thesis using l by (simp add: cond_at_def)
  next
    case (Some names)
    have "map_of (typed_conditions names) f = Option.bind (map_of names f) any_condition"
      using typed_lookup[OF assms(2)[OF Some]] .
    then show ?thesis using l Some by (cases "typed_conditions names = []") (simp_all add: cond_at_def)
  qed
qed

lemma update_fold_ok: "map_ok acc \<Longrightarrow> map_ok (foldl (\<lambda>m (k, v). AList.update (g k) (h v) m) acc xs)"
  by (induction xs arbitrary: acc) auto

lemma update_fold_inj:
  assumes "map_ok xs" and "inj_on g (dom (map_of xs))"
  shows "map_of (foldl (\<lambda>m (k, v). AList.update (g k) (h v) m) [] xs) y = Some z \<longleftrightarrow>
    (\<exists>k v. map_of xs k = Some v \<and> g k = y \<and> h v = z)"
  using assms
proof (induction xs rule: rev_induct)
  case (snoc x xs)
  obtain k v where x: "x = (k, v)" by (cases x)
  have ok: "map_ok xs" "map_of xs k = None"
    using snoc.prems(1) x by (auto simp: map_ok_def keys_def map_of_eq_None_iff)
  have of: "map_of (xs @ [x]) = (map_of xs)(k \<mapsto> v)"
    using ok(2) by (auto simp: x map_add_def fun_eq_iff split: option.splits)
  have "inj_on g (dom (map_of xs))" using snoc.prems(2) unfolding of by (rule inj_on_subset) auto
  note IH = snoc.IH[OF ok(1) this]
  have fresh: "g k' \<noteq> g k" if "map_of xs k' = Some v'" for k' v'
  proof
    assume "g k' = g k"
    then have "k' = k" by (rule inj_onD[OF snoc.prems(2)[unfolded of]]) (use that in auto)
    then show False using that ok(2) by simp
  qed
  show ?case
    unfolding of using IH fresh ok(2) by (auto simp: x) (metis option.distinct(1))+
qed simp

text \<open>Two spellings of one name in a request are apart by the canonical names they stand for.\<close>

definition spelled_once :: "DBType \<Rightarrow> table_filters \<Rightarrow> bool" where
  "spelled_once t tables \<longleftrightarrow>
     map_ok tables \<and> distinct (map (NormalizeTable t) (keys tables)) \<and>
     list_all (\<lambda>(_, conditions). map_ok conditions \<and> distinct (map (NormalizeField t) (keys conditions))) tables"

lemma distinct_keys_inj: "distinct (map g (keys m)) \<Longrightarrow> inj_on g (dom (map_of m))"
  by (simp add: distinct_map flip: set_keys)

lemma mapConditions_lookup:
  assumes "map_ok conditions" and "distinct (map (NormalizeField t) (keys conditions))"
  shows "map_ok (mapConditions t conditions)"
    and "map_of (mapConditions t conditions) y = Some z \<longleftrightarrow>
      (\<exists>f c. map_of conditions f = Some c \<and> NormalizeField t f = y \<and> condition_any c = z)"
  using update_fold_inj[OF assms(1) distinct_keys_inj[OF assms(2)], of condition_any y z]
    update_fold_ok[of "[]" "NormalizeField t" condition_any conditions]
  by (simp_all add: mapConditions_def)

lemma mapTableFilters_fold:
  assumes "map_ok tables" and "inj_on (NormalizeTable t) (dom (map_of tables))"
  shows "mapTableFilters t tables = foldl (\<lambda>m (k, v). AList.update (NormalizeTable t k) (mapConditions t v) m) [] tables"
  using assms
proof (induction tables rule: rev_induct)
  case (snoc x xs)
  obtain k v where x: "x = (k, v)" by (cases x)
  have ok: "map_ok xs" "map_of xs k = None"
    using snoc.prems(1) x by (auto simp: map_ok_def keys_def map_of_eq_None_iff)
  have of: "map_of (xs @ [x]) = (map_of xs)(k \<mapsto> v)"
    using ok(2) by (auto simp: x map_add_def fun_eq_iff split: option.splits)
  have inj: "inj_on (NormalizeTable t) (dom (map_of xs))" using snoc.prems(2) unfolding of by (rule inj_on_subset) auto
  note IH = snoc.IH[OF ok(1) inj]
  have "map_of (mapTableFilters t xs) (NormalizeTable t k) = None"
  proof (rule ccontr)
    assume "map_of (mapTableFilters t xs) (NormalizeTable t k) \<noteq> None"
    then obtain k' v' where k': "map_of xs k' = Some v'" "NormalizeTable t k' = NormalizeTable t k"
      using update_fold_inj[OF ok(1) inj, of "mapConditions t"] unfolding IH by auto
    have "k' = k" by (rule inj_onD[OF snoc.prems(2)[unfolded of] k'(2)]) (use k'(1) in auto)
    then show False using k'(1) ok(2) by simp
  qed
  then show ?case using IH by (simp add: mapTableFilters_def x Let_def)
qed (simp add: mapTableFilters_def)

lemma mapTableFilters_lookup:
  assumes "spelled_once t tables"
  shows "map_ok (mapTableFilters t tables)"
    and "map_of (mapTableFilters t tables) y = Some z \<longleftrightarrow>
      (\<exists>n cs. map_of tables n = Some cs \<and> NormalizeTable t n = y \<and> mapConditions t cs = z)"
    and "map_of (mapTableFilters t tables) y = Some z \<Longrightarrow> map_ok z"
    and "cond_at (mapTableFilters t tables) y f = Some a \<longleftrightarrow>
      (\<exists>n g c. cond_at tables n g = Some c \<and> NormalizeTable t n = y \<and> NormalizeField t g = f \<and> condition_any c = a)"
proof -
  have ok: "map_ok tables" and inj: "inj_on (NormalizeTable t) (dom (map_of tables))"
    using assms distinct_keys_inj by (auto simp: spelled_once_def)
  have c: "map_ok cs \<and> distinct (map (NormalizeField t) (keys cs))" if "map_of tables n = Some cs" for n cs
    using assms map_of_SomeD[OF that] by (auto simp: spelled_once_def list_all_iff)
  show 1: "map_ok (mapTableFilters t tables)" unfolding mapTableFilters_fold[OF ok inj] by (rule update_fold_ok) simp
  show 2: "map_of (mapTableFilters t tables) y = Some z \<longleftrightarrow>
      (\<exists>n cs. map_of tables n = Some cs \<and> NormalizeTable t n = y \<and> mapConditions t cs = z)" for y z
    unfolding mapTableFilters_fold[OF ok inj] by (rule update_fold_inj[OF ok inj])
  show "map_ok z" if "map_of (mapTableFilters t tables) y = Some z"
  proof -
    from that obtain n cs where "map_of tables n = Some cs" "mapConditions t cs = z" unfolding 2 by blast
    then show ?thesis using c mapConditions_lookup(1) by metis
  qed
  show "cond_at (mapTableFilters t tables) y f = Some a \<longleftrightarrow>
      (\<exists>n g c. cond_at tables n g = Some c \<and> NormalizeTable t n = y \<and> NormalizeField t g = f \<and> condition_any c = a)"
  proof -
    have m: "map_of (mapConditions t cs) f = Some a \<longleftrightarrow>
        (\<exists>g c. map_of cs g = Some c \<and> NormalizeField t g = f \<and> condition_any c = a)" if "map_of tables n = Some cs" for n cs
      using c[OF that] by (intro mapConditions_lookup(2)) simp_all
    have "cond_at (mapTableFilters t tables) y f = Some a \<longleftrightarrow>
        (\<exists>n cs. map_of tables n = Some cs \<and> NormalizeTable t n = y \<and> map_of (mapConditions t cs) f = Some a)"
      unfolding cond_at_def bind_eq_Some_conv 2 by blast
    also have "\<dots> \<longleftrightarrow> (\<exists>n cs g c. map_of tables n = Some cs \<and> NormalizeTable t n = y \<and> map_of cs g = Some c \<and>
        NormalizeField t g = f \<and> condition_any c = a)"
      using m by blast
    finally show ?thesis unfolding cond_at_def bind_eq_Some_conv by blast
  qed
qed

text \<open>From the filters of a job to the conditions its connector hands to the datasource.\<close>

lemma planned_filters:
  assumes "map_of fs c = Some tables" and "spelled_once (types c) tables"
  shows "map_ok (datasourceFilters (mapFilters fs types) c)"
    and "map_of (datasourceFilters (mapFilters fs types) c) y = map_option copy_map (map_of (mapTableFilters (types c) tables) y)"
proof -
  let ?m = "mapTableFilters (types c) tables"
  have "map_of (mapFilters fs types) c = Some (AMap (map (\<lambda>(table, names). (table, AMap names)) ?m))"
    using assms(1) unfolding mapFilters_def
    by (subst map_of_map_entries[where f = "\<lambda>c tables. AMap (map (\<lambda>(table, names). (table, AMap names))
          (mapTableFilters (types c) tables))"]) simp
  then have d: "datasourceFilters (mapFilters fs types) c = foldl filter_step [] (map (\<lambda>(table, names). (table, AMap names)) ?m)"
    by (simp add: datasourceFilters_def)
  have "map_of (map (\<lambda>(table, names). (table, AMap names)) ?m) y = map_option AMap (map_of ?m y)"
    by (subst map_of_map_entries[where f = "\<lambda>_. AMap"]) simp
  moreover have "map_ok (map (\<lambda>(table, names). (table, AMap names)) ?m)"
    using mapTableFilters_lookup(1)[OF assms(2)] map_ok_map_entries[of "\<lambda>_. AMap" ?m] by simp
  ultimately show "map_of (datasourceFilters (mapFilters fs types) c) y = map_option copy_map (map_of ?m y)"
    unfolding d by (cases "map_of ?m y") (simp_all add: filter_fold_lookup filter_fields_def)
qed simp

lemma delivered_conditions:
  assumes "map_of fs c = Some tables" and "spelled_once (types c) tables"
    and "st_ConfigName step = c" and "st_Filters step = datasourceFilters (mapFilters fs types) c"
  shows "cond_at (filtersForConfig c (extractionRequestForStep step)) t f = Some k \<longleftrightarrow>
    (\<exists>n g. cond_at tables n g = Some k \<and> NormalizeTable (types c) n = t \<and> NormalizeField (types c) g = f)"
proof -
  let ?m = "mapTableFilters (types c) tables"
  note ok = mapTableFilters_lookup(3)[OF assms(2)]
  have l: "map_of (st_Filters step) y = map_option copy_map (map_of ?m y)" for y
    unfolding assms(4) by (rule planned_filters(2)[where fs = fs and c = c and types = types, OF assms(1,2)])
  have s: "cond_at (st_Filters step) t f = cond_at ?m t f"
    by (cases "map_of ?m t") (simp_all add: cond_at_def l copy_map_of ok)
  have "map_ok (st_Filters step)" unfolding assms(4) by simp
  moreover have "map_ok names" if "map_of (st_Filters step) y = Some names" for y names using that l by auto
  ultimately have "cond_at (filtersForConfig c (extractionRequestForStep step)) t f = Option.bind (cond_at ?m t f) any_condition"
    using step_filters[of step t f] assms(3) s by simp
  also have "\<dots> = Some k \<longleftrightarrow> (\<exists>a. cond_at ?m t f = Some a \<and> any_condition a = Some k)" by (rule bind_eq_Some_conv)
  also have "\<dots> \<longleftrightarrow> (\<exists>n g. cond_at tables n g = Some k \<and> NormalizeTable (types c) n = t \<and> NormalizeField (types c) g = f)"
    unfolding mapTableFilters_lookup(4)[OF assms(2)] using condition_round_trip by (metis option.inject)
  finally show ?thesis .
qed

lemma no_conditions:
  assumes "map_of fs c = None" and "st_ConfigName step = c" and "st_Filters step = datasourceFilters (mapFilters fs types) c"
  shows "filtersForConfig c (extractionRequestForStep step) = []"
proof -
  have "map_of (mapFilters fs types) c = None"
    using assms(1) unfolding mapFilters_def
    by (subst map_of_map_entries[where f = "\<lambda>c tables. AMap (map (\<lambda>(table, names). (table, AMap names))
          (mapTableFilters (types c) tables))"]) simp
  then have "st_Filters step = []" by (simp add: assms(3) datasourceFilters_def)
  then show ?thesis by (simp add: filtersForConfig_def extractionRequestForStep_def map_len_def)
qed

lemma map_of_graph: "map_of (map (\<lambda>k. (k, g k)) ks) k = (if k \<in> set ks then Some (g k) else None)"
  by (induction ks) auto

lemma step_tables:
  assumes "map_of (MappedFields r) c = Some sel" and "map_ok sel"
  shows "map_of (tablesForConfig c (extractionRequestForStep (buildStep r i c))) t =
    (if t \<in> dom (map_of sel) then Some (sort (slice_at sel t)) else None)"
proof -
  have sel: "slice_at (MappedFields r) c = sel" using assms(1) by (simp add: slice_at_def)
  have "keys (st_Fields (buildStep r i c)) = sortedKeys sel" by (simp add: keys_def sel comp_def)
  then have ok: "map_ok (st_Fields (buildStep r i c))" using assms(2) by (simp add: map_ok_def sortedKeys_def)
  have "map_of (st_Fields (buildStep r i c)) t = (if t \<in> dom (map_of sel) then Some (sort (slice_at sel t)) else None)"
    by (simp add: sel map_of_graph)
  then show ?thesis
    by (simp add: tablesForConfig_def extractionRequestForStep_def copy_map_of[OF ok] copy_map_of[OF copy_map_ok]
        del: buildStep_simps(4))
qed

lemma request_step:
  assumes "fst (PlanExtraction e tenant r w) = Inr p" and "step \<in> set (pl_Steps p)"
  obtains i where "step = buildStep r i (st_ConfigName step)"
proof -
  from assms(1) obtain l where "p = buildExtractionPlan tenant r l" by (rule plan_success) blast
  then obtain i c where "step = buildStep r i c" using assms(2) plan_step_cases by blast
  then show thesis using that by simp
qed

end
