(* ===== verification/Adapter_Runs.thy ===== *)
theory Adapter_Runs
  imports Engine_Adapters Memory_Example
begin

text \<open>
  A job on its way to its datasource: the Worker's request, the Engine's plan, the connector's query.
\<close>

subsection \<open>Properties\<close>

text \<open>
  C40: what a job asks for is what its datasource is asked for. When the Engine accepts the request the Worker
  makes of a job, the connector of each step hands its datasource exactly the tables of the job with exactly their
  columns, and exactly the filter conditions of the job for that datasource, each unchanged, under canonical
  names; where the job has no filters it hands over none. No two spellings in the filters stand for one canonical
  name.
\<close>

theorem request_reaches_datasource:
  assumes "fst (PlanExtraction e tenant (mapJobToExtractionRequest message conns) w) = Inr p"
    and "step \<in> set (pl_Steps p)" and "map_of (em_MappedFields message) (st_ConfigName step) = Some wanted"
    and "spelled_once (datasourceTypesByConfig conns (st_ConfigName step)) (slice_at (em_Filters message) (st_ConfigName step))"
  shows "dom (map_of (tablesForConfig (st_ConfigName step) (extractionRequestForStep step))) =
      NormalizeTable (datasourceTypesByConfig conns (st_ConfigName step)) ` fst ` set wanted \<and>
    set (slice_at (tablesForConfig (st_ConfigName step) (extractionRequestForStep step)) t) =
      requested (datasourceTypesByConfig conns (st_ConfigName step)) wanted t \<and>
    (cond_at (filtersForConfig (st_ConfigName step) (extractionRequestForStep step)) t f = Some k \<longleftrightarrow>
      (\<exists>n g. cond_at (slice_at (em_Filters message) (st_ConfigName step)) n g = Some k \<and>
         NormalizeTable (datasourceTypesByConfig conns (st_ConfigName step)) n = t \<and>
         NormalizeField (datasourceTypesByConfig conns (st_ConfigName step)) g = f))"
proof -
  let ?c = "st_ConfigName step"
  let ?types = "datasourceTypesByConfig conns"
  let ?r = "mapJobToExtractionRequest message conns"
  obtain i where step: "step = buildStep ?r i ?c" using request_step[OF assms(1,2)] by blast
  have r: "MappedFields ?r = mapMappedFields (em_MappedFields message) ?types" "Filters ?r = mapFilters (em_Filters message) ?types"
    by (simp_all add: mapJobToExtractionRequest_def Let_def)
  have "map_of (MappedFields ?r) ?c = Some (mapTables (?types ?c) wanted)"
    unfolding r mapMappedFields_def
    by (subst map_of_map_entries[where f = "\<lambda>c tables. mapTables (?types c) tables"]) (simp add: assms(3))
  from step_tables[OF this, of i] have t: "map_of (tablesForConfig ?c (extractionRequestForStep step)) y =
      (if y \<in> dom (map_of (mapTables (?types ?c) wanted)) then Some (sort (slice_at (mapTables (?types ?c) wanted) y)) else None)" for y
    using step by simp
  have "dom (map_of (tablesForConfig ?c (extractionRequestForStep step))) = dom (map_of (mapTables (?types ?c) wanted))"
    unfolding dom_def t by (auto split: if_splits)
  moreover have "set (slice_at (tablesForConfig ?c (extractionRequestForStep step)) t) = set (slice_at (mapTables (?types ?c) wanted) t)"
    by (auto simp: slice_at_def t split: option.splits)
  moreover have f: "st_Filters step = datasourceFilters (mapFilters (em_Filters message) ?types) ?c"
    using step r by (metis (no_types, lifting) PlanStep.select_convs(5) buildStep_def)
  have "cond_at (filtersForConfig ?c (extractionRequestForStep step)) t f = Some k \<longleftrightarrow>
      (\<exists>n g. cond_at (slice_at (em_Filters message) ?c) n g = Some k \<and> NormalizeTable (?types ?c) n = t \<and>
        NormalizeField (?types ?c) g = f)"
  proof (cases "map_of (em_Filters message) ?c")
    case None
    from no_conditions[where types = ?types, OF None refl f] show ?thesis by (simp add: cond_at_def slice_at_def None)
  next
    case (Some conditions)
    then have "slice_at (em_Filters message) ?c = conditions" by (simp add: slice_at_def)
    with delivered_conditions[where types = ?types, OF Some _ refl f] assms(4) show ?thesis by simp
  qed
  ultimately show ?thesis by (simp add: dom_mapTables set_mapTables)
qed

definition filtered_message :: ExtractExternalDataMessage where
  "filtered_message =
     \<lparr>em_JobID = ''j'', em_MappedFields = [(''p'', [(''t'', [''x''])])],
      em_Filters = [(''p'', [(''t'', [(''x'', no_condition\<lparr>fc_Equals := [AInt 1]\<rparr>)])])], em_Metadata = []\<rparr>"

definition filtered_step :: PlanStep where
  "filtered_step = buildStep (mapJobToExtractionRequest filtered_message []) 0 ''p''"

lemma filtered_planned:
  "fst (PlanExtraction (ex_engine False) ex_tenant (mapJobToExtractionRequest filtered_message []) ex_world) =
     Inr \<lparr>pl_TenantID = ''a'', pl_RequestID = ''r'', pl_Steps = [filtered_step], pl_Metadata = [], pl_Limits = ex_limits,
          pl_Mode = ModeAuto\<rparr>"
  by code_simp

theorem request_reaches_datasource_witness:
  "dom (map_of (tablesForConfig ''p'' (extractionRequestForStep filtered_step))) = {''t''} \<and>
   cond_at (filtersForConfig ''p'' (extractionRequestForStep filtered_step)) ''t'' ''x'' = Some (no_condition\<lparr>fc_Equals := [AInt 1]\<rparr>)"
proof -
  have c: "st_ConfigName filtered_step = ''p''" by (simp add: filtered_step_def)
  have m: "map_of (em_MappedFields filtered_message) (st_ConfigName filtered_step) = Some [(''t'', [''x''])]"
    and fs: "slice_at (em_Filters filtered_message) ''p'' = [(''t'', [(''x'', no_condition\<lparr>fc_Equals := [AInt 1]\<rparr>)])]"
    by (simp_all add: c filtered_message_def slice_at_def)
  have s: "spelled_once (datasourceTypesByConfig [] (st_ConfigName filtered_step))
      (slice_at (em_Filters filtered_message) (st_ConfigName filtered_step))"
    unfolding c fs by code_simp
  have n: "NormalizeTable (datasourceTypesByConfig [] ''p'') ''t'' = ''t''" "NormalizeField (datasourceTypesByConfig [] ''p'') ''x'' = ''x''"
    by code_simp+
  have i: "filtered_step \<in> set (pl_Steps \<lparr>pl_TenantID = ''a'', pl_RequestID = ''r'', pl_Steps = [filtered_step], pl_Metadata = [],
      pl_Limits = ex_limits, pl_Mode = ModeAuto\<rparr>)" by simp
  let ?k = "no_condition\<lparr>fc_Equals := [AInt 1]\<rparr>"
  have k: "cond_at [(''t'', [(''x'', ?k)])] ''t'' ''x'' = Some ?k" by (simp add: cond_at_def)
  note r = request_reaches_datasource[OF filtered_planned i m s, where t = "''t''" and f = "''x''" and k = ?k, unfolded c fs]
  have "dom (map_of (tablesForConfig ''p'' (extractionRequestForStep filtered_step))) = {''t''}"
    using conjunct1[OF r] n(1) by simp
  moreover have "cond_at (filtersForConfig ''p'' (extractionRequestForStep filtered_step)) ''t'' ''x'' = Some ?k"
    using r k n by blast
  ultimately show ?thesis ..
qed

text \<open>The table of an Oracle system schema is not taken for a system table, since the whole name is compared.\<close>

lemma oracle_system_schema_kept: "IsSystemTable TypeOracle ''sys''" "\<not> IsSystemTable TypeOracle ''sys.link''"
  by code_simp+

end
