(* ===== verification/Spec2Isabelle.thy ===== *)
theory Spec2Isabelle
  imports Model_Schema Memory_Scenarios Worker_Runs Manager_Runs Datasource_Factory Adapter_Runs
begin

text \<open>
  \<^bold>\<open>Fetcher: the extraction Engine and the services around it\<close>

  Fetcher extracts rows from customer datasources. Its core is the embeddable Engine of
  \<^verbatim>\<open>src/pkg/engine\<close>: a host (the Manager and Worker services, or any Go program) gives it
  ports, namely a connection store, a connector registry, a credential protector, a schema cache,
  an execution store, a result sink, and the Engine manages connections, discovers and validates schemas, plans
  extractions and executes plans concurrently, either into one JSON payload (direct mode) or
  streaming NDJSON into the sink (store mode). \<^verbatim>\<open>src/pkg/engine/memory\<close> implements the
  ports in memory.

  \<^bold>\<open>Theories\<close>

  \<^item> \<open>Go_Prelude\<close>: Go maps, nil, strings, trimming, result types, shared list lemmas.
    \<open>Go_Json\<close>: the values of \<^verbatim>\<open>encoding/json\<close> the code marshals, compact and indented.
  \<^item> \<open>Engine_Errors\<close> (\<^verbatim>\<open>errors.go\<close>), \<open>Engine_Limits\<close> (\<^verbatim>\<open>limits.go\<close>),
    \<open>Engine_Types\<close> (\<^verbatim>\<open>context.go\<close>, \<^verbatim>\<open>connection.go\<close>, \<^verbatim>\<open>schema.go\<close>,
    \<^verbatim>\<open>extraction.go\<close>): the data model, the closed error vocabulary, the merge of limits, the
    redacting input type.
  \<^item> \<open>Engine_Ports\<close> (\<^verbatim>\<open>ports.go\<close>, \<^verbatim>\<open>connector.go\<close>, \<^verbatim>\<open>options.go\<close>,
    \<^verbatim>\<open>engine.go\<close>): each Go interface is a record of functions on a host world \<open>'w\<close>; a
    method takes the world and returns it updated. \<open>Runtime\<close> holds what the Engine takes from
    Go's standard library: the clock, SHA-256, and a stack of contexts.
  \<^item> \<open>Engine_Connections\<close> (\<^verbatim>\<open>connection_ops.go\<close>, \<^verbatim>\<open>test_connection.go\<close>),
    \<open>Engine_Schema\<close> (\<^verbatim>\<open>schema_ops.go\<close>), \<open>Engine_Planner\<close> (\<^verbatim>\<open>planner.go\<close>),
    \<open>Engine_Cursor\<close> (\<^verbatim>\<open>cursor.go\<close>), \<open>Engine_Runner\<close> and \<open>Engine_Execute\<close>
    (\<^verbatim>\<open>runner.go\<close>): one definition per Go function, composed as in the code, every early
    return a branch.
  \<^item> \<open>Engine_Pool\<close> and \<open>Engine_Stream\<close> (\<^verbatim>\<open>runner_parallel.go\<close>): the two
    goroutine pools as executable step functions on a machine state; a schedule is the list of
    moves taken, so that a theorem about all schedules is one about all interleavings. In
    \<open>Engine_Pool\<close> a step's host calls are one move, in \<open>Engine_Stream\<close> a producer is
    split at every \<^verbatim>\<open>cursor.Next\<close> and every channel operation.
    \<open>Engine_Stream_Data\<close>, \<open>Engine_Stream_Live\<close>, \<open>Engine_Stream_Bounds\<close> hold the
    invariants of the streaming machine (what is encoded, sent, written; progress; the ordinal
    window and the measure), \<open>Engine_Rows\<close> what rows come out of a run.
  \<^item> \<open>Memory_Store\<close>, \<open>Memory_Sink\<close>, \<open>Memory_Registry\<close>
    (\<^verbatim>\<open>memory/store.go\<close>, \<^verbatim>\<open>cache.go\<close>, \<^verbatim>\<open>sink.go\<close>, \<^verbatim>\<open>registry.go\<close>):
    the in-memory ports; \<open>Memory_Harness\<close> wires them into an Engine and interprets the
    locales; \<open>Memory_Rows\<close>, \<open>Memory_Schema\<close>, \<open>Memory_Connections\<close>,
    \<open>Memory_Runs\<close> instantiate the Engine's lemmas for it; \<open>Memory_Example\<close> and
    \<open>Memory_Scenarios\<close> evaluate a host with two datasources and two tenants.
  \<^item> \<open>Model_Schema\<close> (\<^verbatim>\<open>src/pkg/model/schema.go\<close>): the schema model of the services.
  \<^item> \<open>Service_Errors\<close> (\<^verbatim>\<open>src/pkg/errors.go\<close>, \<^verbatim>\<open>retry_guard.go\<close>): typed errors, wrapping, which errors are
    permanent. \<open>Connection_Model\<close> (\<^verbatim>\<open>pkg/model/connection.go\<close>, \<^verbatim>\<open>schemautil\<close>, \<^verbatim>\<open>tablenorm\<close>):
    datasource types and canonical names. \<open>Job_Model\<close> (\<^verbatim>\<open>pkg/model/job.go\<close>): jobs, requests, the
    idempotency hash.
  \<^item> \<open>Job_Repository\<close> (\<^verbatim>\<open>pkg/mongodb/job\<close>): every operation of the job repository over a collection
    of the MongoDB driver, which is a parameter; \<open>Job_Store\<close> gives filters and updates their documented
    meaning and proves the contract of each operation from the contract of the driver.
  \<^item> \<open>Worker_Request\<close> (\<^verbatim>\<open>extract_engine.go\<close>), \<open>Worker_Jobs\<close> (\<^verbatim>\<open>extract_data.go\<close>,
    \<^verbatim>\<open>job_notification.go\<close>, \<^verbatim>\<open>terminal_event_repairer.go\<close>): the message handler of the Worker, its
    terminal-event outbox and the repairer. \<open>Worker_Consumer\<close> (\<^verbatim>\<open>bootstrap/consumer.go\<close>) and
    \<open>Message_Envelope\<close> (\<^verbatim>\<open>pkg/rabbitmq\<close>, \<^verbatim>\<open>pkg/crypto/signer.go\<close>): the tenant and signature checks in
    front of it.
  \<^item> \<open>Worker_Outbox\<close> proves what the handler and the repairer keep under the contract of their
    collaborators, \<open>Worker_World\<close> derives that contract from the driver's and gives an in-memory collection
    with faults, \<open>Worker_Scenarios\<close> a scenario, \<open>Worker_Runs\<close> the properties.
  \<^item> \<open>Manager_Jobs\<close> (\<^verbatim>\<open>manager/internal/services/command/create_fetcher_job.go\<close>): job creation, every branch of
    it. \<open>Manager_Store\<close> proves its outcomes from the contracts of the database with its unique index, of
    the queue and of the other collaborators, \<open>Manager_Runs\<close> holds the properties, over the in-memory collection
    for the witnesses, and the race of a late publication failure with the Worker.
  \<^item> \<open>Business_Errors\<close> (\<^verbatim>\<open>pkg/errors.go\<close>): the tables from sentinels to typed errors.
    \<open>Connection_Rules\<close> (\<^verbatim>\<open>pkg/model/connection.go\<close>): construction, validation and patching of connections.
    \<open>Credential_Crypto\<close> (\<^verbatim>\<open>pkg/crypto\<close>): base64, the AES-GCM service, key derivation. \<open>Datasource_Guards\<close>
    (\<^verbatim>\<open>pkg/datasource/hostsafety\<close>, \<^verbatim>\<open>sslmode\<close>) and \<open>Datasource_Factory\<close> (\<^verbatim>\<open>pkg/datasource\<close>): from a stored
    connection to the connection string a driver is opened with.
  \<^item> \<open>Sql_Filters\<close> (filters and queries of \<^verbatim>\<open>pkg/postgres\<close>, \<^verbatim>\<open>pkg/mysql\<close>, \<^verbatim>\<open>pkg/sqlserver\<close>, \<^verbatim>\<open>pkg/oracle\<close>),
    \<open>Datasource_Query\<close> (their discovery of schemas and scan of rows, and \<^verbatim>\<open>pkg/model/datasource\<close>),
    \<open>Engine_Adapters\<close> (\<^verbatim>\<open>pkg/enginecompat\<close>: descriptors, snapshots, the extraction connector) and
    \<open>Adapter_Runs\<close>: what the datasource of a job is asked for, and what it returns.

  \<^bold>\<open>Interfaces\<close>

  The locale \<open>connection_store\<close> states what the Engine relies on from a store (an abstract
  view keyed by tenant and name, and what each operation does to it), \<open>connection_engine\<close> adds
  the Engine's operations; \<open>finite_cursors\<close>, \<open>connector_lifecycle\<close> and
  \<open>stream_lifecycle\<close> are the contracts of cursors and connectors (finitely many rows, opened
  resources closed exactly once); \<open>respected_calls\<close>, \<open>respected\<close>,
  \<open>sticky_context\<close>, \<open>stream_contents\<close> and \<open>row_source\<close> are the frames the
  streaming proofs need of host calls. All are interpreted on the in-memory ports.

  \<open>job_driver\<close> is what the job repository relies on of MongoDB (an update of one document is atomic and can
  fail before or after its effect; reads return stored documents or fail). \<open>outbox_host\<close>,
  \<open>outbox_reads\<close> and \<open>outbox_live\<close> are what the Worker's handler relies on of its collaborators when
  every call may fail, when reads work, and when every call answers; \<open>worker_store\<close>, \<open>worker_reads\<close> and
  \<open>worker_live\<close> give them, as sublocales, from the driver's contract through the repository's code. They
  are interpreted on \<open>mem_collection\<close> with its fault lists. \<open>job_index\<close> adds the unique index over the hashes of
  active jobs to \<open>job_driver\<close>, \<open>manager_store\<close> the collaborators of job creation; both are interpreted on the same
  collection.

  \<^bold>\<open>What is proved\<close>

  Executions: the artefact or payload a successful run delivers, under every interleaving; closed
  connectors (as long as their calls return), recorded statuses and an untouched sink on every failure path. The streaming
  machine: no deadlock, completion from every reachable state, a bound on every schedule, the
  ordinal window. The pool: its semaphore, termination, soundness of the size fast-fail. Planning:
  soundness against the schema, determinism under map order, limits, shape. Schemas: cache round
  trip, agreement of the Engine's binary-search index with the services' linear search, what
  validation decides. Connections: tenant isolation, round trips, secret protection. Errors and
  limits: redaction and the merge of limits. The Worker, its deliveries and repair rounds one after the other: a job that
  starts clean loses no terminal event under any failures of database and emitter, no two of its events contradict each
  other while reads work, the repairer drains the outbox, what one delivery does on success, failure and redelivery, deliveries stay with their
  tenant. Messages: the signed envelope verifies and binds its tenant, route, time and body. Error classes
  are stable under wrapping, requested columns are complete. Job creation: what is stored and sent, over
  whose connections, what a repeated request gets while a job is active, what a failure leaves behind.
  Connections: a patch keeps a connection valid, a blocked host is never dialled while the guard is on, the host and the
  password of a connection reach its driver (MySQL apart). Queries: filters select exactly the rows they describe, only known columns are
  written into a statement, a PostgreSQL datasource returns exactly the requested rows, and what a job asks for
  is what its datasource is asked for. Lemmas beside the properties exhibit the defects found on the way: rows lost without an
  error, a default schema that is not read, filters dropped, a crafted user name that redirects a connection.
  \<^bold>\<open>Modelling choices\<close>

  Go's \<^verbatim>\<open>int64\<close> counters of rows and bytes are \<open>nat\<close>: they count data held in
  memory. Limits are \<open>int\<close>, as negative values reach the code. A nil row map is identified with
  an empty one. Map iteration is over sorted keys wherever the code sorts, and otherwise the
  association list stands for the order the runtime picks (\<open>plan_deterministic\<close> quantifies over
  it). Panics are modelled in the streaming producers, before a connector is built and while it streams; a panic
  inside \<^verbatim>\<open>TestConnection\<close>, which leaks the connector in the code, and panics of the direct pool are not. The
  runtime of the in-memory host (\<open>mem_runtime\<close>) never cancels a context and lets no deadline pass, so the theorems on
  \<open>mem_engine\<close> do not speak of an extraction the host cancels midway; the machines themselves are cancelled by a failing
  step or writer at any point. \<open>h_rows\<close> and \<open>h_sent\<close> of the
  streaming machine are history variables. The loops of connectors are bounded by the rows the
  cursor has left (\<open>mem_remaining\<close>), which is the fuel of \<open>drain\<close>; the locale
  \<open>finite_cursors\<close> shows it is enough. The test hooks of the in-memory sink and connector
  (write gates, blocking on a context, lazily built rows) are left out.

  In the services, JSON decoding, the redaction of error texts, encryption, HMAC-SHA256, the storage, the event
  emitter and the tenant manager are parameters. A crash of the Worker is a suffix of calls that fail
  without effect. A run of the Worker is a sequence of deliveries and repair rounds, one after the other, and nobody else
  writes its jobs. The repairer has a goroutine of its own in the code, and a round that overlaps a delivery of the
  same job can send two events or lose one (\<open>repair_first_sends_both\<close> and \<open>repair_last_loses_failure\<close> of
  \<open>Worker_Scenarios\<close>); two Workers that handle the same message at the same time are not modelled. The Manager's job creation allows
  an unset queue, in which nothing is sent; its wiring always sets one. Letter case is folded on ASCII.

  \<^bold>\<open>Not modelled\<close>

  The Manager's connection commands and queries, the connection store and the schema cache of \<^verbatim>\<open>pkg/enginecompat\<close>, the caches
  and the rate limiter are thin layers over Redis, MongoDB and the operations modelled here. The MongoDB driver, AMQP
  channels, object storage and HTTP layers under \<^verbatim>\<open>src/pkg\<close> and \<^verbatim>\<open>src/components\<close> are input and output around libraries;
  the CRM plugin is a legacy path of its own; bootstrap code reads configuration and wires the parts; the test kits are
  tests.
\<close>

abbreviation scopeError :: goerror where
  "scopeError \<equiv> NewEngineError CategoryValidation ''tenant scope is required''"

subsection \<open>Executions\<close>

text \<open>
  C1: A store-mode execution that succeeds has put into the sink, under the returned path,
  exactly the NDJSON of the rows of the plan's datasources in plan order, whatever the
  interleaving of the producers and the writer; size, digest, row count and per-datasource
  counts of the reference are those of these bytes, and the size is within the limit.
\<close>

theorem execute_store_artefact:
  fixes plan :: ExtractionPlan and w :: mem_world and host :: mem_host
  defines "rows \<equiv> source_rows w (plan_tenant plan)"
    and "text \<equiv> artefact plan (map (source_rows w (plan_tenant plan)) (pl_Steps plan))"
  assumes "ExecuteExtraction sched (mem_engine host) plan w = Some (Inr r, w')"
    and "resolveExecutionMode (mem_engine host) (pl_Mode plan) = ModeStore"
  shows "\<exists>ref. er_Reference r = Some ref \<and> er_Direct r = None \<and>
    sink_Get (rr_Path ref) (mw_sink w') = Some text \<and> rr_SizeBytes ref = length text \<and>
    map_option ri_Digest (rr_Integrity ref) = Some (mh_sha host text) \<and>
    rr_RowCount ref = sum_list (map (length \<circ> rows) (pl_Steps plan)) \<and>
    er_RowCounts r = sumRowCounts plan (map (length \<circ> rows) (pl_Steps plan)) \<and>
    (MaxResultBytes (pl_Limits plan) > 0 \<longrightarrow> int (length text) \<le> MaxResultBytes (pl_Limits plan))"
  using assms(3)
proof (cases rule: mem_execute_cases)
  case (ran w1 w2)
  let ?w1 = "recordExecutionStatus (mem_engine host) (plan_tenant plan) (pl_RequestID plan) StatusRunning [] w1"
  have same: "source_rows ?w1 = source_rows w" by (rule source_rows_cong) (simp_all add: ran)
  from ran(2) assms(4) execute_guards_mode[OF ran(1)] have
    "runStoreExtraction (stream_sched sched) (mem_engine host) (plan_tenant plan) mem_store (mem_sink (mh_sha host))
       plan ?w1 = Some (Inr r, w2)"
    by (simp add: deliver_def Let_def)
  from mem_store_result[OF this] same ran(8) show ?thesis by (auto simp: rows_def text_def)
qed simp

theorem execute_store_artefact_witness:
  "\<exists>r w' ref. ExecuteExtraction ex_schedule (ex_engine True) ex_plan ex_world = Some (Inr r, w') \<and>
     er_Reference r = Some ref \<and>
     sink_Get (rr_Path ref) (mw_sink w') =
       Some (''{\"config\":\"p\",\"table\":\"t\",\"row\":{\"x\":1}}'' @ [CHR 0x0A] @
             ''{\"config\":\"p\",\"table\":\"t\",\"row\":{\"x\":2}}'' @ [CHR 0x0A] @
             ''{\"config\":\"q\",\"table\":\"t\",\"row\":{\"x\":3}}'' @ [CHR 0x0A])"
proof -
  from ex_store_delivered obtain r w' where
    run: "ExecuteExtraction ex_schedule (ex_engine True) ex_plan ex_world = Some (Inr r, w')"
    by (auto simp: delivered_iff)
  from execute_store_artefact[OF run ex_modes(1)] run show ?thesis unfolding ex_artefact by blast
qed

text \<open>
  C2: A direct execution that succeeds returns the indented JSON of the rows of the plan's
  datasources, with their row counts, size and digest, whatever the interleaving of the
  worker pool; the payload is within the size limit.
\<close>

theorem execute_direct_payload:
  assumes "ExecuteExtraction sched (mem_engine host) plan w = Some (Inr r, w')"
    and "resolveExecutionMode (mem_engine host) (pl_Mode plan) = ModeDirect"
  shows "\<exists>d. er_Direct r = Some d \<and> er_Reference r = None \<and>
    MarshalIndent (AMap (aggregate (mem_direct w (plan_tenant plan) plan))) = Some (dr_Data d) \<and>
    dr_RowCount d = sum_list (map (length \<circ> source_rows w (plan_tenant plan)) (pl_Steps plan)) \<and>
    er_RowCounts r = row_counts (mem_direct w (plan_tenant plan) plan) \<and>
    dr_PlaintextSize d = length (dr_Data d) \<and>
    map_option ri_Digest (dr_Integrity d) = Some (mh_sha host (dr_Data d)) \<and>
    (MaxResultBytes (pl_Limits plan) > 0 \<longrightarrow> int (length (dr_Data d)) \<le> MaxResultBytes (pl_Limits plan))"
  using assms(1)
proof (cases rule: mem_execute_cases)
  case (ran w1 w2)
  let ?t = "plan_tenant plan"
  let ?w1 = "recordExecutionStatus (mem_engine host) ?t (pl_RequestID plan) StatusRunning [] w1"
  have same: "source_rows ?w1 = source_rows w" by (rule source_rows_cong) (simp_all add: ran)
  then have same': "mem_direct ?w1 ?t plan = mem_direct w ?t plan" by (simp add: mem_direct_def)
  from ran(2) assms(2) obtain oc w3 where
    d: "runDirectExtraction (pool_sched sched) (mem_engine host) ?t mem_store plan ?w1 = Some (Inr oc, w3)" and
    r: "r = fst (completeDirectMode (mem_engine host) ?t (pl_RequestID plan) oc w3)"
    by (auto simp: deliver_def Let_def split: option.splits prod.splits sum.splits)
  from mem_direct_result[OF d] same same' r show ?thesis
    by (auto simp: completeDirectMode_def engineContentIntegrity_def mem_runtime_def)
qed simp

theorem execute_direct_payload_witness:
  "\<exists>r w' d. ExecuteExtraction ex_schedule (ex_engine False) ex_plan ex_world = Some (Inr r, w') \<and>
     er_Direct r = Some d \<and> dr_RowCount d = 3"
proof -
  from ex_direct_delivered obtain r w' where
    run: "ExecuteExtraction ex_schedule (ex_engine False) ex_plan ex_world = Some (Inr r, w')"
    by (auto simp: delivered_iff)
  from execute_direct_payload[OF run ex_modes(2)] run show ?thesis unfolding ex_row_counts by auto
qed

text \<open>
  C3: An execution whose connector calls return leaves no connector it built open, in either mode and under every
  schedule, whether it succeeds, fails, is canceled or overflows a limit. In the store mode this includes a panic
  before the connector is built and a panic while a query is streamed. A panic inside TestConnection, which the
  code lets leak, and panics of the direct mode are not in the model.
\<close>

theorem execute_connectors_closed:
  assumes "ExecuteExtraction sched (mem_engine host) plan w = Some (r, w')"
  shows "mem_live w' = mem_live w"
  using assms
proof (cases rule: mem_execute_cases)
  case (ran w1 w2)
  from mem_live_registry[OF ran(6)] mem_deliver_closes[OF ran(2)] mem_live_registry[OF ran(3)] show ?thesis by simp
qed simp

theorem execute_connectors_closed_witness:
  "\<exists>r w'. ExecuteExtraction ex_schedule (ex_engine True) ex_plan ex_world = Some (Inr r, w') \<and>
     mem_live w' = mem_live ex_world"
proof -
  from ex_store_delivered obtain r w' where
    run: "ExecuteExtraction ex_schedule (ex_engine True) ex_plan ex_world = Some (Inr r, w')"
    by (auto simp: delivered_iff)
  from execute_connectors_closed[OF run] run show ?thesis by blast
qed

text \<open>
  C4: An execution that passes its guards leaves the terminal status that fits its result
  in the execution store: completed, canceled or failed.
\<close>

theorem execute_status_recorded:
  assumes "ExecuteExtraction sched (mem_engine host) plan w = Some (r, w')"
    and "execute_guards (mem_engine host) plan = Inr mem_store"
  shows "recorded_status w' (plan_tenant plan) (pl_RequestID plan) = Some (terminal_status r)"
  using assms(1)
proof (cases rule: mem_execute_cases)
  case (refused err)
  with assms(2) show ?thesis by simp
next
  case (ran w1 w2)
  from mem_deliver_status[OF ran(2)] ran(7) show ?thesis by (simp add: recorded_status_def)
qed

theorem execute_status_recorded_witness:
  "\<exists>r w'. ExecuteExtraction ex_schedule (ex_engine True) ex_plan ex_world = Some (Inr r, w') \<and>
     recorded_status w' (plan_tenant ex_plan) (pl_RequestID ex_plan) = Some StatusCompleted"
proof -
  from ex_store_delivered obtain r w' where
    run: "ExecuteExtraction ex_schedule (ex_engine True) ex_plan ex_world = Some (Inr r, w')"
    by (auto simp: delivered_iff)
  from execute_status_recorded[OF run ex_guards] run show ?thesis by (auto simp: terminal_status_def)
qed

text \<open>
  C5: A store-mode execution that fails publishes nothing: the results of the sink are those
  before the run, provided the protection the sink reports is a valid one.
\<close>

theorem failed_store_publishes_nothing:
  assumes "ExecuteExtraction sched (mem_engine host) plan w = Some (Inl err, w')"
    and "resolveExecutionMode (mem_engine host) (pl_Mode plan) = ModeStore"
    and "sink_protection_ok (mw_sink w)"
  shows "ws_results (mw_sink w') = ws_results (mw_sink w)"
  using assms(1)
proof (cases rule: mem_execute_cases)
  case (ran w1 w2)
  let ?w1 = "recordExecutionStatus (mem_engine host) (plan_tenant plan) (pl_RequestID plan) StatusRunning [] w1"
  from ran(2) assms(2) execute_guards_mode[OF ran(1)] have
    "runStoreExtraction (stream_sched sched) (mem_engine host) (plan_tenant plan) mem_store (mem_sink (mh_sha host))
       plan ?w1 = Some (Inl err, w2)"
    by (simp add: deliver_def Let_def)
  from store_same[OF this] assms(3) ran(5,8) show ?thesis by (simp add: same_results_def)
qed simp

theorem failed_store_publishes_nothing_witness:
  "\<exists>err w'. ExecuteExtraction ex_small_schedule (ex_engine True) ex_small_plan ex_world = Some (Inl err, w') \<and>
     ws_results (mw_sink w') = []"
proof -
  from ex_store_over_size obtain w' where
    run: "ExecuteExtraction ex_small_schedule (ex_engine True) ex_small_plan ex_world = Some (Inl sizeLimitError, w')"
    by (auto simp: over_size_iff)
  from failed_store_publishes_nothing[OF run ex_small_mode ex_sink_protection] run show ?thesis
    by (auto simp: ex_world_def ex_sink_def)
qed

subsection \<open>The streaming machine\<close>

text \<open>
  C6: The streaming machine never deadlocks: as long as the run is not over, some producer,
  the writer or the waiting goroutine can move.
\<close>

theorem stream_no_deadlock:
  assumes "streamed (mem_engine host) t mem_store (mem_sink (mh_sha host)) h plan w st" and "\<not> terminal st"
  shows "\<exists>m st'. stream_step (mem_engine host) t mem_store (mem_sink (mh_sha host)) h plan m st = Some st'"
  using assms by (rule mem_sticky.progress)

theorem stream_no_deadlock_witness:
  "\<exists>m st'. stream_step (ex_engine True) ex_tenant mem_store (mem_sink (mh_sha (ex_host True))) 0 ex_plan m
     (stream_init ex_plan ex_world) = Some st'"
proof (rule stream_no_deadlock[OF streamed.start])
  show "\<not> terminal (stream_init ex_plan ex_world)" by (simp add: terminal_def stream_init_def Let_def)
qed

text \<open>
  C7: From every reachable state of the streaming machine some schedule finishes the run.
\<close>

theorem stream_completes_from_anywhere:
  assumes "streamed (mem_engine host) t mem_store (mem_sink (mh_sha host)) h plan w st"
  shows "\<exists>ms st'. stream_run (mem_engine host) t mem_store (mem_sink (mh_sha host)) h plan ms st = Some st' \<and> terminal st'"
proof -
  let ?B = "Max (insert 0 ((\<lambda>step. length (source_rows w t step)) ` set (pl_Steps plan)))"
  have B: "length (source_rows w t step) \<le> ?B" if "step \<in> set (pl_Steps plan)" for step
    using that by (intro Max_ge) auto
  show ?thesis
    using mem_sticky.stream_completes[OF assms, where B = ?B] mem_stream_rows_bound[OF _ _ B] by blast
qed

theorem stream_completes_from_anywhere_witness:
  "\<exists>ms st'. stream_run (ex_engine True) ex_tenant mem_store (mem_sink (mh_sha (ex_host True))) 0 ex_plan ms
     (stream_init ex_plan ex_world) = Some st' \<and> terminal st'"
  by (rule stream_completes_from_anywhere[OF streamed.start])

text \<open>
  C8: Every schedule of the streaming machine is finite: with at most \<open>B\<close> rows per
  datasource a run takes at most \<open>n * (20 * B + 15) + 2\<close> moves for \<open>n\<close> steps.
\<close>

theorem stream_schedules_finite:
  assumes "stream_run (mem_engine host) t mem_store (mem_sink (mh_sha host)) h plan ms (stream_init plan w) = Some st"
    and "\<forall>step \<in> set (pl_Steps plan). length (source_rows w t step) \<le> B"
  shows "length ms \<le> length (pl_Steps plan) * (20 * B + 15) + 2"
proof -
  have "length ms + stream_work B st \<le> stream_work B (stream_init plan w :: mem_world stream)"
    using assms(2) by (intro stream_run_bounded[OF streamed.start assms(1)] mem_stream_rows_bound) auto
  then show ?thesis by (simp add: initial_work algebra_simps)
qed

theorem stream_schedules_finite_witness:
  "\<exists>st. stream_run (ex_engine True) ex_tenant mem_store (mem_sink (mh_sha (ex_host True))) 0 ex_plan [Producer 0 True]
     (stream_init ex_plan ex_world) = Some st \<and> length [Producer 0 True] \<le> length (pl_Steps ex_plan) * (20 * 2 + 15) + 2"
proof -
  obtain st where run: "stream_run (ex_engine True) ex_tenant mem_store (mem_sink (mh_sha (ex_host True))) 0 ex_plan
      [Producer 0 True] (stream_init ex_plan ex_world) = Some st"
    by (simp add: stream_step_def producer_step_def stream_init_def ex_plan_def effectiveConcurrency_def ex_limits_def Let_def)
  from stream_schedules_finite[OF run ex_source_bound] run show ?thesis by blast
qed

text \<open>
  C9: At most a window of \<open>effectiveConcurrency\<close> producers holds a connector at any
  moment of a streaming run, even while the run is being canceled.
\<close>

theorem stream_window_bound:
  assumes "streamed (mem_engine host) t mem_store (mem_sink (mh_sha host)) h plan w st"
  shows "card (connected st) \<le> effectiveConcurrency (pl_Limits plan)"
  using assms by (rule mem_sticky.streamed_window)

theorem stream_window_bound_witness:
  "card (connected (stream_init ex_plan ex_world)) \<le> 1"
proof -
  have "streamed (ex_engine True) ex_tenant mem_store (mem_sink (mh_sha (ex_host True))) 0 ex_plan ex_world
      (stream_init ex_plan ex_world)"
    by (rule streamed.start)
  from stream_window_bound[OF this] show ?thesis
    by (simp add: effectiveConcurrency_def ex_plan_def ex_limits_def)
qed

subsection \<open>The worker pool\<close>

text \<open>
  C10: At most \<open>effectiveConcurrency\<close> steps of the direct pool hold a semaphore slot, and
  the semaphore counts exactly them, in every state of every schedule.
\<close>

theorem pool_semaphore:
  assumes "pool_run e t store plan ms (pool_init plan w) = Some st"
  shows "holders st \<le> effectiveConcurrency (pl_Limits plan) \<and> slots st = holders st"
  using reachable_slots[OF pool_run_reachable[OF reachable.start assms]] by (simp add: slots_ok_def)

theorem pool_semaphore_witness:
  "\<exists>st. pool_run (ex_engine False) ex_tenant mem_store ex_plan [(1, True)] (pool_init ex_plan ex_world) = Some st \<and>
     holders st \<le> 1"
proof -
  obtain st where run: "pool_run (ex_engine False) ex_tenant mem_store ex_plan [(1, True)] (pool_init ex_plan ex_world) = Some st"
    by (simp add: pool_step_def pool_init_def ex_plan_def effectiveConcurrency_def ex_limits_def)
  from pool_semaphore[OF run] run show ?thesis by (simp add: effectiveConcurrency_def ex_plan_def ex_limits_def)
qed

text \<open>
  C11: The direct pool terminates: a schedule has at most five moves per step, and every
  partial schedule can be continued until all goroutines have joined.
\<close>

theorem pool_terminates:
  assumes "pool_run (mem_engine host) t mem_store plan ms (pool_init plan w) = Some st"
  shows "length ms \<le> 5 * length (pl_Steps plan) \<and>
    (\<exists>ms' st'. pool_run (mem_engine host) t mem_store plan ms' st = Some st' \<and> joined st')"
proof
  have "sum_list (map rank (replicate n Parked)) = 5 * n" for n by (induction n) simp_all
  then have "work_left (pool_init plan w) = 5 * length (pl_Steps plan)"
    by (simp add: work_left_def pool_init_def)
  with pool_run_bounded[OF assms] show "length ms \<le> 5 * length (pl_Steps plan)" by simp
  show "\<exists>ms' st'. pool_run (mem_engine host) t mem_store plan ms' st = Some st' \<and> joined st'"
    using reachable_slots[OF pool_run_reachable[OF reachable.start assms]] mem_execute_returns by (rule completes)
qed

theorem pool_terminates_witness:
  "\<exists>ms st. pool_run (ex_engine False) ex_tenant mem_store ex_plan ms (pool_init ex_plan ex_world) = Some st \<and> joined st"
  using pool_terminates[of "ex_host False" ex_tenant ex_plan "[]" ex_world "pool_init ex_plan ex_world"] by simp

text \<open>
  C12: The fast-fail size check of the direct pool is sound: it reports the size-limit error
  only when the complete payload would be over the limit.
\<close>

theorem size_limit_fast_fail_sound:
  assumes "runDirectExtraction sched (mem_engine host) t mem_store plan w = Some (Inl sizeLimitError, w')"
    and "distinct (map st_ConfigName (pl_Steps plan))"
    and "MarshalIndent (AMap (aggregate (mem_direct w t plan))) = Some payload"
  shows "MaxResultBytes (pl_Limits plan) < int (length payload)"
proof -
  let ?e = "mem_engine host"
  obtain x w1 where g: "ctx_guard ?e w = (x, w1)" by fastforce
  with assms(1) have x: "x = None" by (cases x) (auto simp: runDirectExtraction_def dest: guard_not_size)
  have rows: "source_rows w1 = source_rows w" using mem_ctx_frame[of host w] g by (intro source_rows_cong) simp_all
  from assms(1) g x obtain r w2 where p: "runStepsParallel sched ?e t mem_store plan w1 = Some (r, w2)"
    by (auto simp: runDirectExtraction_def split: option.splits)
  show ?thesis
  proof (cases r)
    case (Inr rs)
    then have "rs = mem_direct w t plan"
      using mem_feed.parallel_rows[OF _ mem_steady_refl, of sched host t plan w1] p rows
      by (simp add: mem_direct_def mem_data mem_feed.step_rows_def[abs_def])
    with assms(1,3) g x p Inr show ?thesis
      by (auto simp: runDirectExtraction_def dest: guard_not_size split: option.splits prod.splits if_splits)
  next
    case (Inl err)
    with assms(1) g x p have r: "r = Inl sizeLimitError" by (simp add: runDirectExtraction_def)
    have ne: "pl_Steps plan \<noteq> []"
      using p r by (auto simp: runStepsParallel_def split: if_splits)
    with p r obtain st where
      run: "pool_run ?e t mem_store plan sched (pool_init plan (ctx_WithCancel (rt ?e) w1)) = Some st" and
      f: "first st = Some sizeLimitError"
      by (auto simp: runStepsParallel_def dest: guard_not_size split: option.splits if_splits prod.splits)
    have good: "mem_steady w1 (ctx_WithCancel (rt ?e) w1)"
      using mem_quiet_calls(7)[of w1 w1 "mh_sha host"] by (simp add: quiet_def)
    have "MaxResultBytes (pl_Limits plan) <
        int (sum_list (map (step_size \<circ> mem_feed.step_rows w1 t plan) [0..<length (pl_Steps plan)]))"
      by (rule mem_feed.size_error_rows[OF run f good mem_execute_not_size])
    moreover have "mem_direct w t plan = direct_rows plan (mem_feed.step_rows w1 t plan)"
      by (simp add: mem_direct_def mem_data mem_feed.step_rows_def[abs_def] rows)
    ultimately show ?thesis using direct_rows_size[OF assms(2)] assms(3) by fastforce
  qed
qed

theorem size_limit_fast_fail_sound_witness:
  "\<exists>payload. MarshalIndent (AMap (aggregate (mem_direct ex_world ex_tenant ex_small_plan))) = Some payload \<and>
     12 < int (length payload)"
proof -
  from ex_over_size obtain w' where run: "runDirectExtraction (pool_sched ex_schedule) (ex_engine False) ex_tenant
      mem_store ex_small_plan ex_world = Some (Inl sizeLimitError, w')"
    by (auto simp: over_size_iff)
  from ex_small_payload obtain payload where
    p: "MarshalIndent (AMap (aggregate (mem_direct ex_world ex_tenant ex_small_plan))) = Some payload" by auto
  have "distinct (map st_ConfigName (pl_Steps ex_small_plan))" by (simp add: ex_small_plan_def ex_plan_def ex_step_def)
  from size_limit_fast_fail_sound[OF run this p] p show ?thesis by (auto simp: ex_small_plan_def ex_limits_def)
qed

subsection \<open>Planning and schemas\<close>

text \<open>
  C13: Planning is sound: every table and field of a step of an accepted plan exists in the
  schema of the tenant's datasource.
\<close>

theorem plan_sound:
  assumes "fst (PlanExtraction (mem_engine host) t r w) = Inr p" and "mem_wf w" and "step \<in> set (pl_Steps p)"
  shows "\<exists>s. mem_schema w t (st_ConfigName step) = Some s \<and>
    (\<forall>(table, names) \<in> set (st_Fields step). \<exists>cols. table_columns s table = Some cols \<and>
       (\<forall>name \<in> set names. field_matches cols name))"
  using assms(1)
proof (rule plan_success, goal_cases)
  case (1 l store w1 w2 report w3)
  have w1: "w1 = w" "store = mem_store" using 1(2,10) by simp_all
  have probe: "snd (probeConnections mem_store t names v) = v" for names v
    by (induction names) (simp_all add: mem_store_def split: option.split)
  then have w2: "w2 = w"
    using 1(6) w1 by (auto simp: requireScopedConnections_def Let_def case_prod_beta split: option.splits if_splits)
  from 1(7,8) obtain store' w4 w5 where
    v: "connectionStore (options (mem_engine host)) = Some store'"
      "validateDatasources (mem_engine host) t store' (Datasources (schemaValidationRequestFromExtraction r)) w4 = (Inr [], w5)"
      "w4 = (let w0 = w2 in if Timeout l > 0 then ctx_WithTimeout (rt (mem_engine host)) (Timeout l) w0 else w0)"
    by (rule validate_success) simp
  have frame: "mw_connections w4 = mw_connections w" "mw_cache w4 = mw_cache w" "mw_registry w4 = mw_registry w"
    unfolding v(3) w2 by (simp_all add: Let_def mem_runtime_def)
  then have w4: "mem_desc w4 = mem_desc w" "mem_schema w4 = mem_schema w"
    using mem_schema_frame[of w4 w] by simp_all
  have named: "mem_desc w4 t c = Some d \<Longrightarrow> d_ConfigName d = c" for c d
    using assms(2) connections_ok_lookup unfolding w4
    by (fastforce simp: mem_desc_def store_FindConnection_def mem_wf_def)
  from assms(3)[unfolded 1(9)] obtain i c where c: "c \<in> dom (map_of (MappedFields r))" "step = buildStep r i c"
    by (rule plan_step_cases)
  let ?sel = "slice_at (MappedFields r) c"
  define ds where "ds = \<lparr>dm_ConfigName = c, dm_Tables = map (\<lambda>x. \<lparr>tm_Name = x, tm_Fields = sortedCopy (slice_at ?sel x),
      tm_FilterFields = sortedCopy (slice_at (filterFieldsByTable (Filters r) c) x)\<rparr>) (sortedKeys ?sel)\<rparr>"
  have ds: "ds \<in> set (Datasources (schemaValidationRequestFromExtraction r))"
    using c(1) by (auto simp: schemaValidationRequestFromExtraction_def Let_def ds_def)
  from v(1,2) have "validateDatasources (mem_engine host) t mem_store
      (Datasources (schemaValidationRequestFromExtraction r)) w4 = (Inr [], w5)" by simp
  then have "\<exists>s. mem_schema w4 t (dm_ConfigName ds) = Some s \<and> (\<forall>table \<in> set (dm_Tables ds). table_valid s table)"
    using named ds by (rule mem_validated)
  then obtain s where "mem_schema w t c = Some s" "\<forall>table \<in> set (dm_Tables ds). table_valid s table"
    unfolding w4 by (auto simp: ds_def)
  then have "\<exists>cols. table_columns s x = Some cols \<and> (\<forall>name \<in> set (slice_at ?sel x). field_matches cols name)"
    if "x \<in> dom (map_of ?sel)" for x
    using that by (fastforce simp: ds_def table_valid_def split: option.splits)
  with \<open>mem_schema w t c = Some s\<close> show ?case by (intro exI[of _ s]) (auto simp: c(2))
qed

theorem plan_sound_witness:
  "\<exists>s. mem_schema ex_world ex_tenant ''p'' = Some s \<and> (\<exists>cols. table_columns s ''t'' = Some cols \<and> field_matches cols ''x'')"
proof -
  have "ex_step 0 ''p'' \<in> set (pl_Steps ex_plan)" by (simp add: ex_plan_def)
  from plan_sound[OF ex_planned[of False] ex_wf this] show ?thesis by (simp add: ex_step_def)
qed

text \<open>
  C33: Planning is deterministic: requests that differ only in map iteration order give the
  same error or plans that are equal up to map order, and leave the same world.
\<close>

theorem plan_deterministic:
  assumes "same_request r r'"
  shows "rel_sum (=) same_plan (fst (PlanExtraction e t r w)) (fst (PlanExtraction e t r' w)) \<and>
    snd (PlanExtraction e t r w) = snd (PlanExtraction e t r' w)"
proof -
  note same = require_stages_deterministic[OF assms] validation_request_deterministic[OF assms]
  have ov: "Overrides r = Overrides r'" using assms by (simp add: same_request_def)
  have stages: "rel_sum (=) same_plan (fst (planStages e t r store v)) (fst (planStages e t r' store v)) \<and>
      snd (planStages e t r store v) = snd (planStages e t r' store v)" for store v
    by (auto simp: planStages_def same ov build_plan_rel[OF assms] case_prod_beta split: option.split sum.split)
  have "rel_sum (=) same_plan (fst (scoped e t (planStages e t r) v)) (fst (scoped e t (planStages e t r') v)) \<and>
      snd (scoped e t (planStages e t r) v) = snd (scoped e t (planStages e t r') v)" for v
    using stages
    by (cases "requireConnectionStore e") (simp_all add: scoped_def validateTenantScope_def)
  then show ?thesis by (simp add: PlanExtraction_def with_span_def case_prod_beta split: option.split)
qed

theorem plan_deterministic_witness:
  "\<exists>p. fst (PlanExtraction (ex_engine False) ex_tenant ex_request_swapped ex_world) = Inr p \<and> same_plan ex_plan p"
  using plan_deterministic[OF ex_same_request, of "ex_engine False" ex_tenant ex_world] ex_planned[of False]
  by (cases "fst (PlanExtraction (ex_engine False) ex_tenant ex_request_swapped ex_world)") auto

text \<open>
  C34: An accepted plan is within its limits, and its limits are the request's overrides merged
  into the engine's: number of datasources, tables per datasource and fields per table.
\<close>

theorem plan_within_limits:
  assumes "fst (PlanExtraction e t r w) = Inr p"
  shows "Effective (limits (options e)) (Overrides r) = Inr (pl_Limits p) \<and>
    \<not> over (MaxDatasources (pl_Limits p)) (pl_Steps p) \<and>
    (\<forall>step \<in> set (pl_Steps p). \<not> over (MaxTablesPerDatasource (pl_Limits p)) (st_Tables step) \<and>
       (\<forall>(table, names) \<in> set (st_Fields step). \<not> over (MaxFieldsPerTable (pl_Limits p)) names))"
  using assms
proof (rule plan_success, goal_cases)
  case (1 l store w1 w2 report w3)
  from 1(7,8) have "limitFailures (schemaValidationRequestFromExtraction r) l = []" by (rule validate_success)
  then have lim: "\<not> over (MaxDatasources l) (sortedKeys (MappedFields r))"
    "\<And>c. c \<in> dom (map_of (MappedFields r)) \<Longrightarrow>
       \<not> over (MaxTablesPerDatasource l) (sortedKeys (slice_at (MappedFields r) c)) \<and>
       (\<forall>x \<in> dom (map_of (slice_at (MappedFields r) c)).
          \<not> over (MaxFieldsPerTable l) (sort (slice_at (slice_at (MappedFields r) c) x)))"
    by (auto simp: limitFailures_Nil_iff schemaValidationRequestFromExtraction_def Let_def over_def)
  have l: "pl_Limits p = l" "length (pl_Steps p) = length (sortedKeys (MappedFields r))"
    by (simp_all add: 1(9) buildExtractionPlan_def)
  have "\<not> over (MaxTablesPerDatasource l) (st_Tables step) \<and>
      (\<forall>(table, names) \<in> set (st_Fields step). \<not> over (MaxFieldsPerTable l) names)"
    if "step \<in> set (pl_Steps p)" for step
    using that unfolding 1(9) by (rule plan_step_cases) (use lim(2) in auto)
  with l lim(1) 1(5) show ?case by (simp add: over_def)
qed

theorem plan_within_limits_witness:
  "\<not> over (MaxDatasources (pl_Limits ex_plan)) (pl_Steps ex_plan)"
  using plan_within_limits[OF ex_planned[of False]] by blast

text \<open>
  C35: The steps of an accepted plan are the requested datasources in order of their names,
  numbered from 0; tables and fields are sorted and no step is empty; the plan carries the
  tenant's scope.
\<close>

theorem plan_shape:
  assumes "fst (PlanExtraction e t r w) = Inr p"
  shows "map st_ConfigName (pl_Steps p) = sort (keys (MappedFields r)) \<and>
    map st_Ordinal (pl_Steps p) = [0..<length (MappedFields r)] \<and> pl_Steps p \<noteq> [] \<and>
    (\<forall>step \<in> set (pl_Steps p). st_Tables step \<noteq> [] \<and> sorted (st_Tables step) \<and>
       map fst (st_Fields step) = st_Tables step \<and> (\<forall>(table, names) \<in> set (st_Fields step). sorted names)) \<and>
    pl_TenantID p = TenantID t \<and> isValidTenantID (TenantID t) \<and> pl_RequestID p = RequestID t \<and> pl_Mode p = ModeAuto"
  using assms
proof (rule plan_success, goal_cases)
  case (1 l store w1 w2 report w3)
  have steps: "pl_Steps p = map (\<lambda>(ordinal, configName). buildStep r ordinal configName)
      (enumerate 0 (sortedKeys (MappedFields r)))"
    by (simp add: 1(9) buildExtractionPlan_def)
  have "map st_ConfigName (pl_Steps p) = map snd (enumerate 0 (sortedKeys (MappedFields r)))"
    "map st_Ordinal (pl_Steps p) = map fst (enumerate 0 (sortedKeys (MappedFields r)))"
    by (simp_all add: steps comp_def case_prod_beta')
  moreover have "st_Tables step \<noteq> [] \<and> sorted (st_Tables step) \<and> map fst (st_Fields step) = st_Tables step \<and>
      (\<forall>(table, names) \<in> set (st_Fields step). sorted names)" if "step \<in> set (pl_Steps p)" for step
  proof -
    from that[unfolded 1(9)] obtain i c where c: "c \<in> dom (map_of (MappedFields r))" "step = buildStep r i c"
      by (rule plan_step_cases)
    from c(1) 1(4) have "slice_at (MappedFields r) c \<noteq> []" by (auto simp: requireNonEmptySelections_None)
    then show ?thesis by (auto simp: c(2) comp_def)
  qed
  moreover have "pl_Steps p \<noteq> []"
  proof -
    have "length (pl_Steps p) = length (MappedFields r)" by (simp add: steps)
    with 1(3) show ?thesis by auto
  qed
  ultimately show ?case
    using 1(1,3) by (auto simp: sortedKeys_def 1(9) buildExtractionPlan_def)
qed

theorem plan_shape_witness:
  "map st_ConfigName (pl_Steps ex_plan) = [''p'', ''q'']"
  using plan_shape[OF ex_planned[of False]] by (simp add: ex_request_def keys_def)

text \<open>
  Schema discovery is cache-first: after a discovery succeeds with a working cache, the
  same discovery returns the same snapshot without touching any connector.
\<close>

lemma discover_roundtrip:
  assumes "DiscoverSchema (mem_engine host) t c w = (Inr s, w')" and "mem_wf w"
    and "GetErr (mw_cache w) = None" and "PutErr (mw_cache w) = None"
  shows "DiscoverSchema (mem_engine host) t c w' = (Inr s, w') \<and> mem_schema w t c = Some s"
proof -
  from assms(1) obtain d where v: "isValidTenantID (TenantID t)" and d: "mem_desc w t c = Some d"
    and r: "resolveSchema (mem_engine host) t d False w = (Inr s, w')"
    by (auto simp: DiscoverSchema_def discoverWith_def mem_scoped found_or_def mem_store_def mem_desc_def
        split: if_splits option.splits)
  have n: "d_ConfigName d = c"
    using d assms(2) connections_ok_lookup by (fastforce simp: mem_desc_def store_FindConnection_def mem_wf_def)
  note res = mem_resolve[OF r d n]
  have "cache_GetSchema t c (mw_cache w') = Inr (Some s)"
    using mem_resolve_cached[OF r n assms(3,4)] .
  then have "resolveSchema (mem_engine host) t d False w' = (Inr s, w')"
    by (simp add: resolveSchema_def cachedSchema_def mem_cache_def n)
  moreover have "store_FindConnection t c (mw_connections w') = Some d"
    using res d by (simp add: mem_desc_def[symmetric])
  ultimately have "DiscoverSchema (mem_engine host) t c w' = (Inr s, w')"
    using v by (simp add: DiscoverSchema_def discoverWith_def mem_scoped found_or_def mem_store_def)
  with res show ?thesis by simp
qed

text \<open>
  C36: The Engine's field lookup (an exact index and a binary search for nested names) accepts
  a field exactly when the schema model of the services (\<^verbatim>\<open>HasField\<close>) does.
\<close>

theorem engine_matches_legacy_schema:
  "HasField (legacy_schema s) table name \<longleftrightarrow>
     (case map_of (indexSnapshotFields s) table of None \<Rightarrow> False | Some index \<Rightarrow> has index name)"
  by (simp add: HasField_legacy indexSnapshotFields_lookup has_iff split: option.split)

text \<open>
  C37: A mapping passes validation exactly when each of its tables exists and each selected
  and filtered field is a column or the prefix of a nested column.
\<close>

theorem validation_decides:
  "validateMappingAgainstSnapshot ds s = [] \<longleftrightarrow>
     (\<forall>table \<in> set (dm_Tables ds). \<exists>cols. table_columns s (tm_Name table) = Some cols \<and>
        (\<forall>f \<in> set (tm_Fields table) \<union> set (tm_FilterFields table).
           f \<in> set cols \<or> (\<exists>c \<in> set cols. prefix (f @ ''.'') c)))"
  unfolding validateMapping_Nil_iff table_valid_def field_matches_def
  by (rule ball_cong) (auto split: option.split)

theorem validation_decides_witness:
  "validateMappingAgainstSnapshot \<lparr>dm_ConfigName = ''p'', dm_Tables = [\<lparr>tm_Name = ''t'', tm_Fields = [''a''],
     tm_FilterFields = []\<rparr>]\<rparr> \<lparr>sn_ConfigName = ''p'', sn_Tables = [\<lparr>tb_Name = ''t'', tb_Fields = [''a.b'']\<rparr>],
     sn_CapturedAt = 0\<rparr> = []"
  unfolding validation_decides by (simp add: table_columns_def)

subsection \<open>Connections\<close>

text \<open>
  C38: No connection operation of a tenant changes any record of another tenant.
\<close>

theorem tenant_isolation:
  "others_kept (TenantID t) w (snd (CreateConnection (mem_engine host) t input w)) \<and>
   others_kept (TenantID t) w (snd (UpdateConnection (mem_engine host) t c patch w)) \<and>
   others_kept (TenantID t) w (snd (DeleteConnection (mem_engine host) t c w)) \<and>
   others_kept (TenantID t) w (snd (UpdateConnectionByID (mem_engine host) t i d patch w)) \<and>
   others_kept (TenantID t) w (snd (DeleteConnectionByID (mem_engine host) t i w))"
  using mem_writes(1)[of host t input w] mem_writes(2)[of host t c patch w] mem_writes(3)[of host t c w]
    mem_writes(4)[of host t i d patch w] mem_writes(5)[of host t i w]
  by (auto simp: mem_store_others)

text \<open>
  Without a valid tenant scope every operation is rejected with the same validation error
  and nothing is read or written.
\<close>

lemma unscoped_rejected:
  assumes "\<not> isValidTenantID (TenantID t)"
  shows "CreateConnection (mem_engine host) t input w = (Inl scopeError, w) \<and>
    GetConnection (mem_engine host) t c w = (Inl scopeError, w) \<and>
    ListConnections (mem_engine host) t w = (Inl scopeError, w) \<and>
    UpdateConnection (mem_engine host) t c patch w = (Inl scopeError, w) \<and>
    DeleteConnection (mem_engine host) t c w = (Inl scopeError, w) \<and>
    UpdateConnectionByID (mem_engine host) t i d patch w = (Inl scopeError, w) \<and>
    DeleteConnectionByID (mem_engine host) t i w = (Inl scopeError, w) \<and>
    TestConnection (mem_engine host) t c w = (Inl scopeError, w) \<and>
    DiscoverSchema (mem_engine host) t c w = (Inl scopeError, w) \<and>
    PlanExtraction (mem_engine host) t request w = (Inl scopeError, w) \<and>
    AuthorizeConnectionAccess (mem_engine host) t w = (Some scopeError, w)"
  using assms
  by (simp add: Let_def CreateConnection_def GetConnection_def ListConnections_def UpdateConnection_def
      DeleteConnection_def UpdateConnectionByID_def DeleteConnectionByID_def TestConnection_def DiscoverSchema_def
      discoverWith_def PlanExtraction_def AuthorizeConnectionAccess_def mem_scoped validateTenantScope_def)

text \<open>
  A created connection is returned by the next lookup, no connection of that name existed
  before, and no other record changes.
\<close>

lemma create_get_roundtrip:
  assumes "CreateConnection (mem_engine host) t input w = (Inr d, w')" and "mem_wf w"
  shows "GetConnection (mem_engine host) t (in_ConfigName input) w' = (Inr d, w') \<and>
    d_ConfigName d = in_ConfigName input \<and> mem_view w (TenantID t) (in_ConfigName input) = None \<and> mem_wf w' \<and>
    (\<forall>tid c. (tid, c) \<noteq> (TenantID t, in_ConfigName input) \<longrightarrow> mem_view w' tid c = mem_view w tid c)"
proof -
  from mem_conn_engine.create_ok[OF assms] obtain cred where
    "isValidTenantID (TenantID t)" "d_ConfigName d = in_ConfigName input"
    "mem_view w (TenantID t) (in_ConfigName input) = None" "mem_wf w'"
    "mem_view w' = put (mem_view w) (TenantID t) (in_ConfigName input) (Some (d, cred))"
    by blast
  then show ?thesis by (auto simp: mem_get)
qed

text \<open>
  Under encrypted persistence a password is stored only as the ciphertext the protector
  returned, and the descriptor carries its key version; otherwise no credential is stored.
\<close>

lemma create_protects_password:
  assumes "CreateConnection (mem_engine host) t input w = (Inr d, w')"
  shows "if mh_encrypted host \<and> HasPassword input
    then \<exists>ct kv. mh_protect host t (Password input) = Inr (ct, kv) \<and> d_KeyVersion d = kv \<and>
           mem_view w' (TenantID t) (in_ConfigName input) = Some (d, Some \<lparr>Ciphertext = ct, KeyVersion = kv\<rparr>)
    else d = DescriptorFromInput input \<and> mem_view w' (TenantID t) (in_ConfigName input) = Some (d, None)"
  using assms
proof (rule mem_created, goal_cases)
  case (1 cred)
  from protectDescriptor_name[OF 1(2)] have "d_ConfigName d = in_ConfigName input" by simp
  with 1(3) have "mem_view w' (TenantID t) (in_ConfigName input) = Some (d, cred)"
    by (auto simp: mem_store_def on_connections_def store_Create_def scopeOf_def mem_view_def Let_def split: option.splits)
  with protectDescriptor_result[OF 1(2)] show ?case by (auto simp: mem_engine_def split: if_splits)
qed

text \<open>
  C39: An update without a password keeps the stored secret, sets each patched field of the addressed record to
  the value of the patch and leaves every other field, and every other record, as it was; it succeeds only when no
  execution is active.
\<close>

theorem update_preserves_secret:
  assumes "UpdateConnection (mem_engine host) t c patch w = (Inr d, w')" and "mem_wf w"
    and "\<not> patch_HasPassword patch"
  shows "\<exists>d0 k0. mem_view w (TenantID t) c = Some (d0, k0) \<and>
    d = \<lparr>d_ID = d_ID d0, d_ConfigName = d_ConfigName d0,
         d_Type = (case cp_Type patch of None \<Rightarrow> d_Type d0 | Some v \<Rightarrow> v),
         d_Host = (case cp_Host patch of None \<Rightarrow> d_Host d0 | Some v \<Rightarrow> v),
         d_Port = (case cp_Port patch of None \<Rightarrow> d_Port d0 | Some v \<Rightarrow> v),
         d_DatabaseName = (case cp_DatabaseName patch of None \<Rightarrow> d_DatabaseName d0 | Some v \<Rightarrow> v),
         d_Schema = (case cp_Schema patch of None \<Rightarrow> d_Schema d0 | Some v \<Rightarrow> v),
         d_Username = (case cp_Username patch of None \<Rightarrow> d_Username d0 | Some v \<Rightarrow> v),
         d_SSLMode = (case cp_SSLMode patch of None \<Rightarrow> d_SSLMode d0 | Some v \<Rightarrow> v),
         d_KeyVersion = d_KeyVersion d0,
         d_HostAttributes = (case cp_HostAttributes patch of None \<Rightarrow> d_HostAttributes d0 | Some h \<Rightarrow> Some h)\<rparr> \<and>
    mem_view w' = put (mem_view w) (TenantID t) c (Some (d, k0)) \<and> mem_wf w' \<and>
    mh_active host t c = Inr False"
proof -
  from assms(1) obtain d0 k0 where v: "isValidTenantID (TenantID t)" "mem_view w (TenantID t) c = Some (d0, k0)"
    "mh_active host t c = Inr False"
    by (auto simp: UpdateConnection_def mem_scoped mem_find mem_active found_or_def
        split: if_splits option.splits sum.splits bool.splits)
  with assms(1,3) have d: "d = applyConnectionPatch d0 patch" "Update mem_store t d None w = (None, w')"
    by (auto simp: UpdateConnection_def mem_scoped mem_find mem_active found_or_def mem_protect
        split: prod.splits option.splits bool.splits)
  from mem_conn.named[OF assms(2) v(2)] d(1) have n: "d_ConfigName d = c" by simp
  have d': "d = \<lparr>d_ID = d_ID d0, d_ConfigName = d_ConfigName d0,
             d_Type = (case cp_Type patch of None \<Rightarrow> d_Type d0 | Some v \<Rightarrow> v),
             d_Host = (case cp_Host patch of None \<Rightarrow> d_Host d0 | Some v \<Rightarrow> v),
             d_Port = (case cp_Port patch of None \<Rightarrow> d_Port d0 | Some v \<Rightarrow> v),
             d_DatabaseName = (case cp_DatabaseName patch of None \<Rightarrow> d_DatabaseName d0 | Some v \<Rightarrow> v),
             d_Schema = (case cp_Schema patch of None \<Rightarrow> d_Schema d0 | Some v \<Rightarrow> v),
             d_Username = (case cp_Username patch of None \<Rightarrow> d_Username d0 | Some v \<Rightarrow> v),
             d_SSLMode = (case cp_SSLMode patch of None \<Rightarrow> d_SSLMode d0 | Some v \<Rightarrow> v),
             d_KeyVersion = d_KeyVersion d0,
             d_HostAttributes = (case cp_HostAttributes patch of None \<Rightarrow> d_HostAttributes d0 | Some h \<Rightarrow> Some h)\<rparr>"
    using d(1) by (cases d0) (simp add: applyConnectionPatch_def opt_def split: option.split)
  from mem_update_law[OF assms(2) d(2)] n v d' show ?thesis by (auto simp: keep_secret_def)
qed

theorem update_preserves_secret_witness:
  "\<exists>d w'. UpdateConnection (ex_engine True) ex_tenant ''p'' ex_patch ex_world = (Inr d, w') \<and> d_Host d = ''x'' \<and>
     mem_view w' ''a'' ''p'' = Some (d, Some \<lparr>Ciphertext = ''k'', KeyVersion = 1\<rparr>)"
proof -
  from ex_updated[of True] obtain d w' where run: "UpdateConnection (ex_engine True) ex_tenant ''p'' ex_patch ex_world = (Inr d, w')"
    by (auto simp: created_iff)
  have "\<not> patch_HasPassword ex_patch" by (simp add: patch_HasPassword_def ex_patch_def)
  from update_preserves_secret[OF run ex_wf this] obtain d0 k0 where
    u: "mem_view ex_world ''a'' ''p'' = Some (d0, k0)"
      "d_Host d = (case cp_Host ex_patch of None \<Rightarrow> d_Host d0 | Some v \<Rightarrow> v)"
      "mem_view w' = put (mem_view ex_world) ''a'' ''p'' (Some (d, k0))"
    by (auto simp: ex_tenant_def)
  from u(1) have "k0 = Some \<lparr>Ciphertext = ''k'', KeyVersion = 1\<rparr>"
    by (auto simp: mem_view_def ex_world_def)
  with run u(2,3) show ?thesis by (auto simp: ex_patch_def)
qed

text \<open>
  A deleted connection is not found afterwards, it existed before, no execution was active,
  and no other record changes.
\<close>

lemma delete_then_absent:
  assumes "DeleteConnection (mem_engine host) t c w = (Inr u, w')" and "mem_wf w"
  shows "GetConnection (mem_engine host) t c w' =
      (Inl (NewEngineError CategoryNotFound ''connection not found''), w') \<and>
    mem_view w (TenantID t) c \<noteq> None \<and> mem_wf w' \<and> mh_active host t c = Inr False \<and>
    (\<forall>tid c'. (tid, c') \<noteq> (TenantID t, c) \<longrightarrow> mem_view w' tid c' = mem_view w tid c')"
proof -
  from assms(1) have v: "isValidTenantID (TenantID t)" "mh_active host t c = Inr False"
    by (auto simp: DeleteConnection_def mem_scoped mem_find mem_active found_or_def
        split: if_splits option.splits sum.splits bool.splits)
  from mem_conn_engine.delete_ok[OF assms] v show ?thesis by (auto simp: mem_get)
qed

subsection \<open>Errors, limits and redaction\<close>

text \<open>
  The merge of request limits into the engine limits never loosens one: an accepted
  dimension is the request's when positive, the default otherwise, and at most a positive
  default; a request is rejected exactly when some dimension exceeds its positive default.
\<close>

lemma effective_limits:
  "(\<forall>eff. Effective l (Some ov) = Inr eff \<longrightarrow>
     merged_dim (MaxDatasources l) (MaxDatasources ov) (MaxDatasources eff) \<and>
     merged_dim (MaxTablesPerDatasource l) (MaxTablesPerDatasource ov) (MaxTablesPerDatasource eff) \<and>
     merged_dim (MaxFieldsPerTable l) (MaxFieldsPerTable ov) (MaxFieldsPerTable eff) \<and>
     merged_dim (MaxConcurrency l) (MaxConcurrency ov) (MaxConcurrency eff) \<and>
     merged_dim (Timeout l) (Timeout ov) (Timeout eff) \<and>
     merged_dim (MaxResultBytes l) (MaxResultBytes ov) (MaxResultBytes eff)) \<and>
   ((\<exists>err. Effective l (Some ov) = Inl err) \<longleftrightarrow>
     dim_exceeded (MaxDatasources l) (MaxDatasources ov) \<or>
     dim_exceeded (MaxTablesPerDatasource l) (MaxTablesPerDatasource ov) \<or>
     dim_exceeded (MaxFieldsPerTable l) (MaxFieldsPerTable ov) \<or>
     dim_exceeded (MaxConcurrency l) (MaxConcurrency ov) \<or>
     dim_exceeded (Timeout l) (Timeout ov) \<or> dim_exceeded (MaxResultBytes l) (MaxResultBytes ov))"
proof
  show "\<forall>eff. Effective l (Some ov) = Inr eff \<longrightarrow>
     merged_dim (MaxDatasources l) (MaxDatasources ov) (MaxDatasources eff) \<and>
     merged_dim (MaxTablesPerDatasource l) (MaxTablesPerDatasource ov) (MaxTablesPerDatasource eff) \<and>
     merged_dim (MaxFieldsPerTable l) (MaxFieldsPerTable ov) (MaxFieldsPerTable eff) \<and>
     merged_dim (MaxConcurrency l) (MaxConcurrency ov) (MaxConcurrency eff) \<and>
     merged_dim (Timeout l) (Timeout ov) (Timeout eff) \<and>
     merged_dim (MaxResultBytes l) (MaxResultBytes ov) (MaxResultBytes eff)"
    using Effective_Inr_dims by blast
qed (auto simp: Effective_def Let_def rbind_def override_Inl_iff override_Inr_iff split: sum.splits
    dest: merged_dim_not_exceeded)

text \<open>
  The printed and the serialised form of a connection input do not depend on its password:
  two inputs that differ only in a nonempty password are indistinguishable.
\<close>

lemma connection_input_redacts:
  assumes "in_password a \<noteq> [] \<longleftrightarrow> in_password b \<noteq> []"
    and "a\<lparr>in_password := []\<rparr> = b\<lparr>in_password := []\<rparr>"
  shows "input_String quote a = input_String quote b \<and> input_GoString quote a = input_GoString quote b \<and>
    input_MarshalJSON a = input_MarshalJSON b"
  using assms by (cases a; cases b) (simp add: input_String_def input_GoString_def input_MarshalJSON_def Let_def)

text \<open>
  A connector failure reaches the caller only as a timeout, a cancellation or an
  unavailable error with a fixed message and no cause: the driver's text never leaks.
\<close>

lemma connector_errors_redacted:
  "let err = fst (safeConnectorError e failure message w) in
   Category err \<in> {CategoryTimeout, CategoryCanceled, CategoryUnavailable} \<and> cause err = None \<and>
   Message err \<in> {''execution exceeded its deadline'', ''execution canceled'', message}"
  by (auto simp: safeConnectorError_def ctx_guard_def contextError_def NewEngineError_def Let_def case_prod_beta split: option.splits)

subsection \<open>The services\<close>

text \<open>
  The retry class of a Worker error is stable: an error that is permanent stays permanent under every chain of
  \<^verbatim>\<open>fmt.Errorf\<close> wrappers the handler puts around it, so it is never redelivered.
\<close>

lemma retry_class_stable:
  assumes "isNonRetryableHandlerError (Some e)"
  shows "isNonRetryableHandlerError (Some (foldr wrap messages e))"
  using assms by (induction messages) (simp_all add: wrap_permanent)

text \<open>
  No requested column is lost on the way to the Engine, and the order in which Go iterates over the job's map
  does not matter: the columns asked of a canonical table are exactly the canonical names of the columns requested
  under any spelling of it.
\<close>

lemma mapped_fields_complete:
  assumes "same_map tables tables'"
  shows "map_ok (mapTables t tables) \<and> dom (map_of (mapTables t tables)) = NormalizeTable t ` fst ` set tables' \<and>
    set (slice_at (mapTables t tables) table) =
      {NormalizeField t f |f fs name. (name, fs) \<in> set tables' \<and> f \<in> set fs \<and> NormalizeTable t name = table}"
  using requested_same[OF assms, of t] same_map_set[OF assms]
  by (simp add: dom_mapTables set_mapTables) (simp add: requested_def)

end
